(* ===== verification/Go_Prelude.thy ===== *)
theory Go_Prelude
  imports Main "HOL-Library.Word" "HOL-Library.AList" "HOL-Library.Multiset"
    "HOL-Library.List_Lexorder" "HOL-Library.Char_ord" "HOL-Library.Monad_Syntax"
begin

text \<open>
  The vocabulary every component shares: Go errors and their text, results, Go maps with int32
  keys, decimal formatting and parsing of integers, and the generic lemmas on lists, association
  lists and words that carry the component proofs.
  Strings are byte lists compared byte by byte, as Go compares them (\<open>List_Lexorder\<close> over
  \<open>Char_ord\<close>).
\<close>

section \<open>Collections of the development\<close>

named_theorems gomap_simps \<open>abstraction of Go maps to partial functions\<close>
named_theorems selector_simps \<open>unfolding of the machine selectors\<close>
named_theorems condition_simps \<open>lookups after condition updates\<close>

section \<open>Errors and results\<close>

text \<open>
  A Go error is a sentinel made by \<^verbatim>\<open>errors.New\<close>, an error of the API server (a reason and a
  message), a wrapping \<^verbatim>\<open>fmt.Errorf\<close> with the text before and after its \<^verbatim>\<open>%w\<close>, or an aggregate.
  \<open>PanicErr\<close> is a run-time panic. It travels like an error, through callers that return as soon as
  they see an error; the texts the model wraps around it on the way are not produced by the program.
\<close>

datatype goerror =
    ErrNew string
  | ApiErr string string
  | Wrapf string goerror string
  | AggregateErr "goerror list"
  | PanicErr string

type_synonym 'a result = "goerror + 'a"

text \<open>\<^verbatim>\<open>fmt.Errorf("prefix: %w", err)\<close>, the common form.\<close>

abbreviation wrap :: "string \<Rightarrow> goerror \<Rightarrow> goerror" where
  "wrap p e \<equiv> Wrapf (p @ '': '') e ''''"

definition nilDereference :: goerror where
  "nilDereference = PanicErr ''runtime error: invalid memory address or nil pointer dereference''"

definition reasonNotFound :: string where
  "reasonNotFound = ''NotFound''"

fun joinStr :: "string \<Rightarrow> string list \<Rightarrow> string" where
  "joinStr sep [] = ''''"
| "joinStr sep [x] = x"
| "joinStr sep (x # y # xs) = x @ sep @ joinStr sep (y # xs)"

definition dedupFirst :: "'a list \<Rightarrow> 'a list" where
  "dedupFirst xs = rev (remdups (rev xs))"

text \<open>\<^verbatim>\<open>err.Error()\<close>: an aggregate shows each distinct message once, in brackets when there are several.\<close>

fun errorText :: "goerror \<Rightarrow> string" where
  "errorText (ErrNew s) = s"
| "errorText (ApiErr r s) = s"
| "errorText (Wrapf p e s) = p @ errorText e @ s"
| "errorText (PanicErr s) = s"
| "errorText (AggregateErr es) =
     (let msgs = dedupFirst (map errorText es)
      in if length msgs = 1 then hd msgs else ''['' @ joinStr '', '' msgs @ '']'')"

text \<open>\<^verbatim>\<open>errors.Is\<close> against a sentinel.\<close>

fun errorIs :: "goerror \<Rightarrow> goerror \<Rightarrow> bool" where
  "errorIs (Wrapf p e s) t = (Wrapf p e s = t \<or> errorIs e t)"
| "errorIs (AggregateErr es) t = (AggregateErr es = t \<or> (\<exists>e \<in> set es. errorIs e t))"
| "errorIs e t = (e = t)"

text \<open>\<^verbatim>\<open>apierrors.IsNotFound\<close> looks through the wrapping for the API error's reason.\<close>

fun isNotFound :: "goerror \<Rightarrow> bool" where
  "isNotFound (ApiErr r s) = (r = reasonNotFound)"
| "isNotFound (Wrapf p e s) = isNotFound e"
| "isNotFound e = False"

text \<open>Whether an error stands for a panic.\<close>

fun panicked :: "goerror \<Rightarrow> bool" where
  "panicked (PanicErr s) = True"
| "panicked (Wrapf p e s) = panicked e"
| "panicked (AggregateErr es) = (\<exists>e \<in> set es. panicked e)"
| "panicked e = False"

text \<open>The format \<^verbatim>\<open>%q\<close> of a string with no character to escape, which the names of API objects are.\<close>

definition quoted :: "string \<Rightarrow> string" where
  "quoted s = [CHR 0x22] @ s @ [CHR 0x22]"

section \<open>Decimal integers\<close>

definition digitChar :: "nat \<Rightarrow> char" where
  "digitChar d = char_of (48 + d)"

fun showNat :: "nat \<Rightarrow> string" where
  "showNat n = (if n < 10 then [digitChar n] else showNat (n div 10) @ [digitChar (n mod 10)])"

declare showNat.simps [simp del]

definition showInt :: "int \<Rightarrow> string" where
  "showInt i = (if i < 0 then ''-'' @ showNat (nat (- i)) else showNat (nat i))"

definition isDigit :: "char \<Rightarrow> bool" where
  "isDigit c \<longleftrightarrow> 48 \<le> (of_char c :: nat) \<and> (of_char c :: nat) \<le> 57"

definition digitVal :: "char \<Rightarrow> nat" where
  "digitVal c = of_char c - 48"

definition decimalVal :: "string \<Rightarrow> nat" where
  "decimalVal s = foldl (\<lambda>n c. 10 * n + digitVal c) 0 s"

text \<open>
  \<^verbatim>\<open>strconv.ParseInt(s, 10, 32)\<close>: an optional sign, at least one decimal digit and nothing else,
  and a value in the 32-bit signed range; anything else is an error.
\<close>

definition parseInt32 :: "string \<Rightarrow> int option" where
  "parseInt32 s =
     (let (neg, ds) = (case s of [] \<Rightarrow> (False, [])
                       | c # cs \<Rightarrow> if c = CHR ''-'' then (True, cs)
                                  else if c = CHR ''+'' then (False, cs) else (False, s))
      in if ds = [] \<or> \<not> list_all isDigit ds then None
         else let v = (if neg then - int (decimalVal ds) else int (decimalVal ds))
              in if - (2 ^ 31) \<le> v \<and> v < 2 ^ 31 then Some v else None)"

text \<open>\<^verbatim>\<open>s[strings.LastIndex(s, sep)+1:]\<close>: what follows the last separator, all of \<^verbatim>\<open>s\<close> without one.\<close>

definition afterLast :: "char \<Rightarrow> string \<Rightarrow> string" where
  "afterLast c s = rev (takeWhile (\<lambda>x. x \<noteq> c) (rev s))"

section \<open>Go maps\<close>

text \<open>
  A Go map is an association list with distinct keys; its order is one iteration order, so a
  statement about every such list covers every order the runtime may choose.
\<close>

type_synonym ('k, 'v) gomap = "('k \<times> 'v) list"

definition gm_ok :: "('k, 'v) gomap \<Rightarrow> bool" where
  "gm_ok m \<longleftrightarrow> distinct (map fst m)"

abbreviation gm_get :: "('k, 'v) gomap \<Rightarrow> 'k \<Rightarrow> 'v option" where
  "gm_get m \<equiv> map_of m"

abbreviation gm_put :: "'k \<Rightarrow> 'v \<Rightarrow> ('k, 'v) gomap \<Rightarrow> ('k, 'v) gomap" where
  "gm_put k v m \<equiv> AList.update k v m"

abbreviation gm_del :: "'k \<Rightarrow> ('k, 'v) gomap \<Rightarrow> ('k, 'v) gomap" where
  "gm_del k m \<equiv> AList.delete k m"

abbreviation gm_keys :: "('k, 'v) gomap \<Rightarrow> 'k list" where
  "gm_keys m \<equiv> map fst m"

section \<open>Lemmas on errors\<close>

lemma errorIs_refl [simp]: "errorIs e e"
  by (cases e) auto

lemma errorIs_wrap [simp]: "errorIs e t \<Longrightarrow> errorIs (Wrapf p e s) t"
  by simp

section \<open>Lemmas on decimal integers\<close>

lemma of_char_digitChar [simp]: "d < 10 \<Longrightarrow> (of_char (digitChar d) :: nat) = 48 + d"
  by (simp add: digitChar_def)

lemma isDigit_digitChar [simp]: "d < 10 \<Longrightarrow> isDigit (digitChar d)"
  by (simp add: isDigit_def)

lemma digitVal_digitChar [simp]: "d < 10 \<Longrightarrow> digitVal (digitChar d) = d"
  by (simp add: digitVal_def)

lemma showNat_not_Nil [simp]: "showNat n \<noteq> []"
  by (subst showNat.simps) simp

lemma showNat_digits: "list_all isDigit (showNat n)"
proof (induction n rule: showNat.induct)
  case (1 n)
  then show ?case by (subst showNat.simps) auto
qed

lemma decimalVal_snoc [simp]: "decimalVal (s @ [c]) = 10 * decimalVal s + digitVal c"
  by (simp add: decimalVal_def)

lemma decimalVal_showNat [simp]: "decimalVal (showNat n) = n"
proof (induction n rule: showNat.induct)
  case (1 n)
  show ?case
  proof (cases "n < 10")
    case True
    then show ?thesis by (subst showNat.simps) (simp add: decimalVal_def)
  next
    case False
    with "1.IH" show ?thesis by (subst showNat.simps) simp
  qed
qed

lemma isDigit_not_sign: "isDigit c \<Longrightarrow> c \<noteq> CHR ''-'' \<and> c \<noteq> CHR ''+''"
  by (auto simp: isDigit_def)

lemma parseInt32_digits:
  assumes "ds \<noteq> []" and "list_all isDigit ds" and "decimalVal ds < 2 ^ 31"
  shows "parseInt32 ds = Some (int (decimalVal ds))"
proof -
  obtain c cs where ds: "ds = c # cs" using assms(1) by (cases ds) auto
  have "c \<noteq> CHR ''-''" and "c \<noteq> CHR ''+''"
    using assms(2) isDigit_not_sign [of c] by (auto simp: ds)
  moreover have "int (decimalVal ds) < 2 ^ 31"
    using assms(3) by simp
  ultimately show ?thesis
    using assms(2) by (simp add: parseInt32_def ds)
qed

lemma parseInt32_showNat: "n < 2 ^ 31 \<Longrightarrow> parseInt32 (showNat n) = Some (int n)"
  by (simp add: parseInt32_digits showNat_digits)

lemma parseInt32_range: "parseInt32 s = Some v \<Longrightarrow> - (2 ^ 31) \<le> v \<and> v < 2 ^ 31"
  by (auto simp: parseInt32_def Let_def split: prod.splits if_splits)

lemma parseInt32_unsigned:
  assumes "CHR ''-'' \<notin> set s" and "parseInt32 s = Some v"
  shows "0 \<le> v"
proof (cases s)
  case Nil
  with assms(2) show ?thesis by (simp add: parseInt32_def)
next
  case (Cons c cs)
  with assms show ?thesis
    by (auto simp: parseInt32_def Let_def split: if_splits)
qed

lemma afterLast_no_sep: "c \<notin> set (afterLast c s)"
  by (auto simp: afterLast_def dest: set_takeWhileD)

lemma afterLast_append: "c \<notin> set t \<Longrightarrow> afterLast c (s @ c # t) = t"
  by (simp add: afterLast_def) (subst takeWhile_append2, auto)

lemma digits_no_dash: "list_all isDigit ds \<Longrightarrow> CHR ''-'' \<notin> set ds"
  by (auto simp: list_all_iff dest: isDigit_not_sign)

section \<open>Lemmas on Go maps\<close>

lemma gm_ok_Nil [simp]: "gm_ok []"
  by (simp add: gm_ok_def)

lemma gm_ok_put [simp, intro]: "gm_ok m \<Longrightarrow> gm_ok (gm_put k v m)"
  by (simp add: gm_ok_def distinct_update)

lemma gm_ok_del [simp, intro]: "gm_ok m \<Longrightarrow> gm_ok (gm_del k m)"
  by (simp add: gm_ok_def distinct_delete)

lemma gm_get_put [gomap_simps]: "gm_get (gm_put k v m) = (gm_get m)(k \<mapsto> v)"
  by (rule update_conv')

lemma gm_get_del [gomap_simps]: "gm_get (gm_del k m) = (gm_get m)(k := None)"
  by (rule delete_conv')

lemma gm_keys_dom [gomap_simps]: "set (gm_keys m) = dom (gm_get m)"
  by (simp add: dom_map_of_conv_image_fst)

lemma gm_length_card: "gm_ok m \<Longrightarrow> length m = card (dom (gm_get m))"
  by (metis distinct_card gm_keys_dom gm_ok_def length_map)

lemma gm_entries: "gm_ok m \<Longrightarrow> (k, v) \<in> set m \<longleftrightarrow> gm_get m k = Some v"
  by (simp add: gm_ok_def)

lemma gm_put_fresh: "gm_get m k = None \<Longrightarrow> gm_put k v m = m @ [(k, v)]"
  by (induction m) (auto split: if_splits)

lemma gm_length_put:
  "length (gm_put k v m) = (if gm_get m k = None then Suc (length m) else length m)"
  by (induction m) (auto split: if_splits)

section \<open>Lemmas on 32-bit integers\<close>

lemma sint32_range: "- (2 ^ 31) \<le> sint (w :: 32 word)" "sint (w :: 32 word) < 2 ^ 31"
  using sint_ge [of w] sint_lt [of w] by simp_all

lemma sint32_of_nat: "n < 2 ^ 31 \<Longrightarrow> sint (word_of_nat n :: 32 word) = int n"
  by (simp add: signed_of_nat signed_take_bit_int_eq_self_iff)

end
