(* ===== verification/Api_Types.thy ===== *)
theory Api_Types
  imports Go_Prelude
begin

text \<open>
  The API objects the operator reads and writes, as records: object metadata, conditions, the
  ControlPlaneMachineSet with its template and failure domains, machines, nodes and the cluster
  operator, each with the fields the code uses. Optional pointers are options; \<^verbatim>\<open>int32\<close> fields are
  32-bit words read with \<^const>\<open>sint\<close>; timestamps are integers (nanoseconds); enumerations that Go
  declares as string types stay strings.
  The time of a condition's last transition is left out: no code of the operator reads it.
  The condition helpers of the apimachinery library are defined here too.
\<close>

section \<open>Metadata\<close>

record ownerReference =
  orAPIVersion :: string
  orKind :: string
  orName :: string
  orUID :: string
  orController :: bool

record objectMeta =
  omName :: string
  omNamespace :: string
  omUID :: string
  omResourceVersion :: string
  omGeneration :: int
  omLabels :: "(string, string) gomap"
  omAnnotations :: "(string, string) gomap"
  omCreationTimestamp :: int
  omDeletionTimestamp :: "int option"
  omOwnerReferences :: "ownerReference list"
  omFinalizers :: "string list"

definition emptyMeta :: objectMeta where
  "emptyMeta = \<lparr>omName = '''', omNamespace = '''', omUID = '''', omResourceVersion = '''',
     omGeneration = 0, omLabels = [], omAnnotations = [], omCreationTimestamp = 0,
     omDeletionTimestamp = None, omOwnerReferences = [], omFinalizers = []\<rparr>"

text \<open>\<^verbatim>\<open>labels[k]\<close>, the empty string when the label is missing.\<close>

definition labelAt :: "(string, string) gomap \<Rightarrow> string \<Rightarrow> string" where
  "labelAt m k = (case gm_get m k of None \<Rightarrow> '''' | Some v \<Rightarrow> v)"

text \<open>\<^verbatim>\<open>metav1.GetControllerOf\<close>: the first owner reference marked as the controller.\<close>

definition getControllerOf :: "objectMeta \<Rightarrow> ownerReference option" where
  "getControllerOf m = find orController (omOwnerReferences m)"

record groupVersionResource =
  gvrGroup :: string
  gvrVersion :: string
  gvrResource :: string

section \<open>Conditions\<close>

record condition =
  condType :: string
  condStatus :: string
  condReason :: string
  condMessage :: string
  condObservedGeneration :: int

definition ConditionTrue :: string where "ConditionTrue = ''True''"
definition ConditionFalse :: string where "ConditionFalse = ''False''"
definition ConditionUnknown :: string where "ConditionUnknown = ''Unknown''"

text \<open>\<^verbatim>\<open>meta.FindStatusCondition\<close>\<close>

definition FindStatusCondition :: "condition list \<Rightarrow> string \<Rightarrow> condition option" where
  "FindStatusCondition cs t = find (\<lambda>c. condType c = t) cs"

text \<open>\<^verbatim>\<open>meta.SetStatusCondition\<close>: overwrite the first condition of the type in place, or append.\<close>

fun SetStatusCondition :: "condition list \<Rightarrow> condition \<Rightarrow> condition list" where
  "SetStatusCondition [] n = [n]"
| "SetStatusCondition (c # cs) n =
     (if condType c = condType n
      then c\<lparr>condStatus := condStatus n, condReason := condReason n, condMessage := condMessage n,
             condObservedGeneration := condObservedGeneration n\<rparr> # cs
      else c # SetStatusCondition cs n)"

text \<open>\<^verbatim>\<open>meta.IsStatusConditionPresentAndEqual\<close> and \<^verbatim>\<open>meta.IsStatusConditionTrue\<close>\<close>

fun IsStatusConditionPresentAndEqual :: "condition list \<Rightarrow> string \<Rightarrow> string \<Rightarrow> bool" where
  "IsStatusConditionPresentAndEqual [] t s = False"
| "IsStatusConditionPresentAndEqual (c # cs) t s =
     (if condType c = t then condStatus c = s else IsStatusConditionPresentAndEqual cs t s)"

definition IsStatusConditionTrue :: "condition list \<Rightarrow> string \<Rightarrow> bool" where
  "IsStatusConditionTrue cs t = IsStatusConditionPresentAndEqual cs t ConditionTrue"

section \<open>Failure domains of the API\<close>

record awsResourceFilter =
  filterName :: string
  filterValues :: "string list"

record awsResourceReference =
  awsRefType :: string
  awsRefID :: "string option"
  awsRefARN :: "string option"
  awsRefFilters :: "awsResourceFilter list option"

record awsFailureDomain =
  awsSubnet :: "awsResourceReference option"
  awsAvailabilityZone :: string

record azureFailureDomain =
  azureZone :: string
  azureSubnet :: string

record gcpFailureDomain =
  gcpZone :: string

record rootVolume =
  rvAvailabilityZone :: string
  rvVolumeType :: string

record openStackFailureDomain =
  osAvailabilityZone :: string
  osRootVolume :: "rootVolume option"

record vSphereFailureDomain =
  vsName :: string

record nutanixFailureDomainReference =
  nxName :: string

record failureDomains =
  fdsPlatform :: string
  fdsAWS :: "awsFailureDomain list option"
  fdsAzure :: "azureFailureDomain list option"
  fdsGCP :: "gcpFailureDomain list option"
  fdsVSphere :: "vSphereFailureDomain list"
  fdsOpenStack :: "openStackFailureDomain list"
  fdsNutanix :: "nutanixFailureDomainReference list"

definition AWSPlatformType :: string where "AWSPlatformType = ''AWS''"
definition AzurePlatformType :: string where "AzurePlatformType = ''Azure''"
definition GCPPlatformType :: string where "GCPPlatformType = ''GCP''"
definition OpenStackPlatformType :: string where "OpenStackPlatformType = ''OpenStack''"
definition NonePlatformType :: string where "NonePlatformType = ''None''"
definition VSpherePlatformType :: string where "VSpherePlatformType = ''VSphere''"
definition NutanixPlatformType :: string where "NutanixPlatformType = ''Nutanix''"

lemmas platform_defs =
  AWSPlatformType_def AzurePlatformType_def GCPPlatformType_def OpenStackPlatformType_def
  NonePlatformType_def VSpherePlatformType_def NutanixPlatformType_def

section \<open>Machines and nodes\<close>

text \<open>
  The provider spec is the raw JSON of the machine; \<^const>\<open>None\<close> is a nil \<^verbatim>\<open>RawExtension\<close>. The other
  fields of a machine spec are carried along unread.
\<close>

record machineSpec =
  msProviderSpec :: "string option"
  msAuthoritativeAPI :: string
  msOther :: string

record machine =
  mMeta :: objectMeta
  mSpec :: machineSpec
  mNodeRef :: "string option"
  mPhase :: "string option"
  mErrorMessage :: "string option"

record nodeCondition =
  ncType :: string
  ncStatus :: string
  ncLastTransitionTime :: int

record node =
  nodeMeta :: objectMeta
  nodeConditions :: "nodeCondition list"

section \<open>The ControlPlaneMachineSet\<close>

record openShiftMachineTemplate =
  tmplFailureDomains :: "failureDomains option"
  tmplLabels :: "(string, string) gomap"
  tmplAnnotations :: "(string, string) gomap"
  tmplSpec :: machineSpec

record cpmsTemplate =
  machineType :: string
  openShiftMachine :: "openShiftMachineTemplate option"

definition OpenShiftMachineV1Beta1MachineType :: string where
  "OpenShiftMachineV1Beta1MachineType = ''machines_v1beta1_machine_openshift_io''"

record labelSelector =
  selMatchLabels :: "(string, string) gomap"
  selMatchExpressions :: "(string \<times> string \<times> string list) list"

record cpmsSpec =
  machineNamePrefix :: string
  cpmsState :: string
  specReplicas :: "32 word option"
  strategyType :: string
  cpmsSelector :: labelSelector
  cpmsTemplateOf :: cpmsTemplate

record cpmsStatus =
  statusConditions :: "condition list"
  statusObservedGeneration :: int
  statusReplicas :: "32 word"
  statusReadyReplicas :: "32 word"
  statusUpdatedReplicas :: "32 word"
  statusUnavailableReplicas :: "32 word"

record cpms =
  cpmsAPIVersion :: string
  cpmsKind :: string
  cpmsMeta :: objectMeta
  cpmsSpecOf :: cpmsSpec
  cpmsStatusOf :: cpmsStatus

definition StateActive :: string where "StateActive = ''Active''"
definition StateInactive :: string where "StateInactive = ''Inactive''"
definition RollingUpdate :: string where "RollingUpdate = ''RollingUpdate''"
definition Recreate :: string where "Recreate = ''Recreate''"
definition OnDelete :: string where "OnDelete = ''OnDelete''"

lemmas strategy_defs = RollingUpdate_def Recreate_def OnDelete_def

text \<open>The conditions of a ControlPlaneMachineSet, read and written through one accessor.\<close>

abbreviation conditionsOf :: "cpms \<Rightarrow> condition list" where
  "conditionsOf c \<equiv> statusConditions (cpmsStatusOf c)"

definition setCondition :: "condition \<Rightarrow> cpms \<Rightarrow> cpms" where
  "setCondition n c =
     c\<lparr>cpmsStatusOf := (cpmsStatusOf c)
         \<lparr>statusConditions := SetStatusCondition (conditionsOf c) n\<rparr>\<rparr>"

record ctrlResult =
  Requeue :: bool
  RequeueAfter :: int

definition emptyResult :: ctrlResult where
  "emptyResult = \<lparr>Requeue = False, RequeueAfter = 0\<rparr>"

section \<open>Lemmas on conditions\<close>

lemma IsStatusConditionPresentAndEqual_Find:
  "IsStatusConditionPresentAndEqual cs t s \<longleftrightarrow>
     (\<exists>c. FindStatusCondition cs t = Some c \<and> condStatus c = s)"
  by (induction cs) (auto simp: FindStatusCondition_def)

lemma Find_SetStatusCondition_other [condition_simps]:
  "condType n \<noteq> t \<Longrightarrow> FindStatusCondition (SetStatusCondition cs n) t = FindStatusCondition cs t"
  by (induction cs) (auto simp: FindStatusCondition_def)

lemma IsStatus_SetStatusCondition [condition_simps]:
  "IsStatusConditionPresentAndEqual (SetStatusCondition cs n) t s =
     (if condType n = t then condStatus n = s else IsStatusConditionPresentAndEqual cs t s)"
  by (induction cs) auto

lemma IsTrue_SetStatusCondition [condition_simps]:
  "IsStatusConditionTrue (SetStatusCondition cs n) t =
     (if condType n = t then condStatus n = ConditionTrue else IsStatusConditionTrue cs t)"
  by (simp add: IsStatusConditionTrue_def IsStatus_SetStatusCondition)

lemma Find_SetStatusCondition_same [condition_simps]:
  "condType n = t \<Longrightarrow>
     (\<exists>c. FindStatusCondition (SetStatusCondition cs n) t = Some c \<and> condType c = t \<and>
          condStatus c = condStatus n \<and> condReason c = condReason n \<and>
          condMessage c = condMessage n \<and>
          condObservedGeneration c = condObservedGeneration n)"
  by (induction cs) (auto simp: FindStatusCondition_def)

lemma Find_SetStatusCondition_self:
  "FindStatusCondition (SetStatusCondition cs n) (condType n) = Some n"
  by (induction cs) (auto simp: FindStatusCondition_def)

lemma SetStatusCondition_types:
  "condType ` set (SetStatusCondition cs n) = insert (condType n) (condType ` set cs)"
  by (induction cs) auto

text \<open>A type occurs at most once: kept by every update.\<close>

lemma SetStatusCondition_distinct [intro]:
  "distinct (map condType cs) \<Longrightarrow> distinct (map condType (SetStatusCondition cs n))"
proof (induction cs)
  case Nil
  then show ?case by simp
next
  case (Cons c cs)
  have "condType c \<notin> condType ` set (SetStatusCondition cs n)" if "condType c \<noteq> condType n"
    using Cons.prems that by (simp add: SetStatusCondition_types)
  with Cons show ?case by auto
qed

lemma SetStatusCondition_idem:
  "SetStatusCondition (SetStatusCondition cs n) n = SetStatusCondition cs n"
  by (induction cs) auto

lemma conditionsOf_setCondition [simp]:
  "conditionsOf (setCondition n c) = SetStatusCondition (conditionsOf c) n"
  by (simp add: setCondition_def)

lemma setCondition_frame [simp]:
  "cpmsSpecOf (setCondition n c) = cpmsSpecOf c"
  "cpmsMeta (setCondition n c) = cpmsMeta c"
  "cpmsAPIVersion (setCondition n c) = cpmsAPIVersion c"
  "cpmsKind (setCondition n c) = cpmsKind c"
  "statusReplicas (cpmsStatusOf (setCondition n c)) = statusReplicas (cpmsStatusOf c)"
  "statusReadyReplicas (cpmsStatusOf (setCondition n c)) = statusReadyReplicas (cpmsStatusOf c)"
  "statusUpdatedReplicas (cpmsStatusOf (setCondition n c)) = statusUpdatedReplicas (cpmsStatusOf c)"
  "statusUnavailableReplicas (cpmsStatusOf (setCondition n c)) =
     statusUnavailableReplicas (cpmsStatusOf c)"
  "statusObservedGeneration (cpmsStatusOf (setCondition n c)) =
     statusObservedGeneration (cpmsStatusOf c)"
  by (simp_all add: setCondition_def)

end
