(* ===== verification/Machine_Info.thy ===== *)
theory Machine_Info
  imports Api_Types
begin

text \<open>
  What the core of the operator knows of a control plane machine (\<^verbatim>\<open>pkg/machineproviders/types.go\<close>)
  and the selectors, groupings and orders over it that the update strategies use (the second half
  of \<^verbatim>\<open>updates.go\<close>, and \<^verbatim>\<open>machineInfosByIndex\<close> of \<^verbatim>\<open>controller.go\<close>).
  Every machine provider sets \<^verbatim>\<open>MachineRef\<close>; a nil reference, on which the Go code would panic, is
  read as an object without metadata, and \<open>hasRef\<close> names the contract.
\<close>

section \<open>MachineInfo\<close>

record objectRef =
  refGVR :: groupVersionResource
  refMeta :: objectMeta

record machineInfo =
  MachineRef :: "objectRef option"
  NodeRef :: "objectRef option"
  Ready :: bool
  NeedsUpdate :: bool
  Diff :: "string list"
  Index :: int
  ErrorMessage :: string

definition hasRef :: "machineInfo \<Rightarrow> bool" where
  "hasRef m \<longleftrightarrow> MachineRef m \<noteq> None"

definition machineMeta :: "machineInfo \<Rightarrow> objectMeta" where
  "machineMeta m = (case MachineRef m of None \<Rightarrow> emptyMeta | Some r \<Rightarrow> refMeta r)"

definition machineName :: "machineInfo \<Rightarrow> string" where
  "machineName m = omName (machineMeta m)"

section \<open>Selectors\<close>

definition isDeletedMachine :: "machineInfo \<Rightarrow> bool" where
  "isDeletedMachine m \<longleftrightarrow> omDeletionTimestamp (machineMeta m) \<noteq> None"

definition needReplacementMachines :: "machineInfo list \<Rightarrow> machineInfo list" where
  "needReplacementMachines ms = filter (\<lambda>m. NeedsUpdate m \<or> isDeletedMachine m) ms"

definition deletingMachines :: "machineInfo list \<Rightarrow> machineInfo list" where
  "deletingMachines ms = filter isDeletedMachine ms"

definition pendingMachines :: "machineInfo list \<Rightarrow> machineInfo list" where
  "pendingMachines ms = filter (\<lambda>m. \<not> Ready m \<and> \<not> NeedsUpdate m \<and> \<not> isDeletedMachine m) ms"

definition updatedMachines :: "machineInfo list \<Rightarrow> machineInfo list" where
  "updatedMachines ms = filter (\<lambda>m. Ready m \<and> \<not> NeedsUpdate m) ms"

definition updatedNonDeletedMachines :: "machineInfo list \<Rightarrow> machineInfo list" where
  "updatedNonDeletedMachines ms =
     filter (\<lambda>m. Ready m \<and> \<not> NeedsUpdate m \<and> \<not> isDeletedMachine m) ms"

definition readyMachines :: "machineInfo list \<Rightarrow> machineInfo list" where
  "readyMachines ms = filter Ready ms"

definition nonReadyMachines :: "machineInfo list \<Rightarrow> machineInfo list" where
  "nonReadyMachines ms = filter (\<lambda>m. \<not> Ready m) ms"

definition hasAny :: "machineInfo list \<Rightarrow> bool" where
  "hasAny ms \<longleftrightarrow> length ms > 0"

definition isEmpty :: "machineInfo list \<Rightarrow> bool" where
  "isEmpty ms \<longleftrightarrow> length ms = 0"

lemmas selector_defs [selector_simps] =
  needReplacementMachines_def deletingMachines_def pendingMachines_def updatedMachines_def
  updatedNonDeletedMachines_def readyMachines_def nonReadyMachines_def

lemma hasAny_iff [simp]: "hasAny ms \<longleftrightarrow> ms \<noteq> []"
  by (simp add: hasAny_def)

lemma isEmpty_iff [simp]: "isEmpty ms \<longleftrightarrow> ms = []"
  by (simp add: isEmpty_def)

section \<open>Grouping and sorting\<close>

text \<open>
  \<^verbatim>\<open>machineInfosByIndex\<close> appends each machine to its index, then adds empty indexes, counting
  up from 0, until there are as many indexes as replicas. The counter runs over \<^typ>\<open>int\<close>:
  \<open>fillIndexes_counter\<close> below shows that it stays below the replica count, so the int32 of the
  source never wraps.
\<close>

type_synonym indexedMachines = "(int, machineInfo list) gomap"

definition addToIndex :: "indexedMachines \<Rightarrow> machineInfo \<Rightarrow> indexedMachines" where
  "addToIndex out m =
     gm_put (Index m) ((case gm_get out (Index m) of None \<Rightarrow> [] | Some ms \<Rightarrow> ms) @ [m]) out"

definition int32len :: "'a list \<Rightarrow> 32 word" where
  "int32len xs = word_of_nat (length xs)"

lemma sint_int32len_Suc:
  assumes "sint (int32len xs) < sint (r :: 32 word)" and "length ys = Suc (length xs)"
  shows "sint (int32len ys) = sint (int32len xs) + 1"
proof -
  have len: "int32len ys = int32len xs + 1"
    using assms(2) by (simp add: int32len_def add.commute)
  have "sint (int32len xs) + 1 < 2 ^ 31" and "- (2 ^ 31) \<le> sint (int32len xs) + 1"
    using assms(1) sint32_range [of r] sint32_range [of "int32len xs"] by linarith+
  then show ?thesis
    by (simp add: len sint_word_ariths signed_take_bit_int_eq_self_iff)
qed

function fillIndexes :: "32 word \<Rightarrow> int \<Rightarrow> indexedMachines \<Rightarrow> indexedMachines" where
  "fillIndexes replicas i out =
     (if sint (int32len out) < sint replicas
      then fillIndexes replicas (i + 1)
             (if gm_get out i = None then gm_put i [] out else out)
      else out)"
  by pat_completeness auto
termination
proof (relation "measures [\<lambda>(r, i, out). nat (sint r - sint (int32len out)),
                           \<lambda>(r, i, out). card {k \<in> set (gm_keys out). i \<le> k}]", simp, goal_cases)
  case (1 r i out)
  show ?case
  proof (cases "gm_get out i")
    case None
    then have "sint (int32len (gm_put i [] out)) = sint (int32len out) + 1"
      using 1 by (intro sint_int32len_Suc) (simp_all add: gm_length_put)
    with 1 None show ?thesis by simp
  next
    case (Some ms)
    then have "i \<in> set (gm_keys out)" by (metis domI gm_keys_dom)
    then have "{k \<in> set (gm_keys out). i + 1 \<le> k} \<subset> {k \<in> set (gm_keys out). i \<le> k}"
      by force
    then have "card {k \<in> set (gm_keys out). i + 1 \<le> k} < card {k \<in> set (gm_keys out). i \<le> k}"
      by (rule psubset_card_mono [rotated]) simp
    with Some show ?thesis by simp
  qed
qed

declare fillIndexes.simps [simp del]

definition errReplicasRequired :: goerror where
  "errReplicasRequired = ErrNew ''spec.replicas is unset: replicas is required''"

definition machineInfosByIndex :: "cpms \<Rightarrow> machineInfo list \<Rightarrow> indexedMachines result" where
  "machineInfosByIndex c ms =
     (case specReplicas (cpmsSpecOf c) of
        None \<Rightarrow> Inl errReplicasRequired
      | Some r \<Rightarrow> Inr (fillIndexes r 0 (foldl addToIndex [] ms)))"

text \<open>
  \<^verbatim>\<open>sort.Slice\<close> is modelled by the stable \<^const>\<open>sort_key\<close>, which is what it computes on up to
  twelve elements (insertion sort); keys here are distinct except for creation times.
\<close>

record indexToMachineInfos =
  itmIndex :: int
  itmMachineInfos :: "machineInfo list"

definition sortMachineInfosByIndex :: "indexedMachines \<Rightarrow> indexToMachineInfos list" where
  "sortMachineInfosByIndex m =
     sort_key itmIndex (map (\<lambda>(i, ms). \<lparr>itmIndex = i, itmMachineInfos = ms\<rparr>) m)"

definition sortMachineInfoByCreationTimestamp :: "machineInfo list \<Rightarrow> machineInfo list" where
  "sortMachineInfoByCreationTimestamp ms = sort_key (\<lambda>m. omCreationTimestamp (machineMeta m)) ms"

definition machineInfosMaptoSlice :: "indexedMachines \<Rightarrow> machineInfo list" where
  "machineInfosMaptoSlice m = concat (map snd m)"

definition deviseExistingSurge :: "32 word \<Rightarrow> indexToMachineInfos list \<Rightarrow> int" where
  "deviseExistingSurge replicas mis =
     foldl (\<lambda>n mi. n + int (length (itmMachineInfos mi))) 0 mis - sint replicas"

section \<open>Lemmas\<close>

lemma set_sortMachineInfosByIndex:
  "set (sortMachineInfosByIndex m) = (\<lambda>(i, ms). \<lparr>itmIndex = i, itmMachineInfos = ms\<rparr>) ` set m"
  by (simp add: sortMachineInfosByIndex_def)

lemma mem_sortMachineInfosByIndex:
  "im \<in> set (sortMachineInfosByIndex m) \<longleftrightarrow> (itmIndex im, itmMachineInfos im) \<in> set m"
  by (cases im) (force simp: set_sortMachineInfosByIndex image_iff)

lemma length_sortMachineInfosByIndex [simp]: "length (sortMachineInfosByIndex m) = length m"
  by (simp add: sortMachineInfosByIndex_def)

lemma itmIndex_sortMachineInfosByIndex:
  "map itmIndex (sortMachineInfosByIndex m) = sort (gm_keys m)"
  unfolding sortMachineInfosByIndex_def
  by (rule properties_for_sort [symmetric]) (simp_all add: multiset.map_comp comp_def case_prod_unfold)

text \<open>The indexes are visited in strictly ascending order.\<close>

lemma sorted_sortMachineInfosByIndex:
  "gm_ok m \<Longrightarrow> sorted_wrt (<) (map itmIndex (sortMachineInfosByIndex m))"
  by (simp add: itmIndex_sortMachineInfosByIndex gm_ok_def strict_sorted_iff)

lemma foldl_sum_lengths:
  "foldl (\<lambda>n mi. n + int (length (itmMachineInfos mi))) a mis =
     a + int (\<Sum>mi\<leftarrow>mis. length (itmMachineInfos mi))"
  by (induction mis arbitrary: a) auto

lemma sum_list_sortMachineInfosByIndex:
  "(\<Sum>mi\<leftarrow>sortMachineInfosByIndex m. length (itmMachineInfos mi)) =
   length (machineInfosMaptoSlice m)"
proof -
  have "mset (map (\<lambda>mi. length (itmMachineInfos mi)) (sortMachineInfosByIndex m)) =
        mset (map (length \<circ> snd) m)"
    by (simp add: sortMachineInfosByIndex_def multiset.map_comp comp_def case_prod_unfold)
  then have "(\<Sum>mi\<leftarrow>sortMachineInfosByIndex m. length (itmMachineInfos mi)) =
      sum_list (map (length \<circ> snd) m)"
    by (metis sum_mset_sum_list)
  then show ?thesis
    by (simp add: machineInfosMaptoSlice_def length_concat comp_def)
qed

lemma deviseExistingSurge_eq:
  "deviseExistingSurge r (sortMachineInfosByIndex m) =
     int (length (machineInfosMaptoSlice m)) - sint r"
  by (simp add: deviseExistingSurge_def foldl_sum_lengths sum_list_sortMachineInfosByIndex)

subsection \<open>machineInfosByIndex\<close>

lemma addToIndex_get:
  "gm_get (addToIndex out m) i =
     (if i = Index m then Some ((case gm_get out i of None \<Rightarrow> [] | Some ms \<Rightarrow> ms) @ [m])
      else gm_get out i)"
  by (simp add: addToIndex_def gm_get_put)

lemma addToIndex_ok [simp]: "gm_ok out \<Longrightarrow> gm_ok (addToIndex out m)"
  by (simp add: addToIndex_def)

lemma foldl_addToIndex_ok: "gm_ok out \<Longrightarrow> gm_ok (foldl addToIndex out ms)"
  by (induction ms arbitrary: out) simp_all

lemma foldl_addToIndex_get:
  "gm_get (foldl addToIndex out ms) i =
     (case gm_get out i of
        None \<Rightarrow> if filter (\<lambda>m. Index m = i) ms = [] then None else Some (filter (\<lambda>m. Index m = i) ms)
      | Some xs \<Rightarrow> Some (xs @ filter (\<lambda>m. Index m = i) ms))"
  by (induction ms arbitrary: out) (auto simp: addToIndex_get split: option.splits)

lemma mset_concat_member: "ys \<in> set xss \<Longrightarrow> mset ys \<subseteq># mset (concat xss)"
  by (induction xss) (auto intro: subset_mset.order_trans [OF _ mset_subset_eq_add_right])

lemma gm_put_slice:
  assumes "gm_ok out"
  shows "mset (concat (map snd (gm_put k (xs @ [m]) out))) =
    (case gm_get out k of None \<Rightarrow> mset (concat (map snd out)) + mset (xs @ [m])
     | Some ys \<Rightarrow> mset (concat (map snd out)) + mset (xs @ [m]) - mset ys)"
  using assms
proof (induction out)
  case Nil
  then show ?case by simp
next
  case (Cons p out)
  obtain a b where p: "p = (a, b)" by force
  from Cons.prems p have ok: "gm_ok out" and fresh: "a \<notin> fst ` set out"
    by (auto simp: gm_ok_def)
  show ?case
  proof (cases "a = k")
    case True
    then show ?thesis using p by (simp add: union_commute union_assoc)
  next
    case False
    have "mset ys \<subseteq># mset (concat (map snd out))" if "gm_get out k = Some ys" for ys
    proof -
      from that have "(k, ys) \<in> set out" by (rule map_of_SomeD)
      then have "ys \<in> set (map snd out)" by force
      then show ?thesis by (rule mset_concat_member)
    qed
    then have "\<And>ys. gm_get out k = Some ys \<Longrightarrow> mset ys \<subseteq># mset (concat (map snd out)) + mset (xs @ [m])"
      using subset_mset.add_increasing2 by (metis subset_mset.zero_le)
    with Cons.IH [OF ok] False p show ?thesis
      by (auto simp: union_assoc split: option.splits)
  qed
qed

lemma addToIndex_slice:
  "gm_ok out \<Longrightarrow> mset (machineInfosMaptoSlice (addToIndex out m)) =
     add_mset m (mset (machineInfosMaptoSlice out))"
  by (auto simp: machineInfosMaptoSlice_def addToIndex_def gm_put_slice split: option.splits)

lemma foldl_addToIndex_slice:
  "gm_ok out \<Longrightarrow> mset (machineInfosMaptoSlice (foldl addToIndex out ms)) =
     mset ms + mset (machineInfosMaptoSlice out)"
  by (induction ms arbitrary: out) (simp_all add: addToIndex_slice)

lemma fillIndexes_ok: "gm_ok out \<Longrightarrow> gm_ok (fillIndexes r i out)"
  by (induction r i out rule: fillIndexes.induct) (subst fillIndexes.simps, simp)

lemma fillIndexes_get:
  "gm_get (fillIndexes r i out) k = gm_get out k \<or>
   gm_get out k = None \<and> gm_get (fillIndexes r i out) k = Some []"
proof (induction r i out rule: fillIndexes.induct)
  case (1 r i out)
  then show ?case
    by (subst (1 2) fillIndexes.simps) (auto simp: gm_get_put split: if_splits)
qed

lemma fillIndexes_slice:
  "machineInfosMaptoSlice (fillIndexes r i out) = machineInfosMaptoSlice out"
proof (induction r i out rule: fillIndexes.induct)
  case (1 r i out)
  have "machineInfosMaptoSlice (gm_put i [] out) = machineInfosMaptoSlice out"
    if "gm_get out i = None"
    using that by (simp add: machineInfosMaptoSlice_def gm_put_fresh)
  with 1 show ?case by (subst fillIndexes.simps) simp
qed

lemma machineInfosByIndex_slice:
  assumes "machineInfosByIndex c infos = Inr mis"
  shows "mset (machineInfosMaptoSlice mis) = mset infos"
proof -
  from assms obtain r where "mis = fillIndexes r 0 (foldl addToIndex [] infos)"
    by (auto simp: machineInfosByIndex_def split: option.splits)
  then show ?thesis
    by (simp add: fillIndexes_slice foldl_addToIndex_slice) (simp add: machineInfosMaptoSlice_def)
qed

lemma fillIndexes_length:
  "length out < 2 ^ 31 \<Longrightarrow> int (length (fillIndexes r i out)) = max (int (length out)) (sint r)"
proof (induction r i out rule: fillIndexes.induct)
  case (1 r i out)
  have len: "sint (int32len out) = int (length out)"
    using "1.prems" by (simp add: int32len_def sint32_of_nat)
  show ?case
  proof (cases "sint (int32len out) < sint r")
    case True
    let ?out = "if gm_get out i = None then gm_put i [] out else out"
    have "int (length out) < sint r" using True len by simp
    then have "length ?out < 2 ^ 31" and "int (length ?out) \<le> sint r"
      using sint32_range(2) [of r] by (auto simp: gm_length_put)
    moreover have "fillIndexes r i out = fillIndexes r (i + 1) ?out"
      using True by (subst fillIndexes.simps) simp
    ultimately show ?thesis
      using "1.IH" [OF True] \<open>int (length out) < sint r\<close> by simp
  next
    case False
    with len show ?thesis by (subst fillIndexes.simps) simp
  qed
qed

text \<open>
  The loop counter of \<^verbatim>\<open>machineInfosByIndex\<close>: when every index below the counter is present and
  the loop goes on, the counter is below the replica count, so its int32 increment cannot wrap.
\<close>

lemma fillIndexes_counter:
  assumes "gm_ok out" and "length out < 2 ^ 31" and "0 \<le> i"
    and below: "\<And>k. 0 \<le> k \<Longrightarrow> k < i \<Longrightarrow> gm_get out k \<noteq> None"
    and "sint (int32len out) < sint r"
  shows "i < sint r"
proof -
  have "{0..<i} \<subseteq> dom (gm_get out)" using below by auto
  then have "card {0..<i} \<le> card (dom (gm_get out))"
    by (rule card_mono [rotated]) (simp add: finite_dom_map_of)
  then have "i \<le> int (length out)"
    using assms(1,3) by (simp add: gm_length_card)
  with assms(2,5) show ?thesis by (simp add: int32len_def sint32_of_nat)
qed

end
