(* ===== verification/Provider_Interface.thy ===== *)
theory Provider_Interface
  imports Machine_Info
begin

text \<open>
  The \<^verbatim>\<open>MachineProvider\<close> interface of \<^verbatim>\<open>pkg/machineproviders/types.go\<close>: a record of its methods over a
  provider value \<open>'p\<close> and a world \<open>'w\<close>: the cluster as the API serves it, and the memory that provider
  values share. Methods that write to either also return the changed world; \<^verbatim>\<open>GetMachineInfos\<close> is one of
  them because its dry runs overwrite the provider spec of the shared template. The environment of a reconcile is the world
  together with a log of the writing calls made through the interface; the log is never read by
  the code and exists to state which calls were made, in which order.
\<close>

datatype clientKind = CachedClient | UncachedClient

record ('p, 'w) machineProvider =
  mpGetMachineInfos :: "'p \<Rightarrow> 'w \<Rightarrow> machineInfo list result \<times> 'w"
  mpWithClient :: "'p \<Rightarrow> clientKind \<Rightarrow> 'w \<Rightarrow> 'p result"
  mpCreateMachine :: "'p \<Rightarrow> int \<Rightarrow> 'w \<Rightarrow> unit result \<times> 'w"
  mpDeleteMachine :: "'p \<Rightarrow> objectRef \<Rightarrow> 'w \<Rightarrow> unit result \<times> 'w"

datatype providerCall =
    CreateCalled int bool
  | DeleteCalled objectRef bool

record 'w env =
  envWorld :: 'w
  envCalls :: "providerCall list"

text \<open>A call that may change the world but is not logged.\<close>

definition onWorld :: "('w \<Rightarrow> 'a \<times> 'w) \<Rightarrow> 'w env \<Rightarrow> 'a \<times> 'w env" where
  "onWorld f env = (let (r, w) = f (envWorld env) in (r, env\<lparr>envWorld := w\<rparr>))"

definition callCreateMachine ::
  "('p, 'w) machineProvider \<Rightarrow> 'p \<Rightarrow> int \<Rightarrow> 'w env \<Rightarrow> unit result \<times> 'w env" where
  "callCreateMachine ops p idx env =
     (let (r, w) = mpCreateMachine ops p idx (envWorld env)
      in (r, env\<lparr>envWorld := w, envCalls := envCalls env @ [CreateCalled idx (\<not> isl r)]\<rparr>))"

definition callDeleteMachine ::
  "('p, 'w) machineProvider \<Rightarrow> 'p \<Rightarrow> objectRef \<Rightarrow> 'w env \<Rightarrow> unit result \<times> 'w env" where
  "callDeleteMachine ops p ref env =
     (let (r, w) = mpDeleteMachine ops p ref (envWorld env)
      in (r, env\<lparr>envWorld := w, envCalls := envCalls env @ [DeleteCalled ref (\<not> isl r)]\<rparr>))"

text \<open>Reading the log: the machines created, and the machines whose deletion was requested.\<close>

fun createdIndexes :: "providerCall list \<Rightarrow> int list" where
  "createdIndexes [] = []"
| "createdIndexes (CreateCalled i ok # cs) = (if ok then i # createdIndexes cs else createdIndexes cs)"
| "createdIndexes (DeleteCalled r ok # cs) = createdIndexes cs"

fun deletedRefs :: "providerCall list \<Rightarrow> objectRef list" where
  "deletedRefs [] = []"
| "deletedRefs (CreateCalled i ok # cs) = deletedRefs cs"
| "deletedRefs (DeleteCalled r ok # cs) = r # deletedRefs cs"

lemma createdIndexes_append [simp]:
  "createdIndexes (xs @ ys) = createdIndexes xs @ createdIndexes ys"
  by (induction xs rule: createdIndexes.induct) auto

lemma deletedRefs_append [simp]: "deletedRefs (xs @ ys) = deletedRefs xs @ deletedRefs ys"
  by (induction xs rule: deletedRefs.induct) auto

lemma callCreateMachine_calls:
  "callCreateMachine ops p idx env = (r, env') \<Longrightarrow>
     envCalls env' = envCalls env @ [CreateCalled idx (\<not> isl r)]"
  by (auto simp: callCreateMachine_def split: prod.splits)

lemma callDeleteMachine_calls:
  "callDeleteMachine ops p ref env = (r, env') \<Longrightarrow>
     envCalls env' = envCalls env @ [DeleteCalled ref (\<not> isl r)]"
  by (auto simp: callDeleteMachine_def split: prod.splits)

lemma onWorld_calls [simp]: "onWorld f env = (r, env') \<Longrightarrow> envCalls env' = envCalls env"
  by (auto simp: onWorld_def split: prod.splits)

lemmas call_calls = callCreateMachine_calls callDeleteMachine_calls

end
