(* ===== verification/Consts.thy ===== *)
theory Consts
  imports Api_Types
begin

text \<open>
  The condition types and reasons of \<^verbatim>\<open>pkg/controllers/controlplanemachineset/consts.go\<close>.
\<close>

definition masterNodeRoleLabel :: string where
  "masterNodeRoleLabel = ''node-role.kubernetes.io/master''"
definition controlPlaneNodeRoleLabel :: string where
  "controlPlaneNodeRoleLabel = ''node-role.kubernetes.io/control-plane''"

definition conditionAvailable :: string where "conditionAvailable = ''Available''"
definition conditionDegraded :: string where "conditionDegraded = ''Degraded''"
definition conditionError :: string where "conditionError = ''Error''"
definition conditionProgressing :: string where "conditionProgressing = ''Progressing''"

definition reasonAllReplicasAvailable :: string where
  "reasonAllReplicasAvailable = ''AllReplicasAvailable''"
definition reasonUnavailableReplicas :: string where
  "reasonUnavailableReplicas = ''UnavailableReplicas''"
definition reasonAsExpected :: string where "reasonAsExpected = ''AsExpected''"
definition reasonFailedReplacement :: string where "reasonFailedReplacement = ''FailedReplacement''"
definition reasonInvalidStrategy :: string where "reasonInvalidStrategy = ''InvalidStrategy''"
definition reasonMachinesAlreadyOwned :: string where
  "reasonMachinesAlreadyOwned = ''MachinesAlreadyOwned''"
definition reasonNoReadyMachines :: string where "reasonNoReadyMachines = ''NoReadyMachines''"
definition reasonUnmanagedNodes :: string where "reasonUnmanagedNodes = ''UnmanagedNodes''"
definition reasonExcessIndexes :: string where "reasonExcessIndexes = ''ExcessIndexes''"
definition reasonContinuousErrors :: string where "reasonContinuousErrors = ''ContinuousErrors''"
definition reasonAllReplicasUpdated :: string where
  "reasonAllReplicasUpdated = ''AllReplicasUpdated''"
definition reasonOperatorDegraded :: string where "reasonOperatorDegraded = ''OperatorDegraded''"
definition reasonExcessReplicas :: string where "reasonExcessReplicas = ''ExcessReplicas''"
definition reasonExcessUpdatedReplicas :: string where
  "reasonExcessUpdatedReplicas = ''ExcessUpdatedReplicas''"
definition reasonNeedsUpdateReplicas :: string where
  "reasonNeedsUpdateReplicas = ''NeedsUpdateReplicas''"

lemma condition_types_distinct [simp]:
  "conditionAvailable \<noteq> conditionDegraded" "conditionDegraded \<noteq> conditionAvailable"
  "conditionAvailable \<noteq> conditionError" "conditionError \<noteq> conditionAvailable"
  "conditionAvailable \<noteq> conditionProgressing" "conditionProgressing \<noteq> conditionAvailable"
  "conditionDegraded \<noteq> conditionError" "conditionError \<noteq> conditionDegraded"
  "conditionDegraded \<noteq> conditionProgressing" "conditionProgressing \<noteq> conditionDegraded"
  "conditionError \<noteq> conditionProgressing" "conditionProgressing \<noteq> conditionError"
  by (simp_all add: conditionAvailable_def conditionDegraded_def conditionError_def
      conditionProgressing_def)

lemma ConditionTrue_not_False [simp]: "ConditionFalse \<noteq> ConditionTrue" "ConditionTrue \<noteq> ConditionFalse"
  by (simp_all add: ConditionTrue_def ConditionFalse_def)

text \<open>A condition as the controller writes it: no message and generation 0 unless given.\<close>

definition mkCondition :: "string \<Rightarrow> string \<Rightarrow> string \<Rightarrow> string \<Rightarrow> int \<Rightarrow> condition" where
  "mkCondition t s r m g = \<lparr>condType = t, condStatus = s, condReason = r, condMessage = m,
     condObservedGeneration = g\<rparr>"

lemma mkCondition_sel [simp]:
  "condType (mkCondition t s r m g) = t" "condStatus (mkCondition t s r m g) = s"
  "condReason (mkCondition t s r m g) = r" "condMessage (mkCondition t s r m g) = m"
  "condObservedGeneration (mkCondition t s r m g) = g"
  by (simp_all add: mkCondition_def)

end
