(* ===== verification/Updates.thy ===== *)
theory Updates
  imports Provider_Interface Consts
begin

text \<open>
  The update strategies of \<^verbatim>\<open>pkg/controllers/controlplanemachineset/updates.go\<close>: the rolling update,
  which surges by at most one machine and deletes replaced machines, and the on-delete update, which
  only creates. A function of the source that returns \<^verbatim>\<open>(T, error)\<close> and writes through the machine
  provider becomes a function to a result and the changed environment; log messages are left out.
  On an error the source always returns the empty \<^verbatim>\<open>ctrl.Result\<close>, so the result type carries
  the error alone.
\<close>

section \<open>Creating and deleting machines\<close>

definition deleteMachine ::
  "('p, 'w) machineProvider \<Rightarrow> 'p \<Rightarrow> machineInfo \<Rightarrow> string \<Rightarrow> 'w env \<Rightarrow>
   ctrlResult result \<times> 'w env" where
  "deleteMachine ops p m ns env =
     (case MachineRef m of
        None \<Rightarrow> (Inr emptyResult, env)
      | Some ref \<Rightarrow>
          (case callDeleteMachine ops p ref env of
             (Inl e, env') \<Rightarrow>
               (Inl (Wrapf (''error deleting Machine '' @ ns @ ''/'' @ omName (refMeta ref) @ '': '') e ''''),
                env')
           | (Inr _, env') \<Rightarrow> (Inr emptyResult, env')))"

definition checkForExistingReplacement ::
  "('p, 'w) machineProvider \<Rightarrow> 'p \<Rightarrow> int \<Rightarrow> 'w \<Rightarrow> bool result \<times> 'w" where
  "checkForExistingReplacement ops p idx w =
     (case mpWithClient ops p UncachedClient w of
        Inl e \<Rightarrow> (Inl (wrap ''could not get uncached machine provider'' e), w)
      | Inr p' \<Rightarrow>
          (case mpGetMachineInfos ops p' w of
             (Inl e, w') \<Rightarrow> (Inl (wrap ''error getting Machines'' e), w')
           | (Inr ms, w') \<Rightarrow>
               (Inr (list_ex (\<lambda>m. Index m = idx \<and> \<not> NeedsUpdate m \<and>
                                  omDeletionTimestamp (machineMeta m) = None) ms), w')))"

definition createMachine ::
  "('p, 'w) machineProvider \<Rightarrow> 'p \<Rightarrow> int \<Rightarrow> 'w env \<Rightarrow> (bool \<times> ctrlResult) result \<times> 'w env" where
  "createMachine ops p idx env =
     (case onWorld (checkForExistingReplacement ops p idx) env of
        (Inl e, env1) \<Rightarrow> (Inl (wrap ''error checking for existing replacement'' e), env1)
      | (Inr True, env1) \<Rightarrow> (Inr (False, emptyResult), env1)
      | (Inr False, env1) \<Rightarrow>
          (case callCreateMachine ops p idx env1 of
             (Inl e, env') \<Rightarrow>
               (Inl (wrap (''error creating new Machine for index '' @ showInt idx) e), env')
           | (Inr _, env') \<Rightarrow> (Inr (True, emptyResult), env')))"

text \<open>The surge count is passed and returned where the source updates it through a pointer.\<close>

definition createMachineWithSurge ::
  "('p, 'w) machineProvider \<Rightarrow> 'p \<Rightarrow> int \<Rightarrow> int \<Rightarrow> int \<Rightarrow> 'w env \<Rightarrow>
   ctrlResult result \<times> int \<times> 'w env" where
  "createMachineWithSurge ops p idx maxSurge surgeCount env =
     (if surgeCount \<ge> maxSurge then (Inr emptyResult, surgeCount, env)
      else (case createMachine ops p idx env of
              (Inl e, env') \<Rightarrow> (Inl e, surgeCount, env')
            | (Inr (created, res), env') \<Rightarrow>
                (Inr res, if created then surgeCount + 1 else surgeCount, env')))"

section \<open>Waiting\<close>

definition waitForReadyMachine :: "machineInfo list \<Rightarrow> bool" where
  "waitForReadyMachine ms \<longleftrightarrow>
     isEmpty (readyMachines ms) \<and> hasAny (pendingMachines ms) \<and> isEmpty (deletingMachines ms)"

definition waitForReplacementMachine :: "machineInfo list \<Rightarrow> bool" where
  "waitForReplacementMachine ms \<longleftrightarrow>
     hasAny (needReplacementMachines ms) \<and> hasAny (pendingMachines ms)"

definition waitForRemoveMachine :: "machineInfo list \<Rightarrow> bool" where
  "waitForRemoveMachine ms \<longleftrightarrow>
     hasAny (deletingMachines ms) \<and> hasAny (updatedNonDeletedMachines ms)"

section \<open>Deleting replaced machines\<close>

text \<open>
  The machine deemed for deletion: the three conditions of the source are tried in turn and the
  last one that holds decides. \<^const>\<open>None\<close> is the zero \<^verbatim>\<open>MachineInfo\<close>, recognised by its nil reference.
\<close>

definition toDeleteMachine :: "machineInfo list \<Rightarrow> machineInfo option" where
  "toDeleteMachine ms =
     (let needing = needReplacementMachines ms;
          updated = updatedMachines ms;
          outdatedNonReady = nonReadyMachines needing;
          d0 = None;
          d1 = (if hasAny needing \<and> hasAny updated then Some (needing ! 0) else d0);
          d2 = (if hasAny outdatedNonReady then Some (outdatedNonReady ! 0) else d1)
      in if length updated > 1 then Some (sortMachineInfoByCreationTimestamp updated ! 0) else d2)"

definition deleteReplacedMachines ::
  "('p, 'w) machineProvider \<Rightarrow> 'p \<Rightarrow> string \<Rightarrow> machineInfo list \<Rightarrow> 'w env \<Rightarrow>
   (bool \<times> ctrlResult) result \<times> 'w env" where
  "deleteReplacedMachines ops p ns ms env =
     (if length ms < 2 then (Inr (False, emptyResult), env)
      else (case toDeleteMachine ms of
              None \<Rightarrow> (Inr (False, emptyResult), env)
            | Some m \<Rightarrow>
                if MachineRef m = None then (Inr (False, emptyResult), env)
                else if \<not> isDeletedMachine m
                then (case deleteMachine ops p m ns env of
                        (Inl e, env') \<Rightarrow> (Inl e, env')
                      | (Inr res, env') \<Rightarrow> (Inr (True, res), env'))
                else (Inr (True, emptyResult), env)))"

section \<open>Creating replacements\<close>

definition createOnDeleteReplacementMachines ::
  "('p, 'w) machineProvider \<Rightarrow> 'p \<Rightarrow> machineInfo list \<Rightarrow> int \<Rightarrow> 'w env \<Rightarrow>
   (bool \<times> ctrlResult) result \<times> 'w env" where
  "createOnDeleteReplacementMachines ops p ms idx env =
     (if isEmpty ms
      then (case createMachine ops p idx env of
              (Inl e, env') \<Rightarrow> (Inl e, env')
            | (Inr (_, res), env') \<Rightarrow> (Inr (True, res), env'))
      else if length ms = 1 \<and> length (needReplacementMachines ms) = 1
      then (if isDeletedMachine (ms ! 0)
            then (case createMachine ops p idx env of
                    (Inl e, env') \<Rightarrow> (Inl e, env')
                  | (Inr (_, res), env') \<Rightarrow> (Inr (True, res), env'))
            else (Inr (True, emptyResult), env))
      else (Inr (False, emptyResult), env))"

definition createRollingUpdateReplacementMachines ::
  "('p, 'w) machineProvider \<Rightarrow> 'p \<Rightarrow> machineInfo list \<Rightarrow> int \<Rightarrow> int \<Rightarrow> int \<Rightarrow> 'w env \<Rightarrow>
   (bool \<times> ctrlResult) result \<times> int \<times> 'w env" where
  "createRollingUpdateReplacementMachines ops p ms idx maxSurge surgeCount env =
     (let needing = needReplacementMachines ms;
          pending = pendingMachines ms;
          updatedNonDeleted = updatedNonDeletedMachines ms
      in if isEmpty ms
         then (case createMachineWithSurge ops p idx maxSurge surgeCount env of
                 (Inl e, s, env') \<Rightarrow> (Inl e, s, env')
               | (Inr res, s, env') \<Rightarrow> (Inr (True, res), s, env'))
         else if hasAny needing \<and> isEmpty updatedNonDeleted \<and> isEmpty pending
         then (case createMachineWithSurge ops p (Index (needing ! 0)) maxSurge surgeCount env of
                 (Inl e, s, env') \<Rightarrow> (Inl e, s, env')
               | (Inr res, s, env') \<Rightarrow> (Inr (True, res), s, env'))
         else (Inr (False, emptyResult), surgeCount, env))"

section \<open>The strategies\<close>

definition requeueDelay :: int where
  "requeueDelay = 5 * 1000000000"

text \<open>One index of the rolling update: delete, wait, create, in this order.\<close>

definition rollingUpdateIndex ::
  "('p, 'w) machineProvider \<Rightarrow> 'p \<Rightarrow> string \<Rightarrow> int \<Rightarrow> indexToMachineInfos \<Rightarrow> int \<Rightarrow> 'w env \<Rightarrow>
   bool result \<times> int \<times> 'w env" where
  "rollingUpdateIndex ops p ns maxSurge im surgeCount env =
     (let ms = itmMachineInfos im
      in case deleteReplacedMachines ops p ns ms env of
           (Inl e, env1) \<Rightarrow> (Inl e, surgeCount, env1)
         | (Inr (done1, _), env1) \<Rightarrow>
             (let requeue = (waitForReadyMachine ms \<or> waitForReplacementMachine ms)
              in case createRollingUpdateReplacementMachines ops p ms (itmIndex im) maxSurge
                        surgeCount env1 of
                   (Inl e, s, env2) \<Rightarrow> (Inl e, s, env2)
                 | (Inr (done2, _), s, env2) \<Rightarrow> (Inr requeue, s, env2)))"

fun rollingUpdateLoop ::
  "('p, 'w) machineProvider \<Rightarrow> 'p \<Rightarrow> string \<Rightarrow> int \<Rightarrow> indexToMachineInfos list \<Rightarrow> int \<Rightarrow> bool \<Rightarrow>
   'w env \<Rightarrow> bool result \<times> int \<times> 'w env" where
  "rollingUpdateLoop ops p ns maxSurge [] surgeCount shouldRequeue env =
     (Inr shouldRequeue, surgeCount, env)"
| "rollingUpdateLoop ops p ns maxSurge (im # ims) surgeCount shouldRequeue env =
     (case rollingUpdateIndex ops p ns maxSurge im surgeCount env of
        (Inl e, s, env') \<Rightarrow> (Inl e, s, env')
      | (Inr requeue, s, env') \<Rightarrow>
          rollingUpdateLoop ops p ns maxSurge ims s (shouldRequeue \<or> requeue) env')"

definition maxSurgeOf :: int where
  "maxSurgeOf = 1"

definition loopResult :: "bool result \<Rightarrow> ctrlResult result" where
  "loopResult r =
     (case r of Inl e \<Rightarrow> Inl e
      | Inr shouldRequeue \<Rightarrow>
          Inr (if shouldRequeue then \<lparr>Requeue = False, RequeueAfter = requeueDelay\<rparr> else emptyResult))"

definition reconcileMachineRollingUpdate ::
  "('p, 'w) machineProvider \<Rightarrow> 'p \<Rightarrow> string \<Rightarrow> 32 word \<Rightarrow> indexedMachines \<Rightarrow> 'w env \<Rightarrow>
   ctrlResult result \<times> 'w env" where
  "reconcileMachineRollingUpdate ops p ns replicas mis env =
     (let sorted = sortMachineInfosByIndex mis;
          surgeCount = deviseExistingSurge replicas sorted
      in case rollingUpdateLoop ops p ns maxSurgeOf sorted surgeCount False env of
           (r, _, env') \<Rightarrow> (loopResult r, env'))"

definition onDeleteIndex ::
  "('p, 'w) machineProvider \<Rightarrow> 'p \<Rightarrow> indexToMachineInfos \<Rightarrow> 'w env \<Rightarrow> bool result \<times> 'w env" where
  "onDeleteIndex ops p im env =
     (let ms = itmMachineInfos im
      in if isEmpty (needReplacementMachines ms) \<and> hasAny ms \<and> isEmpty (pendingMachines ms)
         then (Inr False, env)
         else (let requeue = (waitForReadyMachine ms \<or> waitForReplacementMachine ms)
               in case createOnDeleteReplacementMachines ops p ms (itmIndex im) env of
                    (Inl e, env') \<Rightarrow> (Inl e, env')
                  | (Inr (_, _), env') \<Rightarrow> (Inr requeue, env')))"

fun onDeleteLoop ::
  "('p, 'w) machineProvider \<Rightarrow> 'p \<Rightarrow> indexToMachineInfos list \<Rightarrow> bool \<Rightarrow> 'w env \<Rightarrow>
   bool result \<times> 'w env" where
  "onDeleteLoop ops p [] shouldRequeue env = (Inr shouldRequeue, env)"
| "onDeleteLoop ops p (im # ims) shouldRequeue env =
     (case onDeleteIndex ops p im env of
        (Inl e, env') \<Rightarrow> (Inl e, env')
      | (Inr requeue, env') \<Rightarrow> onDeleteLoop ops p ims (shouldRequeue \<or> requeue) env')"

definition reconcileMachineOnDeleteUpdate ::
  "('p, 'w) machineProvider \<Rightarrow> 'p \<Rightarrow> indexedMachines \<Rightarrow> 'w env \<Rightarrow> ctrlResult result \<times> 'w env" where
  "reconcileMachineOnDeleteUpdate ops p mis env =
     (case onDeleteLoop ops p (sortMachineInfosByIndex mis) False env of
        (r, env') \<Rightarrow> (loopResult r, env'))"

definition invalidStrategyMessage :: string where
  "invalidStrategyMessage = ''invalid value for spec.strategy.type''"

definition errRecreateStrategyNotSupported :: goerror where
  "errRecreateStrategyNotSupported =
     ErrNew (''update strategy '' @ [CHR 0x22] @ Recreate @ [CHR 0x22] @ '' is not supported'')"

definition errUnknownStrategy :: goerror where
  "errUnknownStrategy = ErrNew ''unknown update strategy''"

text \<open>
  \<^verbatim>\<open>reconcileMachineUpdates\<close> dispatches on the strategy; an unsupported one degrades the
  ControlPlaneMachineSet without an error. \<^verbatim>\<open>*cpms.Spec.Replicas\<close> is read by the rolling update
  only, after \<^const>\<open>machineInfosByIndex\<close> has refused a nil; an unset count is read as 0.
\<close>

definition replicasOf :: "cpms \<Rightarrow> 32 word" where
  "replicasOf c = (case specReplicas (cpmsSpecOf c) of None \<Rightarrow> 0 | Some r \<Rightarrow> r)"

definition reconcileMachineUpdates ::
  "('p, 'w) machineProvider \<Rightarrow> 'p \<Rightarrow> string \<Rightarrow> cpms \<Rightarrow> indexedMachines \<Rightarrow> 'w env \<Rightarrow>
   ctrlResult result \<times> cpms \<times> 'w env" where
  "reconcileMachineUpdates ops p ns c mis env =
     (let strategy = strategyType (cpmsSpecOf c)
      in if strategy = RollingUpdate
         then (case reconcileMachineRollingUpdate ops p ns (replicasOf c) mis env of
                 (r, env') \<Rightarrow> (r, c, env'))
         else if strategy = OnDelete
         then (case reconcileMachineOnDeleteUpdate ops p mis env of (r, env') \<Rightarrow> (r, c, env'))
         else if strategy = Recreate
         then (Inr emptyResult,
               setCondition (mkCondition conditionDegraded ConditionTrue reasonInvalidStrategy
                 (invalidStrategyMessage @ '': '' @ errorText errRecreateStrategyNotSupported) 0) c,
               env)
         else (Inr emptyResult,
               setCondition (mkCondition conditionDegraded ConditionTrue reasonInvalidStrategy
                 (invalidStrategyMessage @ '': '' @ errorText errUnknownStrategy @ '': '' @ strategy) 0) c,
               env))"

end
