(* ===== verification/Simulation.thy ===== *)
theory Simulation
  imports Provider_Interface Consts
begin

text \<open>
  Concrete machines and a provider over a list of machines: creating appends a machine that is not
  Ready yet, deleting sets the deletion timestamp. They serve the evaluations below.
\<close>

definition simMachine :: "string \<Rightarrow> int \<Rightarrow> bool \<Rightarrow> bool \<Rightarrow> int \<Rightarrow> int option \<Rightarrow> machineInfo" where
  "simMachine name idx ready needs created deleted =
     \<lparr>MachineRef = Some \<lparr>refGVR = \<lparr>gvrGroup = ''machine.openshift.io'', gvrVersion = ''v1beta1'',
                                  gvrResource = ''machines''\<rparr>,
                        refMeta = emptyMeta\<lparr>omName := name, omCreationTimestamp := created,
                                            omDeletionTimestamp := deleted\<rparr>\<rparr>,
      NodeRef = None, Ready = ready, NeedsUpdate = needs, Diff = [], Index = idx, ErrorMessage = ''''\<rparr>"

definition simDelete :: "objectRef \<Rightarrow> machineInfo \<Rightarrow> machineInfo" where
  "simDelete ref m =
     (if MachineRef m = Some ref
      then m\<lparr>MachineRef := Some (ref\<lparr>refMeta := (refMeta ref)\<lparr>omDeletionTimestamp := Some 1\<rparr>\<rparr>)\<rparr>
      else m)"

definition simProvider :: "(unit, machineInfo list) machineProvider" where
  "simProvider =
     \<lparr>mpGetMachineInfos = (\<lambda>p w. (Inr w, w)),
      mpWithClient = (\<lambda>p k w. Inr p),
      mpCreateMachine = (\<lambda>p i w. (Inr (), w @ [simMachine (''new-'' @ showInt i) i False False 9 None])),
      mpDeleteMachine = (\<lambda>p ref w. (Inr (), map (simDelete ref) w))\<rparr>"

definition simFailing :: "(unit, machineInfo list) machineProvider" where
  "simFailing = simProvider\<lparr>mpCreateMachine := (\<lambda>p i w. (Inl (ErrNew ''quota exceeded''), w))\<rparr>"

definition simStatus :: cpmsStatus where
  "simStatus = \<lparr>statusConditions = [], statusObservedGeneration = 1, statusReplicas = 0,
     statusReadyReplicas = 0, statusUpdatedReplicas = 0, statusUnavailableReplicas = 0\<rparr>"

definition simCpms :: "string \<Rightarrow> 32 word \<Rightarrow> cpms" where
  "simCpms strategy n =
     \<lparr>cpmsAPIVersion = ''machine.openshift.io/v1'', cpmsKind = ''ControlPlaneMachineSet'',
      cpmsMeta = emptyMeta\<lparr>omName := ''cluster'', omGeneration := 2\<rparr>,
      cpmsSpecOf = \<lparr>machineNamePrefix = '''', cpmsState = StateActive, specReplicas = Some n,
         strategyType = strategy, cpmsSelector = \<lparr>selMatchLabels = [], selMatchExpressions = []\<rparr>,
         cpmsTemplateOf = \<lparr>machineType = OpenShiftMachineV1Beta1MachineType,
                           openShiftMachine = None\<rparr>\<rparr>,
      cpmsStatusOf = simStatus\<rparr>"

text \<open>Three control plane machines, of which the one of index 1 is outdated.\<close>

definition simInfos :: "machineInfo list" where
  "simInfos = [simMachine ''m-0'' 0 True False 1 None, simMachine ''m-1'' 1 True True 2 None,
     simMachine ''m-2'' 2 True False 3 None]"

text \<open>The same cluster once the replacement of index 1 is Ready.\<close>

definition simReplaced :: "machineInfo list" where
  "simReplaced = simInfos @ [simMachine ''m-1b'' 1 True False 4 None]"

definition simIndexed :: indexedMachines where
  "simIndexed = [(0, [simMachine ''m-0'' 0 True False 1 None]), (1, [simMachine ''m-1'' 1 True True 2 None]),
     (2, [simMachine ''m-2'' 2 True False 3 None])]"

definition simReplacedIndexed :: indexedMachines where
  "simReplacedIndexed = [(0, [simMachine ''m-0'' 0 True False 1 None]),
     (1, [simMachine ''m-1'' 1 True True 2 None, simMachine ''m-1b'' 1 True False 4 None]),
     (2, [simMachine ''m-2'' 2 True False 3 None])]"

lemma sim_by_index:
  "machineInfosByIndex (simCpms RollingUpdate 3) simInfos = Inr simIndexed"
  by code_simp

lemma simReplaced_by_index:
  "machineInfosByIndex (simCpms RollingUpdate 3) simReplaced = Inr simReplacedIndexed"
  by code_simp

end
