(* ===== verification/Update_Properties.thy ===== *)
theory Update_Properties
  imports Updates Simulation "HOL-Library.Sublist"
begin

text \<open>
  What the update strategies guarantee, read off the log of provider calls: one lemma per operation
  says which calls it adds, the loops lift them by induction over the indexes, and the properties
  follow: the surge bound, the safety of deletions, the calls of the on-delete strategy, quiescence,
  the order of creations, the behaviour after an error and the progress of a rollout.
\<close>

section \<open>Which calls an operation makes\<close>

definition emits :: "'w env \<Rightarrow> 'w env \<Rightarrow> providerCall list \<Rightarrow> bool" where
  "emits env env' cs \<longleftrightarrow> envCalls env' = envCalls env @ cs"

lemma emits_refl [simp]: "emits env env cs \<longleftrightarrow> cs = []"
  by (auto simp: emits_def)

lemma emits_trans: "emits e1 e2 cs \<Longrightarrow> emits e2 e3 ds \<Longrightarrow> emits e1 e3 (cs @ ds)"
  by (simp add: emits_def)

fun succeeded :: "providerCall \<Rightarrow> bool" where
  "succeeded (CreateCalled i ok) = ok"
| "succeeded (DeleteCalled r ok) = ok"

text \<open>
  A log in which nothing follows a failed call, and the call fails only when the result is an error.
\<close>

definition stopsAtFailure :: "'a result \<Rightarrow> providerCall list \<Rightarrow> bool" where
  "stopsAtFailure r cs \<longleftrightarrow>
     list_all succeeded cs \<or> (isl r \<and> list_all succeeded (butlast cs))"

lemma stopsAtFailure_Nil [simp]: "stopsAtFailure r []"
  by (simp add: stopsAtFailure_def)

lemma stopsAtFailure_ok [simp]: "stopsAtFailure (Inr x) cs \<longleftrightarrow> list_all succeeded cs"
  by (simp add: stopsAtFailure_def)

lemma stopsAtFailure_append:
  "list_all succeeded cs \<Longrightarrow> stopsAtFailure r ds \<Longrightarrow> stopsAtFailure r (cs @ ds)"
  by (cases "ds = []") (auto simp: stopsAtFailure_def butlast_append)

lemma createMachine_emits:
  assumes "createMachine ops p idx env = (r, env')"
  obtains cs where "emits env env' cs" and "deletedRefs cs = []"
    and "createdIndexes cs = (case r of Inr (True, _) \<Rightarrow> [idx] | _ \<Rightarrow> [])"
    and "stopsAtFailure r cs"
proof -
  obtain rc env1 where c: "onWorld (checkForExistingReplacement ops p idx) env = (rc, env1)" by force
  then have e1: "envCalls env1 = envCalls env" by simp
  consider (same) "env' = env1" "\<And>res. r \<noteq> Inr (True, res)"
    | (called) r' where "callCreateMachine ops p idx env1 = (r', env')"
        "isl r' \<longleftrightarrow> isl r" "\<not> isl r \<Longrightarrow> r = Inr (True, emptyResult)"
    using assms c
    by (auto simp: createMachine_def split: sum.splits bool.splits prod.splits)
  then show ?thesis
  proof cases
    case same
    then show ?thesis using e1 by (intro that [of "[]"]) (auto simp: emits_def split: sum.splits bool.splits)
  next
    case called
    have "emits env env' [CreateCalled idx (\<not> isl r)]"
      using callCreateMachine_calls [OF called(1)] called(2) e1 by (simp add: emits_def)
    then show ?thesis
      using called(3) by (intro that [of "[CreateCalled idx (\<not> isl r)]"])
        (cases r; auto simp: stopsAtFailure_def)+
  qed
qed

lemma createMachineWithSurge_emits:
  assumes "createMachineWithSurge ops p idx mx s env = (r, s', env')"
  obtains cs where "emits env env' cs" and "deletedRefs cs = []"
    and "createdIndexes cs = [] \<or> createdIndexes cs = [idx] \<and> s < mx"
    and "s' = s + int (length (createdIndexes cs))"
    and "stopsAtFailure r cs"
proof (cases "s \<ge> mx")
  case True
  with assms show ?thesis
    by (intro that [of "[]"]) (auto simp: createMachineWithSurge_def)
next
  case False
  obtain r1 env1 where c: "createMachine ops p idx env = (r1, env1)" by force
  from createMachine_emits [OF c] obtain cs where cs: "emits env env1 cs" "deletedRefs cs = []"
    "createdIndexes cs = (case r1 of Inr (True, _) \<Rightarrow> [idx] | _ \<Rightarrow> [])" "stopsAtFailure r1 cs" .
  from False c assms have "env' = env1" "isl r \<longleftrightarrow> isl r1"
    "s' = s + (case r1 of Inr (True, _) \<Rightarrow> 1 | _ \<Rightarrow> 0)"
    by (auto simp: createMachineWithSurge_def split: sum.splits bool.splits)
  with cs False show ?thesis
    by (intro that [of cs]) (auto simp: stopsAtFailure_def split: sum.splits bool.splits)
qed

text \<open>The machine that a call of \<^const>\<open>deleteReplacedMachines\<close> asks to delete.\<close>

definition deletionTarget :: "machineInfo list \<Rightarrow> machineInfo \<Rightarrow> objectRef \<Rightarrow> bool" where
  "deletionTarget ms m ref \<longleftrightarrow>
     2 \<le> length ms \<and> toDeleteMachine ms = Some m \<and> MachineRef m = Some ref \<and> \<not> isDeletedMachine m"

lemma deleteReplacedMachines_emits:
  assumes "deleteReplacedMachines ops p ns ms env = (r, env')"
  obtains cs where "emits env env' cs" and "createdIndexes cs = []"
    and "deletedRefs cs = [] \<or> (\<exists>m ref. deletionTarget ms m ref \<and> deletedRefs cs = [ref])"
    and "stopsAtFailure r cs"
proof (cases "env' = env")
  case True
  then show ?thesis by (intro that [of "[]"]) auto
next
  case False
  with assms obtain m r1 where m: "2 \<le> length ms" "toDeleteMachine ms = Some m"
      "\<not> isDeletedMachine m" "MachineRef m \<noteq> None"
    and d: "deleteMachine ops p m ns env = (r1, env')" "isl r \<longleftrightarrow> isl r1"
    by (auto simp: deleteReplacedMachines_def split: if_splits option.splits prod.splits sum.splits)
  from m(4) obtain ref where ref: "MachineRef m = Some ref" by auto
  obtain r2 where c: "callDeleteMachine ops p ref env = (r2, env')" "isl r1 \<longleftrightarrow> isl r2"
    using d(1) ref by (auto simp: deleteMachine_def split: prod.splits sum.splits)
  have "emits env env' [DeleteCalled ref (\<not> isl r)]"
    using callDeleteMachine_calls [OF c(1)] c(2) d(2) by (simp add: emits_def)
  moreover have "deletionTarget ms m ref"
    using m ref by (simp add: deletionTarget_def)
  ultimately show ?thesis
    by (intro that [of "[DeleteCalled ref (\<not> isl r)]"]) (auto simp: stopsAtFailure_def)
qed

text \<open>When a rolling update may create a machine for an index.\<close>

definition replacementDue :: "machineInfo list \<Rightarrow> bool" where
  "replacementDue ms \<longleftrightarrow>
     ms = [] \<or> needReplacementMachines ms \<noteq> [] \<and> updatedNonDeletedMachines ms = [] \<and> pendingMachines ms = []"

lemma createRolling_emits:
  assumes "createRollingUpdateReplacementMachines ops p ms idx mx s env = (r, s', env')"
    and "\<forall>m \<in> set ms. Index m = idx"
  obtains cs where "emits env env' cs" and "deletedRefs cs = []"
    and "createdIndexes cs = [] \<or> createdIndexes cs = [idx] \<and> s < mx \<and> replacementDue ms"
    and "s' = s + int (length (createdIndexes cs))"
    and "stopsAtFailure r cs"
proof -
  have hd: "Index (needReplacementMachines ms ! 0) = idx" if "needReplacementMachines ms \<noteq> []"
  proof -
    have "needReplacementMachines ms ! 0 \<in> set (needReplacementMachines ms)"
      using that by (intro nth_mem) simp
    then show ?thesis using assms(2) by (simp add: needReplacementMachines_def)
  qed
  consider (none) "env' = env" "s' = s"
    | (some) r1 where "createMachineWithSurge ops p idx mx s env = (r1, s', env')" "isl r \<longleftrightarrow> isl r1"
        "replacementDue ms"
    using assms(1) hd
    by (auto simp: createRollingUpdateReplacementMachines_def Let_def replacementDue_def
        split: if_splits prod.splits sum.splits)
  then show ?thesis
  proof cases
    case none
    then show ?thesis by (intro that [of "[]"]) auto
  next
    case some
    from createMachineWithSurge_emits [OF some(1)] obtain cs where "emits env env' cs"
      "deletedRefs cs = []" "createdIndexes cs = [] \<or> createdIndexes cs = [idx] \<and> s < mx"
      "s' = s + int (length (createdIndexes cs))" "stopsAtFailure r1 cs" .
    with some(2,3) show ?thesis by (intro that [of cs]) (auto simp: stopsAtFailure_def)
  qed
qed

text \<open>The machines of an index carry that index: what \<^const>\<open>machineInfosByIndex\<close> establishes.\<close>

definition indexConsistent :: "indexToMachineInfos \<Rightarrow> bool" where
  "indexConsistent im \<longleftrightarrow> (\<forall>m \<in> set (itmMachineInfos im). Index m = itmIndex im)"

lemma rollingUpdateIndex_emits:
  assumes "rollingUpdateIndex ops p ns mx im s env = (r, s', env')" and "indexConsistent im"
  obtains cs where "emits env env' cs"
    and "createdIndexes cs = [] \<or>
           createdIndexes cs = [itmIndex im] \<and> s < mx \<and> replacementDue (itmMachineInfos im)"
    and "s' = s + int (length (createdIndexes cs))"
    and "deletedRefs cs = [] \<or> (\<exists>m ref. deletionTarget (itmMachineInfos im) m ref \<and> deletedRefs cs = [ref])"
    and "stopsAtFailure r cs"
proof -
  let ?ms = "itmMachineInfos im"
  obtain r1 env1 where d: "deleteReplacedMachines ops p ns ?ms env = (r1, env1)" by force
  from deleteReplacedMachines_emits [OF d] obtain cs where cs: "emits env env1 cs"
    "createdIndexes cs = []"
    "deletedRefs cs = [] \<or> (\<exists>m ref. deletionTarget ?ms m ref \<and> deletedRefs cs = [ref])"
    "stopsAtFailure r1 cs" .
  show ?thesis
  proof (cases r1)
    case (Inl e)
    with d assms(1) have "env' = env1" "s' = s" "r = Inl e"
      by (auto simp: rollingUpdateIndex_def)
    with cs Inl show ?thesis by (intro that [of cs]) (auto simp: stopsAtFailure_def)
  next
    case (Inr x)
    obtain r2 s2 env2 where c: "createRollingUpdateReplacementMachines ops p ?ms (itmIndex im) mx s env1
        = (r2, s2, env2)" by (metis prod_cases3)
    have e: "env' = env2" "s' = s2" "isl r \<longleftrightarrow> isl r2"
      using d Inr c assms(1)
      by (auto simp: rollingUpdateIndex_def Let_def split: prod.splits sum.splits)
    have "\<forall>m \<in> set ?ms. Index m = itmIndex im" using assms(2) by (simp add: indexConsistent_def)
    from createRolling_emits [OF c this] obtain ds where ds: "emits env1 env2 ds"
      "deletedRefs ds = []"
      "createdIndexes ds = [] \<or> createdIndexes ds = [itmIndex im] \<and> s < mx \<and> replacementDue ?ms"
      "s2 = s + int (length (createdIndexes ds))" "stopsAtFailure r2 ds" .
    have "stopsAtFailure r (cs @ ds)"
      using cs(4) Inr ds(5) e(3)
      by (intro stopsAtFailure_append) (auto simp: stopsAtFailure_def)
    with cs ds e emits_trans [OF cs(1) ds(1)] show ?thesis
      by (intro that [of "cs @ ds"]) auto
  qed
qed

lemma rollingUpdateLoop_emits:
  assumes "rollingUpdateLoop ops p ns mx ims s q env = (r, s', env')"
    and "\<forall>im \<in> set ims. indexConsistent im"
  shows "\<exists>cs. emits env env' cs \<and> subseq (createdIndexes cs) (map itmIndex ims) \<and>
    s' = s + int (length (createdIndexes cs)) \<and> s' \<le> max s mx \<and>
    (\<forall>ref \<in> set (deletedRefs cs). \<exists>im \<in> set ims. \<exists>m. deletionTarget (itmMachineInfos im) m ref) \<and>
    (\<forall>i \<in> set (createdIndexes cs). \<exists>im \<in> set ims. itmIndex im = i \<and> replacementDue (itmMachineInfos im)) \<and>
    stopsAtFailure r cs"
  using assms
proof (induction ims arbitrary: s q env)
  case Nil
  then show ?case by (auto intro!: exI [of _ "[]"])
next
  case (Cons im ims)
  obtain r1 s1 env1 where i: "rollingUpdateIndex ops p ns mx im s env = (r1, s1, env1)"
    by (metis prod_cases3)
  from Cons.prems(2) have "indexConsistent im" by simp
  from rollingUpdateIndex_emits [OF i this] obtain cs where cs: "emits env env1 cs"
    "createdIndexes cs = [] \<or>
       createdIndexes cs = [itmIndex im] \<and> s < mx \<and> replacementDue (itmMachineInfos im)"
    "s1 = s + int (length (createdIndexes cs))"
    "deletedRefs cs = [] \<or> (\<exists>m ref. deletionTarget (itmMachineInfos im) m ref \<and> deletedRefs cs = [ref])"
    "stopsAtFailure r1 cs" .
  show ?case
  proof (cases r1)
    case (Inl e)
    with i Cons.prems(1) have "env' = env1" "s' = s1" "r = Inl e" by auto
    with cs Inl show ?thesis by (auto intro!: exI [of _ cs] simp: stopsAtFailure_def)
  next
    case (Inr q1)
    with i Cons.prems(1) have
      l: "rollingUpdateLoop ops p ns mx ims s1 (q \<or> q1) env1 = (r, s', env')" by simp
    from Cons.IH [OF l] Cons.prems(2) obtain ds where ds: "emits env1 env' ds"
      "subseq (createdIndexes ds) (map itmIndex ims)"
      "s' = s1 + int (length (createdIndexes ds))" "s' \<le> max s1 mx"
      "\<forall>ref \<in> set (deletedRefs ds). \<exists>im \<in> set ims. \<exists>m. deletionTarget (itmMachineInfos im) m ref"
      "\<forall>i \<in> set (createdIndexes ds). \<exists>im \<in> set ims. itmIndex im = i \<and> replacementDue (itmMachineInfos im)"
      "stopsAtFailure r ds" by auto
    have "list_all succeeded cs" using cs(5) Inr by simp
    then have "stopsAtFailure r (cs @ ds)" using ds(7) by (rule stopsAtFailure_append)
    then show ?thesis
      using cs ds emits_trans [OF cs(1) ds(1)]
      by (intro exI [of _ "cs @ ds"]) (auto intro: subseq_Cons2)
  qed
qed

section \<open>The rolling update pass\<close>

lemma subseq_set_subset: "subseq xs ys \<Longrightarrow> set xs \<subseteq> set ys"
  by (induction rule: list_emb.induct) auto

lemma sorted_wrt_subseq: "subseq xs ys \<Longrightarrow> sorted_wrt P ys \<Longrightarrow> sorted_wrt P xs"
  by (induction rule: list_emb.induct) (auto dest: list_emb_set)

definition startEnv :: "'w \<Rightarrow> 'w env" where
  "startEnv w = \<lparr>envWorld = w, envCalls = []\<rparr>"

lemma startEnv_sel [simp]: "envWorld (startEnv w) = w" "envCalls (startEnv w) = []"
  by (simp_all add: startEnv_def)

definition indexedOk :: "indexedMachines \<Rightarrow> bool" where
  "indexedOk mis \<longleftrightarrow> gm_ok mis \<and> (\<forall>(i, ms) \<in> set mis. \<forall>m \<in> set ms. Index m = i)"

lemma indexedOk_consistent:
  "indexedOk mis \<Longrightarrow> im \<in> set (sortMachineInfosByIndex mis) \<Longrightarrow> indexConsistent im"
  by (auto simp: indexedOk_def indexConsistent_def mem_sortMachineInfosByIndex)

lemma machineInfosByIndex_indexedOk:
  assumes "machineInfosByIndex c ms = Inr mis"
  shows "indexedOk mis"
proof -
  from assms obtain r where mis: "mis = fillIndexes r 0 (foldl addToIndex [] ms)"
    by (auto simp: machineInfosByIndex_def split: option.splits)
  have ok: "gm_ok mis" by (simp add: mis fillIndexes_ok foldl_addToIndex_ok)
  have "Index m = i" if "gm_get mis i = Some xs" "m \<in> set xs" for i xs m
    using that fillIndexes_get [of r 0 "foldl addToIndex [] ms" i]
    by (auto simp: mis foldl_addToIndex_get split: if_splits)
  with ok show ?thesis by (auto simp: indexedOk_def gm_entries)
qed

lemma reconcileMachineRollingUpdate_emits:
  assumes "reconcileMachineRollingUpdate ops p ns replicas mis env = (r, env')" and "indexedOk mis"
  obtains cs where "emits env env' cs" and "subseq (createdIndexes cs) (sort (gm_keys mis))"
    and "int (length (machineInfosMaptoSlice mis)) + int (length (createdIndexes cs))
           \<le> max (int (length (machineInfosMaptoSlice mis))) (sint replicas + 1)"
    and "\<forall>ref \<in> set (deletedRefs cs). \<exists>(i, ms) \<in> set mis. \<exists>m. deletionTarget ms m ref"
    and "\<forall>i \<in> set (createdIndexes cs). \<exists>ms. (i, ms) \<in> set mis \<and> replacementDue ms"
    and "stopsAtFailure r cs"
proof -
  let ?ims = "sortMachineInfosByIndex mis"
  obtain r1 s' where l: "rollingUpdateLoop ops p ns maxSurgeOf ?ims
        (deviseExistingSurge replicas ?ims) False env = (r1, s', env')" "isl r \<longleftrightarrow> isl r1"
    using assms(1)
    by (auto simp: reconcileMachineRollingUpdate_def loopResult_def Let_def
        split: prod.splits sum.splits)
  have "\<forall>im \<in> set ?ims. indexConsistent im"
    using assms(2) indexedOk_consistent by blast
  from rollingUpdateLoop_emits [OF l(1) this] obtain cs where cs: "emits env env' cs"
    "subseq (createdIndexes cs) (map itmIndex ?ims)"
    "s' = deviseExistingSurge replicas ?ims + int (length (createdIndexes cs))"
    "s' \<le> max (deviseExistingSurge replicas ?ims) maxSurgeOf"
    "\<forall>ref \<in> set (deletedRefs cs). \<exists>im \<in> set ?ims. \<exists>m. deletionTarget (itmMachineInfos im) m ref"
    "\<forall>i \<in> set (createdIndexes cs). \<exists>im \<in> set ?ims. itmIndex im = i \<and> replacementDue (itmMachineInfos im)"
    "stopsAtFailure r1 cs" by blast
  show ?thesis
  proof (rule that [of cs])
    show "emits env env' cs" by (rule cs(1))
    show "subseq (createdIndexes cs) (sort (gm_keys mis))"
      using cs(2) by (simp add: itmIndex_sortMachineInfosByIndex)
    show "int (length (machineInfosMaptoSlice mis)) + int (length (createdIndexes cs))
        \<le> max (int (length (machineInfosMaptoSlice mis))) (sint replicas + 1)"
      using cs(3,4) by (auto simp: deviseExistingSurge_eq maxSurgeOf_def)
    show "\<forall>ref \<in> set (deletedRefs cs). \<exists>(i, ms) \<in> set mis. \<exists>m. deletionTarget ms m ref"
      using cs(5) by (fastforce simp: mem_sortMachineInfosByIndex)
    show "\<forall>i \<in> set (createdIndexes cs). \<exists>ms. (i, ms) \<in> set mis \<and> replacementDue ms"
      using cs(6) by (metis mem_sortMachineInfosByIndex)
    show "stopsAtFailure r cs" using cs(7) l(2) by (auto simp: stopsAtFailure_def)
  qed
qed

text \<open>What \<^const>\<open>machineInfosByIndex\<close> groups: the machines of an index, in their order.\<close>

lemma machineInfosByIndex_get:
  assumes "machineInfosByIndex c infos = Inr mis" and "(i, ms) \<in> set mis"
  shows "ms = filter (\<lambda>m. Index m = i) infos"
proof -
  from assms(1) obtain r where mis: "mis = fillIndexes r 0 (foldl addToIndex [] infos)"
    by (auto simp: machineInfosByIndex_def split: option.splits)
  have "gm_ok mis" by (simp add: mis fillIndexes_ok foldl_addToIndex_ok)
  then have "gm_get mis i = Some ms" using assms(2) by (simp add: gm_entries)
  then show ?thesis
    using fillIndexes_get [of r 0 "foldl addToIndex [] infos" i]
    by (auto simp: mis foldl_addToIndex_get split: if_splits)
qed

text \<open>The rolling update of a cluster whose machines are grouped by \<^const>\<open>machineInfosByIndex\<close>.\<close>

definition rollingCalls ::
  "('p, 'w) machineProvider \<Rightarrow> 'p \<Rightarrow> string \<Rightarrow> cpms \<Rightarrow> indexedMachines \<Rightarrow> 'w \<Rightarrow> providerCall list" where
  "rollingCalls ops p ns c mis w =
     envCalls (snd (reconcileMachineRollingUpdate ops p ns (replicasOf c) mis (startEnv w)))"

lemma rollingCalls_facts:
  assumes "machineInfosByIndex c infos = Inr mis"
    and cs_def: "cs = rollingCalls ops p ns c mis w"
  shows "sorted_wrt (<) (createdIndexes cs)"
    and "set (createdIndexes cs) \<subseteq> set (gm_keys mis)"
    and "int (length infos) + int (length (createdIndexes cs))
           \<le> max (int (length infos)) (sint (replicasOf c) + 1)"
    and "\<forall>ref \<in> set (deletedRefs cs).
           \<exists>i m. deletionTarget (filter (\<lambda>m. Index m = i) infos) m ref"
    and "\<forall>i \<in> set (createdIndexes cs). replacementDue (filter (\<lambda>m. Index m = i) infos)"
    and "stopsAtFailure (fst (reconcileMachineRollingUpdate ops p ns (replicasOf c) mis (startEnv w))) cs"
proof -
  let ?R = "reconcileMachineRollingUpdate ops p ns (replicasOf c) mis (startEnv w)"
  have ok: "indexedOk mis" using assms(1) by (rule machineInfosByIndex_indexedOk)
  have R: "?R = (fst ?R, snd ?R)" by simp
  have len: "length (machineInfosMaptoSlice mis) = length infos"
    using machineInfosByIndex_slice [OF assms(1)] by (rule mset_eq_length)
  from reconcileMachineRollingUpdate_emits [OF R ok] obtain ds where ds: "emits (startEnv w) (snd ?R) ds"
    and sub: "subseq (createdIndexes ds) (sort (gm_keys mis))"
    and le: "int (length (machineInfosMaptoSlice mis)) + int (length (createdIndexes ds))
           \<le> max (int (length (machineInfosMaptoSlice mis))) (sint (replicasOf c) + 1)"
    and del: "\<forall>ref \<in> set (deletedRefs ds). \<exists>(i, ms) \<in> set mis. \<exists>m. deletionTarget ms m ref"
    and due: "\<forall>i \<in> set (createdIndexes ds). \<exists>ms. (i, ms) \<in> set mis \<and> replacementDue ms"
    and stop: "stopsAtFailure (fst ?R) ds" .
  have cs: "cs = ds" using ds by (simp add: cs_def rollingCalls_def emits_def)
  have "sorted_wrt (<) (sort (gm_keys mis))"
    using ok by (simp add: indexedOk_def gm_ok_def strict_sorted_iff)
  then show "sorted_wrt (<) (createdIndexes cs)"
    using sub cs sorted_wrt_subseq by blast
  show "set (createdIndexes cs) \<subseteq> set (gm_keys mis)"
    using subseq_set_subset [OF sub] cs by simp
  show "int (length infos) + int (length (createdIndexes cs))
      \<le> max (int (length infos)) (sint (replicasOf c) + 1)"
    using le len cs by simp
  show "\<forall>ref \<in> set (deletedRefs cs).
      \<exists>i m. deletionTarget (filter (\<lambda>m. Index m = i) infos) m ref"
    using del cs machineInfosByIndex_get [OF assms(1)] by blast
  show "\<forall>i \<in> set (createdIndexes cs). replacementDue (filter (\<lambda>m. Index m = i) infos)"
    using due cs machineInfosByIndex_get [OF assms(1)] by blast
  show "stopsAtFailure (fst ?R) cs" using stop cs by simp
qed

section \<open>Which machine is chosen for deletion\<close>

lemma filter_remove1_other: "\<not> P x \<Longrightarrow> filter P (remove1 x xs) = filter P xs"
  by (induction xs) auto

lemma toDeleteMachine_mem:
  assumes "toDeleteMachine ms = Some m"
  shows "m \<in> set ms"
proof -
  have nth: "xs ! 0 \<in> set xs" if "xs \<noteq> []" for xs :: "machineInfo list"
    using that by (cases xs) auto
  consider "m = needReplacementMachines ms ! 0" "needReplacementMachines ms \<noteq> []"
    | "m = nonReadyMachines (needReplacementMachines ms) ! 0"
      "nonReadyMachines (needReplacementMachines ms) \<noteq> []"
    | "m = sortMachineInfoByCreationTimestamp (updatedMachines ms) ! 0" "1 < length (updatedMachines ms)"
    using assms by (auto simp: toDeleteMachine_def Let_def split: if_splits)
  then show ?thesis
  proof cases
    case 1
    with nth [of "needReplacementMachines ms"] show ?thesis by (auto simp: selector_simps)
  next
    case 2
    with nth [of "nonReadyMachines (needReplacementMachines ms)"] show ?thesis
      by (auto simp: selector_simps)
  next
    case 3
    let ?xs = "sortMachineInfoByCreationTimestamp (updatedMachines ms)"
    have "set ?xs = set (updatedMachines ms)" by (simp add: sortMachineInfoByCreationTimestamp_def)
    moreover have "?xs \<noteq> []"
      using 3(2) by (metis calculation empty_set length_0_conv less_zeroE set_empty)
    ultimately show ?thesis
      using nth [of ?xs] 3(1) by (auto simp: selector_simps)
  qed
qed

lemma toDeleteMachine_cases:
  assumes "toDeleteMachine ms = Some m"
  obtains (excess) "1 < length (updatedMachines ms)" "m \<in> set (updatedMachines ms)"
      "\<forall>x \<in> set (updatedMachines ms).
         omCreationTimestamp (machineMeta m) \<le> omCreationTimestamp (machineMeta x)"
    | (broken) "\<not> Ready m" "NeedsUpdate m \<or> isDeletedMachine m"
    | (replaced) "NeedsUpdate m \<or> isDeletedMachine m" "updatedMachines ms \<noteq> []"
proof -
  let ?xs = "sortMachineInfoByCreationTimestamp (updatedMachines ms)"
  have hd: "P (filter P xs ! 0)" if "filter P xs \<noteq> []" for P and xs :: "machineInfo list"
    using that nth_mem [of 0 "filter P xs"] by auto
  show ?thesis
  proof (cases "1 < length (updatedMachines ms)")
    case True
    have set: "set ?xs = set (updatedMachines ms)" and
      sorted: "sorted (map (\<lambda>m. omCreationTimestamp (machineMeta m)) ?xs)"
      by (simp_all add: sortMachineInfoByCreationTimestamp_def)
    have "length ?xs = length (updatedMachines ms)"
      by (simp add: sortMachineInfoByCreationTimestamp_def)
    with True have ne: "?xs \<noteq> []" by auto
    have m: "m = ?xs ! 0" using assms True by (simp add: toDeleteMachine_def Let_def)
    with ne have mem: "m \<in> set ?xs" by simp
    have "\<forall>x \<in> set ?xs. omCreationTimestamp (machineMeta m) \<le> omCreationTimestamp (machineMeta x)"
      using sorted m ne by (cases ?xs) auto
    with True mem set show ?thesis by (intro excess) auto
  next
    case False
    show ?thesis
    proof (cases "nonReadyMachines (needReplacementMachines ms) = []")
      case True
      with False assms have "m = needReplacementMachines ms ! 0" "needReplacementMachines ms \<noteq> []"
        "updatedMachines ms \<noteq> []"
        by (auto simp: toDeleteMachine_def Let_def split: if_splits)
      then show ?thesis using hd [of _ ms] replaced unfolding needReplacementMachines_def by blast
    next
      case ne: False
      with False assms have m: "m = nonReadyMachines (needReplacementMachines ms) ! 0"
        by (auto simp: toDeleteMachine_def Let_def split: if_splits)
      have "m \<in> set (nonReadyMachines (needReplacementMachines ms))"
        using m ne by simp
      then show ?thesis by (intro broken) (auto simp: selector_simps)
    qed
  qed
qed

text \<open>
  A Ready machine is only chosen when another machine of its index is up to date and Ready.
\<close>

lemma deletionTarget_safe:
  assumes "deletionTarget ms m ref" and "Ready m"
  shows "updatedMachines (remove1 m ms) \<noteq> []"
proof -
  from assms have t: "toDeleteMachine ms = Some m" and nd: "\<not> isDeletedMachine m"
    by (auto simp: deletionTarget_def)
  from t show ?thesis
  proof (cases rule: toDeleteMachine_cases)
    case excess
    have "updatedMachines (remove1 m ms) = remove1 m (updatedMachines ms)"
      using excess(2) by (simp add: updatedMachines_def filter_remove1)
    then show ?thesis using excess(1,2) by (auto simp: length_remove1 dest!: arg_cong [of _ _ length])
  next
    case broken
    with assms(2) show ?thesis by simp
  next
    case replaced
    with nd have "\<not> (Ready m \<and> \<not> NeedsUpdate m)" by simp
    then have "updatedMachines (remove1 m ms) = updatedMachines ms"
      unfolding updatedMachines_def by (rule filter_remove1_other)
    with replaced(2) show ?thesis by simp
  qed
qed

lemma deletionTarget_index:
  assumes "deletionTarget (filter (\<lambda>m. Index m = i) infos) m ref"
  shows "m \<in> set infos" "Index m = i" "MachineRef m = Some ref" "\<not> isDeletedMachine m"
    "2 \<le> length (filter (\<lambda>x. Index x = i) infos)"
  using assms toDeleteMachine_mem [of "filter (\<lambda>m. Index m = i) infos" m]
  by (auto simp: deletionTarget_def)

section \<open>Steady indexes\<close>

text \<open>An index with one Ready machine that is not being deleted.\<close>

definition steadyIndex :: "indexToMachineInfos \<Rightarrow> bool" where
  "steadyIndex im \<longleftrightarrow>
     (\<exists>m. itmMachineInfos im = [m] \<and> Index m = itmIndex im \<and> Ready m \<and> \<not> isDeletedMachine m)"

definition outdatedIndex :: "indexToMachineInfos \<Rightarrow> bool" where
  "outdatedIndex im \<longleftrightarrow> list_ex NeedsUpdate (itmMachineInfos im)"

lemma rollingUpdateIndex_steady:
  assumes "steadyIndex im" and "\<not> outdatedIndex im \<or> mx \<le> s"
  shows "rollingUpdateIndex ops p ns mx im s env = (Inr False, s, env)"
  using assms
  by (auto simp: steadyIndex_def outdatedIndex_def rollingUpdateIndex_def deleteReplacedMachines_def
      createRollingUpdateReplacementMachines_def createMachineWithSurge_def waitForReadyMachine_def
      waitForReplacementMachine_def selector_simps Let_def)

lemma rollingUpdateIndex_outdated:
  assumes "steadyIndex im" and "outdatedIndex im" and "s < mx"
    and "createMachine ops p (itmIndex im) env = (Inr (True, res), env')"
  shows "rollingUpdateIndex ops p ns mx im s env = (Inr False, s + 1, env')"
  using assms
  by (auto simp: steadyIndex_def outdatedIndex_def rollingUpdateIndex_def deleteReplacedMachines_def
      createRollingUpdateReplacementMachines_def createMachineWithSurge_def waitForReadyMachine_def
      waitForReplacementMachine_def selector_simps Let_def)

lemma rollingUpdateLoop_steady:
  assumes "\<forall>im \<in> set ims. steadyIndex im \<and> (\<not> outdatedIndex im \<or> mx \<le> s)"
  shows "rollingUpdateLoop ops p ns mx ims s q env = (Inr q, s, env)"
  using assms by (induction ims arbitrary: q) (auto simp: rollingUpdateIndex_steady)

lemma rollingUpdateLoop_append:
  assumes "rollingUpdateLoop ops p ns mx xs s q env = (Inr q', s', env')"
  shows "rollingUpdateLoop ops p ns mx (xs @ ys) s q env = rollingUpdateLoop ops p ns mx ys s' q' env'"
  using assms
  by (induction xs arbitrary: s q env) (auto split: prod.splits sum.splits)

lemma onDeleteIndex_steady:
  assumes "steadyIndex im"
  shows "onDeleteIndex ops p im env = (Inr False, env)"
  using assms
  by (auto simp: steadyIndex_def onDeleteIndex_def createOnDeleteReplacementMachines_def
      waitForReadyMachine_def waitForReplacementMachine_def selector_simps Let_def)

lemma onDeleteLoop_steady:
  assumes "\<forall>im \<in> set ims. steadyIndex im"
  shows "onDeleteLoop ops p ims q env = (Inr q, env)"
  using assms by (induction ims arbitrary: q) (simp_all add: onDeleteIndex_steady)

text \<open>
  The first outdated index of a steady cluster is the one that gets a replacement: everything before
  it is left alone, and after it the surge is used up.
\<close>

lemma rollingUpdateLoop_first_outdated:
  assumes "\<forall>im \<in> set (xs @ im # ys). steadyIndex im" and "\<forall>x \<in> set xs. \<not> outdatedIndex x"
    and "outdatedIndex im"
    and "createMachine ops p (itmIndex im) env = (Inr (True, res), env')"
  shows "rollingUpdateLoop ops p ns 1 (xs @ im # ys) 0 q env = (Inr q, 1, env')"
proof -
  have "rollingUpdateLoop ops p ns 1 xs 0 q env = (Inr q, 0, env)"
    using assms(1,2) by (intro rollingUpdateLoop_steady) simp
  moreover have "rollingUpdateIndex ops p ns 1 im 0 env = (Inr False, 1, env')"
    using assms by (subst rollingUpdateIndex_outdated) auto
  moreover have "rollingUpdateLoop ops p ns 1 ys 1 q env' = (Inr q, 1, env')"
    using assms(1) by (intro rollingUpdateLoop_steady) simp
  ultimately show ?thesis by (simp add: rollingUpdateLoop_append)
qed

text \<open>
  The second half of a replacement: one index has the outdated machine and its Ready replacement.
\<close>

definition replacedIndex :: "indexToMachineInfos \<Rightarrow> machineInfo \<Rightarrow> bool" where
  "replacedIndex im old \<longleftrightarrow>
     (\<exists>new. (itmMachineInfos im = [old, new] \<or> itmMachineInfos im = [new, old]) \<and>
        NeedsUpdate old \<and> \<not> isDeletedMachine old \<and>
        Ready new \<and> \<not> NeedsUpdate new \<and> \<not> isDeletedMachine new)"

lemma replacedIndex_facts:
  assumes "replacedIndex im old"
  shows "length (itmMachineInfos im) = 2" "toDeleteMachine (itmMachineInfos im) = Some old"
    "\<not> isDeletedMachine old" "updatedNonDeletedMachines (itmMachineInfos im) \<noteq> []"
    "pendingMachines (itmMachineInfos im) = []"
  using assms by (auto simp: replacedIndex_def toDeleteMachine_def selector_simps Let_def)

lemma rollingUpdateIndex_replaced:
  assumes "replacedIndex im old" and "MachineRef old = Some ref"
    and "callDeleteMachine ops p ref env = (Inr (), env')"
  shows "rollingUpdateIndex ops p ns mx im s env = (Inr False, s, env')"
proof -
  note f = replacedIndex_facts [OF assms(1)]
  have ne: "itmMachineInfos im \<noteq> []" using f(1) by auto
  have "deleteReplacedMachines ops p ns (itmMachineInfos im) env = (Inr (True, emptyResult), env')"
    using f assms(2,3) by (simp add: deleteReplacedMachines_def deleteMachine_def)
  then show ?thesis
    using f(4,5) ne by (simp add: rollingUpdateIndex_def createRollingUpdateReplacementMachines_def
        waitForReadyMachine_def waitForReplacementMachine_def Let_def)
qed

lemma rollingUpdateLoop_replaced:
  assumes "\<forall>x \<in> set (xs @ ys). steadyIndex x" and "replacedIndex im old" and "MachineRef old = Some ref"
    and "callDeleteMachine ops p ref env = (Inr (), env')" and "mx \<le> s"
  shows "rollingUpdateLoop ops p ns mx (xs @ im # ys) s q env = (Inr q, s, env')"
proof -
  have "rollingUpdateLoop ops p ns mx xs s q env = (Inr q, s, env)"
    using assms(1,5) by (intro rollingUpdateLoop_steady) simp
  moreover have "rollingUpdateLoop ops p ns mx ys s q env' = (Inr q, s, env')"
    using assms(1,5) by (intro rollingUpdateLoop_steady) simp
  ultimately show ?thesis
    using assms(2-4) by (simp add: rollingUpdateLoop_append rollingUpdateIndex_replaced)
qed

section \<open>Properties of the rolling update\<close>

lemma simReplaced_calls:
  "map (\<lambda>r. omName (refMeta r)) (deletedRefs
     (rollingCalls simProvider () ''ns'' (simCpms RollingUpdate 3) simReplacedIndexed simReplaced))
   = [''m-1'']"
  by code_simp

text \<open>
  C6: surge bound. However many machines a rolling update pass creates, the machines it was given
  plus the created ones never exceed the replica count by more than one, or stay at the number
  there already was.
\<close>

theorem rolling_update_surge_bound:
  assumes "machineInfosByIndex c infos = Inr mis"
  shows "int (length infos) + int (length (createdIndexes (rollingCalls ops p ns c mis w)))
           \<le> max (int (length infos)) (sint (replicasOf c) + 1)"
  using rollingCalls_facts(3) [OF assms refl] .

theorem rolling_update_surge_bound_witness:
  "createdIndexes (rollingCalls simProvider () ''ns'' (simCpms RollingUpdate 3) simIndexed simInfos) = [1]
   \<and> int (length simInfos) + int (length (createdIndexes
        (rollingCalls simProvider () ''ns'' (simCpms RollingUpdate 3) simIndexed simInfos))) \<le> 4"
proof (rule conjI)
  show "createdIndexes (rollingCalls simProvider () ''ns'' (simCpms RollingUpdate 3) simIndexed simInfos)
      = [1]" by code_simp
  have "max (int (length simInfos)) (sint (replicasOf (simCpms RollingUpdate 3)) + 1) = 4"
    by code_simp
  then show "int (length simInfos) + int (length (createdIndexes
        (rollingCalls simProvider () ''ns'' (simCpms RollingUpdate 3) simIndexed simInfos))) \<le> 4"
    using rolling_update_surge_bound [OF sim_by_index, of simProvider "()" "''ns''" simInfos] by simp
qed

text \<open>
  C7: deletion safety. Every machine whose deletion a rolling update pass requests is one of the
  machines given, is not being deleted already, shares its index with another machine, and, when it
  is Ready, another machine of its index is Ready and up to date.
\<close>

theorem rolling_update_deletion_safe:
  assumes "machineInfosByIndex c infos = Inr mis"
    and "ref \<in> set (deletedRefs (rollingCalls ops p ns c mis w))"
  shows "\<exists>m \<in> set infos. MachineRef m = Some ref \<and> \<not> isDeletedMachine m \<and>
           2 \<le> length (filter (\<lambda>x. Index x = Index m) infos) \<and>
           (Ready m \<longrightarrow> (\<exists>u \<in> set (remove1 m infos). Index u = Index m \<and> Ready u \<and> \<not> NeedsUpdate u))"
proof -
  from bspec [OF rollingCalls_facts(4) [OF assms(1) refl] assms(2)] obtain i m where
    t: "deletionTarget (filter (\<lambda>m. Index m = i) infos) m ref" by blast
  note m = deletionTarget_index [OF t]
  have "\<exists>u \<in> set (remove1 m infos). Index u = Index m \<and> Ready u \<and> \<not> NeedsUpdate u" if "Ready m"
  proof -
    have "updatedMachines (remove1 m (filter (\<lambda>x. Index x = i) infos)) \<noteq> []"
      using t that by (rule deletionTarget_safe)
    moreover have "remove1 m (filter (\<lambda>x. Index x = i) infos) = filter (\<lambda>x. Index x = i) (remove1 m infos)"
      using m(2) by (simp add: filter_remove1)
    ultimately show ?thesis
      using m(2) by (auto simp: updatedMachines_def filter_empty_conv)
  qed
  with m show ?thesis by auto
qed

theorem rolling_update_deletion_safe_witness:
  "\<exists>ref. omName (refMeta ref) = ''m-1'' \<and>
     (\<exists>m \<in> set simReplaced. MachineRef m = Some ref \<and> \<not> isDeletedMachine m \<and>
        2 \<le> length (filter (\<lambda>x. Index x = Index m) simReplaced) \<and>
        (Ready m \<longrightarrow> (\<exists>u \<in> set (remove1 m simReplaced).
                         Index u = Index m \<and> Ready u \<and> \<not> NeedsUpdate u)))"
proof -
  obtain ref where ref: "omName (refMeta ref) = ''m-1''" "ref \<in> set (deletedRefs
      (rollingCalls simProvider () ''ns'' (simCpms RollingUpdate 3) simReplacedIndexed simReplaced))"
    using simReplaced_calls by (auto simp: map_eq_Cons_conv)
  show ?thesis
    using rolling_update_deletion_safe [OF simReplaced_by_index ref(2)] ref(1) by blast
qed

text \<open>
  C8: availability. When references identify machines, an index that has a Ready machine before a
  rolling update pass still has a Ready machine whose deletion the pass did not request: at most
  one machine per index is deleted, and never the last Ready one.
\<close>

theorem rolling_update_keeps_ready:
  assumes "machineInfosByIndex c infos = Inr mis" and "distinct (map MachineRef infos)"
    and "m \<in> set infos" and "Ready m"
  shows "\<exists>u \<in> set infos. Index u = Index m \<and> Ready u \<and>
           MachineRef u \<notin> Some ` set (deletedRefs (rollingCalls ops p ns c mis w))"
proof (rule ccontr)
  let ?D = "set (deletedRefs (rollingCalls ops p ns c mis w))"
  let ?ms = "filter (\<lambda>x. Index x = Index m) infos"
  assume none: "\<not> ?thesis"
  have inj: "x = y" if "x \<in> set infos" "y \<in> set infos" "MachineRef x = MachineRef y" for x y
    using assms(2) that by (meson distinct_map inj_onD)
  have target: "toDeleteMachine ?ms = Some x" "deletionTarget ?ms x ref"
    if x: "x \<in> set infos" "Index x = Index m" "MachineRef x = Some ref" "ref \<in> ?D" for x ref
  proof -
    from bspec [OF rollingCalls_facts(4) [OF assms(1) refl] x(4)] obtain i y where
      t: "deletionTarget (filter (\<lambda>m. Index m = i) infos) y ref" by blast
    have "x = y" using inj x deletionTarget_index [OF t] by simp
    with t deletionTarget_index(2) [OF t] x(2) show "deletionTarget ?ms x ref" by simp
    then show "toDeleteMachine ?ms = Some x" by (simp add: deletionTarget_def)
  qed
  from none assms(3,4) obtain r where r: "MachineRef m = Some r" "r \<in> ?D" by auto
  with target assms(3) have tm: "toDeleteMachine ?ms = Some m" "deletionTarget ?ms m r" by auto
  from deletionTarget_safe [OF tm(2) assms(4)] obtain u where
    u: "u \<in> set (remove1 m ?ms)" "Ready u"
    by (auto simp: updatedMachines_def filter_empty_conv)
  have d: "distinct ?ms" using assms(2) by (simp add: distinct_map)
  with u(1) have "u \<noteq> m" and "u \<in> set infos" and "Index u = Index m" by auto
  with none u(2) target(1) [of u] tm(1) show False by fastforce
qed

theorem rolling_update_keeps_ready_witness:
  "distinct (map MachineRef simReplaced) \<and> Ready (simReplaced ! 1) \<and>
   (\<exists>u \<in> set simReplaced. Index u = Index (simReplaced ! 1) \<and> Ready u \<and> MachineRef u \<notin> Some `
      set (deletedRefs (rollingCalls simProvider () ''ns'' (simCpms RollingUpdate 3)
                          simReplacedIndexed simReplaced)))"
proof -
  have d: "distinct (map MachineRef simReplaced)" by code_simp
  have r: "Ready (simReplaced ! 1)" by code_simp
  have m: "simReplaced ! 1 \<in> set simReplaced" by (simp add: simReplaced_def simInfos_def)
  show ?thesis
    using rolling_update_keeps_ready [OF simReplaced_by_index d m r, of simProvider "()" "''ns''" simReplaced]
      d r by simp
qed

text \<open>
  Order. The indexes for which a rolling update pass creates machines are indexes of the set,
  in strictly ascending order, so no index gets two machines in one pass.
\<close>

lemma rolling_update_creates_ascending:
  assumes "machineInfosByIndex c infos = Inr mis"
  shows "sorted_wrt (<) (createdIndexes (rollingCalls ops p ns c mis w)) \<and>
         set (createdIndexes (rollingCalls ops p ns c mis w)) \<subseteq> set (gm_keys mis)"
  using rollingCalls_facts(1,2) [OF assms refl, of ops p ns w] by simp

lemma rolling_update_creates_ascending_witness:
  "sorted_wrt (<) (createdIndexes
     (rollingCalls simProvider () ''ns'' (simCpms RollingUpdate 3) simIndexed simInfos)) \<and>
   set (createdIndexes
     (rollingCalls simProvider () ''ns'' (simCpms RollingUpdate 3) simIndexed simInfos)) \<subseteq> {0, 1, 2}"
  using rolling_update_creates_ascending [OF sim_by_index, of simProvider "()" "''ns''" simInfos]
  by (simp add: simIndexed_def)

text \<open>
  C28: errors. In a rolling update pass nothing follows a failed provider call, and a pass that
  returns no error made no failed call.
\<close>

theorem rolling_update_stops_at_failure:
  assumes "machineInfosByIndex c infos = Inr mis"
    and "reconcileMachineRollingUpdate ops p ns (replicasOf c) mis (startEnv w) = (r, env')"
  shows "list_all succeeded (butlast (envCalls env')) \<and>
         (\<forall>res. r = Inr res \<longrightarrow> list_all succeeded (envCalls env'))"
proof -
  have "stopsAtFailure r (envCalls env')"
    using rollingCalls_facts(6) [OF assms(1) refl, of ops p ns w] assms(2)
    by (simp add: rollingCalls_def)
  moreover have "list_all succeeded cs \<Longrightarrow> list_all succeeded (butlast cs)" for cs
    by (induction cs) auto
  ultimately show ?thesis by (auto simp: stopsAtFailure_def)
qed

theorem rolling_update_stops_at_failure_witness:
  "\<exists>r env'. reconcileMachineRollingUpdate simFailing () ''ns'' (replicasOf (simCpms RollingUpdate 3))
       simIndexed (startEnv simInfos) = (r, env') \<and> envCalls env' = [CreateCalled 1 False] \<and> isl r \<and>
     list_all succeeded (butlast (envCalls env')) \<and>
     (\<forall>res. r = Inr res \<longrightarrow> list_all succeeded (envCalls env'))"
proof -
  obtain r env' where e: "reconcileMachineRollingUpdate simFailing () ''ns''
      (replicasOf (simCpms RollingUpdate 3)) simIndexed (startEnv simInfos) = (r, env')" by force
  have "(let (r, env') = reconcileMachineRollingUpdate simFailing () ''ns''
      (replicasOf (simCpms RollingUpdate 3)) simIndexed (startEnv simInfos)
     in envCalls env' = [CreateCalled 1 False] \<and> isl r)" by code_simp
  with e rolling_update_stops_at_failure [OF sim_by_index e] show ?thesis by simp
qed

end
