(* ===== verification/Rollout.thy ===== *)
theory Rollout
  imports Update_Properties
begin

text \<open>
  The course of a rollout: what a pass does in a steady cluster, how a rolling update replaces one
  machine in two phases (create the replacement, then delete the old machine), the calls of the
  on-delete strategy, and the dispatch on the strategy.
\<close>

section \<open>Steady clusters\<close>

text \<open>Every machine is Ready, none is being deleted, and every index has exactly one machine.\<close>

definition steadyCluster :: "machineInfo list \<Rightarrow> indexedMachines \<Rightarrow> bool" where
  "steadyCluster infos mis \<longleftrightarrow>
     distinct (map Index infos) \<and> set (map Index infos) = set (gm_keys mis) \<and>
     list_all (\<lambda>m. Ready m \<and> \<not> isDeletedMachine m) infos"

lemma filter_key_singleton:
  assumes "distinct (map f xs)" and "x \<in> set xs"
  shows "filter (\<lambda>y. f y = f x) xs = [x]"
  using assms
proof (induction xs)
  case Nil
  then show ?case by simp
next
  case (Cons y ys)
  show ?case
  proof (cases "x = y")
    case True
    with Cons.prems show ?thesis by (auto simp: filter_empty_conv image_iff)
  next
    case False
    with Cons show ?thesis by (auto simp: image_iff)
  qed
qed

lemma steadyCluster_steadyIndex:
  assumes "machineInfosByIndex c infos = Inr mis" and "steadyCluster infos mis"
    and "im \<in> set (sortMachineInfosByIndex mis)"
  obtains m where "m \<in> set infos" and "itmMachineInfos im = [m]" and "itmIndex im = Index m"
    and "steadyIndex im"
proof -
  from assms(3) have e: "(itmIndex im, itmMachineInfos im) \<in> set mis"
    by (simp add: mem_sortMachineInfosByIndex)
  then have "itmIndex im \<in> set (gm_keys mis)" by force
  with assms(2) obtain m where m: "m \<in> set infos" "itmIndex im = Index m"
    by (auto simp: steadyCluster_def)
  have d: "distinct (map Index infos)" using assms(2) by (simp add: steadyCluster_def)
  have "itmMachineInfos im = [m]"
    using machineInfosByIndex_get [OF assms(1) e] filter_key_singleton [OF d m(1)] m(2) by simp
  moreover from this have "steadyIndex im"
    using assms(2) m by (auto simp: steadyIndex_def steadyCluster_def list_all_iff)
  ultimately show ?thesis using m by (intro that) auto
qed

lemma steadyCluster_surge:
  assumes "machineInfosByIndex c infos = Inr mis"
  shows "deviseExistingSurge r (sortMachineInfosByIndex mis) = int (length infos) - sint r"
  using mset_eq_length [OF machineInfosByIndex_slice [OF assms]] by (simp add: deviseExistingSurge_eq)

lemma split_first:
  assumes "\<exists>x \<in> set xs. P x"
  obtains ys x zs where "xs = ys @ x # zs" and "P x" and "\<forall>y \<in> set ys. \<not> P y"
  using split_list_first_prop [OF assms] by auto

text \<open>With a machine for each replica, one per index, Ready and not being deleted, the cluster is steady.\<close>

lemma steady_by_index:
  assumes "specReplicas (cpmsSpecOf c) = Some r" and "sint r \<le> int (length infos)" and "length infos < 2 ^ 31"
    and d: "distinct (map Index infos)" and "list_all (\<lambda>m. Ready m \<and> \<not> isDeletedMachine m) infos"
  obtains mis where "machineInfosByIndex c infos = Inr mis" and "steadyCluster infos mis"
proof -
  let ?g = "foldl addToIndex [] infos"
  have "gm_get ?g i \<noteq> None \<longleftrightarrow> i \<in> Index ` set infos" for i
    by (auto simp: foldl_addToIndex_get filter_empty_conv image_iff)
  then have dom: "dom (gm_get ?g) = Index ` set infos" by blast
  have "length ?g = length infos"
    using gm_length_card [of ?g] d dom distinct_card [OF d] by (simp add: foldl_addToIndex_ok)
  then have "\<not> sint (int32len ?g) < sint r" using assms(2,3) by (simp add: int32len_def sint32_of_nat)
  then have "fillIndexes r 0 ?g = ?g" by (subst fillIndexes.simps) simp
  then have "machineInfosByIndex c infos = Inr ?g" using assms(1) by (simp add: machineInfosByIndex_def)
  moreover have "steadyCluster infos ?g" using d assms(5) dom by (simp add: steadyCluster_def dom_map_of_conv_image_fst)
  ultimately show thesis by (rule that)
qed

lemma updates_rest:
  assumes "machineInfosByIndex c infos = Inr mis" and "steadyCluster infos mis"
    and "list_all (\<lambda>m. \<not> NeedsUpdate m) infos"
    and "strategyType (cpmsSpecOf c) \<in> {RollingUpdate, OnDelete}"
  shows "reconcileMachineUpdates ops p ns c mis env = (Inr emptyResult, c, env)"
proof -
  let ?ims = "sortMachineInfosByIndex mis"
  have st: "steadyIndex im \<and> \<not> outdatedIndex im" if "im \<in> set ?ims" for im
  proof -
    from steadyCluster_steadyIndex [OF assms(1,2) that] obtain m where
      "m \<in> set infos" "itmMachineInfos im = [m]" "steadyIndex im" .
    with assms(3) show ?thesis by (auto simp: outdatedIndex_def list_all_iff)
  qed
  have "rollingUpdateLoop ops p ns maxSurgeOf ?ims s False env = (Inr False, s, env)" for s
    using st by (intro rollingUpdateLoop_steady) auto
  moreover have "onDeleteLoop ops p ?ims False env = (Inr False, env)"
    using st by (intro onDeleteLoop_steady) auto
  ultimately show ?thesis
    using assms(4) by (auto simp: reconcileMachineUpdates_def reconcileMachineRollingUpdate_def
        reconcileMachineOnDeleteUpdate_def loopResult_def Let_def)
qed

section \<open>Properties\<close>

text \<open>
  C27: quiescence. When every index has exactly one machine and all machines are Ready, up to date
  and not being deleted, both strategies make no provider call, ask for no requeue and leave the
  ControlPlaneMachineSet and the cluster unchanged.
\<close>

theorem updates_quiescent:
  assumes "machineInfosByIndex c infos = Inr mis" and "steadyCluster infos mis"
    and "list_all (\<lambda>m. \<not> NeedsUpdate m) infos"
    and "strategyType (cpmsSpecOf c) \<in> {RollingUpdate, OnDelete}"
  shows "reconcileMachineUpdates ops p ns c mis env = (Inr emptyResult, c, env)"
  using assms by (rule updates_rest)

definition simUpdated :: "machineInfo list" where
  "simUpdated = [simMachine ''m-0'' 0 True False 1 None, simMachine ''m-1'' 1 True False 2 None,
     simMachine ''m-2'' 2 True False 3 None]"

theorem updates_quiescent_witness:
  "\<exists>mis. machineInfosByIndex (simCpms OnDelete 3) simUpdated = Inr mis \<and> steadyCluster simUpdated mis \<and>
     list_all (\<lambda>m. \<not> NeedsUpdate m) simUpdated \<and>
     reconcileMachineUpdates simProvider () ''ns'' (simCpms OnDelete 3) mis (startEnv simUpdated) =
       (Inr emptyResult, simCpms OnDelete 3, startEnv simUpdated)"
proof -
  obtain mis where m: "machineInfosByIndex (simCpms OnDelete 3) simUpdated = Inr mis"
    by (cases "machineInfosByIndex (simCpms OnDelete 3) simUpdated")
      (auto simp: machineInfosByIndex_def simCpms_def)
  have "(case machineInfosByIndex (simCpms OnDelete 3) simUpdated of
      Inr x \<Rightarrow> steadyCluster simUpdated x | Inl e \<Rightarrow> False)" by code_simp
  with m have s: "steadyCluster simUpdated mis" by simp
  have u: "list_all (\<lambda>m. \<not> NeedsUpdate m) simUpdated" by code_simp
  have "strategyType (cpmsSpecOf (simCpms OnDelete 3)) \<in> {RollingUpdate, OnDelete}" by code_simp
  from updates_quiescent [OF m s u this, of simProvider "()" "''ns''" "startEnv simUpdated"] m s u
  show ?thesis by blast
qed

text \<open>
  A replacement starts. In a steady cluster with as many machines as replicas, of which some are
  outdated, a rolling update pass makes exactly one call: it creates a machine for the lowest
  outdated index. The provider must report no replacement there yet and accept the creation.
\<close>

lemma rolling_update_starts_lowest:
  assumes grp: "machineInfosByIndex c infos = Inr mis" and st: "steadyCluster infos mis"
    and n: "int (length infos) = sint (replicasOf c)"
    and i: "i = Min (Index ` {m \<in> set infos. NeedsUpdate m})" and "list_ex NeedsUpdate infos"
    and "checkForExistingReplacement ops p i w = (Inr False, w1)"
    and "mpCreateMachine ops p i w1 = (Inr (), w')"
  shows "reconcileMachineRollingUpdate ops p ns (replicasOf c) mis (startEnv w) =
           (Inr emptyResult, \<lparr>envWorld = w', envCalls = [CreateCalled i True]\<rparr>)"
proof -
  let ?ims = "sortMachineInfosByIndex mis"
  have cm: "createMachine ops p i (startEnv w) =
      (Inr (True, emptyResult), \<lparr>envWorld = w', envCalls = [CreateCalled i True]\<rparr>)"
    using assms(6,7) by (simp add: createMachine_def callCreateMachine_def onWorld_def startEnv_def)
  have out: "outdatedIndex im \<longleftrightarrow> (\<exists>m \<in> set infos. NeedsUpdate m \<and> Index m = itmIndex im)"
    if "im \<in> set ?ims" for im
  proof -
    from steadyCluster_steadyIndex [OF grp st that] obtain m where
      "m \<in> set infos" "itmMachineInfos im = [m]" "itmIndex im = Index m" .
    moreover have "x = m" if "x \<in> set infos" "Index x = Index m" for x
      using st that \<open>m \<in> set infos\<close> by (auto simp: steadyCluster_def dest: inj_onD simp: distinct_map)
    ultimately show ?thesis by (auto simp: outdatedIndex_def)
  qed
  have idx: "j \<in> set (map itmIndex ?ims) \<longleftrightarrow> j \<in> Index ` set infos" for j
    using st by (simp only: itmIndex_sortMachineInfosByIndex set_sort) (simp add: steadyCluster_def)
  have "i \<in> Index ` {m \<in> set infos. NeedsUpdate m}"
    unfolding i using assms(5) by (intro Min_in) (auto simp: list_ex_iff)
  then obtain m where m: "m \<in> set infos" "NeedsUpdate m" "Index m = i" by auto
  then have "i \<in> set (map itmIndex ?ims)" using idx by auto
  then obtain im0 where "im0 \<in> set ?ims" "itmIndex im0 = i" by auto
  then have "outdatedIndex im0" using m out [of im0] by auto
  with \<open>im0 \<in> set ?ims\<close> have "\<exists>x \<in> set ?ims. outdatedIndex x" by blast
  then obtain xs im ys where l: "?ims = xs @ im # ys" "outdatedIndex im" "\<forall>x \<in> set xs. \<not> outdatedIndex x"
    by (rule split_first)
  have sorted: "sorted_wrt (<) (map itmIndex ?ims)"
    using machineInfosByIndex_indexedOk [OF grp]
    by (intro sorted_sortMachineInfosByIndex) (simp add: indexedOk_def)
  have "itmIndex im = i"
  proof (rule antisym)
    have "im0 \<in> set (im # ys)"
      using l \<open>im0 \<in> set ?ims\<close> out [of im0] m \<open>itmIndex im0 = i\<close> by auto
    then show "itmIndex im \<le> i"
      using sorted \<open>itmIndex im0 = i\<close> by (auto simp: l(1) sorted_wrt_append)
    obtain x where "x \<in> set infos" "NeedsUpdate x" "Index x = itmIndex im"
      using l(1,2) out [of im] by auto
    then have "itmIndex im \<in> Index ` {m \<in> set infos. NeedsUpdate m}" by force
    then show "i \<le> itmIndex im" unfolding i by (intro Min_le) auto
  qed
  moreover have "\<forall>x \<in> set ?ims. steadyIndex x"
    using steadyCluster_steadyIndex [OF grp st] by metis
  ultimately have "rollingUpdateLoop ops p ns 1 ?ims 0 False (startEnv w) =
      (Inr False, 1, \<lparr>envWorld = w', envCalls = [CreateCalled i True]\<rparr>)"
    using l cm by (simp add: rollingUpdateLoop_first_outdated)
  then show ?thesis
    using n by (simp add: reconcileMachineRollingUpdate_def steadyCluster_surge [OF grp]
        maxSurgeOf_def loopResult_def)
qed


lemma rolling_update_starts_lowest_witness:
  "steadyCluster simInfos simIndexed \<and>
   reconcileMachineRollingUpdate simProvider () ''ns'' (replicasOf (simCpms RollingUpdate 3)) simIndexed
     (startEnv simInfos) =
   (Inr emptyResult, \<lparr>envWorld = simInfos @ [simMachine ''new-1'' 1 False False 9 None],
                      envCalls = [CreateCalled 1 True]\<rparr>)"
proof -
  have s: "steadyCluster simInfos simIndexed" by code_simp
  have n: "int (length simInfos) = sint (replicasOf (simCpms RollingUpdate 3))" by code_simp
  have i: "(1::int) = Min (Index ` {m \<in> set simInfos. NeedsUpdate m})"
  proof -
    have "{m \<in> set simInfos. NeedsUpdate m} = {simMachine ''m-1'' 1 True True 2 None}"
      by (auto simp: simInfos_def simMachine_def)
    then show ?thesis by (simp add: simMachine_def)
  qed
  have o: "list_ex NeedsUpdate simInfos" by code_simp
  have c: "checkForExistingReplacement simProvider () 1 simInfos = (Inr False, simInfos)" by code_simp
  have m: "mpCreateMachine simProvider () 1 simInfos =
      (Inr (), simInfos @ [simMachine ''new-1'' 1 False False 9 None])" by code_simp
  from rolling_update_starts_lowest [OF sim_by_index s n i o c m] s show ?thesis by blast
qed

text \<open>
  A replacement completes. Once the replacement of index i is Ready, the other indexes being
  steady and the set one machine over its replicas, a rolling update pass makes exactly one call: it
  deletes the outdated machine of index i. No other machine is created, even if other indexes are
  outdated.
\<close>

lemma rolling_update_deletes_replaced:
  assumes grp: "machineInfosByIndex c infos = Inr mis" and "(i, ms) \<in> set mis"
    and "\<forall>(j, xs) \<in> set mis. j = i \<or> steadyIndex \<lparr>itmIndex = j, itmMachineInfos = xs\<rparr>"
    and "replacedIndex \<lparr>itmIndex = i, itmMachineInfos = ms\<rparr> old" and "MachineRef old = Some ref"
    and n: "int (length infos) = sint (replicasOf c) + 1"
    and "mpDeleteMachine ops p ref w = (Inr (), w')"
  shows "reconcileMachineRollingUpdate ops p ns (replicasOf c) mis (startEnv w) =
           (Inr emptyResult, \<lparr>envWorld = w', envCalls = [DeleteCalled ref True]\<rparr>)"
proof -
  let ?ims = "sortMachineInfosByIndex mis" and ?im = "\<lparr>itmIndex = i, itmMachineInfos = ms\<rparr>"
  have dm: "callDeleteMachine ops p ref (startEnv w) =
      (Inr (), \<lparr>envWorld = w', envCalls = [DeleteCalled ref True]\<rparr>)"
    using assms(7) by (simp add: callDeleteMachine_def startEnv_def)
  have "?im \<in> set ?ims" using assms(2) by (simp add: mem_sortMachineInfosByIndex)
  then obtain xs ys where l: "?ims = xs @ ?im # ys" by (meson split_list)
  have "distinct (map itmIndex ?ims)"
    using machineInfosByIndex_indexedOk [OF grp] sorted_sortMachineInfosByIndex [of mis]
    by (simp add: indexedOk_def strict_sorted_iff)
  then have "itmIndex x \<noteq> i" if "x \<in> set (xs @ ys)" for x
    using that by (auto simp: l)
  moreover have "itmIndex x = i \<or> steadyIndex x" if "x \<in> set ?ims" for x
    using assms(3) that by (cases x) (auto simp: mem_sortMachineInfosByIndex)
  ultimately have "\<forall>x \<in> set (xs @ ys). steadyIndex x" by (auto simp: l)
  then have "rollingUpdateLoop ops p ns 1 ?ims 1 False (startEnv w) =
      (Inr False, 1, \<lparr>envWorld = w', envCalls = [DeleteCalled ref True]\<rparr>)"
    unfolding l using assms(4,5) dm by (intro rollingUpdateLoop_replaced) auto
  then show ?thesis
    using n by (simp add: reconcileMachineRollingUpdate_def steadyCluster_surge [OF grp]
        maxSurgeOf_def loopResult_def)
qed

definition simOld :: machineInfo where
  "simOld = simMachine ''m-1'' 1 True True 2 None"

definition simOldRef :: objectRef where
  "simOldRef = (case MachineRef simOld of Some r \<Rightarrow> r)"

lemma rolling_update_deletes_replaced_witness:
  "reconcileMachineRollingUpdate simProvider () ''ns'' (replicasOf (simCpms RollingUpdate 3))
     simReplacedIndexed (startEnv simReplaced) =
   (Inr emptyResult, \<lparr>envWorld = map (simDelete simOldRef) simReplaced,
                      envCalls = [DeleteCalled simOldRef True]\<rparr>)"
proof -
  let ?ms = "[simOld, simMachine ''m-1b'' 1 True False 4 None]"
  have e: "(1, ?ms) \<in> set simReplacedIndexed" by (simp add: simReplacedIndexed_def simOld_def)
  have s: "\<forall>(j, xs) \<in> set simReplacedIndexed. j = 1 \<or> steadyIndex \<lparr>itmIndex = j, itmMachineInfos = xs\<rparr>"
    by (simp add: simReplacedIndexed_def steadyIndex_def simMachine_def isDeletedMachine_def
        machineMeta_def emptyMeta_def)
  have r: "replacedIndex \<lparr>itmIndex = 1, itmMachineInfos = ?ms\<rparr> simOld"
    by (simp add: replacedIndex_def simOld_def simMachine_def isDeletedMachine_def machineMeta_def
        emptyMeta_def)
  have m: "MachineRef simOld = Some simOldRef" by (simp add: simOld_def simOldRef_def simMachine_def)
  have n: "int (length simReplaced) = sint (replicasOf (simCpms RollingUpdate 3)) + 1" by code_simp
  have d: "mpDeleteMachine simProvider () simOldRef simReplaced =
      (Inr (), map (simDelete simOldRef) simReplaced)" by (simp add: simProvider_def)
  show ?thesis
    by (rule rolling_update_deletes_replaced [OF simReplaced_by_index e s r m n d])
qed


section \<open>The on-delete strategy\<close>

lemma onDeleteIndex_emits:
  assumes "onDeleteIndex ops p im env = (r, env')"
  obtains cs where "emits env env' cs" and "deletedRefs cs = []"
    and "createdIndexes cs = [] \<or> createdIndexes cs = [itmIndex im] \<and>
           (itmMachineInfos im = [] \<or> (\<exists>m. itmMachineInfos im = [m] \<and> isDeletedMachine m))"
    and "stopsAtFailure r cs"
proof -
  let ?ms = "itmMachineInfos im"
  have one: "\<exists>m. ?ms = [m] \<and> isDeletedMachine m" if "length ?ms = 1" "isDeletedMachine (?ms ! 0)"
    using that by (cases ?ms) auto
  consider (none) "env' = env"
    | (some) r1 where "createMachine ops p (itmIndex im) env = (r1, env')" "isl r \<longleftrightarrow> isl r1"
        "?ms = [] \<or> (\<exists>m. ?ms = [m] \<and> isDeletedMachine m)"
    using assms one
    by (auto simp: onDeleteIndex_def createOnDeleteReplacementMachines_def Let_def
        split: if_splits prod.splits sum.splits)
  then show ?thesis
  proof cases
    case none
    then show ?thesis by (intro that [of "[]"]) auto
  next
    case some
    from createMachine_emits [OF some(1)] obtain cs where cs: "emits env env' cs" "deletedRefs cs = []"
      "createdIndexes cs = (case r1 of Inr (True, _) \<Rightarrow> [itmIndex im] | _ \<Rightarrow> [])"
      "stopsAtFailure r1 cs" .
    with some(2,3) show ?thesis
      by (intro that [of cs]) (auto simp: stopsAtFailure_def split: sum.splits bool.splits)
  qed
qed

lemma onDeleteLoop_emits:
  assumes "onDeleteLoop ops p ims q env = (r, env')"
  shows "\<exists>cs. emits env env' cs \<and> deletedRefs cs = [] \<and> subseq (createdIndexes cs) (map itmIndex ims) \<and>
    (\<forall>i \<in> set (createdIndexes cs). \<exists>im \<in> set ims. itmIndex im = i \<and>
       (itmMachineInfos im = [] \<or> (\<exists>m. itmMachineInfos im = [m] \<and> isDeletedMachine m))) \<and>
    stopsAtFailure r cs"
  using assms
proof (induction ims arbitrary: q env)
  case Nil
  then show ?case by (auto intro!: exI [of _ "[]"])
next
  case (Cons im ims)
  obtain r1 env1 where i: "onDeleteIndex ops p im env = (r1, env1)" by force
  from onDeleteIndex_emits [OF i] obtain cs where cs: "emits env env1 cs" "deletedRefs cs = []"
    "createdIndexes cs = [] \<or> createdIndexes cs = [itmIndex im] \<and>
       (itmMachineInfos im = [] \<or> (\<exists>m. itmMachineInfos im = [m] \<and> isDeletedMachine m))"
    "stopsAtFailure r1 cs" .
  show ?case
  proof (cases r1)
    case (Inl e)
    with i Cons.prems have "env' = env1" "r = Inl e" by auto
    with cs Inl show ?thesis by (intro exI [of _ cs]) (auto simp: stopsAtFailure_def)
  next
    case (Inr q1)
    with i Cons.prems have l: "onDeleteLoop ops p ims (q \<or> q1) env1 = (r, env')" by simp
    from Cons.IH [OF l] obtain ds where ds: "emits env1 env' ds" "deletedRefs ds = []"
      "subseq (createdIndexes ds) (map itmIndex ims)"
      "\<forall>i \<in> set (createdIndexes ds). \<exists>im \<in> set ims. itmIndex im = i \<and>
         (itmMachineInfos im = [] \<or> (\<exists>m. itmMachineInfos im = [m] \<and> isDeletedMachine m))"
      "stopsAtFailure r ds" by blast
    have "list_all succeeded cs" using cs(4) Inr by simp
    then have "stopsAtFailure r (cs @ ds)" using ds(5) by (rule stopsAtFailure_append)
    moreover have "subseq (createdIndexes (cs @ ds)) (map itmIndex (im # ims))"
      using cs(3) ds(3) by (auto intro: subseq_Cons2)
    ultimately show ?thesis
      using cs(2,3) ds(2,4) emits_trans [OF cs(1) ds(1)] by (intro exI [of _ "cs @ ds"]) auto
  qed
qed

lemma on_delete_calls:
  assumes "machineInfosByIndex c infos = Inr mis"
    and "reconcileMachineOnDeleteUpdate ops p mis (startEnv w) = (r, env')"
  shows "deletedRefs (envCalls env') = []" and "sorted_wrt (<) (createdIndexes (envCalls env'))"
    and "i \<in> set (createdIndexes (envCalls env')) \<Longrightarrow> i \<in> set (gm_keys mis) \<and>
       list_all isDeletedMachine (filter (\<lambda>m. Index m = i) infos) \<and>
       length (filter (\<lambda>m. Index m = i) infos) \<le> 1"
proof -
  let ?ims = "sortMachineInfosByIndex mis"
  obtain r1 where l: "onDeleteLoop ops p ?ims False (startEnv w) = (r1, env')"
    using assms(2) by (auto simp: reconcileMachineOnDeleteUpdate_def split: prod.splits)
  from onDeleteLoop_emits [OF l] obtain cs where cs: "emits (startEnv w) env' cs" "deletedRefs cs = []"
    "subseq (createdIndexes cs) (map itmIndex ?ims)"
    "\<forall>i \<in> set (createdIndexes cs). \<exists>im \<in> set ?ims. itmIndex im = i \<and>
       (itmMachineInfos im = [] \<or> (\<exists>m. itmMachineInfos im = [m] \<and> isDeletedMachine m))" by blast
  have e: "envCalls env' = cs" using cs(1) by (simp add: emits_def)
  have "sorted_wrt (<) (map itmIndex ?ims)"
    using machineInfosByIndex_indexedOk [OF assms(1)]
    by (intro sorted_sortMachineInfosByIndex) (simp add: indexedOk_def)
  then show "sorted_wrt (<) (createdIndexes (envCalls env'))" using cs(3) e sorted_wrt_subseq by blast
  show "deletedRefs (envCalls env') = []" using cs(2) e by simp
  have at: "filter (\<lambda>m. Index m = itmIndex im) infos = itmMachineInfos im \<and> itmIndex im \<in> set (gm_keys mis)"
    if "im \<in> set ?ims" for im
    using that machineInfosByIndex_get [OF assms(1), of "itmIndex im" "itmMachineInfos im"]
    by (force simp: mem_sortMachineInfosByIndex)
  show "i \<in> set (gm_keys mis) \<and> list_all isDeletedMachine (filter (\<lambda>m. Index m = i) infos) \<and>
      length (filter (\<lambda>m. Index m = i) infos) \<le> 1" if "i \<in> set (createdIndexes (envCalls env'))"
    using bspec [OF cs(4), of i] that at e by auto
qed

text \<open>
  The on-delete strategy leaves deletion to the user. A pass requests no deletion and creates at
  most one machine per index, only where the index has no machine or its only machine is being
  deleted.
\<close>

lemma on_delete_only_replaces_deleted:
  assumes "machineInfosByIndex c infos = Inr mis"
    and "reconcileMachineOnDeleteUpdate ops p mis (startEnv w) = (r, env')"
  shows "deletedRefs (envCalls env') = [] \<and> sorted_wrt (<) (createdIndexes (envCalls env')) \<and>
    (\<forall>i \<in> set (createdIndexes (envCalls env')).
       list_all isDeletedMachine (filter (\<lambda>m. Index m = i) infos) \<and>
       length (filter (\<lambda>m. Index m = i) infos) \<le> 1)"
  using on_delete_calls [OF assms] by blast

definition simDeleted :: "machineInfo list" where
  "simDeleted = [simMachine ''m-0'' 0 True False 1 None, simMachine ''m-1'' 1 True True 2 (Some 5),
     simMachine ''m-2'' 2 True True 3 None]"

lemma on_delete_only_replaces_deleted_witness:
  "\<exists>mis env' r. machineInfosByIndex (simCpms OnDelete 3) simDeleted = Inr mis \<and>
     reconcileMachineOnDeleteUpdate simProvider () mis (startEnv simDeleted) = (r, env') \<and>
     envCalls env' = [CreateCalled 1 True] \<and> deletedRefs (envCalls env') = [] \<and>
     sorted_wrt (<) (createdIndexes (envCalls env')) \<and>
     (\<forall>i \<in> set (createdIndexes (envCalls env')).
       list_all isDeletedMachine (filter (\<lambda>m. Index m = i) simDeleted) \<and>
       length (filter (\<lambda>m. Index m = i) simDeleted) \<le> 1)"
proof -
  obtain mis where m: "machineInfosByIndex (simCpms OnDelete 3) simDeleted = Inr mis"
    by (cases "machineInfosByIndex (simCpms OnDelete 3) simDeleted")
      (auto simp: machineInfosByIndex_def simCpms_def)
  obtain r env' where e: "reconcileMachineOnDeleteUpdate simProvider () mis (startEnv simDeleted) = (r, env')"
    by force
  have "(case machineInfosByIndex (simCpms OnDelete 3) simDeleted of Inl e \<Rightarrow> False
      | Inr mis \<Rightarrow> envCalls (snd (reconcileMachineOnDeleteUpdate simProvider () mis (startEnv simDeleted)))
          = [CreateCalled 1 True])" by code_simp
  with m e have "envCalls env' = [CreateCalled 1 True]" by simp
  with m e on_delete_only_replaces_deleted [OF m e] show ?thesis by blast
qed

section \<open>Strategies\<close>

text \<open>
  An unsupported strategy makes no provider call and returns no error: it sets the Degraded
  condition with reason InvalidStrategy and leaves every other condition as it was.
\<close>

lemma invalid_strategy_degrades:
  assumes "strategyType (cpmsSpecOf c) \<notin> {RollingUpdate, OnDelete}"
    and "reconcileMachineUpdates ops p ns c mis env = (r, c', env')"
  shows "r = Inr emptyResult \<and> env' = env \<and> cpmsSpecOf c' = cpmsSpecOf c \<and>
         IsStatusConditionTrue (conditionsOf c') conditionDegraded \<and>
         map_option condReason (FindStatusCondition (conditionsOf c') conditionDegraded)
           = Some reasonInvalidStrategy \<and>
         (\<forall>t. t \<noteq> conditionDegraded \<longrightarrow>
            FindStatusCondition (conditionsOf c') t = FindStatusCondition (conditionsOf c) t)"
proof -
  obtain m where "c' = setCondition (mkCondition conditionDegraded ConditionTrue reasonInvalidStrategy m 0) c"
    "r = Inr emptyResult" "env' = env"
    using assms by (auto simp: reconcileMachineUpdates_def Let_def split: if_splits)
  then show ?thesis
    using Find_SetStatusCondition_self [of "conditionsOf c"
        "mkCondition conditionDegraded ConditionTrue reasonInvalidStrategy m 0"]
    by (auto simp: condition_simps)
qed

lemma invalid_strategy_degrades_witness:
  "IsStatusConditionTrue (conditionsOf (fst (snd (reconcileMachineUpdates simProvider () ''ns''
     (simCpms Recreate 3) simIndexed (startEnv simInfos))))) conditionDegraded"
proof -
  have s: "strategyType (cpmsSpecOf (simCpms Recreate 3)) \<notin> {RollingUpdate, OnDelete}" by code_simp
  obtain r c' env' where e: "reconcileMachineUpdates simProvider () ''ns'' (simCpms Recreate 3) simIndexed
      (startEnv simInfos) = (r, c', env')" by (metis prod_cases3)
  from invalid_strategy_degrades [OF s e] e show ?thesis by simp
qed

section \<open>A replacement that is itself being deleted\<close>

definition simReplacementDeleted :: "machineInfo list" where
  "simReplacementDeleted = [simMachine ''m-0'' 0 True False 1 None, simMachine ''m-1'' 1 True True 2 None,
     simMachine ''m-1b'' 1 True False 4 (Some 5), simMachine ''m-2'' 2 True False 3 None]"

text \<open>
  A machine that is Ready and up to date counts as a replacement even while it is being deleted:
  here index 1 has an outdated Ready machine and an up to date one with a deletion timestamp, and
  the pass requests the deletion of the outdated machine, so every machine of the index is then
  being deleted.
\<close>

lemma rolling_update_deletes_last_undeleted:
  "case machineInfosByIndex (simCpms RollingUpdate 3) simReplacementDeleted of
     Inl e \<Rightarrow> False
   | Inr mis \<Rightarrow>
       (case reconcileMachineRollingUpdate simProvider () ''ns'' 3 mis (startEnv simReplacementDeleted) of
          (r, env') \<Rightarrow> list_all isDeletedMachine (filter (\<lambda>m. Index m = 1) (envWorld env')) \<and>
            list_ex (\<lambda>m. Index m = 1 \<and> Ready m \<and> \<not> isDeletedMachine m) simReplacementDeleted)"
  by code_simp

end
