(* ===== verification/Provider_Contract.thy ===== *)
theory Provider_Contract
  imports Update_Properties
begin

text \<open>
  The contract between the update strategies and a machine provider, as a locale. A provider shows
  its world through a view (the cluster); gathering information does not change the view, and each
  creation or deletion changes it as the two given relations allow. Under this contract a pass of the
  strategies changes the view by exactly the calls in its log, one after the other.
\<close>

section \<open>Runs of calls\<close>

inductive clusterRun ::
  "('k \<Rightarrow> int \<Rightarrow> bool \<Rightarrow> 'k \<Rightarrow> bool) \<Rightarrow> ('k \<Rightarrow> objectRef \<Rightarrow> bool \<Rightarrow> 'k \<Rightarrow> bool) \<Rightarrow>
   'k \<Rightarrow> providerCall list \<Rightarrow> 'k \<Rightarrow> bool"
  for creates deletes where
  run_Nil: "clusterRun creates deletes k [] k"
| run_Create: "creates k i ok k1 \<Longrightarrow> clusterRun creates deletes k1 cs k2 \<Longrightarrow>
    clusterRun creates deletes k (CreateCalled i ok # cs) k2"
| run_Delete: "deletes k ref ok k1 \<Longrightarrow> clusterRun creates deletes k1 cs k2 \<Longrightarrow>
    clusterRun creates deletes k (DeleteCalled ref ok # cs) k2"

inductive_simps run_Nil_iff [simp]: "clusterRun creates deletes k [] k'"
inductive_simps run_Create_iff [simp]: "clusterRun creates deletes k (CreateCalled i ok # cs) k'"
inductive_simps run_Delete_iff [simp]: "clusterRun creates deletes k (DeleteCalled ref ok # cs) k'"

lemma run_append:
  "clusterRun creates deletes k cs k1 \<Longrightarrow> clusterRun creates deletes k1 ds k2 \<Longrightarrow>
     clusterRun creates deletes k (cs @ ds) k2"
  by (induction rule: clusterRun.induct) auto

section \<open>The contract\<close>

locale machine_provider =
  fixes ops :: "('p, 'w) machineProvider" and view :: "'w \<Rightarrow> 'k"
    and creates :: "'k \<Rightarrow> int \<Rightarrow> bool \<Rightarrow> 'k \<Rightarrow> bool" and deletes :: "'k \<Rightarrow> objectRef \<Rightarrow> bool \<Rightarrow> 'k \<Rightarrow> bool"
  assumes infos_view: "mpGetMachineInfos ops p w = (r, w') \<Longrightarrow> view w' = view w"
    and create_view: "mpCreateMachine ops p i w = (ru, w') \<Longrightarrow> creates (view w) i (\<not> isl ru) (view w')"
    and delete_view: "mpDeleteMachine ops p ref w = (ru, w') \<Longrightarrow> deletes (view w) ref (\<not> isl ru) (view w')"
begin

text \<open>An environment leads to another by the calls it logs.\<close>

definition follows :: "'w env \<Rightarrow> 'w env \<Rightarrow> bool" where
  "follows env env' \<longleftrightarrow>
     (\<exists>cs. envCalls env' = envCalls env @ cs \<and>
           clusterRun creates deletes (view (envWorld env)) cs (view (envWorld env')))"

lemma follows_refl [simp]: "follows env env"
  by (simp add: follows_def)

lemma follows_trans: "follows e1 e2 \<Longrightarrow> follows e2 e3 \<Longrightarrow> follows e1 e3"
  unfolding follows_def by (metis append.assoc run_append)

lemma callCreateMachine_follows: "callCreateMachine ops p i env = (r, env') \<Longrightarrow> follows env env'"
  using create_view by (auto simp: callCreateMachine_def follows_def split: prod.splits)

lemma callDeleteMachine_follows: "callDeleteMachine ops p ref env = (r, env') \<Longrightarrow> follows env env'"
  using delete_view by (auto simp: callDeleteMachine_def follows_def split: prod.splits)

lemma check_follows: "onWorld (checkForExistingReplacement ops p i) env = (r, env') \<Longrightarrow> follows env env'"
  using infos_view
  by (fastforce simp: onWorld_def checkForExistingReplacement_def follows_def split: prod.splits sum.splits)

lemma createMachine_follows:
  assumes "createMachine ops p i env = (r, env')"
  shows "follows env env'"
proof -
  obtain rc env1 where c: "onWorld (checkForExistingReplacement ops p i) env = (rc, env1)" by force
  have "env' = env1 \<or> (\<exists>r'. callCreateMachine ops p i env1 = (r', env'))"
    using assms c by (auto simp: createMachine_def split: sum.splits bool.splits prod.splits)
  with check_follows [OF c] show ?thesis by (auto intro: follows_trans callCreateMachine_follows)
qed

lemma createMachineWithSurge_follows:
  "createMachineWithSurge ops p i mx s env = (r, s', env') \<Longrightarrow> follows env env'"
  by (auto simp: createMachineWithSurge_def split: if_splits prod.splits sum.splits intro: createMachine_follows)

lemma deleteReplacedMachines_follows:
  "deleteReplacedMachines ops p ns ms env = (r, env') \<Longrightarrow> follows env env'"
  by (auto simp: deleteReplacedMachines_def deleteMachine_def
      split: if_splits prod.splits sum.splits option.splits intro: callDeleteMachine_follows)

lemma createRollingUpdate_follows:
  "createRollingUpdateReplacementMachines ops p ms i mx s env = (r, s', env') \<Longrightarrow> follows env env'"
  by (auto simp: createRollingUpdateReplacementMachines_def Let_def
      split: if_splits prod.splits sum.splits intro: createMachineWithSurge_follows)

lemma rollingUpdateIndex_follows:
  assumes "rollingUpdateIndex ops p ns mx im s env = (r, s', env')"
  shows "follows env env'"
proof -
  obtain rd env1 where d: "deleteReplacedMachines ops p ns (itmMachineInfos im) env = (rd, env1)" by force
  have "env' = env1 \<or> (\<exists>rc sc. createRollingUpdateReplacementMachines ops p (itmMachineInfos im)
      (itmIndex im) mx s env1 = (rc, sc, env'))"
    using assms d by (auto simp: rollingUpdateIndex_def Let_def split: prod.splits sum.splits)
  with deleteReplacedMachines_follows [OF d] show ?thesis
    by (auto intro: follows_trans createRollingUpdate_follows)
qed

lemma rollingUpdateLoop_follows:
  "rollingUpdateLoop ops p ns mx ims s q env = (r, s', env') \<Longrightarrow> follows env env'"
proof (induction ims arbitrary: s q env)
  case (Cons im ims)
  obtain r1 s1 env1 where i: "rollingUpdateIndex ops p ns mx im s env = (r1, s1, env1)" by (rule prod_cases3)
  show ?case
  proof (cases r1)
    case (Inl e)
    with i Cons.prems rollingUpdateIndex_follows [OF i] show ?thesis by auto
  next
    case (Inr b)
    with i Cons.prems have "rollingUpdateLoop ops p ns mx ims s1 (q \<or> b) env1 = (r, s', env')" by simp
    from Cons.IH [OF this] rollingUpdateIndex_follows [OF i] show ?thesis by (blast intro: follows_trans)
  qed
qed simp

lemma onDeleteIndex_follows:
  "onDeleteIndex ops p im env = (r, env') \<Longrightarrow> follows env env'"
  by (auto simp: onDeleteIndex_def createOnDeleteReplacementMachines_def Let_def
      split: if_splits prod.splits sum.splits intro: createMachine_follows)

lemma onDeleteLoop_follows: "onDeleteLoop ops p ims q env = (r, env') \<Longrightarrow> follows env env'"
proof (induction ims arbitrary: q env)
  case (Cons im ims)
  obtain r1 env1 where i: "onDeleteIndex ops p im env = (r1, env1)" by force
  show ?case
  proof (cases r1)
    case (Inl e)
    with i Cons.prems onDeleteIndex_follows [OF i] show ?thesis by auto
  next
    case (Inr b)
    with i Cons.prems have "onDeleteLoop ops p ims (q \<or> b) env1 = (r, env')" by simp
    from Cons.IH [OF this] onDeleteIndex_follows [OF i] show ?thesis by (blast intro: follows_trans)
  qed
qed simp

text \<open>A pass of either strategy changes the cluster by the calls of its log and nothing else.\<close>

lemma reconcileMachineUpdates_run:
  assumes "reconcileMachineUpdates ops p ns c mis (startEnv w) = (r, c', env')"
  shows "clusterRun creates deletes (view w) (envCalls env') (view (envWorld env'))"
proof -
  have "follows (startEnv w) env'"
    using assms
    by (auto simp: reconcileMachineUpdates_def reconcileMachineRollingUpdate_def
        reconcileMachineOnDeleteUpdate_def Let_def split: if_splits prod.splits
        intro: rollingUpdateLoop_follows onDeleteLoop_follows)
  then show ?thesis by (simp add: follows_def startEnv_def)
qed

end

end
