(* ===== verification/Rollout_Course.thy ===== *)
theory Rollout_Course
  imports Rollout Provider_Contract
begin

text \<open>
  A rolling update over many passes. The state is the list of machines of the cluster; a step is one
  pass of the rolling update, through any provider, or an event of the cluster: a new machine becomes
  Ready, or a machine that is being deleted is gone. Passes may fail at any call. Under these steps
  every index keeps a Ready machine, the cluster never grows by more than one machine, and the
  rollout runs to its end.
\<close>

section \<open>What the calls of a pass do to the machines\<close>

text \<open>
  A created machine appears somewhere in the list, up to date, not being deleted and under a new name.
  A deletion sets the timestamp of the machine of that name, unless it is set. Failed calls change
  nothing.
\<close>

definition markDeleted :: "int \<Rightarrow> machineInfo \<Rightarrow> machineInfo" where
  "markDeleted t m =
     (case MachineRef m of
        None \<Rightarrow> m
      | Some ref \<Rightarrow>
          if isDeletedMachine m then m
          else m\<lparr>MachineRef := Some (ref\<lparr>refMeta := (refMeta ref)\<lparr>omDeletionTimestamp := Some t\<rparr>\<rparr>)\<rparr>)"

definition infosCreate :: "machineInfo list \<Rightarrow> int \<Rightarrow> bool \<Rightarrow> machineInfo list \<Rightarrow> bool" where
  "infosCreate ms i ok ms' \<longleftrightarrow>
     (if ok then (\<exists>xs m ys. ms = xs @ ys \<and> ms' = xs @ m # ys \<and> Index m = i \<and> hasRef m \<and>
                    \<not> NeedsUpdate m \<and> \<not> isDeletedMachine m \<and> machineName m \<notin> machineName ` set ms)
      else ms' = ms)"

definition infosDelete :: "machineInfo list \<Rightarrow> objectRef \<Rightarrow> bool \<Rightarrow> machineInfo list \<Rightarrow> bool" where
  "infosDelete ms ref ok ms' \<longleftrightarrow>
     (if ok then (\<exists>xs m ys t. ms = xs @ m # ys \<and> machineName m = omName (refMeta ref) \<and>
                    ms' = xs @ markDeleted t m # ys)
      else ms' = ms)"

text \<open>What happens in the cluster without the operator: a new machine becomes Ready, a deleted one is gone.\<close>

inductive clusterEvent :: "machineInfo list \<Rightarrow> machineInfo list \<Rightarrow> bool" where
  becomes_ready: "\<not> Ready m \<Longrightarrow> \<not> isDeletedMachine m \<Longrightarrow>
    clusterEvent (xs @ m # ys) (xs @ m\<lparr>Ready := True\<rparr> # ys)"
| gone: "isDeletedMachine m \<Longrightarrow> clusterEvent (xs @ m # ys) (xs @ ys)"

inductive rolloutStep ::
  "('p, 'w) machineProvider \<Rightarrow> string \<Rightarrow> cpms \<Rightarrow> machineInfo list \<Rightarrow> machineInfo list \<Rightarrow> bool"
  for ops ns c where
  pass: "machineInfosByIndex c ms = Inr mis \<Longrightarrow>
    reconcileMachineRollingUpdate ops p ns (replicasOf c) mis (startEnv w) = (r, env') \<Longrightarrow>
    clusterRun infosCreate infosDelete ms (envCalls env') ms' \<Longrightarrow> rolloutStep ops ns c ms ms'"
| cluster: "clusterEvent ms ms' \<Longrightarrow> rolloutStep ops ns c ms ms'"

section \<open>The invariant and the measure\<close>

definition currentAt :: "int \<Rightarrow> machineInfo list \<Rightarrow> machineInfo list" where
  "currentAt i ms = filter (\<lambda>m. Index m = i \<and> \<not> NeedsUpdate m) ms"

definition outdatedAt :: "int \<Rightarrow> machineInfo list \<Rightarrow> machineInfo list" where
  "outdatedAt i ms = filter (\<lambda>m. Index m = i \<and> NeedsUpdate m) ms"

definition availableAt :: "int \<Rightarrow> machineInfo list \<Rightarrow> bool" where
  "availableAt i ms \<longleftrightarrow> (\<exists>m \<in> set ms. Index m = i \<and> Ready m \<and> \<not> isDeletedMachine m)"

definition rolloutMachine :: "int set \<Rightarrow> machineInfo \<Rightarrow> bool" where
  "rolloutMachine I m \<longleftrightarrow> Index m \<in> I \<and> hasRef m \<and> (isDeletedMachine m \<longrightarrow> NeedsUpdate m)"

definition rolloutInv :: "int set \<Rightarrow> machineInfo list \<Rightarrow> bool" where
  "rolloutInv I ms \<longleftrightarrow>
     (\<forall>m \<in> set ms. rolloutMachine I m) \<and> distinct (map machineName ms) \<and>
     (\<forall>i \<in> I. length (currentAt i ms) \<le> 1 \<and> length (outdatedAt i ms) \<le> 1 \<and> availableAt i ms)"

text \<open>
  What is left to do: a replacement to create for each index without an up to date machine, machines
  to wait for, outdated machines to delete, and deleted machines to go.
\<close>

definition remaining :: "int set \<Rightarrow> machineInfo list \<Rightarrow> nat" where
  "remaining I ms =
     2 * card {i \<in> I. currentAt i ms = []}
     + length (filter (\<lambda>m. \<not> Ready m \<and> \<not> isDeletedMachine m) ms)
     + 2 * length (filter (\<lambda>m. NeedsUpdate m \<and> \<not> isDeletedMachine m) ms)
     + length (filter isDeletedMachine ms)"

lemma markDeleted_sel [simp]:
  "Index (markDeleted t m) = Index m" "Ready (markDeleted t m) = Ready m"
  "NeedsUpdate (markDeleted t m) = NeedsUpdate m" "machineName (markDeleted t m) = machineName m"
  "hasRef (markDeleted t m) = hasRef m"
  by (simp_all add: markDeleted_def machineName_def machineMeta_def hasRef_def split: option.splits)

lemma markDeleted_deleted: "hasRef m \<Longrightarrow> isDeletedMachine (markDeleted t m)"
  by (auto simp: markDeleted_def isDeletedMachine_def machineMeta_def hasRef_def split: option.splits)

lemma markDeleted_id: "isDeletedMachine m \<Longrightarrow> markDeleted t m = m"
  by (simp add: markDeleted_def split: option.splits)

lemma ready_sel [simp]:
  "machineName (m\<lparr>Ready := b\<rparr>) = machineName m" "hasRef (m\<lparr>Ready := b\<rparr>) = hasRef m"
  "isDeletedMachine (m\<lparr>Ready := b\<rparr>) = isDeletedMachine m"
  by (simp_all add: machineName_def machineMeta_def hasRef_def isDeletedMachine_def)

lemmas rollout_defs = rolloutInv_def rolloutMachine_def currentAt_def outdatedAt_def availableAt_def

lemma at_append [simp]:
  "currentAt i (xs @ ys) = currentAt i xs @ currentAt i ys"
  "outdatedAt i (xs @ ys) = outdatedAt i xs @ outdatedAt i ys"
  "availableAt i (xs @ ys) \<longleftrightarrow> availableAt i xs \<or> availableAt i ys"
  by (auto simp: rollout_defs)

lemma at_Cons [simp]:
  "currentAt i (m # ms) = (if Index m = i \<and> \<not> NeedsUpdate m then [m] else []) @ currentAt i ms"
  "outdatedAt i (m # ms) = (if Index m = i \<and> NeedsUpdate m then [m] else []) @ outdatedAt i ms"
  "availableAt i (m # ms) \<longleftrightarrow> Index m = i \<and> Ready m \<and> \<not> isDeletedMachine m \<or> availableAt i ms"
  by (auto simp: rollout_defs)

lemma card_less_subset: "finite A \<Longrightarrow> i \<in> A \<Longrightarrow> card {j \<in> A. P j \<and> j \<noteq> i} + (if P i then 1 else 0) = card {j \<in> A. P j}"
proof -
  assume "finite A" "i \<in> A"
  have "{j \<in> A. P j} = (if P i then insert i {j \<in> A. P j \<and> j \<noteq> i} else {j \<in> A. P j \<and> j \<noteq> i})"
    using \<open>i \<in> A\<close> by auto
  then show ?thesis using \<open>finite A\<close> by simp
qed

section \<open>Steps of the cluster\<close>

lemma ready_step:
  assumes "rolloutInv I (xs @ m # ys)" and "\<not> Ready m" and "\<not> isDeletedMachine m"
  shows "rolloutInv I (xs @ m\<lparr>Ready := True\<rparr> # ys)"
    and "remaining I (xs @ m\<lparr>Ready := True\<rparr> # ys) < remaining I (xs @ m # ys)"
proof -
  show "rolloutInv I (xs @ m\<lparr>Ready := True\<rparr> # ys)"
    using assms by (auto simp: rolloutInv_def rolloutMachine_def)
  show "remaining I (xs @ m\<lparr>Ready := True\<rparr> # ys) < remaining I (xs @ m # ys)"
    using assms by (simp add: remaining_def)
qed

lemma gone_step:
  assumes "rolloutInv I (xs @ m # ys)" and "isDeletedMachine m"
  shows "rolloutInv I (xs @ ys)" and "remaining I (xs @ ys) < remaining I (xs @ m # ys)"
proof -
  have n: "NeedsUpdate m" using assms by (simp add: rolloutInv_def rolloutMachine_def)
  show "rolloutInv I (xs @ ys)" using assms n by (auto simp: rolloutInv_def)
  show "remaining I (xs @ ys) < remaining I (xs @ m # ys)"
    using assms n by (simp add: remaining_def)
qed

section \<open>Calls of a pass\<close>

text \<open>What the invariant needs of a pass: the indexes it creates for, and the machines it deletes.\<close>

definition mayCreate :: "int set \<Rightarrow> machineInfo list \<Rightarrow> int \<Rightarrow> bool" where
  "mayCreate I ms i \<longleftrightarrow> i \<in> I \<and> currentAt i ms = []"

definition mayDelete :: "machineInfo list \<Rightarrow> objectRef \<Rightarrow> bool" where
  "mayDelete ms ref \<longleftrightarrow>
     (\<forall>m \<in> set ms. machineName m = omName (refMeta ref) \<longrightarrow>
        NeedsUpdate m \<and> (\<exists>u \<in> set ms. Index u = Index m \<and> Ready u \<and> \<not> NeedsUpdate u))"

lemma create_step:
  assumes "rolloutInv I ms" and "finite I" and "mayCreate I ms i" and "infosCreate ms i True ms'"
  shows "rolloutInv I ms'" and "remaining I ms' < remaining I ms" and "length ms' = Suc (length ms)"
    and "mayCreate I ms j \<Longrightarrow> j \<noteq> i \<Longrightarrow> mayCreate I ms' j"
    and "mayDelete ms ref \<Longrightarrow> omName (refMeta ref) \<in> machineName ` set ms \<Longrightarrow>
      mayDelete ms' ref \<and> omName (refMeta ref) \<in> machineName ` set ms'"
proof -
  from assms(4) obtain xs m ys where m: "ms = xs @ ys" "ms' = xs @ m # ys" "Index m = i" "hasRef m"
    "\<not> NeedsUpdate m" "\<not> isDeletedMachine m" "machineName m \<notin> machineName ` set ms"
    by (auto simp: infosCreate_def)
  have i: "i \<in> I" "currentAt i xs = []" "currentAt i ys = []"
    using assms(3) m(1) by (auto simp: mayCreate_def)
  show "rolloutInv I ms'"
    using assms(1) m i by (auto simp: rolloutInv_def rolloutMachine_def)
  have eq: "{j \<in> I. currentAt j ms' = []} = {j \<in> I. currentAt j ms = [] \<and> j \<noteq> i}"
    using m by auto
  have "card {j \<in> I. currentAt j ms' = []} + 1 = card {j \<in> I. currentAt j ms = []}"
    using card_less_subset [OF assms(2) i(1), of "\<lambda>j. currentAt j ms = []"] i m(1)
    by (simp add: eq)
  then have "Suc (card {j \<in> I. currentAt j (xs @ m # ys) = []}) = card {j \<in> I. currentAt j (xs @ ys) = []}"
    using m(1,2) by simp
  then show "remaining I ms' < remaining I ms"
    unfolding m(1,2) remaining_def using m(5,6) by (simp del: at_append at_Cons)
  show "length ms' = Suc (length ms)" using m by simp
  show "mayCreate I ms j \<Longrightarrow> j \<noteq> i \<Longrightarrow> mayCreate I ms' j"
    using m by (auto simp: mayCreate_def)
  show "mayDelete ms ref \<Longrightarrow> omName (refMeta ref) \<in> machineName ` set ms \<Longrightarrow>
      mayDelete ms' ref \<and> omName (refMeta ref) \<in> machineName ` set ms'"
    using m by (auto simp: mayDelete_def)
qed

lemma available_current:
  assumes "rolloutInv I ms" and "u \<in> set ms" and "Ready u" and "\<not> NeedsUpdate u"
  shows "Index u = i \<Longrightarrow> \<exists>x \<in> set ms. Index x = i \<and> Ready x \<and> \<not> isDeletedMachine x \<and> \<not> NeedsUpdate x"
  using assms by (auto simp: rolloutInv_def rolloutMachine_def)

lemma delete_step:
  assumes "rolloutInv I ms" and "mayDelete ms ref" and "infosDelete ms ref True ms'"
  shows "rolloutInv I ms'" and "ms' = ms \<or> remaining I ms' < remaining I ms" and "length ms' = length ms"
    and "mayCreate I ms j \<Longrightarrow> mayCreate I ms' j"
    and "mayDelete ms ref' \<Longrightarrow> mayDelete ms' ref'"
    and "machineName ` set ms' = machineName ` set ms"
proof -
  from assms(3) obtain xs m ys t where m: "ms = xs @ m # ys" "machineName m = omName (refMeta ref)"
    "ms' = xs @ markDeleted t m # ys" by (auto simp: infosDelete_def)
  from assms(2) m obtain u where u: "NeedsUpdate m" "u \<in> set ms" "Index u = Index m" "Ready u"
    "\<not> NeedsUpdate u" by (auto simp: mayDelete_def)
  then have av: "u \<in> set xs \<union> set ys" "\<not> isDeletedMachine u"
    using m assms(1) by (auto simp: rolloutInv_def rolloutMachine_def)
  have ref: "hasRef m" using assms(1) m by (simp add: rolloutInv_def rolloutMachine_def)
  have "availableAt (Index m) xs \<or> availableAt (Index m) ys"
    using av u by (auto simp: availableAt_def)
  then show "rolloutInv I ms'"
    using assms(1) m u(1) by (auto simp: rolloutInv_def rolloutMachine_def)
  have "remaining I (xs @ markDeleted t m # ys) < remaining I (xs @ m # ys)" if "\<not> isDeletedMachine m"
    using that u(1) markDeleted_deleted [OF ref, of t] by (simp add: remaining_def)
  then show "ms' = ms \<or> remaining I ms' < remaining I ms"
    using m markDeleted_id [of m t] by auto
  show "length ms' = length ms" using m by simp
  show "mayCreate I ms j \<Longrightarrow> mayCreate I ms' j" using m u(1) by (auto simp: mayCreate_def)
  show "machineName ` set ms' = machineName ` set ms" using m by auto
  show "mayDelete ms' ref'" if d: "mayDelete ms ref'"
    unfolding mayDelete_def
  proof (intro ballI impI)
    fix x assume x: "x \<in> set ms'" "machineName x = omName (refMeta ref')"
    then have "x \<in> set ms \<or> x = markDeleted t m" using m by auto
    then obtain y where y: "y \<in> set ms" "machineName y = machineName x" "Index y = Index x"
      "NeedsUpdate y = NeedsUpdate x" using m(1) by force
    with d x obtain v where v: "NeedsUpdate x" "v \<in> set ms" "Index v = Index x" "Ready v" "\<not> NeedsUpdate v"
      by (auto simp: mayDelete_def)
    moreover from v m u(1) have "v \<in> set ms'" by auto
    ultimately show "NeedsUpdate x \<and> (\<exists>u \<in> set ms'. Index u = Index x \<and> Ready u \<and> \<not> NeedsUpdate u)"
      by blast
  qed
qed

lemma run_step:
  assumes "clusterRun infosCreate infosDelete ms cs ms'" and "rolloutInv I ms" and "finite I"
    and "distinct (createdIndexes cs)" and "\<forall>i \<in> set (createdIndexes cs). mayCreate I ms i"
    and "\<forall>ref \<in> set (deletedRefs cs). mayDelete ms ref \<and> omName (refMeta ref) \<in> machineName ` set ms"
  shows "rolloutInv I ms' \<and> length ms' = length ms + length (createdIndexes cs) \<and>
    (ms' = ms \<or> remaining I ms' < remaining I ms)"
  using assms
proof (induction rule: clusterRun.induct)
  case (run_Nil k)
  then show ?case by simp
next
  case (run_Create ms i ok ms1 cs ms2)
  show ?case
  proof (cases ok)
    case True
    with run_Create.hyps run_Create.prems have c: "infosCreate ms i True ms1" "mayCreate I ms i" by auto
    note step = create_step [OF run_Create.prems(1,2) c(2,1)]
    have "rolloutInv I ms2 \<and> length ms2 = length ms1 + length (createdIndexes cs) \<and>
        (ms2 = ms1 \<or> remaining I ms2 < remaining I ms1)"
    proof (rule run_Create.IH [OF step(1) run_Create.prems(2)])
      from run_Create.prems(3,4) True have "i \<notin> set (createdIndexes cs)"
        and "\<forall>j \<in> set (createdIndexes cs). mayCreate I ms j" by auto
      then show "\<forall>j \<in> set (createdIndexes cs). mayCreate I ms1 j" using step(4) by metis
      show "\<forall>ref \<in> set (deletedRefs cs). mayDelete ms1 ref \<and> omName (refMeta ref) \<in> machineName ` set ms1"
        using run_Create.prems(5) step(5) by simp
    qed (use run_Create.prems(3) True in auto)
    with step(2,3) True show ?thesis by auto
  next
    case False
    with run_Create.hyps have "ms1 = ms" by (simp add: infosCreate_def)
    with run_Create False show ?thesis by simp
  qed
next
  case (run_Delete ms ref ok ms1 cs ms2)
  show ?case
  proof (cases ok)
    case True
    with run_Delete.hyps run_Delete.prems have d: "infosDelete ms ref True ms1" "mayDelete ms ref" by auto
    note step = delete_step [OF run_Delete.prems(1) d(2,1)]
    have "rolloutInv I ms2 \<and> length ms2 = length ms1 + length (createdIndexes cs) \<and>
        (ms2 = ms1 \<or> remaining I ms2 < remaining I ms1)"
      using run_Delete.prems step(1,4,5,6) by (intro run_Delete.IH) auto
    with step(2,3) show ?thesis by auto
  next
    case False
    with run_Delete.hyps have "ms1 = ms" by (simp add: infosDelete_def)
    with run_Delete False show ?thesis by simp
  qed
qed

section \<open>Passes\<close>

lemma rolloutInv_index:
  assumes "rolloutInv I ms"
  shows "Index ` set ms = I"
  using assms unfolding rolloutInv_def rolloutMachine_def availableAt_def by (intro equalityI subsetI) auto

text \<open>With a machine for each of as many indexes as replicas, no index is added.\<close>

lemma machineInfosByIndex_keys:
  assumes "machineInfosByIndex c ms = Inr mis" and "int (card (Index ` set ms)) = sint (replicasOf c)"
  shows "set (gm_keys mis) = Index ` set ms"
proof -
  from assms(1) obtain r where r: "specReplicas (cpmsSpecOf c) = Some r"
    "mis = fillIndexes r 0 (foldl addToIndex [] ms)"
    by (auto simp: machineInfosByIndex_def split: option.splits)
  let ?out = "foldl addToIndex [] ms"
  have dom: "dom (gm_get ?out) = Index ` set ms"
    by (auto simp: dom_def foldl_addToIndex_get filter_empty_conv split: if_splits)
  have "gm_ok ?out" by (rule foldl_addToIndex_ok) simp
  then have len: "int (length ?out) = sint r"
    using assms(2) r(1) dom by (simp add: gm_length_card replicasOf_def)
  then have "int (length ?out) < 2 ^ 31" using sint32_range(2) [of r] by simp
  then have "length ?out < 2 ^ 31" by simp
  then have "mis = ?out"
    using r(2) len by (subst (asm) fillIndexes.simps) (simp add: int32len_def sint32_of_nat)
  with dom show ?thesis by (simp only: gm_keys_dom)
qed

lemma length_filter_two:
  assumes "x \<in> set xs" and "y \<in> set xs" and "x \<noteq> y" and "P x" and "P y"
  shows "\<not> length (filter P xs) \<le> 1"
proof -
  from assms have "{x, y} \<subseteq> set (filter P xs)" by auto
  then have "card {x, y} \<le> card (set (filter P xs))" by (intro card_mono) simp_all
  with assms(3) card_length [of "filter P xs"] show ?thesis by simp
qed

lemma deletion_allowed:
  assumes inv: "rolloutInv I ms" and "deletionTarget (filter (\<lambda>m. Index m = i) ms) m ref"
  shows "mayDelete ms ref \<and> omName (refMeta ref) \<in> machineName ` set ms"
proof -
  let ?xs = "filter (\<lambda>m. Index m = i) ms"
  from assms(2) have m: "toDeleteMachine ?xs = Some m" "MachineRef m = Some ref"
    by (auto simp: deletionTarget_def)
  from toDeleteMachine_mem [OF m(1)] have mem: "m \<in> set ms" "Index m = i" by auto
  have name: "machineName m = omName (refMeta ref)" using m(2) by (simp add: machineName_def machineMeta_def)
  have I: "i \<in> I" "\<And>x. x \<in> set ms \<Longrightarrow> isDeletedMachine x \<Longrightarrow> NeedsUpdate x"
    and few: "length (currentAt i ms) \<le> 1" "length (outdatedAt i ms) \<le> 1" "availableAt i ms"
    using inv mem by (auto simp: rolloutInv_def rolloutMachine_def)
  have target: "NeedsUpdate m \<and> (\<exists>u \<in> set ms. Index u = Index m \<and> Ready u \<and> \<not> NeedsUpdate u)"
    using m(1)
  proof (cases rule: toDeleteMachine_cases)
    case excess
    have "length (updatedMachines ?xs) \<le> length (currentAt i ms)"
      by (simp add: updatedMachines_def currentAt_def length_filter_conv_card)
        (auto intro!: card_mono)
    with excess few show ?thesis by simp
  next
    case broken
    then have n: "NeedsUpdate m" using I(2) mem by auto
    from few(3) obtain u where u: "u \<in> set ms" "Index u = i" "Ready u" by (auto simp: availableAt_def)
    with broken have "u \<noteq> m" by auto
    with few(2) u n mem length_filter_two [of u ms m "\<lambda>m. Index m = i \<and> NeedsUpdate m"]
    have "\<not> NeedsUpdate u" by (auto simp: outdatedAt_def)
    with n u mem(2) show ?thesis by auto
  next
    case replaced
    then have n: "NeedsUpdate m" using I(2) mem by auto
    from replaced(2) obtain u where "u \<in> set (updatedMachines ?xs)"
      by (meson list.set_sel(1))
    with n mem(2) show ?thesis by (auto simp: updatedMachines_def)
  qed
  have "inj_on machineName (set ms)" using inv by (simp add: rolloutInv_def distinct_map)
  then have "x = m" if "x \<in> set ms" "machineName x = omName (refMeta ref)" for x
    using that mem(1) name by (metis inj_onD)
  then have "mayDelete ms ref" unfolding mayDelete_def using target by fast
  moreover have "omName (refMeta ref) \<in> machineName ` set ms" using mem(1) name by (metis imageI)
  ultimately show ?thesis ..
qed

lemma creation_allowed:
  assumes inv: "rolloutInv I ms" and "i \<in> I" and "replacementDue (filter (\<lambda>m. Index m = i) ms)"
  shows "mayCreate I ms i"
proof -
  have "availableAt i ms" using inv assms(2) by (simp add: rolloutInv_def)
  then have "filter (\<lambda>m. Index m = i) ms \<noteq> []" by (auto simp: availableAt_def filter_empty_conv)
  with assms(3) have none: "\<forall>m \<in> set ms. Index m = i \<longrightarrow> NeedsUpdate m \<or> isDeletedMachine m"
    by (auto simp: replacementDue_def updatedNonDeletedMachines_def pendingMachines_def filter_empty_conv)
  have "\<forall>m \<in> set ms. isDeletedMachine m \<longrightarrow> NeedsUpdate m"
    using inv by (auto simp: rolloutInv_def rolloutMachine_def)
  with none assms(2) show ?thesis by (auto simp: mayCreate_def currentAt_def filter_empty_conv)
qed

text \<open>The state of a rollout: the invariant, with at most one machine above the replica count.\<close>

definition rolloutState :: "cpms \<Rightarrow> int set \<Rightarrow> machineInfo list \<Rightarrow> bool" where
  "rolloutState c I ms \<longleftrightarrow> finite I \<and> int (card I) = sint (replicasOf c) \<and> rolloutInv I ms \<and>
     length ms \<le> card I + 1"

lemma pass_step:
  assumes st: "rolloutState c I ms" and grp: "machineInfosByIndex c ms = Inr mis"
    and "reconcileMachineRollingUpdate ops p ns (replicasOf c) mis (startEnv w) = (r, env')"
    and run: "clusterRun infosCreate infosDelete ms (envCalls env') ms'"
  shows "rolloutState c I ms' \<and> (ms' = ms \<or> remaining I ms' < remaining I ms)"
proof -
  from st have I: "finite I" "int (card I) = sint (replicasOf c)" "rolloutInv I ms" "length ms \<le> card I + 1"
    by (auto simp: rolloutState_def)
  have cs: "envCalls env' = rollingCalls ops p ns c mis w"
    using assms(3) by (simp add: rollingCalls_def)
  note facts = rollingCalls_facts [OF grp cs]
  have keys: "set (gm_keys mis) = I"
    using machineInfosByIndex_keys [OF grp] rolloutInv_index [OF I(3)] I(2) by simp
  have "distinct (createdIndexes (envCalls env'))"
    using facts(1) by (simp add: strict_sorted_iff)
  moreover have "\<forall>i \<in> set (createdIndexes (envCalls env')). mayCreate I ms i"
    using facts(2,5) keys creation_allowed [OF I(3)] by blast
  moreover have "\<forall>ref \<in> set (deletedRefs (envCalls env')).
      mayDelete ms ref \<and> omName (refMeta ref) \<in> machineName ` set ms"
    using facts(4) deletion_allowed [OF I(3)] by blast
  ultimately have "rolloutInv I ms' \<and> length ms' = length ms + length (createdIndexes (envCalls env')) \<and>
      (ms' = ms \<or> remaining I ms' < remaining I ms)"
    by (intro run_step [OF run I(3,1)])
  with I facts(3) show ?thesis by (auto simp: rolloutState_def)
qed

lemma rolloutStep_state:
  assumes "rolloutStep ops ns c ms ms'" and "rolloutState c I ms"
  shows "rolloutState c I ms' \<and> (ms' = ms \<or> remaining I ms' < remaining I ms)"
  using assms
proof (cases rule: rolloutStep.cases)
  case pass
  from pass_step [OF assms(2) pass] show ?thesis .
next
  case cluster
  then show ?thesis
  proof (cases rule: clusterEvent.cases)
    case (becomes_ready m xs ys)
    with assms(2) ready_step [of I xs m ys] show ?thesis by (simp add: rolloutState_def)
  next
    case (gone m xs ys)
    with assms(2) gone_step [of I xs m ys] show ?thesis by (simp add: rolloutState_def)
  qed
qed

lemma rollout_reachable:
  assumes "(rolloutStep ops ns c)\<^sup>*\<^sup>* ms ms'" and "rolloutState c I ms"
  shows "rolloutState c I ms'"
  using assms by (induction rule: rtranclp_induct) (auto dest: rolloutStep_state)

section \<open>Progress\<close>

text \<open>
  A provider that answers: its fresh reading shows the machines as they are, and it accepts creations
  and deletions.
\<close>

definition answers :: "('p, 'w) machineProvider \<Rightarrow> machineInfo list \<Rightarrow> bool" where
  "answers ops ms \<longleftrightarrow>
     (\<exists>p w p'. mpWithClient ops p UncachedClient w = Inr p' \<and> fst (mpGetMachineInfos ops p' w) = Inr ms \<and>
        (\<forall>i w'. fst (mpCreateMachine ops p i w') = Inr ()) \<and> (\<forall>ref w'. fst (mpDeleteMachine ops p ref w') = Inr ()))"

definition rolloutDone :: "int set \<Rightarrow> machineInfo list \<Rightarrow> bool" where
  "rolloutDone I ms \<longleftrightarrow> distinct (map Index ms) \<and> Index ` set ms = I \<and>
     (\<forall>m \<in> set ms. Ready m \<and> \<not> NeedsUpdate m \<and> \<not> isDeletedMachine m)"

definition stuck :: "('p, 'w) machineProvider \<Rightarrow> string \<Rightarrow> cpms \<Rightarrow> machineInfo list \<Rightarrow> bool" where
  "stuck ops ns c ms \<longleftrightarrow> (\<forall>ms'. rolloutStep ops ns c ms ms' \<longrightarrow> ms' = ms)"

lemma quiet_machines:
  assumes "\<And>ms'. clusterEvent ms ms' \<Longrightarrow> ms' = ms" and "m \<in> set ms"
  shows "Ready m \<and> \<not> isDeletedMachine m"
proof -
  from assms(2) obtain xs ys where l: "ms = xs @ m # ys" by (meson split_list)
  have d: "\<not> isDeletedMachine m"
  proof
    assume "isDeletedMachine m"
    then have "clusterEvent ms (xs @ ys)" unfolding l by (rule clusterEvent.gone)
    with assms(1) have "xs @ ys = ms" by simp
    then show False using l by simp
  qed
  have "Ready m"
  proof (rule ccontr)
    assume "\<not> Ready m"
    then have "clusterEvent ms (xs @ m\<lparr>Ready := True\<rparr> # ys)"
      unfolding l using d by (rule clusterEvent.becomes_ready)
    with assms(1) have "xs @ m\<lparr>Ready := True\<rparr> # ys = ms" by simp
    then have "Ready (m\<lparr>Ready := True\<rparr>) = Ready m" using l by simp
    then show False using \<open>\<not> Ready m\<close> by simp
  qed
  with d show ?thesis by simp
qed

lemma stuck_machines: "stuck ops ns c ms \<Longrightarrow> m \<in> set ms \<Longrightarrow> Ready m \<and> \<not> isDeletedMachine m"
  using quiet_machines [of ms m] rolloutStep.cluster [of ms _ ops ns c] by (auto simp: stuck_def)

text \<open>Machines beyond one per index, counted by what can be taken away without losing an index.\<close>

lemma spare_machines:
  assumes "distinct ms" and "X \<subseteq> set ms" and "Index ` (set ms - X) = I"
  shows "card I + card X \<le> length ms"
proof -
  have "card I \<le> card (set ms - X)" using assms(3) card_image_le [of "set ms - X" Index] by simp
  moreover have "finite X" using assms(2) by (rule finite_subset) simp
  then have "card (set ms - X) = card (set ms) - card X" using assms(2) by (rule card_Diff_subset)
  moreover have "card X \<le> card (set ms)" using assms(2) by (simp add: card_mono)
  ultimately show ?thesis using distinct_card [OF assms(1)] by linarith
qed

lemma image_minus_one: "f x = f y \<Longrightarrow> y \<in> A \<Longrightarrow> x \<noteq> y \<Longrightarrow> f ` (A - {x}) = f ` A"
  by (auto simp: image_iff)

lemma filter_eq_singleton:
  assumes "distinct xs" and "x \<in> set xs" and "P x" and "\<forall>y \<in> set xs. P y \<longrightarrow> y = x"
  shows "filter P xs = [x]"
proof -
  have s: "set (filter P xs) = {x}" unfolding set_filter using assms(2-4) by blast
  have "distinct (filter P xs)" using assms(1) by (rule distinct_filter)
  with distinct_card [OF this] s have "length (filter P xs) = 1" by simp
  then obtain y where y: "filter P xs = [y]" by (metis One_nat_def length_0_conv length_Suc_conv)
  then show ?thesis using s unfolding y by simp
qed

lemma filter_eq_pair:
  assumes "distinct xs" and "set (filter P xs) = {x, y}" and "x \<noteq> y"
  shows "filter P xs = [x, y] \<or> filter P xs = [y, x]"
proof -
  have "distinct (filter P xs)" using assms(1) by (rule distinct_filter)
  with distinct_card [OF this] have "length (filter P xs) = 2" using assms(2,3) by simp
  then obtain a b where "filter P xs = [a, b]"
    by (metis length_0_conv length_Suc_conv numeral_2_eq_2)
  with assms(2,3) show ?thesis by auto
qed

lemma indexes_exist:
  "specReplicas (cpmsSpecOf c) \<noteq> None \<Longrightarrow> \<exists>mis. machineInfosByIndex c ms = Inr mis"
  by (auto simp: machineInfosByIndex_def)

text \<open>An index under replacement: its two machines, and one machine everywhere else.\<close>

definition replacing :: "machineInfo list \<Rightarrow> machineInfo \<Rightarrow> machineInfo \<Rightarrow> bool" where
  "replacing ms old new \<longleftrightarrow> old \<in> set ms \<and> NeedsUpdate old \<and> new \<in> set ms \<and> \<not> NeedsUpdate new \<and>
     Index old = Index new"

lemma replacing_machines:
  assumes inv: "rolloutInv I ms" and rep: "replacing ms old new"
  shows "set (filter (\<lambda>m. Index m = Index old) ms) = {old, new}"
proof (rule set_eqI)
  fix x
  let ?i = "Index old"
  note r = rep [unfolded replacing_def]
  have "?i \<in> I" using rolloutInv_index [OF inv] r by auto
  then have few: "length (outdatedAt ?i ms) \<le> 1" "length (currentAt ?i ms) \<le> 1"
    using inv by (auto simp: rolloutInv_def)
  have "x = old \<or> x = new" if x: "x \<in> set ms" "Index x = ?i"
  proof (cases "NeedsUpdate x")
    case True
    then show ?thesis
      using few(1) length_filter_two [OF x(1), of old "\<lambda>m. Index m = ?i \<and> NeedsUpdate m"] x(2) r
      unfolding outdatedAt_def by blast
  next
    case False
    then show ?thesis
      using few(2) length_filter_two [OF x(1), of new "\<lambda>m. Index m = ?i \<and> \<not> NeedsUpdate m"] x(2) r
      unfolding currentAt_def by metis
  qed
  then have "x \<in> set (filter (\<lambda>m. Index m = ?i) ms) \<Longrightarrow> x \<in> {old, new}" by simp
  moreover have "{old, new} \<subseteq> set (filter (\<lambda>m. Index m = ?i) ms)" using r by simp
  ultimately show "x \<in> set (filter (\<lambda>m. Index m = ?i) ms) \<longleftrightarrow> x \<in> {old, new}" by blast
qed

lemma rolloutInv_distinct: "rolloutInv I ms \<Longrightarrow> distinct ms"
  by (auto simp: rolloutInv_def distinct_map)

lemma replacing_single:
  assumes inv: "rolloutInv I ms" and rep: "replacing ms old new" and len: "length ms \<le> card I + 1"
  shows "length ms = card I + 1"
    and "a \<in> set ms \<Longrightarrow> b \<in> set ms \<Longrightarrow> Index a = Index b \<Longrightarrow> Index a \<noteq> Index old \<Longrightarrow> a = b"
proof -
  note dist = rolloutInv_distinct [OF inv] and img = rolloutInv_index [OF inv]
  from rep have r: "old \<in> set ms" "new \<in> set ms" "Index old = Index new" "old \<noteq> new"
    by (auto simp: replacing_def)
  have cover: "Index ` (set ms - {old}) = I"
    using image_minus_one [OF r(3,2,4)] img by simp
  then show "length ms = card I + 1" using spare_machines [OF dist, of "{old}" I] r(1) len by simp
  show "a = b" if ab: "a \<in> set ms" "b \<in> set ms" "Index a = Index b" "Index a \<noteq> Index old"
  proof (rule ccontr)
    assume "a \<noteq> b"
    then have "Index ` (set ms - {old} - {a}) = I"
      using ab cover by (subst image_minus_one [of _ a b]) auto
    then have "Index ` (set ms - {old, a}) = I" by (simp add: Diff_insert2 [symmetric])
    moreover have "old \<noteq> a" using ab(3,4) by metis
    then have "card {old, a} = 2" by simp
    ultimately show False using spare_machines [OF dist, of "{old, a}" I] r(1) ab(1) len by simp
  qed
qed

lemma stuck_not_replaced:
  assumes st: "rolloutState c I ms" and spec: "specReplicas (cpmsSpecOf c) \<noteq> None"
    and ans: "answers ops ms" and stuck: "stuck ops ns c ms"
  shows "\<not> replacing ms old new"
proof
  assume rep: "replacing ms old new"
  let ?i = "Index old" and ?at = "\<lambda>j. filter (\<lambda>m. Index m = j) ms"
  from st have I: "int (card I) = sint (replicasOf c)" "rolloutInv I ms" "length ms \<le> card I + 1"
    by (auto simp: rolloutState_def)
  note dist = rolloutInv_distinct [OF I(2)] and img = rolloutInv_index [OF I(2)]
    and alive = stuck_machines [OF stuck] and one = replacing_single [OF I(2) rep I(3)]
  from rep have old: "old \<in> set ms" "NeedsUpdate old" and new: "new \<in> set ms" "\<not> NeedsUpdate new"
    by (auto simp: replacing_def)
  have pair: "?at ?i = [old, new] \<or> ?at ?i = [new, old]"
    using replacing_machines [OF I(2) rep] old new by (intro filter_eq_pair [OF dist]) auto
  obtain mis where grp: "machineInfosByIndex c ms = Inr mis" using indexes_exist [OF spec] ..
  note get = machineInfosByIndex_get [OF grp]
  have keys: "set (gm_keys mis) = I" using machineInfosByIndex_keys [OF grp] img I(1) by simp
  then have "?i \<in> set (gm_keys mis)" using img old(1) by auto
  then have entry: "(?i, ?at ?i) \<in> set mis" using get by auto
  have steady: "\<forall>(j, xs) \<in> set mis. j = ?i \<or> steadyIndex \<lparr>itmIndex = j, itmMachineInfos = xs\<rparr>"
  proof (clarify, rule ccontr)
    fix j xs assume e: "(j, xs) \<in> set mis" and j: "j \<noteq> ?i"
    assume not: "\<not> steadyIndex \<lparr>itmIndex = j, itmMachineInfos = xs\<rparr>"
    from e have "j \<in> set (gm_keys mis)" by force
    then have "j \<in> Index ` set ms" using keys img by simp
    then obtain m where m: "m \<in> set ms" "Index m = j" by blast
    then have "\<forall>y \<in> set ms. Index y = j \<longrightarrow> y = m" using one(2) j by metis
    then have "xs = [m]" using get [OF e] filter_eq_singleton [OF dist m(1)] m(2) by simp
    with not m alive [OF m(1)] show False by (simp add: steadyIndex_def)
  qed
  have repl: "replacedIndex \<lparr>itmIndex = ?i, itmMachineInfos = ?at ?i\<rparr> old"
    using pair old new alive [OF old(1)] alive [OF new(1)] by (auto simp: replacedIndex_def)
  obtain ref where ref: "MachineRef old = Some ref"
    using I(2) old by (auto simp: rolloutInv_def rolloutMachine_def hasRef_def)
  from ans obtain p w w' where del: "mpDeleteMachine ops p ref w = (Inr (), w')"
    unfolding answers_def by (metis prod.collapse)
  from old(1) obtain xs ys where l: "ms = xs @ old # ys" by (meson split_list)
  have "machineName old = omName (refMeta ref)" using ref by (simp add: machineName_def machineMeta_def)
  then have "infosDelete ms ref True (xs @ markDeleted 0 old # ys)"
    unfolding infosDelete_def using l by auto
  then have "rolloutStep ops ns c ms (xs @ markDeleted 0 old # ys)"
    using one(1) I(1) by (intro rolloutStep.pass [OF grp
      rolling_update_deletes_replaced [OF grp entry steady repl ref _ del]]) simp_all
  with stuck have "markDeleted 0 old = old" using l by (auto simp: stuck_def)
  moreover have "isDeletedMachine (markDeleted 0 old)" using ref by (simp add: markDeleted_deleted hasRef_def)
  ultimately show False using alive [OF old(1)] by simp
qed

text \<open>Without an index under replacement every index has one machine.\<close>

lemma one_each:
  assumes inv: "rolloutInv I ms" and none: "\<And>old new. \<not> replacing ms old new"
  shows "distinct (map Index ms)"
proof -
  have "inj_on Index (set ms)"
  proof (rule inj_onI, rule ccontr)
    fix a b assume ab: "a \<in> set ms" "b \<in> set ms" "Index a = Index b" "a \<noteq> b"
    have "Index a \<in> I" using rolloutInv_index [OF inv] ab(1) by auto
    then have few: "length (outdatedAt (Index a) ms) \<le> 1" "length (currentAt (Index a) ms) \<le> 1"
      using inv by (auto simp: rolloutInv_def)
    from none [of a b] none [of b a] ab have "NeedsUpdate a = NeedsUpdate b" by (auto simp: replacing_def)
    then show False
      using few ab(3) length_filter_two [OF ab(1,2,4), of "\<lambda>m. Index m = Index a \<and> NeedsUpdate m"]
        length_filter_two [OF ab(1,2,4), of "\<lambda>m. Index m = Index a \<and> \<not> NeedsUpdate m"]
      unfolding outdatedAt_def currentAt_def by metis
  qed
  then show ?thesis using rolloutInv_distinct [OF inv] by (simp add: distinct_map)
qed

text \<open>A machine that a creation may add.\<close>

definition newMachine :: "string \<Rightarrow> int \<Rightarrow> machineInfo" where
  "newMachine name i = simMachine name i False False 0 None"

lemma newMachine_sel [simp]:
  "Index (newMachine name i) = i" "hasRef (newMachine name i)" "\<not> NeedsUpdate (newMachine name i)"
  "\<not> isDeletedMachine (newMachine name i)" "machineName (newMachine name i) = name"
  by (simp_all add: newMachine_def simMachine_def hasRef_def isDeletedMachine_def machineName_def
      machineMeta_def emptyMeta_def)

lemma infosCreate_append:
  assumes "name \<notin> machineName ` set ms"
  shows "infosCreate ms i True (ms @ [newMachine name i])"
proof -
  let ?P = "\<lambda>xs m ys. ms = xs @ ys \<and> ms @ [newMachine name i] = xs @ m # ys \<and> Index m = i \<and> hasRef m \<and>
    \<not> NeedsUpdate m \<and> \<not> isDeletedMachine m \<and> machineName m \<notin> machineName ` set ms"
  have "?P ms (newMachine name i) []" using assms by simp
  then have "\<exists>xs m ys. ?P xs m ys" by (intro exI)
  then show ?thesis by (simp only: infosCreate_def if_True)
qed

lemma infosCreate_exists: "\<exists>m. infosCreate ms i True (ms @ [m])"
proof -
  obtain name where "name \<notin> machineName ` set ms"
    using ex_new_if_finite [OF infinite_UNIV_listI, of "machineName ` set ms"] by auto
  then have "infosCreate ms i True (ms @ [newMachine name i])" by (rule infosCreate_append)
  then show ?thesis ..
qed

lemma stuck_up_to_date:
  assumes st: "rolloutState c I ms" and spec: "specReplicas (cpmsSpecOf c) \<noteq> None"
    and ans: "answers ops ms" and stuck: "stuck ops ns c ms" and one: "distinct (map Index ms)"
  shows "\<not> list_ex NeedsUpdate ms"
proof
  assume ex: "list_ex NeedsUpdate ms"
  from st have I: "int (card I) = sint (replicasOf c)" "rolloutInv I ms"
    by (auto simp: rolloutState_def)
  note img = rolloutInv_index [OF I(2)]
  obtain mis where grp: "machineInfosByIndex c ms = Inr mis" using indexes_exist [OF spec] ..
  have keys: "set (gm_keys mis) = I" using machineInfosByIndex_keys [OF grp] img I(1) by simp
  have steady: "steadyCluster ms mis"
    using one keys img stuck_machines [OF stuck] by (simp add: steadyCluster_def list_all_iff)
  have n: "int (length ms) = sint (replicasOf c)"
    using distinct_card [OF one] img I(1) by simp
  define i where "i = Min (Index ` {m \<in> set ms. NeedsUpdate m})"
  have "i \<in> Index ` {m \<in> set ms. NeedsUpdate m}"
    unfolding i_def using ex by (intro Min_in) (auto simp: list_ex_iff)
  then obtain old where old: "old \<in> set ms" "NeedsUpdate old" "Index old = i" by auto
  have none: "\<not> list_ex (\<lambda>m. Index m = i \<and> \<not> NeedsUpdate m \<and> omDeletionTimestamp (machineMeta m) = None) ms"
    using one old by (auto simp: list_ex_iff distinct_map dest: inj_onD)
  from ans obtain p w p' w1 where "mpWithClient ops p UncachedClient w = Inr p'"
    "mpGetMachineInfos ops p' w = (Inr ms, w1)" and acc: "\<And>w'. fst (mpCreateMachine ops p i w') = Inr ()"
    unfolding answers_def by (metis prod.collapse)
  then have chk: "checkForExistingReplacement ops p i w = (Inr False, w1)"
    using none by (simp add: checkForExistingReplacement_def)
  obtain w2 where cr: "mpCreateMachine ops p i w1 = (Inr (), w2)"
    using acc [of w1] by (cases "mpCreateMachine ops p i w1") auto
  obtain m where "infosCreate ms i True (ms @ [m])" using infosCreate_exists ..
  then have "rolloutStep ops ns c ms (ms @ [m])"
    by (intro rolloutStep.pass [OF grp rolling_update_starts_lowest [OF grp steady n i_def ex chk cr]]) simp
  with stuck have "ms @ [m] = ms" unfolding stuck_def by blast
  then show False by simp
qed

lemma stuck_done:
  assumes "rolloutState c I ms" and "specReplicas (cpmsSpecOf c) \<noteq> None"
    and "answers ops ms" and "stuck ops ns c ms"
  shows "rolloutDone I ms"
proof -
  have inv: "rolloutInv I ms" using assms(1) by (simp add: rolloutState_def)
  have one: "distinct (map Index ms)"
    using stuck_not_replaced [OF assms] by (rule one_each [OF inv])
  from stuck_up_to_date [OF assms one] stuck_machines [OF assms(4)] rolloutInv_index [OF inv] one
  show ?thesis by (auto simp: rolloutDone_def list_ex_iff)
qed

section \<open>Properties\<close>

text \<open>
  Where a rollout starts: as many machines as replicas, one per index, all Ready and none being
  deleted, under distinct names. Any number of them may be outdated.
\<close>

definition rolloutStart :: "cpms \<Rightarrow> machineInfo list \<Rightarrow> bool" where
  "rolloutStart c ms \<longleftrightarrow> specReplicas (cpmsSpecOf c) \<noteq> None \<and> int (length ms) = sint (replicasOf c) \<and>
     distinct (map Index ms) \<and> distinct (map machineName ms) \<and>
     list_all (\<lambda>m. hasRef m \<and> Ready m \<and> \<not> isDeletedMachine m) ms"

lemma filter_le_one: "distinct (map f xs) \<Longrightarrow> length (filter (\<lambda>x. f x = k \<and> P x) xs) \<le> 1"
  by (induction xs) (auto simp: filter_empty_conv image_iff)

lemma rolloutStart_state:
  assumes "rolloutStart c ms"
  shows "rolloutState c (Index ` set ms) ms"
proof -
  note s = assms [unfolded rolloutStart_def]
  have "card (Index ` set ms) = length ms" using s distinct_card [of "map Index ms"] by simp
  moreover have "rolloutInv (Index ` set ms) ms"
    using s filter_le_one [of Index ms]
    by (auto simp: rolloutInv_def rolloutMachine_def currentAt_def outdatedAt_def availableAt_def list_all_iff)
  ultimately show ?thesis using s by (simp add: rolloutState_def)
qed

text \<open>
  C2: a rolling update never leaves an index without a Ready machine. However passes, failing calls
  and events of the cluster interleave, every index has a Ready machine that is not being deleted, no
  index is lost or added, and there is at most one machine more than at the start.
\<close>

theorem rollout_keeps_available:
  assumes "rolloutStart c ms" and "(rolloutStep ops ns c)\<^sup>*\<^sup>* ms ms'"
  shows "length ms' \<le> length ms + 1 \<and> Index ` set ms' = Index ` set ms \<and>
    (\<forall>i \<in> Index ` set ms. availableAt i ms')"
proof -
  have "card (Index ` set ms) = length ms"
    using assms(1) distinct_card [of "map Index ms"] by (simp add: rolloutStart_def)
  moreover have st: "rolloutState c (Index ` set ms) ms'"
    by (rule rollout_reachable [OF assms(2) rolloutStart_state [OF assms(1)]])
  ultimately show ?thesis
    using rolloutInv_index by (auto simp: rolloutState_def rolloutInv_def)
qed

lemma simInfos_start: "rolloutStart (simCpms RollingUpdate 3) simInfos"
  by code_simp

lemma simInfos_pass:
  "rolloutStep simProvider ''ns'' (simCpms RollingUpdate 3) simInfos (simInfos @ [newMachine ''new-1'' 1])"
proof (rule rolloutStep.pass [OF sim_by_index])
  let ?R = "reconcileMachineRollingUpdate simProvider () ''ns'' (replicasOf (simCpms RollingUpdate 3))
    simIndexed (startEnv simInfos)"
  show "?R = (fst ?R, snd ?R)" by simp
  have "envCalls (snd ?R) = [CreateCalled 1 True]" by code_simp
  moreover have "infosCreate simInfos 1 True (simInfos @ [newMachine ''new-1'' 1])"
    by (rule infosCreate_append) code_simp
  ultimately show "clusterRun infosCreate infosDelete simInfos (envCalls (snd ?R))
      (simInfos @ [newMachine ''new-1'' 1])" by simp
qed

theorem rollout_keeps_available_witness:
  "rolloutStep simProvider ''ns'' (simCpms RollingUpdate 3) simInfos (simInfos @ [newMachine ''new-1'' 1]) \<and>
   availableAt 1 (simInfos @ [newMachine ''new-1'' 1]) \<and> length (simInfos @ [newMachine ''new-1'' 1]) \<le> 4"
proof -
  have i: "1 \<in> Index ` set simInfos" and n: "length simInfos = 3" by code_simp+
  note reach = r_into_rtranclp [of "rolloutStep simProvider ''ns'' (simCpms RollingUpdate 3)", OF simInfos_pass]
  show ?thesis
    using rollout_keeps_available [OF simInfos_start reach] i n simInfos_pass
    by (simp only: simp_thms list.size length_append)
qed

text \<open>
  C1: a rollout comes to its end. With a provider that answers, no run makes infinitely many steps
  that change the cluster, and where no step changes it any more the rollout is done: each index has
  exactly one machine, Ready and up to date. From every state of the rollout this end can be reached.
\<close>

theorem rollout_completes:
  assumes "rolloutStart c ms" and "\<forall>xs. answers ops xs"
  shows "wf {(ms2, ms1). (rolloutStep ops ns c)\<^sup>*\<^sup>* ms ms1 \<and> rolloutStep ops ns c ms1 ms2 \<and> ms2 \<noteq> ms1} \<and>
    (\<forall>ms1. (rolloutStep ops ns c)\<^sup>*\<^sup>* ms ms1 \<longrightarrow>
       (stuck ops ns c ms1 \<longrightarrow> rolloutDone (Index ` set ms) ms1) \<and>
       (\<exists>ms2. (rolloutStep ops ns c)\<^sup>*\<^sup>* ms1 ms2 \<and> rolloutDone (Index ` set ms) ms2))"
proof -
  let ?I = "Index ` set ms" and ?step = "rolloutStep ops ns c"
  let ?R = "{(ms2, ms1). ?step\<^sup>*\<^sup>* ms ms1 \<and> ?step ms1 ms2 \<and> ms2 \<noteq> ms1}"
  have spec: "specReplicas (cpmsSpecOf c) \<noteq> None" using assms(1) by (simp add: rolloutStart_def)
  have st: "rolloutState c ?I ms1" if "?step\<^sup>*\<^sup>* ms ms1" for ms1
    using that rolloutStart_state [OF assms(1)] by (rule rollout_reachable)
  have "?R \<subseteq> measure (remaining ?I)" using st rolloutStep_state by (fastforce simp: in_measure)
  then have wf: "wf ?R" by (rule wf_subset [OF wf_measure])
  have stuck: "rolloutDone ?I ms1" if "?step\<^sup>*\<^sup>* ms ms1" "stuck ops ns c ms1" for ms1
    using stuck_done [OF st [OF that(1)] spec _ that(2)] assms(2) by blast
  have "\<exists>ms2. ?step\<^sup>*\<^sup>* ms1 ms2 \<and> rolloutDone ?I ms2" if "?step\<^sup>*\<^sup>* ms ms1" for ms1
    using wf that
  proof (induction ms1 rule: wf_induct_rule)
    case (less ms1)
    show ?case
    proof (cases "stuck ops ns c ms1")
      case True
      with stuck less.prems show ?thesis by blast
    next
      case False
      then obtain ms2 where s: "?step ms1 ms2" "ms2 \<noteq> ms1" by (auto simp: stuck_def)
      with less.prems have "?step\<^sup>*\<^sup>* ms ms2" by (meson rtranclp.rtrancl_into_rtrancl)
      with less.IH [of ms2] less.prems s obtain ms3 where "?step\<^sup>*\<^sup>* ms2 ms3" "rolloutDone ?I ms3" by auto
      with s(1) show ?thesis by (meson converse_rtranclp_into_rtranclp)
    qed
  qed
  with wf stuck show ?thesis by blast
qed

lemma simProvider_answers: "answers simProvider xs"
  unfolding answers_def by (rule exI [of _ "()"], rule exI [of _ xs]) (simp add: simProvider_def)

theorem rollout_completes_witness:
  "\<exists>ms. (rolloutStep simProvider ''ns'' (simCpms RollingUpdate 3))\<^sup>*\<^sup>* (simInfos @ [newMachine ''new-1'' 1]) ms \<and>
     rolloutDone {0, 1, 2} ms"
proof -
  have "Index ` set simInfos = {0, 1, 2}" by (auto simp: simInfos_def simMachine_def)
  moreover have "\<forall>xs. answers simProvider xs" by (simp add: simProvider_answers)
  ultimately show ?thesis
    using rollout_completes [OF simInfos_start, of simProvider "''ns''"] simInfos_pass by auto
qed

end
