(* ===== verification/OnDelete_Course.thy ===== *)
theory OnDelete_Course
  imports Rollout_Course
begin

text \<open>
  An on-delete update over many passes. A step is one pass of the on-delete strategy, through any
  provider and failing at any call, an event of the cluster, or a user who deletes a machine. Under these
  steps no index has more than one machine that is not being deleted, the operator takes no such machine
  away, and once the user stops, every deleted machine has its replacement.
\<close>

section \<open>Steps\<close>

inductive onDeleteStep :: "('p, 'w) machineProvider \<Rightarrow> cpms \<Rightarrow> machineInfo list \<Rightarrow> machineInfo list \<Rightarrow> bool"
  for ops c where
  pass: "machineInfosByIndex c ms = Inr mis \<Longrightarrow>
    reconcileMachineOnDeleteUpdate ops p mis (startEnv w) = (r, env') \<Longrightarrow>
    clusterRun infosCreate infosDelete ms (envCalls env') ms' \<Longrightarrow> onDeleteStep ops c ms ms'"
| cluster: "clusterEvent ms ms' \<Longrightarrow> onDeleteStep ops c ms ms'"

text \<open>The user deletes one of the machines of which \<open>P\<close> holds.\<close>

inductive userDeletes :: "(machineInfo \<Rightarrow> bool) \<Rightarrow> machineInfo list \<Rightarrow> machineInfo list \<Rightarrow> bool" for P where
  "P m \<Longrightarrow> \<not> isDeletedMachine m \<Longrightarrow> userDeletes P (xs @ m # ys) (xs @ markDeleted t m # ys)"

definition courseStep ::
  "('p, 'w) machineProvider \<Rightarrow> cpms \<Rightarrow> (machineInfo \<Rightarrow> bool) \<Rightarrow> machineInfo list \<Rightarrow> machineInfo list \<Rightarrow> bool" where
  "courseStep ops c P ms ms' \<longleftrightarrow> onDeleteStep ops c ms ms' \<or> userDeletes P ms ms'"

section \<open>The invariant and the measure\<close>

text \<open>The indexes of the replicas.\<close>

definition replicaIndexes :: "cpms \<Rightarrow> int set" where
  "replicaIndexes c = {0..<sint (replicasOf c)}"

definition keptAt :: "int \<Rightarrow> machineInfo list \<Rightarrow> machineInfo list" where
  "keptAt i ms = filter (\<lambda>m. Index m = i \<and> \<not> isDeletedMachine m) ms"

definition onDeleteInv :: "int set \<Rightarrow> machineInfo list \<Rightarrow> bool" where
  "onDeleteInv I ms \<longleftrightarrow> (\<forall>m \<in> set ms. Index m \<in> I \<and> hasRef m) \<and> distinct (map machineName ms) \<and>
     (\<forall>i \<in> I. length (keptAt i ms) \<le> 1)"

text \<open>What is left to do: creations, machines to become Ready, deletions of the user, machines to go.\<close>

definition toDo :: "int set \<Rightarrow> machineInfo list \<Rightarrow> nat" where
  "toDo I ms =
     2 * card {i \<in> I. keptAt i ms = []}
     + length (filter (\<lambda>m. \<not> Ready m \<and> \<not> isDeletedMachine m) ms)
     + 4 * length (filter (\<lambda>m. NeedsUpdate m \<and> \<not> isDeletedMachine m) ms)
     + length (filter isDeletedMachine ms)"

lemma keptAt_simps [simp]:
  "keptAt i [] = []" "keptAt i (xs @ ys) = keptAt i xs @ keptAt i ys"
  "keptAt i (m # ms) = (if Index m = i \<and> \<not> isDeletedMachine m then [m] else []) @ keptAt i ms"
  by (simp_all add: keptAt_def)

text \<open>The machines that are not being deleted, as the steps see them.\<close>

definition keptNames :: "machineInfo list \<Rightarrow> (string \<times> int \<times> bool) set" where
  "keptNames ms = (\<lambda>m. (machineName m, Index m, NeedsUpdate m)) ` {m \<in> set ms. \<not> isDeletedMachine m}"

lemma keptNames_simps [simp]:
  "keptNames (xs @ ys) = keptNames xs \<union> keptNames ys"
  "keptNames (m # ms) = (if isDeletedMachine m then {} else {(machineName m, Index m, NeedsUpdate m)}) \<union> keptNames ms"
  by (auto simp: keptNames_def)

section \<open>Events of the cluster and of the user\<close>

lemma clusterEvent_step:
  assumes "clusterEvent ms ms'" and "onDeleteInv I ms"
  shows "onDeleteInv I ms' \<and> toDo I ms' < toDo I ms \<and> keptNames ms' = keptNames ms"
  using assms
proof cases
  case (becomes_ready m xs ys)
  moreover have "{i \<in> I. keptAt i (xs @ m\<lparr>Ready := True\<rparr> # ys) = []} = {i \<in> I. keptAt i (xs @ m # ys) = []}"
    by auto
  ultimately show ?thesis using assms(2) by (auto simp: onDeleteInv_def toDo_def)
next
  case (gone m xs ys)
  then show ?thesis using assms(2) by (auto simp: onDeleteInv_def toDo_def)
qed

lemma userDeletes_step:
  assumes "userDeletes P ms ms'" and "onDeleteInv I ms" and "finite I"
  shows "onDeleteInv I ms'" and "keptNames ms' \<subseteq> keptNames ms" and "(\<And>m. P m \<Longrightarrow> NeedsUpdate m) \<Longrightarrow> toDo I ms' < toDo I ms"
proof -
  from assms(1) obtain m xs ys t where m: "ms = xs @ m # ys" "ms' = xs @ markDeleted t m # ys" "P m" "\<not> isDeletedMachine m"
    by cases auto
  have d: "isDeletedMachine (markDeleted t m)" using assms(2) m(1) by (auto simp: onDeleteInv_def intro: markDeleted_deleted)
  show "onDeleteInv I ms'" using assms(2) m d by (auto simp: onDeleteInv_def)
  show "keptNames ms' \<subseteq> keptNames ms" using m d by auto
  have "{i \<in> I. keptAt i ms' = []} \<subseteq> insert (Index m) {i \<in> I. keptAt i ms = []}" using m d by auto
  moreover have "finite (insert (Index m) {i \<in> I. keptAt i ms = []})" using assms(3) by simp
  ultimately have "card {i \<in> I. keptAt i ms' = []} \<le> card (insert (Index m) {i \<in> I. keptAt i ms = []})"
    by (intro card_mono)
  also have "\<dots> \<le> Suc (card {i \<in> I. keptAt i ms = []})" using assms(3) by (simp add: card_insert_if)
  finally have c: "card {i \<in> I. keptAt i ms' = []} \<le> Suc (card {i \<in> I. keptAt i ms = []})" .
  show "toDo I ms' < toDo I ms" if "\<And>m. P m \<Longrightarrow> NeedsUpdate m"
  proof -
    have "NeedsUpdate m" using that m(3) .
    with c m(4) d show ?thesis unfolding m(1,2) toDo_def by (simp del: keptAt_simps)
  qed
qed

section \<open>Passes\<close>

lemma created_step:
  assumes "onDeleteInv I ms" and "finite I" and "i \<in> I" and "keptAt i ms = []" and "infosCreate ms i True ms'"
  shows "onDeleteInv I ms'" and "toDo I ms' < toDo I ms" and "keptNames ms \<subseteq> keptNames ms'"
    and "j \<noteq> i \<Longrightarrow> keptAt j ms' = keptAt j ms"
    and "{x \<in> keptNames ms'. snd (snd x)} = {x \<in> keptNames ms. snd (snd x)}"
proof -
  from assms(5) obtain xs m ys where m: "ms = xs @ ys" "ms' = xs @ m # ys" "Index m = i" "hasRef m"
    "\<not> NeedsUpdate m" "\<not> isDeletedMachine m" "machineName m \<notin> machineName ` set ms"
    by (auto simp: infosCreate_def)
  show "onDeleteInv I ms'" using assms(1,3,4) m by (auto simp: onDeleteInv_def)
  show "keptNames ms \<subseteq> keptNames ms'" using m by auto
  show "{x \<in> keptNames ms'. snd (snd x)} = {x \<in> keptNames ms. snd (snd x)}" using m by auto
  show "j \<noteq> i \<Longrightarrow> keptAt j ms' = keptAt j ms" using m by simp
  have "{j \<in> I. keptAt j ms' = []} = {j \<in> I. keptAt j ms = [] \<and> j \<noteq> i}" using m by auto
  then have "card {j \<in> I. keptAt j ms' = []} + 1 = card {j \<in> I. keptAt j ms = []}"
    using card_less_subset [OF assms(2,3), of "\<lambda>j. keptAt j ms = []"] assms(4) by simp
  then show "toDo I ms' < toDo I ms" unfolding m(1,2) toDo_def using m(5,6) by (simp del: keptAt_simps)
qed

lemma created_run:
  assumes "clusterRun infosCreate infosDelete ms cs ms'" and "onDeleteInv I ms" and "finite I" and "deletedRefs cs = []"
    and "distinct (createdIndexes cs)" and "\<forall>i \<in> set (createdIndexes cs). i \<in> I \<and> keptAt i ms = []"
  shows "onDeleteInv I ms' \<and> (ms' = ms \<or> toDo I ms' < toDo I ms) \<and> keptNames ms \<subseteq> keptNames ms' \<and>
    {x \<in> keptNames ms'. snd (snd x)} = {x \<in> keptNames ms. snd (snd x)} \<and>
    length ms' = length ms + length (createdIndexes cs)"
  using assms
proof (induction rule: clusterRun.induct)
  case (run_Create ms i ok ms1 cs ms2)
  show ?case
  proof (cases ok)
    case True
    with run_Create.hyps run_Create.prems have c: "infosCreate ms i True ms1" "i \<in> I" "keptAt i ms = []" by auto
    note step = created_step [OF run_Create.prems(1,2) c(2,3,1)]
    have l: "length ms1 = Suc (length ms)" using c(1) by (auto simp: infosCreate_def)
    have "\<forall>j \<in> set (createdIndexes cs). j \<in> I \<and> keptAt j ms1 = []"
      using run_Create.prems(4,5) True step(4) by (metis createdIndexes.simps(2) distinct.simps(2) list.set_intros(2))
    with run_Create.IH [OF step(1) run_Create.prems(2)] run_Create.prems(3,4) True
    show ?thesis using step(2,3,5) l by auto
  next
    case False
    with run_Create.hyps have "ms1 = ms" by (simp add: infosCreate_def)
    with run_Create False show ?thesis by simp
  qed
qed simp_all

text \<open>Grouping machines whose indexes are those of the replicas gives exactly these indexes.\<close>

lemma replica_keys_length:
  assumes "gm_ok out" and "set (gm_keys out) \<subseteq> {0..<sint (r :: 32 word)}"
  shows "int (length out) \<le> max 0 (sint r)" and "length out < 2 ^ 31"
proof -
  have "card (set (gm_keys out)) \<le> card {0..<sint r}" using assms(2) by (intro card_mono) simp_all
  then show l: "int (length out) \<le> max 0 (sint r)"
    using assms(1) distinct_card [of "gm_keys out"] by (simp add: gm_ok_def)
  have "max 0 (sint r) < 2 ^ 31" using sint32_range(2) [of r] by simp
  with l have "int (length out) < 2 ^ 31" by (rule le_less_trans)
  then show "length out < 2 ^ 31" by simp
qed

lemma fillIndexes_keys:
  assumes "gm_ok out" and "set (gm_keys out) \<subseteq> {0..<sint r}" and "0 \<le> i"
    and "\<And>k. 0 \<le> k \<Longrightarrow> k < i \<Longrightarrow> gm_get out k \<noteq> None"
  shows "set (gm_keys (fillIndexes r i out)) \<subseteq> {0..<sint r}"
  using assms
proof (induction r i out rule: fillIndexes.induct)
  case (1 r i out)
  show ?case
  proof (cases "sint (int32len out) < sint r")
    case True
    let ?out = "if gm_get out i = None then gm_put i [] out else out"
    note len = replica_keys_length(2) [OF "1.prems"(1,2)]
    have i: "i < sint r" by (rule fillIndexes_counter [OF "1.prems"(1) len "1.prems"(3,4) True])
    have "set (gm_keys (fillIndexes r (i + 1) ?out)) \<subseteq> {0..<sint r}"
    proof (rule "1.IH" [OF True])
      show "gm_ok ?out" using "1.prems"(1) by simp
      show "set (gm_keys ?out) \<subseteq> {0..<sint r}" 
        using "1.prems"(2,3) i unfolding gm_keys_dom by (auto simp: gm_get_put dom_def split: if_splits)
      show "gm_get ?out k \<noteq> None" if "0 \<le> k" "k < i + 1" for k
        using that "1.prems"(4) [of k] by (cases "k = i") (auto simp: gm_get_put)
    qed (use "1.prems"(3) in simp)
    then show ?thesis using True by (subst fillIndexes.simps) simp
  next
    case False
    then show ?thesis using "1.prems"(2) by (subst fillIndexes.simps) simp
  qed
qed

lemma grouped_keys:
  assumes "machineInfosByIndex c ms = Inr mis" and "Index ` set ms \<subseteq> replicaIndexes c"
  shows "set (gm_keys mis) = replicaIndexes c"
proof -
  from assms(1) obtain r where r: "specReplicas (cpmsSpecOf c) = Some r"
    "mis = fillIndexes r 0 (foldl addToIndex [] ms)"
    by (auto simp: machineInfosByIndex_def split: option.splits)
  let ?out = "foldl addToIndex [] ms"
  have ok: "gm_ok ?out" by (rule foldl_addToIndex_ok) simp
  have I: "replicaIndexes c = {0..<sint r}" using r(1) by (simp add: replicaIndexes_def replicasOf_def)
  have "set (gm_keys ?out) = Index ` set ms"
    unfolding gm_keys_dom by (auto simp: dom_def foldl_addToIndex_get filter_empty_conv split: if_splits)
  then have sub: "set (gm_keys ?out) \<subseteq> {0..<sint r}" using assms(2) I by simp
  then have keys: "set (gm_keys mis) \<subseteq> {0..<sint r}"
    unfolding r(2) using ok by (intro fillIndexes_keys) simp_all
  have "int (length mis) = max (int (length ?out)) (sint r)"
    unfolding r(2) by (rule fillIndexes_length [OF replica_keys_length(2) [OF ok sub]])
  then have "sint r \<le> int (length mis)" by simp
  moreover have "distinct (gm_keys mis)" using fillIndexes_ok [OF ok] r(2) by (simp add: gm_ok_def)
  ultimately have "card {0..<sint r} \<le> card (set (gm_keys mis))" using distinct_card [of "gm_keys mis"] by simp
  then have "set (gm_keys mis) = {0..<sint r}" using keys by (intro card_seteq) simp_all
  then show ?thesis using I by simp
qed

lemma onDeleteStep_inv:
  assumes "onDeleteStep ops c ms ms'" and inv: "onDeleteInv (replicaIndexes c) ms"
  shows "onDeleteInv (replicaIndexes c) ms' \<and> (ms' = ms \<or> toDo (replicaIndexes c) ms' < toDo (replicaIndexes c) ms) \<and>
    keptNames ms \<subseteq> keptNames ms' \<and> {x \<in> keptNames ms'. snd (snd x)} = {x \<in> keptNames ms. snd (snd x)}"
  using assms(1)
proof cases
  case (pass mis p w r env')
  have keys: "set (gm_keys mis) = replicaIndexes c"
    using inv by (intro grouped_keys [OF pass(1)]) (auto simp: onDeleteInv_def)
  note only = on_delete_calls [OF pass(1,2)]
  have "\<forall>i \<in> set (createdIndexes (envCalls env')). i \<in> replicaIndexes c \<and> keptAt i ms = []"
    using only(3) keys by (fastforce simp: keptAt_def list_all_iff filter_empty_conv)
  moreover have "distinct (createdIndexes (envCalls env'))" using only(2) by (simp add: strict_sorted_iff)
  moreover have "finite (replicaIndexes c)" by (simp add: replicaIndexes_def)
  ultimately show ?thesis using created_run [OF pass(3) inv _ only(1)] by blast
next
  case cluster
  with clusterEvent_step [OF cluster inv] show ?thesis by auto
qed

section \<open>Progress\<close>

text \<open>Neither the operator nor the cluster changes the machines any more.\<close>

definition settled :: "('p, 'w) machineProvider \<Rightarrow> cpms \<Rightarrow> machineInfo list \<Rightarrow> bool" where
  "settled ops c ms \<longleftrightarrow> (\<forall>ms'. onDeleteStep ops c ms ms' \<longrightarrow> ms' = ms)"

lemma creations_run: "deletedRefs cs = [] \<Longrightarrow> \<exists>ms'. clusterRun infosCreate infosDelete ms cs ms'"
proof (induction cs arbitrary: ms rule: deletedRefs.induct)
  case (2 i ok cs)
  have "infosCreate ms i False ms" by (simp add: infosCreate_def)
  then obtain ms1 where c: "infosCreate ms i ok ms1" using infosCreate_exists [of ms i] by (metis (full_types))
  from 2 obtain ms2 where "clusterRun infosCreate infosDelete ms1 cs ms2" by auto
  with c have "clusterRun infosCreate infosDelete ms (CreateCalled i ok # cs) ms2" by (rule clusterRun.run_Create)
  then show ?case by blast
qed auto

lemma onDeleteLoop_append:
  "onDeleteLoop ops p xs q env = (Inr q', env') \<Longrightarrow> onDeleteLoop ops p (xs @ ys) q env = onDeleteLoop ops p ys q' env'"
  by (induction xs arbitrary: q env) (auto split: prod.splits sum.splits)

text \<open>The first index without a machine gets one, whatever the pass does afterwards.\<close>

lemma first_missing_created:
  assumes grp: "machineInfosByIndex c ms = Inr mis" and ans: "answers ops ms" and i: "(i, []) \<in> set mis"
    and quiet: "\<forall>m \<in> set ms. Ready m \<and> \<not> isDeletedMachine m" and one: "distinct (map Index ms)"
  shows "\<exists>p w r env'. reconcileMachineOnDeleteUpdate ops p mis (startEnv w) = (r, env') \<and> createdIndexes (envCalls env') \<noteq> []"
proof -
  let ?ims = "sortMachineInfosByIndex mis"
  have "\<exists>im \<in> set ?ims. itmMachineInfos im = []"
    using i by (auto simp: mem_sortMachineInfosByIndex intro: bexI [of _ "\<lparr>itmIndex = i, itmMachineInfos = []\<rparr>"])
  then obtain xs im ys where l: "?ims = xs @ im # ys" "itmMachineInfos im = []" "\<forall>x \<in> set xs. itmMachineInfos x \<noteq> []"
    by (auto dest!: split_list_first_prop)
  have at: "itmMachineInfos x = filter (\<lambda>m. Index m = itmIndex x) ms" if "x \<in> set ?ims" for x
    using that machineInfosByIndex_get [OF grp, of "itmIndex x" "itmMachineInfos x"] by (simp add: mem_sortMachineInfosByIndex)
  have distinct: "distinct ms" using one by (simp add: distinct_map)
  have steady: "steadyIndex x" if x: "x \<in> set xs" for x
  proof -
    have f: "itmMachineInfos x = filter (\<lambda>m. Index m = itmIndex x) ms" using at l(1) x by simp
    have "filter (\<lambda>m. Index m = itmIndex x) ms \<noteq> []" using l(3) x unfolding f [symmetric] by blast
    then obtain m where m: "m \<in> set ms" "Index m = itmIndex x" unfolding filter_empty_conv by blast
    have u: "\<forall>y \<in> set ms. Index y = itmIndex x \<longrightarrow> y = m" using one m by (metis distinct_map inj_onD)
    have "itmMachineInfos x = [m]"
      unfolding f by (rule filter_eq_singleton [of ms m "\<lambda>m. Index m = itmIndex x", OF distinct m u])
    with quiet m show ?thesis by (simp add: steadyIndex_def)
  qed
  have none: "\<not> list_ex (\<lambda>m. Index m = itmIndex im \<and> \<not> NeedsUpdate m \<and> omDeletionTimestamp (machineMeta m) = None) ms"
  proof -
    have "filter (\<lambda>m. Index m = itmIndex im) ms = []" using at [of im] l(1,2) by simp
    then show ?thesis unfolding filter_empty_conv list_ex_iff by blast
  qed
  from ans obtain p w p' w1 where "mpWithClient ops p UncachedClient w = Inr p'" "mpGetMachineInfos ops p' w = (Inr ms, w1)"
    and acc: "\<And>j w'. fst (mpCreateMachine ops p j w') = Inr ()"
    unfolding answers_def by (metis prod.collapse)
  then have chk: "checkForExistingReplacement ops p (itmIndex im) w = (Inr False, w1)"
    using none by (simp add: checkForExistingReplacement_def)
  obtain w2 where cr: "mpCreateMachine ops p (itmIndex im) w1 = (Inr (), w2)"
    using acc [of "itmIndex im" w1] by (cases "mpCreateMachine ops p (itmIndex im) w1") auto
  let ?env = "\<lparr>envWorld = w2, envCalls = [CreateCalled (itmIndex im) True]\<rparr>"
  have new: "createMachine ops p (itmIndex im) (startEnv w) = (Inr (True, emptyResult), ?env)"
    using chk cr by (simp add: createMachine_def onWorld_def callCreateMachine_def startEnv_def)
  obtain q where idx: "onDeleteIndex ops p im (startEnv w) = (Inr q, ?env)"
    using new l(2) by (simp add: onDeleteIndex_def createOnDeleteReplacementMachines_def)
  have "onDeleteLoop ops p xs False (startEnv w) = (Inr False, startEnv w)" using steady by (intro onDeleteLoop_steady) simp
  from onDeleteLoop_append [OF this] idx have run: "onDeleteLoop ops p ?ims False (startEnv w) = onDeleteLoop ops p ys q ?env"
    unfolding l(1) by simp
  obtain r env' where e: "onDeleteLoop ops p ys q ?env = (r, env')" by force
  from onDeleteLoop_emits [OF e] obtain cs where "envCalls env' = CreateCalled (itmIndex im) True # cs"
    by (auto simp: emits_def)
  with run e show ?thesis
    by (intro exI [of _ p] exI [of _ w] exI [of _ "loopResult r"] exI [of _ env'])
      (simp add: reconcileMachineOnDeleteUpdate_def)
qed

lemma settled_complete:
  assumes inv: "onDeleteInv (replicaIndexes c) ms" and spec: "specReplicas (cpmsSpecOf c) \<noteq> None"
    and ans: "answers ops ms" and st: "settled ops c ms"
  shows "distinct (map Index ms) \<and> Index ` set ms = replicaIndexes c \<and> (\<forall>m \<in> set ms. Ready m \<and> \<not> isDeletedMachine m)"
proof -
  have quiet: "\<forall>m \<in> set ms. Ready m \<and> \<not> isDeletedMachine m"
    using quiet_machines [of ms] st onDeleteStep.cluster [of ms _ ops c] by (metis settled_def)
  have kept: "keptAt i ms = filter (\<lambda>m. Index m = i) ms" for i
    unfolding keptAt_def using quiet by (intro filter_cong) auto
  have one: "distinct (map Index ms)"
  proof -
    have d: "distinct ms" using inv by (simp add: onDeleteInv_def distinct_map)
    have "a = b" if "a \<in> set ms" "b \<in> set ms" "Index a = Index b" for a b
    proof (rule ccontr)
      assume "a \<noteq> b"
      have "Index b \<in> replicaIndexes c" using inv that(2) by (simp add: onDeleteInv_def)
      then have "length (filter (\<lambda>m. Index m = Index b) ms) \<le> 1" using inv kept by (simp add: onDeleteInv_def)
      with length_filter_two [OF that(1,2) \<open>a \<noteq> b\<close>, of "\<lambda>m. Index m = Index b"] that(3) show False by simp
    qed
    then show ?thesis using d by (simp add: distinct_map inj_on_def)
  qed
  obtain mis where grp: "machineInfosByIndex c ms = Inr mis" using indexes_exist [OF spec] ..
  have sub: "Index ` set ms \<subseteq> replicaIndexes c" using inv by (auto simp: onDeleteInv_def)
  have keys: "set (gm_keys mis) = replicaIndexes c" by (rule grouped_keys [OF grp sub])
  have "i \<in> Index ` set ms" if i: "i \<in> replicaIndexes c" for i
  proof (rule ccontr)
    assume "i \<notin> Index ` set ms"
    then have "filter (\<lambda>m. Index m = i) ms = []" by (auto simp: filter_empty_conv)
    moreover have "i \<in> set (gm_keys mis)" using i keys by simp
    then obtain xs where "(i, xs) \<in> set mis" by force
    ultimately have "(i, []) \<in> set mis" using machineInfosByIndex_get [OF grp] by metis
    from first_missing_created [OF grp ans this quiet one] obtain p w r env' where
      e: "reconcileMachineOnDeleteUpdate ops p mis (startEnv w) = (r, env')" and n: "createdIndexes (envCalls env') \<noteq> []" by blast
    note only = on_delete_calls [OF grp e]
    from creations_run [OF only(1)] obtain ms' where run: "clusterRun infosCreate infosDelete ms (envCalls env') ms'" ..
    then have "ms' = ms" using st onDeleteStep.pass [OF grp e run] by (simp add: settled_def)
    moreover have "length ms' = length ms + length (createdIndexes (envCalls env'))"
      using run only(1)
    proof (induction rule: clusterRun.induct)
      case (run_Create ms i ok ms1 cs ms2)
      then show ?case by (cases ok) (auto simp: infosCreate_def)
    qed simp_all
    ultimately show False using n by simp
  qed
  with sub one quiet show ?thesis by blast
qed

section \<open>Properties\<close>

text \<open>
  Where an on-delete course starts: machines for indexes of the replicas, under distinct names, at most one
  for each index that is not being deleted. Machines may be missing, outdated, not Ready or being deleted.
\<close>

definition onDeleteStart :: "cpms \<Rightarrow> machineInfo list \<Rightarrow> bool" where
  "onDeleteStart c ms \<longleftrightarrow> specReplicas (cpmsSpecOf c) \<noteq> None \<and> onDeleteInv (replicaIndexes c) ms"

lemma courseStep_inv:
  assumes "courseStep ops c P ms ms'" and "onDeleteInv (replicaIndexes c) ms"
  shows "onDeleteInv (replicaIndexes c) ms'" and "{x \<in> keptNames ms'. snd (snd x)} \<subseteq> {x \<in> keptNames ms. snd (snd x)}"
    and "(\<And>m. P m \<Longrightarrow> NeedsUpdate m) \<Longrightarrow> ms' = ms \<or> toDo (replicaIndexes c) ms' < toDo (replicaIndexes c) ms"
proof -
  have fin: "finite (replicaIndexes c)" by (simp add: replicaIndexes_def)
  from assms(1) consider "onDeleteStep ops c ms ms'" | "userDeletes P ms ms'" by (auto simp: courseStep_def)
  then have "onDeleteInv (replicaIndexes c) ms' \<and> {x \<in> keptNames ms'. snd (snd x)} \<subseteq> {x \<in> keptNames ms. snd (snd x)} \<and>
    ((\<forall>m. P m \<longrightarrow> NeedsUpdate m) \<longrightarrow> ms' = ms \<or> toDo (replicaIndexes c) ms' < toDo (replicaIndexes c) ms)"
  proof cases
    case 1
    with onDeleteStep_inv [OF 1 assms(2)] show ?thesis by simp
  next
    case 2
    with userDeletes_step [OF 2 assms(2) fin] show ?thesis by blast
  qed
  then show "onDeleteInv (replicaIndexes c) ms'" "{x \<in> keptNames ms'. snd (snd x)} \<subseteq> {x \<in> keptNames ms. snd (snd x)}"
    "(\<And>m. P m \<Longrightarrow> NeedsUpdate m) \<Longrightarrow> ms' = ms \<or> toDo (replicaIndexes c) ms' < toDo (replicaIndexes c) ms" by blast+
qed

lemma course_reachable:
  assumes "(courseStep ops c P)\<^sup>*\<^sup>* ms ms'" and "onDeleteInv (replicaIndexes c) ms"
  shows "onDeleteInv (replicaIndexes c) ms' \<and> {x \<in> keptNames ms'. snd (snd x)} \<subseteq> {x \<in> keptNames ms. snd (snd x)}"
  using assms by (induction rule: rtranclp_induct) (use courseStep_inv in blast)+

lemma operator_keeps:
  assumes "(onDeleteStep ops c)\<^sup>*\<^sup>* ms ms'" and "onDeleteInv (replicaIndexes c) ms"
  shows "keptNames ms \<subseteq> keptNames ms' \<and> onDeleteInv (replicaIndexes c) ms'"
  using assms by (induction rule: rtranclp_induct) (use onDeleteStep_inv in blast)+

text \<open>
  C4: under the on-delete strategy only the user takes machines away. However passes, failing calls, events
  of the cluster and deletions by the user interleave, no index has more than one machine that is not being
  deleted, machines exist for indexes of the replicas only, and a machine the user does not delete stays:
  steps of the operator and the cluster keep its name and index, keep it outdated or up to date, and do not
  delete it.
\<close>

theorem on_delete_keeps_machines:
  assumes "onDeleteStart c ms" and "(courseStep ops c P)\<^sup>*\<^sup>* ms ms1"
  shows "(\<forall>i. length (keptAt i ms1) \<le> 1) \<and> Index ` set ms1 \<subseteq> replicaIndexes c \<and>
    (\<forall>ms2. (onDeleteStep ops c)\<^sup>*\<^sup>* ms1 ms2 \<longrightarrow> (\<forall>m \<in> set ms1. \<not> isDeletedMachine m \<longrightarrow>
       (\<exists>m' \<in> set ms2. machineName m' = machineName m \<and> Index m' = Index m \<and> NeedsUpdate m' = NeedsUpdate m \<and>
          \<not> isDeletedMachine m')))"
proof (intro conjI allI impI ballI)
  have inv: "onDeleteInv (replicaIndexes c) ms1"
    using course_reachable [OF assms(2)] assms(1) by (simp add: onDeleteStart_def)
  show sub: "Index ` set ms1 \<subseteq> replicaIndexes c" using inv by (auto simp: onDeleteInv_def)
  show "length (keptAt i ms1) \<le> 1" for i
  proof (cases "i \<in> replicaIndexes c")
    case True
    with inv show ?thesis by (simp add: onDeleteInv_def)
  next
    case False
    with sub have "keptAt i ms1 = []" by (auto simp: keptAt_def filter_empty_conv)
    then show ?thesis by simp
  qed
  fix ms2 m assume "(onDeleteStep ops c)\<^sup>*\<^sup>* ms1 ms2" "m \<in> set ms1" "\<not> isDeletedMachine m"
  with operator_keeps [of ops c ms1 ms2] inv have "(machineName m, Index m, NeedsUpdate m) \<in> keptNames ms2"
    by (auto simp: keptNames_def)
  then show "\<exists>m' \<in> set ms2. machineName m' = machineName m \<and> Index m' = Index m \<and> NeedsUpdate m' = NeedsUpdate m \<and>
      \<not> isDeletedMachine m'" unfolding keptNames_def by fastforce
qed

text \<open>
  C3: an on-delete update comes to rest. With a provider that answers and a user who deletes outdated
  machines only, no run makes infinitely many steps that change the cluster. Where neither the operator nor
  the cluster changes it any more, each index of the replicas has exactly one machine, Ready and not being
  deleted, and the outdated ones among them are outdated machines of the start that nobody deleted. From
  every state this rest can be reached without the user.
\<close>

theorem on_delete_completes:
  assumes "onDeleteStart c ms" and "\<forall>xs. answers ops xs"
  shows "wf {(ms2, ms1). (courseStep ops c NeedsUpdate)\<^sup>*\<^sup>* ms ms1 \<and> courseStep ops c NeedsUpdate ms1 ms2 \<and> ms2 \<noteq> ms1} \<and>
    (\<forall>ms1. (courseStep ops c NeedsUpdate)\<^sup>*\<^sup>* ms ms1 \<longrightarrow>
       (settled ops c ms1 \<longrightarrow> distinct (map Index ms1) \<and> Index ` set ms1 = replicaIndexes c \<and>
          (\<forall>m \<in> set ms1. Ready m \<and> \<not> isDeletedMachine m \<and> (NeedsUpdate m \<longrightarrow>
             (\<exists>m0 \<in> set ms. machineName m0 = machineName m \<and> NeedsUpdate m0 \<and> \<not> isDeletedMachine m0)))) \<and>
       (\<exists>ms2. (onDeleteStep ops c)\<^sup>*\<^sup>* ms1 ms2 \<and> settled ops c ms2))"
proof -
  let ?I = "replicaIndexes c" and ?step = "courseStep ops c NeedsUpdate"
  let ?R = "{(ms2, ms1). ?step\<^sup>*\<^sup>* ms ms1 \<and> ?step ms1 ms2 \<and> ms2 \<noteq> ms1}"
  have st: "onDeleteInv ?I ms1 \<and> {x \<in> keptNames ms1. snd (snd x)} \<subseteq> {x \<in> keptNames ms. snd (snd x)}"
    if "?step\<^sup>*\<^sup>* ms ms1" for ms1
    using course_reachable [OF that] assms(1) by (simp add: onDeleteStart_def)
  have "(ms2, ms1) \<in> measure (toDo ?I)" if "(ms2, ms1) \<in> ?R" for ms1 ms2
    using that st courseStep_inv(3) [of ops c NeedsUpdate ms1 ms2] by auto
  then have "?R \<subseteq> measure (toDo ?I)" by blast
  then have wf: "wf ?R" by (rule wf_subset [OF wf_measure])
  have rest: "distinct (map Index ms1) \<and> Index ` set ms1 = ?I \<and>
      (\<forall>m \<in> set ms1. Ready m \<and> \<not> isDeletedMachine m \<and> (NeedsUpdate m \<longrightarrow>
         (\<exists>m0 \<in> set ms. machineName m0 = machineName m \<and> NeedsUpdate m0 \<and> \<not> isDeletedMachine m0)))"
    if r: "?step\<^sup>*\<^sup>* ms ms1" and s: "settled ops c ms1" for ms1
  proof -
    have all: "distinct (map Index ms1) \<and> Index ` set ms1 = ?I \<and> (\<forall>m \<in> set ms1. Ready m \<and> \<not> isDeletedMachine m)"
      using settled_complete [OF _ _ _ s] st [OF r] assms by (simp add: onDeleteStart_def)
    have "\<exists>m0 \<in> set ms. machineName m0 = machineName m \<and> NeedsUpdate m0 \<and> \<not> isDeletedMachine m0"
      if m: "m \<in> set ms1" "NeedsUpdate m" for m
    proof -
      have "(machineName m, Index m, True) \<in> {x \<in> keptNames ms1. snd (snd x)}"
        using m all by (force simp: keptNames_def)
      then have "(machineName m, Index m, True) \<in> keptNames ms" using st [OF r] by blast
      then show ?thesis unfolding keptNames_def by fastforce
    qed
    with all show ?thesis by blast
  qed
  have "\<exists>ms2. (onDeleteStep ops c)\<^sup>*\<^sup>* ms1 ms2 \<and> settled ops c ms2" if "?step\<^sup>*\<^sup>* ms ms1" for ms1
    using wf that
  proof (induction ms1 rule: wf_induct_rule)
    case (less ms1)
    show ?case
    proof (cases "settled ops c ms1")
      case True
      then show ?thesis by blast
    next
      case False
      then obtain ms2 where s: "onDeleteStep ops c ms1 ms2" "ms2 \<noteq> ms1" by (auto simp: settled_def)
      then have c: "?step ms1 ms2" by (simp add: courseStep_def)
      with less.prems have "?step\<^sup>*\<^sup>* ms ms2" by (meson rtranclp.rtrancl_into_rtrancl)
      with less.IH [of ms2] less.prems s c obtain ms3 where "(onDeleteStep ops c)\<^sup>*\<^sup>* ms2 ms3" "settled ops c ms3" by auto
      with s(1) show ?thesis by (meson converse_rtranclp_into_rtranclp)
    qed
  qed
  with wf rest show ?thesis by blast
qed

section \<open>The course at work\<close>

lemma simDeleted_start: "onDeleteStart (simCpms OnDelete 3) simDeleted"
proof -
  have "onDeleteInv (set [0, 1, 2]) simDeleted" by code_simp
  moreover have "replicaIndexes (simCpms OnDelete 3) = {0, 1, 2}"
    by (auto simp: replicaIndexes_def replicasOf_def simCpms_def)
  moreover have "specReplicas (cpmsSpecOf (simCpms OnDelete 3)) \<noteq> None" by (simp add: simCpms_def)
  ultimately show ?thesis by (simp add: onDeleteStart_def)
qed

lemma simDeleted_pass:
  "onDeleteStep simProvider (simCpms OnDelete 3) simDeleted (simDeleted @ [newMachine ''new-1'' 1])"
proof -
  let ?c = "simCpms OnDelete 3"
  obtain mis where mis: "machineInfosByIndex ?c simDeleted = Inr mis" using indexes_exist [of ?c] by (auto simp: simCpms_def)
  obtain r env' where e: "reconcileMachineOnDeleteUpdate simProvider () mis (startEnv simDeleted) = (r, env')" by force
  have "(case machineInfosByIndex ?c simDeleted of Inl e \<Rightarrow> False
      | Inr mis \<Rightarrow> envCalls (snd (reconcileMachineOnDeleteUpdate simProvider () mis (startEnv simDeleted))) = [CreateCalled 1 True])"
    by code_simp
  with mis e have calls: "envCalls env' = [CreateCalled 1 True]" by simp
  have "infosCreate simDeleted 1 True (simDeleted @ [newMachine ''new-1'' 1])" by (rule infosCreate_append) code_simp
  then have "clusterRun infosCreate infosDelete simDeleted (envCalls env') (simDeleted @ [newMachine ''new-1'' 1])"
    by (simp add: calls)
  with mis e show ?thesis by (rule onDeleteStep.pass)
qed

theorem on_delete_keeps_machines_witness:
  "onDeleteStep simProvider (simCpms OnDelete 3) simDeleted (simDeleted @ [newMachine ''new-1'' 1]) \<and>
   (\<exists>m \<in> set (simDeleted @ [newMachine ''new-1'' 1]). machineName m = ''m-2'' \<and> NeedsUpdate m \<and> \<not> isDeletedMachine m)"
proof -
  have m: "simMachine ''m-2'' 2 True True 3 None \<in> set simDeleted" by (simp add: simDeleted_def)
  have d: "\<not> isDeletedMachine (simMachine ''m-2'' 2 True True 3 None)" "machineName (simMachine ''m-2'' 2 True True 3 None) = ''m-2''"
    "NeedsUpdate (simMachine ''m-2'' 2 True True 3 None)" by code_simp+
  note keeps = on_delete_keeps_machines [OF simDeleted_start, where ops = simProvider and P = NeedsUpdate,
      OF rtranclp.rtrancl_refl]
  from keeps m d r_into_rtranclp [of "onDeleteStep simProvider (simCpms OnDelete 3)", OF simDeleted_pass] simDeleted_pass
  show ?thesis by metis
qed

theorem on_delete_completes_witness:
  "\<exists>ms. (onDeleteStep simProvider (simCpms OnDelete 3))\<^sup>*\<^sup>* (simDeleted @ [newMachine ''new-1'' 1]) ms \<and>
     settled simProvider (simCpms OnDelete 3) ms"
proof -
  have "courseStep simProvider (simCpms OnDelete 3) NeedsUpdate simDeleted (simDeleted @ [newMachine ''new-1'' 1])"
    using simDeleted_pass by (simp add: courseStep_def)
  then have "(courseStep simProvider (simCpms OnDelete 3) NeedsUpdate)\<^sup>*\<^sup>* simDeleted (simDeleted @ [newMachine ''new-1'' 1])" ..
  moreover have "\<forall>xs. answers simProvider xs" by (simp add: simProvider_answers)
  ultimately show ?thesis using on_delete_completes [OF simDeleted_start, of simProvider] by blast
qed

end
