(* ===== verification/Api_Client.thy ===== *)
theory Api_Client
  imports Api_Types
begin

text \<open>
  The API client of controller-runtime as the operator uses it: a record of the calls, over an
  abstract world (the cluster as the API server holds it). Reads return a result, writes also the
  changed world. An \<^verbatim>\<open>Update\<close> returns the object the server stored, which replaces the caller's copy;
  on an error the caller's copy stays as it is. The client is not part of the program: every
  operation that uses it takes the record as an argument.
\<close>

record clusterOperatorCondition =
  coType :: string
  coStatus :: string
  coReason :: string
  coMessage :: string

record objectReference =
  relGroup :: string
  relResource :: string
  relNamespace :: string
  relName :: string

record clusterOperator =
  coConditions :: "clusterOperatorCondition list"
  coVersions :: "(string \<times> string) list"
  coRelatedObjects :: "objectReference list"

record typeMeta =
  tmKind :: string
  tmAPIVersion :: string

record groupVersionKind =
  gvkGroup :: string
  gvkVersion :: string
  gvkKind :: string

record 'w apiClient =
  clGetCpms :: "string \<Rightarrow> string \<Rightarrow> 'w \<Rightarrow> cpms result"
  clUpdateCpms :: "cpms \<Rightarrow> 'w \<Rightarrow> cpms result \<times> 'w"
  clStatusUpdateCpms :: "cpms \<Rightarrow> 'w \<Rightarrow> cpms result \<times> 'w"
  clCpmsPatchData :: "cpms \<Rightarrow> cpms \<Rightarrow> string result"
  clGetClusterOperator :: "string \<Rightarrow> 'w \<Rightarrow> clusterOperator result"
  clStatusUpdateClusterOperator :: "clusterOperator \<Rightarrow> 'w \<Rightarrow> clusterOperator result \<times> 'w"
  clListMachineMetas :: "typeMeta \<Rightarrow> ((string, string) gomap \<Rightarrow> bool) \<Rightarrow> 'w \<Rightarrow> objectMeta list result"
  clPatchMachineMeta :: "objectMeta \<Rightarrow> objectMeta \<Rightarrow> 'w \<Rightarrow> unit result \<times> 'w"
  clListNodes :: "(string \<times> string) \<Rightarrow> 'w \<Rightarrow> node list result"
  clKindFor :: "groupVersionResource \<Rightarrow> groupVersionKind result"
  clLabelSelectorAsSelector :: "labelSelector \<Rightarrow> ((string, string) gomap \<Rightarrow> bool) result"
  clGVKForCpms :: "cpms \<Rightarrow> groupVersionKind result"

end
