(* ===== verification/Status.thy ===== *)
theory Status
  imports Simulation Api_Client
begin

text \<open>
  The status of a ControlPlaneMachineSet: the replica counters and conditions of
  \<^verbatim>\<open>pkg/controllers/controlplanemachineset/status.go\<close>, and the tracker of repeated errors
  (\<^verbatim>\<open>lastErrorTracker\<close>, \<^verbatim>\<open>setLastError\<close> of \<^verbatim>\<open>controller.go\<close>).
  The counters are int32 and stay 32-bit words, as they wrap in Go. The Go map of machines by index is
  folded in the order of its list, any order of its entries being an iteration order of the map.
\<close>

section \<open>Counters\<close>

record statusCounters =
  cntReplicas :: "32 word"
  cntReady :: "32 word"
  cntUpdated :: "32 word"
  cntUnavailable :: "32 word"

definition countMachine :: "statusCounters \<times> bool \<times> bool \<Rightarrow> machineInfo \<Rightarrow> statusCounters \<times> bool \<times> bool" where
  "countMachine s m =
     (case s of (c, hasUnavailable, hasAvailable) \<Rightarrow>
        let c1 = c\<lparr>cntReplicas := cntReplicas c + 1\<rparr>
        in if Ready m
           then (let c2 = c1\<lparr>cntReady := cntReady c1 + 1\<rparr>
                 in (if \<not> NeedsUpdate m then c2\<lparr>cntUpdated := cntUpdated c2 + 1\<rparr> else c2,
                     hasUnavailable, True))
           else (c1, True, hasAvailable))"

definition countIndex :: "statusCounters \<Rightarrow> int \<times> machineInfo list \<Rightarrow> statusCounters" where
  "countIndex c e =
     (case foldl countMachine (c, False, False) (snd e) of
        (c', hasUnavailable, hasAvailable) \<Rightarrow>
          if length (snd e) = 0 \<or> hasUnavailable \<and> \<not> hasAvailable
          then c'\<lparr>cntUnavailable := cntUnavailable c' + 1\<rparr> else c')"

definition countReplicas :: "indexedMachines \<Rightarrow> statusCounters" where
  "countReplicas mis =
     foldl countIndex \<lparr>cntReplicas = 0, cntReady = 0, cntUpdated = 0, cntUnavailable = 0\<rparr> mis"

section \<open>Conditions\<close>

definition getAvailableCondition :: "cpms \<Rightarrow> condition" where
  "getAvailableCondition c =
     (if statusUnavailableReplicas (cpmsStatusOf c) \<noteq> 0
      then mkCondition conditionAvailable ConditionFalse reasonUnavailableReplicas
             (''Missing '' @ showInt (sint (statusUnavailableReplicas (cpmsStatusOf c))) @
              '' available replica(s)'') (omGeneration (cpmsMeta c))
      else mkCondition conditionAvailable ConditionTrue reasonAllReplicasAvailable ''''
             (omGeneration (cpmsMeta c)))"

definition getDegradedCondition :: "cpms \<Rightarrow> condition" where
  "getDegradedCondition c =
     (if statusReadyReplicas (cpmsStatusOf c) = 0
      then mkCondition conditionDegraded ConditionTrue reasonNoReadyMachines '''' (omGeneration (cpmsMeta c))
      else mkCondition conditionDegraded ConditionFalse reasonAsExpected '''' (omGeneration (cpmsMeta c)))"

definition getProgressingCondition :: "cpms \<Rightarrow> condition result" where
  "getProgressingCondition c =
     (case specReplicas (cpmsSpecOf c) of
        None \<Rightarrow> Inl errReplicasRequired
      | Some desired \<Rightarrow>
          let st = cpmsStatusOf c; g = omGeneration (cpmsMeta c)
          in if sint desired > sint (statusUpdatedReplicas st)
             then Inr (mkCondition conditionProgressing ConditionTrue reasonNeedsUpdateReplicas
                    (''Observed '' @ showInt (sint (desired - statusUpdatedReplicas st)) @
                     '' replica(s) in need of update'') g)
             else if sint desired < sint (statusReadyReplicas st)
             then Inr (mkCondition conditionProgressing ConditionTrue reasonExcessReplicas
                    (''Waiting for '' @ showInt (sint (statusReadyReplicas st - statusUpdatedReplicas st)) @
                     '' old replica(s) to be removed'') g)
             else Inr (mkCondition conditionProgressing ConditionFalse reasonAllReplicasUpdated '''' g))"

text \<open>
  \<^verbatim>\<open>setConditions\<close> changes the object before it can fail, so the changed object is returned with the error.
\<close>

definition setConditions :: "cpms \<Rightarrow> unit result \<times> cpms" where
  "setConditions c =
     (let c1 = setCondition (getAvailableCondition c) c;
          c2 = setCondition (getDegradedCondition c1) c1
      in case getProgressingCondition c2 of
           Inl e \<Rightarrow> (Inl (wrap ''could not set progressing condition'' e), c2)
         | Inr p \<Rightarrow> (Inr (), setCondition p c2))"

definition withCounters :: "statusCounters \<Rightarrow> cpms \<Rightarrow> cpms" where
  "withCounters n c =
     c\<lparr>cpmsStatusOf := (cpmsStatusOf c)
         \<lparr>statusObservedGeneration := omGeneration (cpmsMeta c),
          statusReplicas := cntReplicas n,
          statusReadyReplicas := cntReady n,
          statusUnavailableReplicas := cntUnavailable n,
          statusUpdatedReplicas := cntUpdated n\<rparr>\<rparr>"

definition reconcileStatusWithMachineInfo :: "cpms \<Rightarrow> indexedMachines \<Rightarrow> unit result \<times> cpms" where
  "reconcileStatusWithMachineInfo c mis =
     (case setConditions (withCounters (countReplicas mis) c) of
        (Inl e, c2) \<Rightarrow> (Inl (wrap ''could not set control plane machine set conditions'' e), c2)
      | (Inr u, c2) \<Rightarrow> (Inr u, c2))"

section \<open>Repeated errors\<close>

record lastErrorTracker =
  letError :: goerror
  letTime :: string
  letCount :: int

definition maxContinuousErrors :: int where
  "maxContinuousErrors = 15"

definition getErrorCondition :: "cpms \<Rightarrow> lastErrorTracker option \<Rightarrow> condition" where
  "getErrorCondition c le =
     (let ok = mkCondition conditionError ConditionFalse reasonAsExpected '''' (omGeneration (cpmsMeta c))
      in case le of
           None \<Rightarrow> ok
         | Some t \<Rightarrow>
             if letCount t < maxContinuousErrors then ok
             else mkCondition conditionError ConditionTrue reasonContinuousErrors
                    (''The control plane machine set has experienced the following error more than '' @
                     showInt maxContinuousErrors @ '' consecutive times since '' @ letTime t @ '': '' @
                     errorText (letError t)) (omGeneration (cpmsMeta c)))"

text \<open>\<^verbatim>\<open>metav1.Now()\<close> is an argument: the printed time at which the error is first seen.\<close>

definition trackError :: "string \<Rightarrow> goerror option \<Rightarrow> lastErrorTracker option \<Rightarrow> lastErrorTracker option" where
  "trackError now err le =
     (case err of
        None \<Rightarrow> None
      | Some e \<Rightarrow>
          (case le of
             None \<Rightarrow> Some \<lparr>letError = e, letTime = now, letCount = 1\<rparr>
           | Some t \<Rightarrow>
               if errorText e = errorText (letError t) then Some (t\<lparr>letCount := letCount t + 1\<rparr>)
               else Some \<lparr>letError = e, letTime = now, letCount = 1\<rparr>))"

definition setLastError ::
  "string \<Rightarrow> cpms \<Rightarrow> goerror option \<Rightarrow> lastErrorTracker option \<Rightarrow> cpms \<times> lastErrorTracker option" where
  "setLastError now c err le =
     (let le' = trackError now err le in (setCondition (getErrorCondition c le') c, le'))"

section \<open>Writing the status\<close>

text \<open>
  An empty merge patch against the object that was read skips the update; an update replaces the
  object by what the server returns.
\<close>

definition updateControlPlaneMachineSetStatus ::
  "'w apiClient \<Rightarrow> cpms \<Rightarrow> cpms \<Rightarrow> 'w \<Rightarrow> unit result \<times> cpms \<times> 'w" where
  "updateControlPlaneMachineSetStatus cl base c w =
     (case clCpmsPatchData cl base c of
        Inl e \<Rightarrow> (Inl (wrap ''cannot calculate patch data from control plane machine set object'' e), c, w)
      | Inr data \<Rightarrow>
          if data = ''{}'' then (Inr (), c, w)
          else (case clStatusUpdateCpms cl c w of
                  (Inl e, w') \<Rightarrow>
                    (Inl (wrap ''failed to sync status for control plane machine set object'' e), c, w')
                | (Inr c', w') \<Rightarrow> (Inr (), c', w')))"

section \<open>Lemmas on the counters\<close>

definition updatedReady :: "machineInfo \<Rightarrow> bool" where
  "updatedReady m \<longleftrightarrow> Ready m \<and> \<not> NeedsUpdate m"

definition addCounters :: "statusCounters \<Rightarrow> machineInfo list \<Rightarrow> statusCounters" where
  "addCounters c ms =
     c\<lparr>cntReplicas := cntReplicas c + word_of_nat (length ms),
       cntReady := cntReady c + word_of_nat (length (filter Ready ms)),
       cntUpdated := cntUpdated c + word_of_nat (length (filter updatedReady ms))\<rparr>"

lemma foldl_countMachine:
  "foldl countMachine (c, u, a) ms = (addCounters c ms, u \<or> list_ex (\<lambda>m. \<not> Ready m) ms, a \<or> list_ex Ready ms)"
  by (induction ms arbitrary: c u a)
    (auto simp: countMachine_def addCounters_def updatedReady_def Let_def algebra_simps)

lemma countIndex_eq:
  "countIndex c e =
     (addCounters c (snd e))\<lparr>cntUnavailable :=
        cntUnavailable c + (if list_ex Ready (snd e) then 0 else 1)\<rparr>"
proof -
  have "length ms = 0 \<or> list_ex (\<lambda>m. \<not> Ready m) ms \<and> \<not> list_ex Ready ms \<longleftrightarrow> \<not> list_ex Ready ms" for ms
    by (cases ms) auto
  from this [of "snd e"] show ?thesis
    unfolding countIndex_def foldl_countMachine by (auto simp: addCounters_def)
qed

lemma foldl_countIndex:
  "foldl countIndex c mis =
     (addCounters c (machineInfosMaptoSlice mis))\<lparr>cntUnavailable :=
        cntUnavailable c + word_of_nat (length (filter (\<lambda>e. \<not> list_ex Ready (snd e)) mis))\<rparr>"
proof (induction mis arbitrary: c)
  case Nil
  then show ?case by (simp add: addCounters_def machineInfosMaptoSlice_def)
next
  case (Cons e mis)
  then show ?case
    by (simp add: countIndex_eq addCounters_def machineInfosMaptoSlice_def algebra_simps)
qed

text \<open>The counters as counts, modulo the width of int32.\<close>

lemma countReplicas_eq:
  "cntReplicas (countReplicas mis) = word_of_nat (length (machineInfosMaptoSlice mis))"
  "cntReady (countReplicas mis) = word_of_nat (length (filter Ready (machineInfosMaptoSlice mis)))"
  "cntUpdated (countReplicas mis) = word_of_nat (length (filter updatedReady (machineInfosMaptoSlice mis)))"
  "cntUnavailable (countReplicas mis) =
     word_of_nat (length (filter (\<lambda>e. \<not> list_ex Ready (snd e)) mis))"
  by (simp_all add: countReplicas_def foldl_countIndex addCounters_def)

lemma length_filter_updatedReady: "length (filter updatedReady ms) \<le> length (filter Ready ms)"
  by (induction ms) (auto simp: updatedReady_def)

lemma length_updatedReady_eq:
  "length (filter updatedReady ms) = length (filter Ready ms) \<longleftrightarrow>
     list_all (\<lambda>m. Ready m \<longrightarrow> \<not> NeedsUpdate m) ms"
proof (induction ms)
  case (Cons m ms)
  have "updatedReady m \<longleftrightarrow> Ready m \<and> \<not> NeedsUpdate m" by (simp add: updatedReady_def)
  with Cons show ?case using length_filter_updatedReady [of ms] by auto
qed simp

lemma word_of_nat_eq_0: "n < 2 ^ 31 \<Longrightarrow> (word_of_nat n :: 32 word) = 0 \<longleftrightarrow> n = 0"
  using sint32_of_nat [of n] by (cases "n = 0") auto

section \<open>Lemmas on the status\<close>

lemma getProgressing_typed:
  "getProgressingCondition c = Inr p \<Longrightarrow> condType p = conditionProgressing"
  by (auto simp: getProgressingCondition_def Let_def split: option.splits if_splits)

lemma condType_get [simp]:
  "condType (getAvailableCondition c) = conditionAvailable"
  "condType (getDegradedCondition c) = conditionDegraded"
  "condType (getErrorCondition c le) = conditionError"
  by (simp_all add: getAvailableCondition_def getDegradedCondition_def getErrorCondition_def Let_def
      split: option.splits)

lemma getDegraded_setCondition [simp]: "getDegradedCondition (setCondition n c) = getDegradedCondition c"
  by (simp add: getDegradedCondition_def)

lemma getProgressing_setCondition [simp]:
  "getProgressingCondition (setCondition n c) = getProgressingCondition c"
  by (cases "specReplicas (cpmsSpecOf c)") (simp_all add: getProgressingCondition_def Let_def)

text \<open>What \<^const>\<open>setConditions\<close> leaves behind, on success.\<close>

lemma setConditions_Inr:
  assumes "setConditions c = (Inr u, c')"
  obtains p where "getProgressingCondition c = Inr p"
    and "conditionsOf c' = SetStatusCondition (SetStatusCondition (SetStatusCondition (conditionsOf c)
           (getAvailableCondition c)) (getDegradedCondition c)) p"
    and "cpmsSpecOf c' = cpmsSpecOf c" and "cpmsMeta c' = cpmsMeta c"
    and "statusReplicas (cpmsStatusOf c') = statusReplicas (cpmsStatusOf c)"
    and "statusReadyReplicas (cpmsStatusOf c') = statusReadyReplicas (cpmsStatusOf c)"
    and "statusUpdatedReplicas (cpmsStatusOf c') = statusUpdatedReplicas (cpmsStatusOf c)"
    and "statusUnavailableReplicas (cpmsStatusOf c') = statusUnavailableReplicas (cpmsStatusOf c)"
    and "statusObservedGeneration (cpmsStatusOf c') = statusObservedGeneration (cpmsStatusOf c)"
  using assms by (auto simp: setConditions_def Let_def split: sum.splits)


lemma withCounters_sel:
  "cpmsSpecOf (withCounters n c) = cpmsSpecOf c" "cpmsMeta (withCounters n c) = cpmsMeta c"
  "conditionsOf (withCounters n c) = conditionsOf c"
  "statusObservedGeneration (cpmsStatusOf (withCounters n c)) = omGeneration (cpmsMeta c)"
  "statusReplicas (cpmsStatusOf (withCounters n c)) = cntReplicas n"
  "statusReadyReplicas (cpmsStatusOf (withCounters n c)) = cntReady n"
  "statusUpdatedReplicas (cpmsStatusOf (withCounters n c)) = cntUpdated n"
  "statusUnavailableReplicas (cpmsStatusOf (withCounters n c)) = cntUnavailable n"
  by (simp_all add: withCounters_def)

lemma reconcileStatus_Inr:
  assumes "reconcileStatusWithMachineInfo c mis = (Inr u, c')"
  shows "cpmsSpecOf c' = cpmsSpecOf c" and "cpmsMeta c' = cpmsMeta c"
    and "statusObservedGeneration (cpmsStatusOf c') = omGeneration (cpmsMeta c)"
    and "statusReplicas (cpmsStatusOf c') = cntReplicas (countReplicas mis)"
    and "statusReadyReplicas (cpmsStatusOf c') = cntReady (countReplicas mis)"
    and "statusUpdatedReplicas (cpmsStatusOf c') = cntUpdated (countReplicas mis)"
    and "statusUnavailableReplicas (cpmsStatusOf c') = cntUnavailable (countReplicas mis)"
    and "IsStatusConditionTrue (conditionsOf c') conditionAvailable \<longleftrightarrow>
           cntUnavailable (countReplicas mis) = 0"
    and "IsStatusConditionTrue (conditionsOf c') conditionDegraded \<longleftrightarrow> cntReady (countReplicas mis) = 0"
    and "\<exists>desired. specReplicas (cpmsSpecOf c) = Some desired \<and>
           (IsStatusConditionTrue (conditionsOf c') conditionProgressing \<longleftrightarrow>
              sint (cntUpdated (countReplicas mis)) < sint desired \<or>
              sint desired < sint (cntReady (countReplicas mis)))"
    and "\<And>t. t \<notin> {conditionAvailable, conditionDegraded, conditionProgressing} \<Longrightarrow>
           FindStatusCondition (conditionsOf c') t = FindStatusCondition (conditionsOf c) t"
proof -
  let ?n = "countReplicas mis"
  let ?c1 = "withCounters ?n c"
  from assms have sc: "setConditions ?c1 = (Inr u, c')"
    by (auto simp: reconcileStatusWithMachineInfo_def split: prod.splits sum.splits)
  from setConditions_Inr [OF sc, unfolded withCounters_sel] obtain p where p: "getProgressingCondition ?c1 = Inr p"
    and conds: "conditionsOf c' = SetStatusCondition (SetStatusCondition (SetStatusCondition (conditionsOf c)
           (getAvailableCondition ?c1)) (getDegradedCondition ?c1)) p"
    and frame: "cpmsSpecOf c' = cpmsSpecOf c" "cpmsMeta c' = cpmsMeta c"
    "statusReplicas (cpmsStatusOf c') = cntReplicas ?n" "statusReadyReplicas (cpmsStatusOf c') = cntReady ?n"
    "statusUpdatedReplicas (cpmsStatusOf c') = cntUpdated ?n"
    "statusUnavailableReplicas (cpmsStatusOf c') = cntUnavailable ?n"
    "statusObservedGeneration (cpmsStatusOf c') = omGeneration (cpmsMeta c)"
    .
  note pt = getProgressing_typed [OF p]
  from p obtain desired where d: "specReplicas (cpmsSpecOf c) = Some desired"
    "condStatus p = ConditionTrue \<longleftrightarrow> sint (cntUpdated ?n) < sint desired \<or> sint desired < sint (cntReady ?n)"
    by (auto simp: getProgressingCondition_def withCounters_sel Let_def split: option.splits if_splits)
  have a: "condStatus (getAvailableCondition ?c1) = ConditionTrue \<longleftrightarrow> cntUnavailable ?n = 0"
    by (simp add: getAvailableCondition_def withCounters_sel)
  have g: "condStatus (getDegradedCondition ?c1) = ConditionTrue \<longleftrightarrow> cntReady ?n = 0"
    by (simp add: getDegradedCondition_def withCounters_sel)
  show "cpmsSpecOf c' = cpmsSpecOf c" "cpmsMeta c' = cpmsMeta c"
    "statusReplicas (cpmsStatusOf c') = cntReplicas ?n" "statusReadyReplicas (cpmsStatusOf c') = cntReady ?n"
    "statusUpdatedReplicas (cpmsStatusOf c') = cntUpdated ?n"
    "statusUnavailableReplicas (cpmsStatusOf c') = cntUnavailable ?n"
    "statusObservedGeneration (cpmsStatusOf c') = omGeneration (cpmsMeta c)"
    by (rule frame)+
  show "IsStatusConditionTrue (conditionsOf c') conditionAvailable \<longleftrightarrow> cntUnavailable ?n = 0"
    "IsStatusConditionTrue (conditionsOf c') conditionDegraded \<longleftrightarrow> cntReady ?n = 0"
    by (simp_all add: conds condition_simps pt a g)
  show "\<exists>desired. specReplicas (cpmsSpecOf c) = Some desired \<and>
      (IsStatusConditionTrue (conditionsOf c') conditionProgressing \<longleftrightarrow>
        sint (cntUpdated ?n) < sint desired \<or> sint desired < sint (cntReady ?n))"
    using d by (simp add: conds condition_simps pt)
  show "FindStatusCondition (conditionsOf c') t = FindStatusCondition (conditionsOf c) t"
    if "t \<notin> {conditionAvailable, conditionDegraded, conditionProgressing}" for t
    using that by (auto simp: conds condition_simps pt)
qed


section \<open>Lemmas on repeated errors\<close>

text \<open>The tracker after a history of reconcile results (an error or none), from no tracker.\<close>

fun trackErrors :: "(string \<times> goerror option) list \<Rightarrow> lastErrorTracker option \<Rightarrow> lastErrorTracker option" where
  "trackErrors [] le = le"
| "trackErrors ((now, err) # hist) le = trackErrors hist (trackError now err le)"

text \<open>How many of the latest results (latest first) are the error with this text.\<close>

definition errorRun :: "string \<Rightarrow> (string \<times> goerror option) list \<Rightarrow> nat" where
  "errorRun t hist = length (takeWhile (\<lambda>(_, e). map_option errorText e = Some t) (rev hist))"

lemma trackErrors_snoc: "trackErrors (hist @ [(now, e)]) le = trackError now e (trackErrors hist le)"
  by (induction hist arbitrary: le) auto

lemma errorRun_snoc:
  "errorRun t (hist @ [(now, e)]) =
     (if map_option errorText e = Some t then Suc (errorRun t hist) else 0)"
  by (simp add: errorRun_def)

lemma errorRun_other:
  "0 < errorRun t hist \<Longrightarrow> s \<noteq> t \<Longrightarrow> errorRun s hist = 0"
proof (cases hist rule: rev_cases)
  case (snoc ys y)
  assume "0 < errorRun t hist" and "s \<noteq> t"
  with snoc show ?thesis by (cases y) (simp add: errorRun_snoc split: if_splits)
qed (simp add: errorRun_def)

lemma trackError_text:
  "map_option (errorText \<circ> letError) (trackError now err le) = map_option errorText err"
  by (auto simp: trackError_def split: option.splits)

text \<open>The tracker holds the latest error and the length of its run.\<close>

lemma trackErrors_run:
  "case trackErrors hist None of
     None \<Rightarrow> (\<forall>t. errorRun t hist = 0)
   | Some le \<Rightarrow> letCount le = int (errorRun (errorText (letError le)) hist) \<and> 1 \<le> letCount le"
proof (induction hist rule: rev_induct)
  case Nil
  then show ?case by (simp add: errorRun_def)
next
  case (snoc x hist)
  obtain now e where x: "x = (now, e)" by force
  show ?case
  proof (cases e)
    case None
    then show ?thesis by (simp add: x trackErrors_snoc errorRun_snoc trackError_def)
  next
    case (Some err)
    have fresh: "errorRun (errorText err) hist = 0"
      if "\<And>le. trackErrors hist None = Some le \<Longrightarrow> errorText err \<noteq> errorText (letError le)"
    proof (cases "trackErrors hist None")
      case None
      with snoc.IH show ?thesis by simp
    next
      case (Some le)
      with snoc.IH have "errorRun (errorText (letError le)) hist > 0" by simp
      with that [OF Some] show ?thesis by (rule errorRun_other [rotated])
    qed
    show ?thesis
    proof (cases "trackErrors hist None")
      case None
      with fresh Some show ?thesis by (simp add: x trackErrors_snoc errorRun_snoc trackError_def)
    next
      case le: (Some le)
      show ?thesis
      proof (cases "errorText err = errorText (letError le)")
        case True
        with snoc.IH Some le show ?thesis by (simp add: x trackErrors_snoc errorRun_snoc trackError_def)
      next
        case False
        with fresh le have "errorRun (errorText err) hist = 0" by simp
        with False Some le show ?thesis by (simp add: x trackErrors_snoc errorRun_snoc trackError_def)
      qed
    qed
  qed
qed


section \<open>Properties\<close>

lemma length_filter_mset: "mset xs = mset ys \<Longrightarrow> length (filter P xs) = length (filter P ys)"
  by (metis mset_filter size_mset)

text \<open>
  C30: the status counts. After a successful status reconciliation, with fewer than 2^31 machines and
  indexes, Replicas, ReadyReplicas and UpdatedReplicas are the numbers of machines, of Ready machines
  and of Ready machines that need no update, UnavailableReplicas is the number of indexes without a
  Ready machine, and the observed generation is the generation of the object.
\<close>

theorem status_counts:
  assumes "machineInfosByIndex c0 infos = Inr mis" and "length infos < 2 ^ 31" and "length mis < 2 ^ 31"
    and "reconcileStatusWithMachineInfo c mis = (Inr u, c')"
  shows "sint (statusReplicas (cpmsStatusOf c')) = int (length infos) \<and>
         sint (statusReadyReplicas (cpmsStatusOf c')) = int (length (filter Ready infos)) \<and>
         sint (statusUpdatedReplicas (cpmsStatusOf c')) =
           int (length (filter (\<lambda>m. Ready m \<and> \<not> NeedsUpdate m) infos)) \<and>
         sint (statusUnavailableReplicas (cpmsStatusOf c')) =
           int (length (filter (\<lambda>(i, ms). \<not> list_ex Ready ms) mis)) \<and>
         statusObservedGeneration (cpmsStatusOf c') = omGeneration (cpmsMeta c)"
proof -
  note ms = machineInfosByIndex_slice [OF assms(1)]
  note len = mset_eq_length [OF ms] length_filter_mset [OF ms]
  have small: "length (filter P infos) < 2 ^ 31" "length (filter Q mis) < 2 ^ 31" for P Q
    using assms(2,3) length_filter_le [of P infos] length_filter_le [of Q mis] by linarith+
  have eq: "statusReplicas (cpmsStatusOf c') = word_of_nat (length infos)"
    "statusReadyReplicas (cpmsStatusOf c') = word_of_nat (length (filter Ready infos))"
    "statusUpdatedReplicas (cpmsStatusOf c') = word_of_nat (length (filter updatedReady infos))"
    "statusUnavailableReplicas (cpmsStatusOf c') =
       word_of_nat (length (filter (\<lambda>e. \<not> list_ex Ready (snd e)) mis))"
    "statusObservedGeneration (cpmsStatusOf c') = omGeneration (cpmsMeta c)"
    using reconcileStatus_Inr(3-7) [OF assms(4)] unfolding countReplicas_eq len by blast+
  show ?thesis
    unfolding eq sint32_of_nat [OF assms(2)] sint32_of_nat [OF small(1)] sint32_of_nat [OF small(2)]
    by (simp add: updatedReady_def [abs_def] case_prod_unfold)
qed


theorem status_counts_witness:
  "\<exists>c'. reconcileStatusWithMachineInfo (simCpms RollingUpdate 3) simReplacedIndexed = (Inr (), c') \<and>
     sint (statusReplicas (cpmsStatusOf c')) = 4 \<and> sint (statusUpdatedReplicas (cpmsStatusOf c')) = 3 \<and>
     sint (statusUnavailableReplicas (cpmsStatusOf c')) = 0 \<and>
     statusObservedGeneration (cpmsStatusOf c') = 2"
proof -
  obtain u c' where r: "reconcileStatusWithMachineInfo (simCpms RollingUpdate 3) simReplacedIndexed = (Inr u, c')"
    by (cases "reconcileStatusWithMachineInfo (simCpms RollingUpdate 3) simReplacedIndexed")
      (auto simp: reconcileStatusWithMachineInfo_def setConditions_def getProgressingCondition_def
        withCounters_sel simCpms_def Let_def split: sum.splits option.splits if_splits)
  have l: "length simReplaced < 2 ^ 31" "length simReplacedIndexed < 2 ^ 31"
    by (simp_all add: simReplaced_def simInfos_def simReplacedIndexed_def)
  have n: "length simReplaced = 4" "length (filter (\<lambda>m. Ready m \<and> \<not> NeedsUpdate m) simReplaced) = 3"
    "length (filter (\<lambda>(i, ms). \<not> list_ex Ready ms) simReplacedIndexed) = 0"
    "omGeneration (cpmsMeta (simCpms RollingUpdate 3)) = 2" by code_simp+
  from status_counts [OF simReplaced_by_index l r, unfolded n] r show ?thesis by auto
qed

text \<open>
  C31: the status conditions, under every update strategy. Available is true exactly when every index has a
  Ready machine, Degraded exactly when no machine is Ready, and Progressing is false exactly when the
  desired number of machines are Ready and all Ready machines are up to date; other conditions are kept.
  The strategy plays no part: under OnDelete, too, an outdated Ready machine makes the set Progressing,
  where the comment at the condition in \<^verbatim>\<open>consts.go\<close> has it that the condition may be false then.
\<close>

theorem status_conditions:
  assumes "machineInfosByIndex c infos = Inr mis" and "length infos < 2 ^ 31" and "length mis < 2 ^ 31"
    and "reconcileStatusWithMachineInfo c mis = (Inr u, c')"
  shows "(IsStatusConditionTrue (conditionsOf c') conditionAvailable \<longleftrightarrow>
            (\<forall>(i, ms) \<in> set mis. list_ex Ready ms)) \<and>
         (IsStatusConditionTrue (conditionsOf c') conditionDegraded \<longleftrightarrow> \<not> list_ex Ready infos) \<and>
         (\<not> IsStatusConditionTrue (conditionsOf c') conditionProgressing \<longleftrightarrow>
            map_option sint (specReplicas (cpmsSpecOf c)) = Some (int (length (filter Ready infos))) \<and>
            list_all (\<lambda>m. Ready m \<longrightarrow> \<not> NeedsUpdate m) infos) \<and>
         (\<forall>t. t \<notin> {conditionAvailable, conditionDegraded, conditionProgressing} \<longrightarrow>
            FindStatusCondition (conditionsOf c') t = FindStatusCondition (conditionsOf c) t)"
proof -
  note ms = machineInfosByIndex_slice [OF assms(1)]
  note len = length_filter_mset [OF ms]
  have small: "length (filter P infos) < 2 ^ 31" "length (filter Q mis) < 2 ^ 31" for P Q
    using assms(2,3) length_filter_le [of P infos] length_filter_le [of Q mis] by linarith+
  note f = reconcileStatus_Inr(8-11) [OF assms(4), unfolded countReplicas_eq len]
  from f(3) obtain desired where d: "specReplicas (cpmsSpecOf c) = Some desired"
    and p: "IsStatusConditionTrue (conditionsOf c') conditionProgressing \<longleftrightarrow>
      sint (word_of_nat (length (filter updatedReady infos)) :: 32 word) < sint desired \<or>
      sint desired < sint (word_of_nat (length (filter Ready infos)) :: 32 word)" by blast
  have A: "IsStatusConditionTrue (conditionsOf c') conditionAvailable \<longleftrightarrow>
      (\<forall>(i, ms) \<in> set mis. list_ex Ready ms)"
    unfolding f(1) word_of_nat_eq_0 [OF small(2)] by (auto simp: filter_empty_conv)
  have G: "IsStatusConditionTrue (conditionsOf c') conditionDegraded \<longleftrightarrow> \<not> list_ex Ready infos"
    unfolding f(2) word_of_nat_eq_0 [OF small(1)] by (auto simp: filter_empty_conv list_ex_iff)
  have P: "IsStatusConditionTrue (conditionsOf c') conditionProgressing \<longleftrightarrow>
      sint desired \<noteq> int (length (filter Ready infos)) \<or> \<not> list_all (\<lambda>m. Ready m \<longrightarrow> \<not> NeedsUpdate m) infos"
    unfolding p sint32_of_nat [OF small(1)]
    using length_filter_updatedReady [of infos] length_updatedReady_eq [of infos] by auto
  show ?thesis using A G P f(4) d by auto
qed

theorem status_conditions_witness:
  "\<exists>c'. reconcileStatusWithMachineInfo (simCpms RollingUpdate 3) simIndexed = (Inr (), c') \<and>
     IsStatusConditionTrue (conditionsOf c') conditionAvailable \<and>
     \<not> IsStatusConditionTrue (conditionsOf c') conditionDegraded \<and>
     IsStatusConditionTrue (conditionsOf c') conditionProgressing"
proof -
  obtain u c' where r: "reconcileStatusWithMachineInfo (simCpms RollingUpdate 3) simIndexed = (Inr u, c')"
    by (cases "reconcileStatusWithMachineInfo (simCpms RollingUpdate 3) simIndexed")
      (auto simp: reconcileStatusWithMachineInfo_def setConditions_def getProgressingCondition_def
        withCounters_sel simCpms_def Let_def split: sum.splits option.splits if_splits)
  have l: "length simInfos < 2 ^ 31" "length simIndexed < 2 ^ 31"
    by (simp_all add: simInfos_def simIndexed_def)
  have n: "\<forall>(i, ms) \<in> set simIndexed. list_ex Ready ms" "list_ex Ready simInfos"
    "\<not> list_all (\<lambda>m. Ready m \<longrightarrow> \<not> NeedsUpdate m) simInfos" by code_simp+
  from status_conditions [OF sim_by_index l r] n r show ?thesis by auto
qed

text \<open>
  C36: the order in which the map of machines is iterated does not matter to the status.
\<close>

theorem status_order_independent:
  assumes "mset mis = mset mis'"
  shows "reconcileStatusWithMachineInfo c mis = reconcileStatusWithMachineInfo c mis'"
proof -
  have "mset (machineInfosMaptoSlice mis) = mset (machineInfosMaptoSlice mis')"
    using assms by (simp add: machineInfosMaptoSlice_def mset_concat flip: sum_mset_sum_list)
  from mset_eq_length [OF this] length_filter_mset [OF this]
  have "countReplicas mis = countReplicas mis'"
    by (intro statusCounters.equality) (simp_all add: countReplicas_eq length_filter_mset [OF assms])
  then show ?thesis by (simp add: reconcileStatusWithMachineInfo_def)
qed

theorem status_order_independent_witness:
  "reconcileStatusWithMachineInfo (simCpms RollingUpdate 3) (rev simIndexed) =
   reconcileStatusWithMachineInfo (simCpms RollingUpdate 3) simIndexed"
  by (rule status_order_independent) simp

text \<open>
  C37: the Error condition. Starting without a tracked error, after a history of reconciles the
  condition is true exactly when the latest fifteen (or more) all failed with the same error text.
\<close>

theorem error_condition_after_fifteen:
  "(\<exists>c' le. setLastError now c err (trackErrors hist None) = (c', le) \<and>
      IsStatusConditionTrue (conditionsOf c') conditionError) \<longleftrightarrow>
   (\<exists>e. err = Some e \<and> 15 \<le> errorRun (errorText e) (hist @ [(now, err)]))"
proof -
  let ?le = "trackError now err (trackErrors hist None)"
  have t: "?le = trackErrors (hist @ [(now, err)]) None" by (simp add: trackErrors_snoc)
  have "IsStatusConditionTrue (conditionsOf (fst (setLastError now c err (trackErrors hist None))))
      conditionError \<longleftrightarrow> (\<exists>le. ?le = Some le \<and> 15 \<le> letCount le)"
    by (auto simp: setLastError_def getErrorCondition_def condition_simps maxContinuousErrors_def Let_def
        split: option.splits)
  also have "\<dots> \<longleftrightarrow> (\<exists>e. err = Some e \<and> 15 \<le> errorRun (errorText e) (hist @ [(now, err)]))"
    using trackErrors_run [of "hist @ [(now, err)]"] trackError_text [of now err "trackErrors hist None"]
    unfolding t [symmetric] by (cases err) (auto simp: trackError_def split: option.splits)
  finally show ?thesis by (simp add: split_paired_Ex) (metis prod.collapse fst_conv)
qed

end
