(* ===== verification/Cluster_Operator.thy ===== *)
theory Cluster_Operator
  imports Api_Client Simulation
begin

text \<open>
  The ClusterOperator the operator reports to:
  \<^verbatim>\<open>pkg/controllers/controlplanemachineset/cluster_operator.go\<close>, with the two condition helpers of
  library-go it calls. The time of the last transition is left out, as in \<open>Api_Types\<close>.
\<close>

section \<open>Helpers of library-go\<close>

definition coFindStatusCondition ::
  "clusterOperatorCondition list \<Rightarrow> string \<Rightarrow> clusterOperatorCondition option" where
  "coFindStatusCondition cs t = find (\<lambda>c. coType c = t) cs"

fun coSetStatusCondition ::
  "clusterOperatorCondition list \<Rightarrow> clusterOperatorCondition \<Rightarrow> clusterOperatorCondition list" where
  "coSetStatusCondition [] n = [n]"
| "coSetStatusCondition (c # cs) n =
     (if coType c = coType n
      then c\<lparr>coStatus := coStatus n, coReason := coReason n, coMessage := coMessage n\<rparr> # cs
      else c # coSetStatusCondition cs n)"

fun coIsStatusConditionPresentAndEqual :: "clusterOperatorCondition list \<Rightarrow> string \<Rightarrow> string \<Rightarrow> bool" where
  "coIsStatusConditionPresentAndEqual [] t s = False"
| "coIsStatusConditionPresentAndEqual (c # cs) t s =
     (if coType c = t then coStatus c = s else coIsStatusConditionPresentAndEqual cs t s)"

section \<open>Related objects\<close>

definition OperatorUpgradeable :: string where
  "OperatorUpgradeable = ''Upgradeable''"

definition machineAPINamespace :: string where
  "machineAPINamespace = ''openshift-machine-api''"

definition relatedObject :: "string \<Rightarrow> string \<Rightarrow> string \<Rightarrow> objectReference" where
  "relatedObject g r n = \<lparr>relGroup = g, relResource = r, relNamespace = '''', relName = n\<rparr>"

definition relatedObjects :: "objectReference list" where
  "relatedObjects =
     [relatedObject '''' ''namespaces'' machineAPINamespace,
      relatedObject ''machine.openshift.io'' ''controlplanemachinesets'' '''',
      relatedObject ''machine.openshift.io'' ''machines'' '''',
      relatedObject ''rbac.authorization.k8s.io'' ''clusterroles'' ''control-plane-machine-set-operator'',
      relatedObject ''rbac.authorization.k8s.io'' ''clusterrolebindings'' ''control-plane-machine-set-operator'']"

definition relatedObjectsChanged :: "clusterOperator \<Rightarrow> bool" where
  "relatedObjectsChanged co \<longleftrightarrow>
     length (coRelatedObjects co) \<noteq> length relatedObjects \<or>
     list_ex (\<lambda>existing. \<not> list_ex (\<lambda>desired. existing = desired) relatedObjects) (coRelatedObjects co)"

section \<open>Conditions\<close>

definition newClusterOperatorStatusCondition ::
  "string \<Rightarrow> string \<Rightarrow> string \<Rightarrow> string \<Rightarrow> clusterOperatorCondition" where
  "newClusterOperatorStatusCondition t s r m = \<lparr>coType = t, coStatus = s, coReason = r, coMessage = m\<rparr>"

fun isStatusConditionPresentAndEqual ::
  "clusterOperatorCondition list \<Rightarrow> string \<Rightarrow> string \<Rightarrow> string \<Rightarrow> string \<Rightarrow> bool" where
  "isStatusConditionPresentAndEqual [] t s m r = False"
| "isStatusConditionPresentAndEqual (c # cs) t s m r =
     (if coType c = t then coStatus c = s \<and> coMessage c = m \<and> coReason c = r
      else isStatusConditionPresentAndEqual cs t s m r)"

text \<open>\<^verbatim>\<open>getStatusForConditionType\<close> feeds a log message only.\<close>

definition getStatusForConditionType :: "clusterOperatorCondition list \<Rightarrow> string \<Rightarrow> string" where
  "getStatusForConditionType cs t =
     (case coFindStatusCondition cs t of Some c \<Rightarrow> coStatus c | None \<Rightarrow> ConditionUnknown)"

text \<open>The loop over the conditions to set: the flag says whether the object needs an update.\<close>

definition applyCondition ::
  "bool \<times> clusterOperatorCondition list \<Rightarrow> clusterOperatorCondition \<Rightarrow>
   bool \<times> clusterOperatorCondition list" where
  "applyCondition s c =
     (case s of (needUpdate, cs) \<Rightarrow>
        if \<not> isStatusConditionPresentAndEqual cs (coType c) (coStatus c) (coMessage c) (coReason c)
        then (True, coSetStatusCondition cs c) else (needUpdate, cs))"

definition syncedClusterOperator ::
  "string \<Rightarrow> clusterOperator \<Rightarrow> clusterOperatorCondition list \<Rightarrow> bool \<times> clusterOperator" where
  "syncedClusterOperator releaseVersion co conds =
     (let (n1, cs) = foldl applyCondition (False, coConditions co) conds;
          co1 = co\<lparr>coConditions := cs\<rparr>;
          versions = [(''operator'', releaseVersion)];
          (n2, co2) = (if coVersions co1 \<noteq> versions then (True, co1\<lparr>coVersions := versions\<rparr>) else (n1, co1))
      in if relatedObjectsChanged co2 then (True, co2\<lparr>coRelatedObjects := relatedObjects\<rparr>) else (n2, co2))"

definition patchClusterOperatorStatus ::
  "'w apiClient \<Rightarrow> string \<Rightarrow> string \<Rightarrow> clusterOperator \<Rightarrow> clusterOperatorCondition list \<Rightarrow> 'w \<Rightarrow>
   unit result \<times> 'w" where
  "patchClusterOperatorStatus cl operatorName releaseVersion co conds w =
     (let (needUpdate, co') = syncedClusterOperator releaseVersion co conds
      in if \<not> needUpdate then (Inr (), w)
         else (case clStatusUpdateClusterOperator cl co' w of
                 (Inl e, w') \<Rightarrow>
                   (Inl (Wrapf (''failed to sync status for cluster operator '' @ operatorName @ '', '') e ''''), w')
               | (Inr _, w') \<Rightarrow> (Inr (), w')))"

definition getClusterOperator :: "'w apiClient \<Rightarrow> string \<Rightarrow> 'w \<Rightarrow> clusterOperator result" where
  "getClusterOperator cl operatorName w =
     (case clGetClusterOperator cl operatorName w of
        Inl e \<Rightarrow> Inl (wrap (''failed to get cluster operator '' @ operatorName) e)
      | Inr co \<Rightarrow> Inr co)"

definition availableConditions :: "clusterOperatorCondition list" where
  "availableConditions =
     [newClusterOperatorStatusCondition conditionAvailable ConditionTrue reasonAsExpected
        ''cluster operator is available'',
      newClusterOperatorStatusCondition conditionProgressing ConditionFalse reasonAsExpected '''',
      newClusterOperatorStatusCondition conditionDegraded ConditionFalse reasonAsExpected '''',
      newClusterOperatorStatusCondition OperatorUpgradeable ConditionTrue reasonAsExpected
        ''cluster operator is upgradable'']"

definition setClusterOperatorAvailable ::
  "'w apiClient \<Rightarrow> string \<Rightarrow> string \<Rightarrow> 'w \<Rightarrow> unit result \<times> 'w" where
  "setClusterOperatorAvailable cl operatorName releaseVersion w =
     (case getClusterOperator cl operatorName w of
        Inl e \<Rightarrow> (Inl (wrap ''cannot get cluster operator'' e), w)
      | Inr co \<Rightarrow> patchClusterOperatorStatus cl operatorName releaseVersion co availableConditions w)"

definition mirroredConditions :: "cpms \<Rightarrow> clusterOperatorCondition list" where
  "mirroredConditions c =
     (let conds = map (\<lambda>x. newClusterOperatorStatusCondition (condType x) (condStatus x) (condReason x)
                            (condMessage x))
                    (filter (\<lambda>x. condType x \<in> {conditionAvailable, conditionDegraded, conditionProgressing})
                       (conditionsOf c))
      in if coIsStatusConditionPresentAndEqual conds conditionAvailable ConditionTrue
         then conds @ [newClusterOperatorStatusCondition OperatorUpgradeable ConditionTrue reasonAsExpected
                         ''cluster operator is upgradable'']
         else conds @ [newClusterOperatorStatusCondition OperatorUpgradeable ConditionFalse reasonAsExpected
                         ''cluster operator is not upgradable''])"

definition updateClusterOperatorStatus ::
  "'w apiClient \<Rightarrow> string \<Rightarrow> string \<Rightarrow> cpms \<Rightarrow> 'w \<Rightarrow> unit result \<times> 'w" where
  "updateClusterOperatorStatus cl operatorName releaseVersion c w =
     (case getClusterOperator cl operatorName w of
        Inl e \<Rightarrow> (Inl (wrap ''cannot get cluster operator'' e), w)
      | Inr co \<Rightarrow> patchClusterOperatorStatus cl operatorName releaseVersion co (mirroredConditions c) w)"

section \<open>Lemmas\<close>

definition conditionHolds :: "clusterOperatorCondition list \<Rightarrow> clusterOperatorCondition \<Rightarrow> bool" where
  "conditionHolds cs c \<longleftrightarrow>
     isStatusConditionPresentAndEqual cs (coType c) (coStatus c) (coMessage c) (coReason c)"

lemma conditionHolds_set_same: "conditionHolds (coSetStatusCondition cs n) n"
  unfolding conditionHolds_def by (induction cs) auto

lemma conditionHolds_set_other:
  "coType n \<noteq> coType c \<Longrightarrow> conditionHolds (coSetStatusCondition cs n) c = conditionHolds cs c"
  unfolding conditionHolds_def by (induction cs) auto

lemma applyCondition_holds:
  "conditionHolds (snd (applyCondition s c)) c"
  "coType d \<noteq> coType c \<Longrightarrow> conditionHolds (snd (applyCondition s c)) d = conditionHolds (snd s) d"
  "fst (applyCondition s c) \<longleftrightarrow> fst s \<or> \<not> conditionHolds (snd s) c"
  "conditionHolds (snd s) c \<Longrightarrow> applyCondition s c = s"
  by (cases s; simp add: applyCondition_def conditionHolds_set_same conditionHolds_set_other
        flip: conditionHolds_def)+

lemma foldl_applyCondition_keeps:
  "coType d \<notin> coType ` set ds \<Longrightarrow>
     conditionHolds (snd (foldl applyCondition s ds)) d = conditionHolds (snd s) d"
  by (induction ds arbitrary: s) (auto simp: applyCondition_holds)

lemma foldl_applyCondition_holds:
  "distinct (map coType ds) \<Longrightarrow> \<forall>d \<in> set ds. conditionHolds (snd (foldl applyCondition s ds)) d"
proof (induction ds arbitrary: s)
  case (Cons d ds)
  then show ?case
    by (auto simp: applyCondition_holds foldl_applyCondition_keeps)
qed simp

lemma foldl_applyCondition_idle:
  "\<forall>d \<in> set ds. conditionHolds (snd s) d \<Longrightarrow> foldl applyCondition s ds = s"
  by (induction ds arbitrary: s) (auto simp: applyCondition_holds)

lemma relatedObjects_fresh: "\<not> relatedObjectsChanged (co\<lparr>coRelatedObjects := relatedObjects\<rparr>)"
  by (auto simp: relatedObjectsChanged_def list_ex_iff)

lemma relatedObjectsChanged_cong:
  "coRelatedObjects co = coRelatedObjects co' \<Longrightarrow> relatedObjectsChanged co = relatedObjectsChanged co'"
  by (simp add: relatedObjectsChanged_def)

text \<open>What a synced object satisfies.\<close>

lemma syncedClusterOperator_facts:
  assumes "distinct (map coType conds)" and "syncedClusterOperator v co conds = (n, co')"
  shows "\<forall>c \<in> set conds. conditionHolds (coConditions co') c"
    and "coVersions co' = [(''operator'', v)]" and "\<not> relatedObjectsChanged co'"
proof -
  obtain n1 cs where f: "foldl applyCondition (False, coConditions co) conds = (n1, cs)" by force
  from assms(2) f have "coConditions co' = cs"
    by (auto simp: syncedClusterOperator_def Let_def split: if_splits)
  with foldl_applyCondition_holds [OF assms(1), of "(False, coConditions co)"] f
  show "\<forall>c \<in> set conds. conditionHolds (coConditions co') c" by simp
  show "coVersions co' = [(''operator'', v)]"
    using assms(2) f by (auto simp: syncedClusterOperator_def Let_def split: if_splits)
  show "\<not> relatedObjectsChanged co'"
    using assms(2) f relatedObjects_fresh by (auto simp: syncedClusterOperator_def Let_def split: if_splits)
qed

lemma syncedClusterOperator_idle:
  assumes "\<forall>c \<in> set conds. conditionHolds (coConditions co) c"
    and "coVersions co = [(''operator'', v)]" and "\<not> relatedObjectsChanged co"
  shows "syncedClusterOperator v co conds = (False, co)"
  using foldl_applyCondition_idle [of conds "(False, coConditions co)"] assms
  by (simp add: syncedClusterOperator_def Let_def)

text \<open>Nothing to update is found exactly where everything is shown already.\<close>

lemma foldl_applyCondition_quiet:
  "\<not> fst (foldl applyCondition s ds) \<Longrightarrow> \<not> fst s \<and> (\<forall>d \<in> set ds. conditionHolds (snd s) d)"
proof (induction ds arbitrary: s)
  case (Cons d ds)
  then have "\<not> fst (applyCondition s d)" "\<forall>x \<in> set ds. conditionHolds (snd (applyCondition s d)) x" by auto
  then show ?case using applyCondition_holds(3,4) [of s d] by auto
qed simp

lemma syncedClusterOperator_needs:
  assumes "syncedClusterOperator v co conds = (n, co')"
  shows "n \<longleftrightarrow> \<not> ((\<forall>c \<in> set conds. conditionHolds (coConditions co) c) \<and> coVersions co = [(''operator'', v)] \<and>
    \<not> relatedObjectsChanged co)"
proof
  assume n
  then show "\<not> ((\<forall>c \<in> set conds. conditionHolds (coConditions co) c) \<and> coVersions co = [(''operator'', v)] \<and>
    \<not> relatedObjectsChanged co)" using syncedClusterOperator_idle [of conds co v] assms by auto
next
  assume *: "\<not> ((\<forall>c \<in> set conds. conditionHolds (coConditions co) c) \<and> coVersions co = [(''operator'', v)] \<and>
    \<not> relatedObjectsChanged co)"
  obtain n1 cs where f: "foldl applyCondition (False, coConditions co) conds = (n1, cs)" by force
  show n
  proof (rule ccontr)
    assume "\<not> n"
    with assms f have "\<not> n1" "coVersions co = [(''operator'', v)]" "\<not> relatedObjectsChanged (co\<lparr>coConditions := cs\<rparr>)"
      by (auto simp: syncedClusterOperator_def Let_def split: if_splits)
    with * foldl_applyCondition_quiet [of "(False, coConditions co)" conds] f show False
      by (simp add: relatedObjectsChanged_def)
  qed
qed

lemma syncedClusterOperator_conditions:
  "syncedClusterOperator v co conds = (n, co') \<Longrightarrow>
     coConditions co' = snd (foldl applyCondition (False, coConditions co) conds)"
  by (auto simp: syncedClusterOperator_def Let_def split: if_splits prod.splits)

lemma find_set_other: "t \<noteq> coType n \<Longrightarrow> coFindStatusCondition (coSetStatusCondition cs n) t = coFindStatusCondition cs t"
  by (induction cs) (auto simp: coFindStatusCondition_def)

lemma find_foldl_other:
  "t \<notin> coType ` set ds \<Longrightarrow>
     coFindStatusCondition (snd (foldl applyCondition s ds)) t = coFindStatusCondition (snd s) t"
  by (induction ds arbitrary: s) (auto simp: applyCondition_def find_set_other split: prod.splits)

section \<open>Properties\<close>

text \<open>
  Synchronising the cluster operator is idempotent. For conditions of distinct types, the synced
  object carries every condition, the release version and the related objects, and synchronising it
  again finds nothing to update, so the second call writes nothing.
\<close>

lemma cluster_operator_sync_idempotent:
  assumes "distinct (map coType conds)" and "syncedClusterOperator v co conds = (n, co')"
  shows "syncedClusterOperator v co' conds = (False, co') \<and>
         patchClusterOperatorStatus cl name v co' conds w = (Inr (), w)"
  using syncedClusterOperator_idle [OF syncedClusterOperator_facts [OF assms]]
  by (simp add: patchClusterOperatorStatus_def)


definition simClusterOperator :: clusterOperator where
  "simClusterOperator = \<lparr>coConditions = [], coVersions = [], coRelatedObjects = []\<rparr>"

lemma cluster_operator_sync_idempotent_witness:
  "\<exists>n co'. syncedClusterOperator ''4.20'' simClusterOperator availableConditions = (n, co') \<and> n \<and>
     syncedClusterOperator ''4.20'' co' availableConditions = (False, co')"
proof -
  have d: "distinct (map coType availableConditions)" by code_simp
  obtain n co' where s: "syncedClusterOperator ''4.20'' simClusterOperator availableConditions = (n, co')"
    by (meson surj_pair)
  have "fst (syncedClusterOperator ''4.20'' simClusterOperator availableConditions)" by code_simp
  with s have "n" by simp
  with s cluster_operator_sync_idempotent [OF d s, THEN conjunct1] show ?thesis
    by (intro exI conjI)
qed

lemma OperatorUpgradeable_new [simp]:
  "OperatorUpgradeable \<noteq> conditionAvailable" "OperatorUpgradeable \<noteq> conditionDegraded"
  "OperatorUpgradeable \<noteq> conditionProgressing"
  by (simp_all add: OperatorUpgradeable_def conditionAvailable_def conditionDegraded_def
      conditionProgressing_def)

lemma coIs_mirror:
  "coIsStatusConditionPresentAndEqual
     (map (\<lambda>x. newClusterOperatorStatusCondition (condType x) (condStatus x) (condReason x) (condMessage x))
        (filter (\<lambda>x. condType x \<in> T) cs)) t s \<longleftrightarrow> t \<in> T \<and> IsStatusConditionPresentAndEqual cs t s"
  by (induction cs) (auto simp: newClusterOperatorStatusCondition_def)

lemma mirrored_distinct:
  assumes "distinct (map condType (conditionsOf c))"
  shows "distinct (map coType (mirroredConditions c))"
proof -
  let ?f = "filter (\<lambda>x. condType x \<in> {conditionAvailable, conditionDegraded, conditionProgressing}) (conditionsOf c)"
  have "distinct (map condType ?f)" using assms by (rule distinct_map_filter)
  then show ?thesis
    by (auto simp: mirroredConditions_def newClusterOperatorStatusCondition_def Let_def comp_def)
qed

text \<open>What is shown for a condition type: status, reason and message of its first condition.\<close>

definition shown :: "clusterOperator \<Rightarrow> string \<Rightarrow> (string \<times> string \<times> string) option" where
  "shown co t = map_option (\<lambda>d. (coStatus d, coReason d, coMessage d)) (coFindStatusCondition (coConditions co) t)"

lemma shown_holds: "shown co (coType d) = Some (coStatus d, coReason d, coMessage d) \<longleftrightarrow> conditionHolds (coConditions co) d"
proof -
  have "conditionHolds cs d \<longleftrightarrow>
      map_option (\<lambda>d. (coStatus d, coReason d, coMessage d)) (find (\<lambda>c. coType c = coType d) cs) =
      Some (coStatus d, coReason d, coMessage d)" for cs
    unfolding conditionHolds_def by (induction cs) auto
  then show ?thesis by (simp add: shown_def coFindStatusCondition_def)
qed

definition mirroredTypes :: "string set" where
  "mirroredTypes = {conditionAvailable, conditionDegraded, conditionProgressing}"

text \<open>
  The operator reports a set: it shows the Available, Degraded and Progressing conditions the set has and
  whether it can be upgraded, the version, and five related objects, all of them expected ones.
\<close>

definition reportsSet :: "string \<Rightarrow> cpms \<Rightarrow> clusterOperator \<Rightarrow> bool" where
  "reportsSet v c co \<longleftrightarrow>
     (\<forall>x \<in> set (conditionsOf c). condType x \<in> mirroredTypes \<longrightarrow>
        shown co (condType x) = Some (condStatus x, condReason x, condMessage x)) \<and>
     shown co OperatorUpgradeable =
       (if IsStatusConditionTrue (conditionsOf c) conditionAvailable
        then Some (ConditionTrue, reasonAsExpected, ''cluster operator is upgradable'')
        else Some (ConditionFalse, reasonAsExpected, ''cluster operator is not upgradable'')) \<and>
     coVersions co = [(''operator'', v)] \<and>
     length (coRelatedObjects co) = 5 \<and> set (coRelatedObjects co) \<subseteq> set relatedObjects"

lemma mirroredConditions_eq:
  "mirroredConditions c =
     map (\<lambda>x. newClusterOperatorStatusCondition (condType x) (condStatus x) (condReason x) (condMessage x))
       (filter (\<lambda>x. condType x \<in> mirroredTypes) (conditionsOf c)) @
     [if IsStatusConditionTrue (conditionsOf c) conditionAvailable
      then newClusterOperatorStatusCondition OperatorUpgradeable ConditionTrue reasonAsExpected ''cluster operator is upgradable''
      else newClusterOperatorStatusCondition OperatorUpgradeable ConditionFalse reasonAsExpected ''cluster operator is not upgradable'']"
  unfolding mirroredConditions_def Let_def coIs_mirror IsStatusConditionTrue_def mirroredTypes_def by simp

lemma reportsSet_holds:
  "reportsSet v c co \<longleftrightarrow> (\<forall>d \<in> set (mirroredConditions c). conditionHolds (coConditions co) d) \<and>
     coVersions co = [(''operator'', v)] \<and> \<not> relatedObjectsChanged co"
proof -
  have "\<not> relatedObjectsChanged co \<longleftrightarrow> length (coRelatedObjects co) = 5 \<and> set (coRelatedObjects co) \<subseteq> set relatedObjects"
    unfolding relatedObjectsChanged_def by (auto simp: list_ex_iff) (simp_all add: relatedObjects_def)
  then show ?thesis
    unfolding reportsSet_def mirroredConditions_eq
    by (auto simp: newClusterOperatorStatusCondition_def simp flip: shown_holds)
qed


text \<open>A server that holds one operator object and stores what it is sent.\<close>

definition simOperatorClient :: "clusterOperator apiClient" where
  "simOperatorClient =
     \<lparr>clGetCpms = (\<lambda>ns n w. Inl (ErrNew ''no set'')), clUpdateCpms = (\<lambda>c w. (Inr c, w)),
      clStatusUpdateCpms = (\<lambda>c w. (Inr c, w)), clCpmsPatchData = (\<lambda>a b. Inr ''''),
      clGetClusterOperator = (\<lambda>n w. Inr w), clStatusUpdateClusterOperator = (\<lambda>co w. (Inr co, co)),
      clListMachineMetas = (\<lambda>t sel w. Inr []), clPatchMachineMeta = (\<lambda>a b w. (Inr (), w)),
      clListNodes = (\<lambda>sel w. Inr []), clKindFor = (\<lambda>r. Inl (ErrNew ''no kind'')),
      clLabelSelectorAsSelector = (\<lambda>s. Inr (\<lambda>l. True)), clGVKForCpms = (\<lambda>c. Inl (ErrNew ''no kind''))\<rparr>"


text \<open>
  A list of related objects with duplicates of one expected object passes for unchanged although
  four expected objects are missing: the check counts the entries and looks only for unexpected ones.
\<close>

lemma related_objects_duplicates_unchanged:
  "\<not> relatedObjectsChanged (simClusterOperator\<lparr>coRelatedObjects := replicate 5 (hd relatedObjects)\<rparr>) \<and>
   relatedObjects ! 1 \<notin> set (replicate 5 (hd relatedObjects))"
  by code_simp

end
