(* ===== verification/Ownership.thy ===== *)
theory Ownership
  imports Api_Client Machine_Info Simulation
begin

text \<open>
  Owner references and finalizers: the helpers of \<^verbatim>\<open>controller.go\<close> (\<^verbatim>\<open>hasOwnerRef\<close>, \<^verbatim>\<open>removeOwnerRef\<close>,
  \<^verbatim>\<open>isOwnedByCurrentCPMS\<close>) and the functions of controller-runtime they work with
  (\<^verbatim>\<open>SetControllerReference\<close>, \<^verbatim>\<open>RemoveFinalizer\<close>, \<^verbatim>\<open>referSameObject\<close>). The blockOwnerDeletion flag of an
  owner reference is left out.
\<close>

section \<open>Group versions\<close>

definition countChar :: "char \<Rightarrow> string \<Rightarrow> nat" where
  "countChar c s = length (filter (\<lambda>x. x = c) s)"

text \<open>\<^verbatim>\<open>schema.ParseGroupVersion\<close>: group and version, \<^const>\<open>None\<close> for an unexpected string.\<close>

definition ParseGroupVersion :: "string \<Rightarrow> (string \<times> string) option" where
  "ParseGroupVersion gv =
     (if gv = '''' \<or> gv = ''/'' then Some ('''', '''')
      else if countChar (CHR ''/'') gv = 0 then Some ('''', gv)
      else if countChar (CHR ''/'') gv = 1
      then Some (takeWhile (\<lambda>x. x \<noteq> CHR ''/'') gv, tl (dropWhile (\<lambda>x. x \<noteq> CHR ''/'') gv))
      else None)"

definition groupVersionString :: "groupVersionKind \<Rightarrow> string" where
  "groupVersionString gvk =
     (if length (gvkGroup gvk) > 0 then gvkGroup gvk @ ''/'' @ gvkVersion gvk else gvkVersion gvk)"

definition referSameObject :: "ownerReference \<Rightarrow> ownerReference \<Rightarrow> bool" where
  "referSameObject a b =
     (case ParseGroupVersion (orAPIVersion a) of None \<Rightarrow> False
      | Some (ag, _) \<Rightarrow>
          (case ParseGroupVersion (orAPIVersion b) of None \<Rightarrow> False
           | Some (bg, _) \<Rightarrow> ag = bg \<and> orKind a = orKind b \<and> orName a = orName b))"

section \<open>SetControllerReference\<close>

datatype ownerError = AlreadyOwnedError objectMeta ownerReference | OwnerErr goerror

definition validateOwner :: "objectMeta \<Rightarrow> objectMeta \<Rightarrow> goerror option" where
  "validateOwner owner obj =
     (if omNamespace owner \<noteq> ''''
      then if omNamespace obj = ''''
           then Some (ErrNew (''cluster-scoped resource must not have a namespace-scoped owner, owner's namespace ''
                  @ omNamespace owner))
           else if omNamespace owner \<noteq> omNamespace obj
           then Some (ErrNew (''cross-namespace owner references are disallowed, owner's namespace ''
                  @ omNamespace owner @ '', obj's namespace '' @ omNamespace obj))
           else None
      else None)"

fun upsertOwnerRef :: "ownerReference \<Rightarrow> ownerReference list \<Rightarrow> ownerReference list" where
  "upsertOwnerRef ref [] = [ref]"
| "upsertOwnerRef ref (o1 # os) = (if referSameObject o1 ref then ref # os else o1 # upsertOwnerRef ref os)"

definition controllerRefOf :: "groupVersionKind \<Rightarrow> objectMeta \<Rightarrow> ownerReference" where
  "controllerRefOf gvk owner =
     \<lparr>orAPIVersion = groupVersionString gvk, orKind = gvkKind gvk, orName = omName owner,
      orUID = omUID owner, orController = True\<rparr>"

definition SetControllerReference ::
  "groupVersionKind result \<Rightarrow> objectMeta \<Rightarrow> objectMeta \<Rightarrow> ownerError + objectMeta" where
  "SetControllerReference ownerGVK owner controlled =
     (case validateOwner owner controlled of
        Some e \<Rightarrow> Inl (OwnerErr e)
      | None \<Rightarrow>
          (case ownerGVK of
             Inl e \<Rightarrow> Inl (OwnerErr e)
           | Inr gvk \<Rightarrow>
               (let ref = controllerRefOf gvk owner
                in case getControllerOf controlled of
                     Some existing \<Rightarrow>
                       if \<not> referSameObject existing ref then Inl (AlreadyOwnedError controlled existing)
                       else Inr (controlled\<lparr>omOwnerReferences := upsertOwnerRef ref (omOwnerReferences controlled)\<rparr>)
                   | None \<Rightarrow>
                       Inr (controlled\<lparr>omOwnerReferences := upsertOwnerRef ref (omOwnerReferences controlled)\<rparr>))))"

section \<open>Ownership by a ControlPlaneMachineSet\<close>

definition isOwnedByCurrentCPMS :: "cpms \<Rightarrow> objectMeta \<Rightarrow> bool" where
  "isOwnedByCurrentCPMS c m =
     (if omOwnerReferences m = [] then False
      else (case getControllerOf m of
              None \<Rightarrow> False
            | Some controlledBy \<Rightarrow>
                (case ParseGroupVersion (cpmsAPIVersion c) of None \<Rightarrow> False
                 | Some (cg, _) \<Rightarrow>
                     (case ParseGroupVersion (orAPIVersion controlledBy) of None \<Rightarrow> False
                      | Some (og, _) \<Rightarrow>
                          cg = og \<and> cpmsKind c = orKind controlledBy \<and>
                          omName (cpmsMeta c) = orName controlledBy))))"

definition hasOwnerRef :: "objectMeta \<Rightarrow> objectMeta \<Rightarrow> bool" where
  "hasOwnerRef target owner =
     list_ex (\<lambda>r. orUID r = omUID owner \<and> orName r = omName owner) (omOwnerReferences target)"

definition removeOwnerRef :: "objectMeta \<Rightarrow> objectMeta \<Rightarrow> bool \<times> objectMeta" where
  "removeOwnerRef target owner =
     (if \<not> hasOwnerRef target owner then (False, target)
      else (True, target\<lparr>omOwnerReferences :=
                    filter (\<lambda>r. orUID r \<noteq> omUID owner) (omOwnerReferences target)\<rparr>))"

definition RemoveFinalizer :: "objectMeta \<Rightarrow> string \<Rightarrow> bool \<times> objectMeta" where
  "RemoveFinalizer m f =
     (let kept = filter (\<lambda>x. x \<noteq> f) (omFinalizers m)
      in (length (omFinalizers m) \<noteq> length kept, m\<lparr>omFinalizers := kept\<rparr>))"

section \<open>Lemmas\<close>

lemma referSameObject_sym: "referSameObject a b = referSameObject b a"
  by (auto simp: referSameObject_def split: option.splits)

lemma referSameObject_trans:
  "referSameObject a b \<Longrightarrow> referSameObject b c \<Longrightarrow> referSameObject a c"
  by (auto simp: referSameObject_def split: option.splits)

lemma find_upsert_controller:
  assumes "orController ref"
    and "\<And>r. find orController os = Some r \<Longrightarrow> referSameObject r ref"
  shows "find orController (upsertOwnerRef ref os) = Some ref"
  using assms by (induction os) auto

lemma mem_upsertOwnerRef: "ref \<in> set (upsertOwnerRef ref os)"
  by (induction os) auto

lemma removeOwnerRef_facts:
  assumes "removeOwnerRef target owner = (b, target')"
  shows "\<not> hasOwnerRef target' owner"
    and "b \<longleftrightarrow> hasOwnerRef target owner"
    and "\<not> b \<Longrightarrow> target' = target"
    and "b \<Longrightarrow> omOwnerReferences target' = filter (\<lambda>r. orUID r \<noteq> omUID owner) (omOwnerReferences target)"
    and "target'\<lparr>omOwnerReferences := omOwnerReferences target\<rparr> = target"
  using assms by (auto simp: removeOwnerRef_def hasOwnerRef_def list_ex_iff split: if_splits)

text \<open>What \<^const>\<open>SetControllerReference\<close> promises: see \<open>set_controller_reference_owned\<close>.\<close>

lemma SetControllerReference_Inr:
  assumes "SetControllerReference (Inr gvk) owner m = Inr m'"
  shows "omOwnerReferences m' = upsertOwnerRef (controllerRefOf gvk owner) (omOwnerReferences m)"
    and "m'\<lparr>omOwnerReferences := omOwnerReferences m\<rparr> = m"
    and "\<And>r. getControllerOf m = Some r \<Longrightarrow> referSameObject r (controllerRefOf gvk owner)"
  using assms by (auto simp: SetControllerReference_def Let_def split: option.splits if_splits)


section \<open>Properties\<close>

text \<open>
  Ownership round trip. When the ControlPlaneMachineSet can be made the controller of a machine,
  the machine then counts as owned by it, nothing but its owner references changes, and removing the
  owner references of the set again leaves no reference with its UID.
\<close>

lemma ownership_roundtrip:
  assumes "SetControllerReference (Inr gvk) (cpmsMeta c) m = Inr m'"
    and "cpmsAPIVersion c = groupVersionString gvk" and "cpmsKind c = gvkKind gvk"
    and "ParseGroupVersion (groupVersionString gvk) \<noteq> None"
  shows "isOwnedByCurrentCPMS c m' \<and> m'\<lparr>omOwnerReferences := omOwnerReferences m\<rparr> = m \<and>
         hasOwnerRef m' (cpmsMeta c) \<and>
         (\<forall>r \<in> set (omOwnerReferences (snd (removeOwnerRef m' (cpmsMeta c)))). orUID r \<noteq> omUID (cpmsMeta c))"
proof -
  let ?ref = "controllerRefOf gvk (cpmsMeta c)"
  note f = SetControllerReference_Inr [OF assms(1)]
  have "orController ?ref" by (simp add: controllerRefOf_def)
  then have "find orController (omOwnerReferences m') = Some ?ref"
    unfolding f(1) using f(3) by (intro find_upsert_controller) (auto simp: getControllerOf_def)
  moreover have mem: "?ref \<in> set (omOwnerReferences m')" by (simp add: f(1) mem_upsertOwnerRef)
  ultimately have "isOwnedByCurrentCPMS c m'"
    using assms(2-4)
    by (auto simp: isOwnedByCurrentCPMS_def getControllerOf_def controllerRefOf_def)
  moreover have "hasOwnerRef m' (cpmsMeta c)"
    using mem by (auto simp: hasOwnerRef_def list_ex_iff controllerRefOf_def intro: bexI [of _ ?ref])
  moreover from this have "omOwnerReferences (snd (removeOwnerRef m' (cpmsMeta c))) =
      filter (\<lambda>r. orUID r \<noteq> omUID (cpmsMeta c)) (omOwnerReferences m')"
    by (simp add: removeOwnerRef_def)
  ultimately show ?thesis using f(2) by simp
qed

definition simGVK :: groupVersionKind where
  "simGVK = \<lparr>gvkGroup = ''machine.openshift.io'', gvkVersion = ''v1'', gvkKind = ''ControlPlaneMachineSet''\<rparr>"

lemma ownership_roundtrip_witness:
  "\<exists>m'. SetControllerReference (Inr simGVK) (cpmsMeta (simCpms RollingUpdate 3))
      (emptyMeta\<lparr>omName := ''m-0''\<rparr>) = Inr m' \<and> isOwnedByCurrentCPMS (simCpms RollingUpdate 3) m'"
proof -
  obtain m' where m: "SetControllerReference (Inr simGVK) (cpmsMeta (simCpms RollingUpdate 3))
      (emptyMeta\<lparr>omName := ''m-0''\<rparr>) = Inr m'"
    by (simp add: SetControllerReference_def validateOwner_def simCpms_def emptyMeta_def getControllerOf_def
        Let_def)
  have g: "cpmsAPIVersion (simCpms RollingUpdate 3) = groupVersionString simGVK"
    "cpmsKind (simCpms RollingUpdate 3) = gvkKind simGVK"
    "ParseGroupVersion (groupVersionString simGVK) \<noteq> None" by code_simp+
  from m ownership_roundtrip [OF m g] show ?thesis by blast
qed

end
