(* ===== verification/Controller.thy ===== *)
theory Controller
  imports Updates Status Cluster_Operator Ownership
begin

text \<open>
  The reconciler of \<^verbatim>\<open>pkg/controllers/controlplanemachineset/controller.go\<close>: validation of the cluster
  state, finalizer and owner references, the reconcile of machines, deletion, and the top-level
  \<^verbatim>\<open>Reconcile\<close> with its error tracking and status updates.
  The API client and the machine provider are arguments over one world. A function that changes the
  ControlPlaneMachineSet through its pointer returns the changed object, on every path.
\<close>

section \<open>Machine provider construction\<close>

definition errUnexpectedMachineType :: goerror where
  "errUnexpectedMachineType = ErrNew ''unexpected value for spec.template.machineType''"

definition NewMachineProvider ::
  "(cpms \<Rightarrow> 'w \<Rightarrow> 'p result \<times> 'w) \<Rightarrow> cpms \<Rightarrow> 'w \<Rightarrow> 'p result \<times> 'w" where
  "NewMachineProvider openshiftNew c w =
     (let mt = machineType (cpmsTemplateOf (cpmsSpecOf c))
      in if mt = OpenShiftMachineV1Beta1MachineType
         then (case openshiftNew c w of
                 (Inl e, w') \<Rightarrow> (Inl (wrap (''error constructing '' @ OpenShiftMachineV1Beta1MachineType @
                                           '' machine provider'') e), w')
               | (Inr p, w') \<Rightarrow> (Inr p, w'))
         else (Inl (Wrapf '''' errUnexpectedMachineType ('': '' @ mt)), w))"

definition GetMachineTypeMeta :: "string \<Rightarrow> typeMeta result" where
  "GetMachineTypeMeta mt =
     (if mt = OpenShiftMachineV1Beta1MachineType
      then Inr \<lparr>tmKind = ''Machine'', tmAPIVersion = ''machine.openshift.io/v1beta1''\<rparr>
      else Inl (Wrapf '''' errUnexpectedMachineType ('': '' @ mt)))"

section \<open>Validation of the cluster state\<close>

text \<open>The two conditions every failed check sets: not progressing, and degraded for a reason.\<close>

definition degrade :: "string \<Rightarrow> string \<Rightarrow> cpms \<Rightarrow> cpms" where
  "degrade reason message c =
     setCondition (mkCondition conditionDegraded ConditionTrue reason message 0)
       (setCondition (mkCondition conditionProgressing ConditionFalse reasonOperatorDegraded '''' 0) c)"

definition isActive :: "cpms \<Rightarrow> bool" where
  "isActive c \<longleftrightarrow> cpmsState (cpmsSpecOf c) = StateActive"

definition isControlPlaneMachineSetDegraded :: "cpms \<Rightarrow> bool" where
  "isControlPlaneMachineSetDegraded c = IsStatusConditionTrue (conditionsOf c) conditionDegraded"

definition nodeName :: "node \<Rightarrow> string" where
  "nodeName n = omName (nodeMeta n)"

fun addNewNodes :: "node list \<Rightarrow> string list \<times> node list \<Rightarrow> string list \<times> node list" where
  "addNewNodes [] acc = acc"
| "addNewNodes (n # ns) (lookup, out) =
     (if nodeName n \<notin> set lookup
      then addNewNodes ns (nodeName n # lookup, out @ [n])
      else addNewNodes ns (lookup, out))"

definition fetchControlPlaneNodes :: "'w apiClient \<Rightarrow> 'w \<Rightarrow> node list result" where
  "fetchControlPlaneNodes cl w =
     (case clListNodes cl (masterNodeRoleLabel, '''') w of
        Inl e \<Rightarrow> Inl (wrap ''failed to get Nodes'' e)
      | Inr ms \<Rightarrow>
          (let acc = addNewNodes ms ([], [])
           in case clListNodes cl (controlPlaneNodeRoleLabel, '''') w of
                Inl e \<Rightarrow> Inl (wrap ''failed to get Nodes'' e)
              | Inr cs \<Rightarrow> Inr (snd (addNewNodes cs acc))))"

definition unmanagedNodeNames :: "node list \<Rightarrow> indexToMachineInfos list \<Rightarrow> string list" where
  "unmanagedNodeNames nodes ims =
     map (\<lambda>n. omName (nodeMeta n))
       (filter (\<lambda>n. \<not> list_ex (\<lambda>im. list_ex (\<lambda>m. case NodeRef m of None \<Rightarrow> False
                        | Some r \<Rightarrow> omName (refMeta r) = omName (nodeMeta n)) (itmMachineInfos im)) ims) nodes)"

definition checkControlPlaneNodesToMachinesMappings ::
  "'w apiClient \<Rightarrow> cpms \<Rightarrow> indexToMachineInfos list \<Rightarrow> 'w \<Rightarrow> bool result \<times> cpms" where
  "checkControlPlaneNodesToMachinesMappings cl c ims w =
     (case fetchControlPlaneNodes cl w of
        Inl e \<Rightarrow> (Inl (wrap ''failed to fetch control plane nodes'' e), c)
      | Inr nodes \<Rightarrow>
          (let names = unmanagedNodeNames nodes ims
           in if length names > 0
              then (Inr False, degrade reasonUnmanagedNodes
                      (''Found '' @ showNat (length names) @ '' unmanaged node(s)'') c)
              else (Inr True, c)))"

definition nonReadyIndexes :: "indexToMachineInfos list \<Rightarrow> indexToMachineInfos list" where
  "nonReadyIndexes ims =
     filter (\<lambda>im. length (itmMachineInfos im) > 0 \<and> isEmpty (readyMachines (itmMachineInfos im))) ims"

definition checkReadyControlPlaneMachineExists :: "cpms \<Rightarrow> indexToMachineInfos list \<Rightarrow> bool \<times> cpms" where
  "checkReadyControlPlaneMachineExists c ims =
     (if length (nonReadyIndexes ims) = length ims
      then (False, degrade reasonNoReadyMachines ''No ready control plane machines found'' c)
      else (True, c))"

definition checkCorrectNumberOfIndexes :: "cpms \<Rightarrow> indexToMachineInfos list \<Rightarrow> bool \<times> cpms" where
  "checkCorrectNumberOfIndexes c ims =
     (let current = int32len ims; replicas = replicasOf c
      in if current = replicas then (True, c)
         else if sint current < sint replicas then (True, c)
         else (False, degrade reasonExcessIndexes
                 (''Observed '' @ showInt (sint (current - replicas)) @ '' index(es) in excess'') c))"

fun checkValidNumerOfUpdatedMachinesPerIndex :: "cpms \<Rightarrow> indexToMachineInfos list \<Rightarrow> bool \<times> cpms" where
  "checkValidNumerOfUpdatedMachinesPerIndex c [] = (True, c)"
| "checkValidNumerOfUpdatedMachinesPerIndex c (im # ims) =
     (let updatedCount = length (updatedMachines (itmMachineInfos im))
      in if updatedCount > 1 \<and> strategyType (cpmsSpecOf c) = OnDelete
         then (False, degrade reasonExcessUpdatedReplicas
                 (''Observed '' @ showNat (updatedCount - 1) @ '' updated machine(s) in excess for index '' @
                  showInt (itmIndex im)) c)
         else checkValidNumerOfUpdatedMachinesPerIndex c ims)"

definition erroredReplacements :: "indexToMachineInfos list \<Rightarrow> string list" where
  "erroredReplacements ims =
     concat (map (\<lambda>im. let ms = itmMachineInfos im
                       in if hasAny (needReplacementMachines ms) \<and> hasAny (pendingMachines ms)
                          then map machineName (filter (\<lambda>m. ErrorMessage m \<noteq> '''') (pendingMachines ms))
                          else []) ims)"

definition checkNoErrorForReplacements :: "cpms \<Rightarrow> indexToMachineInfos list \<Rightarrow> bool \<times> cpms" where
  "checkNoErrorForReplacements c ims =
     (let names = erroredReplacements ims
      in if length names > 0
         then (False, degrade reasonFailedReplacement
                 (''Observed '' @ showNat (length names) @ '' replacement machine(s) in error state'') c)
         else (True, c))"

definition ensureConditionPresent :: "string \<Rightarrow> cpms \<Rightarrow> cpms" where
  "ensureConditionPresent t c =
     (if FindStatusCondition (conditionsOf c) t = None
      then setCondition (mkCondition t ConditionFalse '''' '''' 0) c else c)"

definition validateClusterState ::
  "'w apiClient \<Rightarrow> cpms \<Rightarrow> indexedMachines \<Rightarrow> 'w \<Rightarrow> unit result \<times> cpms" where
  "validateClusterState cl c mis w =
     (let ims = sortMachineInfosByIndex mis
      in case checkReadyControlPlaneMachineExists c ims of
           (False, c1) \<Rightarrow> (Inr (), c1)
         | (True, c1) \<Rightarrow>
             (case checkControlPlaneNodesToMachinesMappings cl c1 ims w of
                (Inl e, c2) \<Rightarrow>
                  (Inl (wrap ''failed to check control plane nodes to machines mappings'' e), c2)
              | (Inr False, c2) \<Rightarrow> (Inr (), c2)
              | (Inr True, c2) \<Rightarrow>
                  (case checkCorrectNumberOfIndexes c2 ims of
                     (False, c3) \<Rightarrow> (Inr (), c3)
                   | (True, c3) \<Rightarrow>
                       (case checkValidNumerOfUpdatedMachinesPerIndex c3 ims of
                          (False, c4) \<Rightarrow> (Inr (), c4)
                        | (True, c4) \<Rightarrow>
                            (case checkNoErrorForReplacements c4 ims of
                               (False, c5) \<Rightarrow> (Inr (), c5)
                             | (True, c5) \<Rightarrow>
                                 (Inr (), ensureConditionPresent conditionProgressing
                                            (ensureConditionPresent conditionDegraded c5)))))))"

section \<open>Finalizer and owner references\<close>

definition controlPlaneMachineSetFinalizer :: string where
  "controlPlaneMachineSetFinalizer = ''controlplanemachineset.machine.openshift.io''"

definition setFinalizers :: "string list \<Rightarrow> cpms \<Rightarrow> cpms" where
  "setFinalizers fs c = c\<lparr>cpmsMeta := (cpmsMeta c)\<lparr>omFinalizers := fs\<rparr>\<rparr>"

definition ensureFinalizer :: "'w apiClient \<Rightarrow> cpms \<Rightarrow> 'w env \<Rightarrow> bool result \<times> cpms \<times> 'w env" where
  "ensureFinalizer cl c env =
     (if list_ex (\<lambda>f. f = controlPlaneMachineSetFinalizer) (omFinalizers (cpmsMeta c)) then (Inr False, c, env)
      else (let c1 = setFinalizers (omFinalizers (cpmsMeta c) @ [controlPlaneMachineSetFinalizer]) c
            in case onWorld (clUpdateCpms cl c1) env of
                 (Inl e, env') \<Rightarrow> (Inl (wrap ''error updating control plane machine set'' e), c1, env')
               | (Inr c2, env') \<Rightarrow> (Inr True, c2, env')))"

text \<open>One machine of \<^verbatim>\<open>ensureOwnerReferences\<close>: the changed object and world, or the error that ends the loop.\<close>

definition ensureOwnerReference ::
  "'w apiClient \<Rightarrow> cpms \<Rightarrow> machineInfo \<Rightarrow> 'w env \<Rightarrow> unit result \<times> cpms \<times> 'w env" where
  "ensureOwnerReference cl c m env =
     (case MachineRef m of
        None \<Rightarrow> (Inr (), c, env)
      | Some ref \<Rightarrow>
          (case clKindFor cl (refGVR ref) of
             Inl e \<Rightarrow> (Inl (wrap ''error getting GVK for machine'' e), c, env)
           | Inr gvk \<Rightarrow>
               if isOwnedByCurrentCPMS c (refMeta ref) then (Inr (), c, env)
               else (case SetControllerReference (clGVKForCpms cl c) (cpmsMeta c) (refMeta ref) of
                       Inl (AlreadyOwnedError _ _) \<Rightarrow>
                         (Inr (), setCondition (mkCondition conditionDegraded ConditionTrue
                            reasonMachinesAlreadyOwned ''Observed already owned machine(s) in target machines''
                            (omGeneration (cpmsMeta c))) c, env)
                     | Inl (OwnerErr e) \<Rightarrow> (Inl (wrap ''error setting owner reference'' e), c, env)
                     | Inr meta \<Rightarrow>
                         (case onWorld (clPatchMachineMeta cl (refMeta ref) meta) env of
                            (Inl e, env') \<Rightarrow> (Inl (wrap ''error patching machine'' e), c, env')
                          | (Inr _, env') \<Rightarrow> (Inr (), c, env')))))"

fun ensureOwnerReferencesLoop ::
  "'w apiClient \<Rightarrow> cpms \<Rightarrow> machineInfo list \<Rightarrow> 'w env \<Rightarrow> unit result \<times> cpms \<times> 'w env" where
  "ensureOwnerReferencesLoop cl c [] env = (Inr (), c, env)"
| "ensureOwnerReferencesLoop cl c (m # ms) env =
     (case ensureOwnerReference cl c m env of
        (Inl e, c', env') \<Rightarrow> (Inl e, c', env')
      | (Inr _, c', env') \<Rightarrow> ensureOwnerReferencesLoop cl c' ms env')"

definition ensureOwnerReferences ::
  "'w apiClient \<Rightarrow> cpms \<Rightarrow> indexedMachines \<Rightarrow> 'w env \<Rightarrow> unit result \<times> cpms \<times> 'w env" where
  "ensureOwnerReferences cl c mis env = ensureOwnerReferencesLoop cl c (machineInfosMaptoSlice mis) env"

section \<open>Reconciling\<close>

definition reconcileMachines ::
  "'w apiClient \<Rightarrow> ('p, 'w) machineProvider \<Rightarrow> string \<Rightarrow> cpms \<Rightarrow> 'p \<Rightarrow> indexedMachines \<Rightarrow> 'w env \<Rightarrow>
   ctrlResult result \<times> cpms \<times> 'w env" where
  "reconcileMachines cl ops ns c p mis env =
     (case reconcileStatusWithMachineInfo c mis of
        (Inl e, c1) \<Rightarrow> (Inl (wrap ''error reconciling machine info with status'' e), c1, env)
      | (Inr _, c1) \<Rightarrow>
          (case validateClusterState cl c1 mis (envWorld env) of
             (Inl e, c2) \<Rightarrow> (Inl (wrap ''error validating cluster state'' e), c2, env)
           | (Inr _, c2) \<Rightarrow>
               if isControlPlaneMachineSetDegraded c2 then (Inr emptyResult, c2, env)
               else if \<not> isActive c2 then (Inr emptyResult, c2, env)
               else (case ensureOwnerReferences cl c2 mis env of
                       (Inl e, c3, env') \<Rightarrow> (Inl (wrap ''error ensuring owner references'' e), c3, env')
                     | (Inr _, c3, env') \<Rightarrow>
                         (case reconcileMachineUpdates ops p ns c3 mis env' of
                            (Inl e, c4, env'') \<Rightarrow>
                              (Inl (wrap ''error reconciling machine updates'' e), c4, env'')
                          | (Inr res, c4, env'') \<Rightarrow> (Inr res, c4, env'')))))"

fun removeOwnerRefs ::
  "'w apiClient \<Rightarrow> objectMeta \<Rightarrow> objectMeta list \<Rightarrow> goerror list \<Rightarrow> 'w env \<Rightarrow> goerror list \<times> 'w env" where
  "removeOwnerRefs cl owner [] errs env = (errs, env)"
| "removeOwnerRefs cl owner (m # ms) errs env =
     (case removeOwnerRef m owner of
        (False, _) \<Rightarrow> removeOwnerRefs cl owner ms errs env
      | (True, m') \<Rightarrow>
          (case onWorld (clPatchMachineMeta cl m m') env of
             (Inl e, env') \<Rightarrow>
               removeOwnerRefs cl owner ms
                 (errs @ [wrap (''error removing owner reference from machine '' @ omName m) e]) env'
           | (Inr _, env') \<Rightarrow> removeOwnerRefs cl owner ms errs env'))"

definition reconcileDelete ::
  "'w apiClient \<Rightarrow> cpms \<Rightarrow> 'w env \<Rightarrow> ctrlResult result \<times> 'w env" where
  "reconcileDelete cl c env =
     (case GetMachineTypeMeta (machineType (cpmsTemplateOf (cpmsSpecOf c))) of
        Inl e \<Rightarrow> (Inl (wrap ''could not determine machines type'' e), env)
      | Inr tm \<Rightarrow>
          (case clLabelSelectorAsSelector cl (cpmsSelector (cpmsSpecOf c)) of
             Inl e \<Rightarrow> (Inl (wrap ''could not convert label selector to selector'' e), env)
           | Inr sel \<Rightarrow>
               (case clListMachineMetas cl tm sel (envWorld env) of
                  Inl e \<Rightarrow> (Inl (wrap ''failed to list machines'' e), env)
                | Inr metas \<Rightarrow>
                    (case removeOwnerRefs cl (cpmsMeta c) metas [] env of
                       (errs, env1) \<Rightarrow>
                         if length errs > 0 then (Inl (AggregateErr errs), env1)
                         else (case RemoveFinalizer (cpmsMeta c) controlPlaneMachineSetFinalizer of
                                 (False, _) \<Rightarrow> (Inr emptyResult, env1)
                               | (True, meta) \<Rightarrow>
                                   (case onWorld (clUpdateCpms cl (c\<lparr>cpmsMeta := meta\<rparr>)) env1 of
                                      (Inl e, env2) \<Rightarrow>
                                        (Inl (wrap ''failed to update control plane machine set'' e), env2)
                                    | (Inr _, env2) \<Rightarrow> (Inr emptyResult, env2)))))))"

text \<open>\<^verbatim>\<open>ctrl.Result{Requeue: true}\<close>\<close>

definition requeueNow :: ctrlResult where
  "requeueNow = \<lparr>Requeue = True, RequeueAfter = 0\<rparr>"

definition reconcile ::
  "'w apiClient \<Rightarrow> ('p, 'w) machineProvider \<Rightarrow> (cpms \<Rightarrow> 'w \<Rightarrow> 'p result \<times> 'w) \<Rightarrow> string \<Rightarrow> cpms \<Rightarrow> 'w env \<Rightarrow>
   ctrlResult result \<times> cpms \<times> 'w env" where
  "reconcile cl ops newProvider ns c env =
     (if omDeletionTimestamp (cpmsMeta c) \<noteq> None
      then (case reconcileDelete cl c env of (r, env') \<Rightarrow> (r, c, env'))
      else (case ensureFinalizer cl c env of
              (Inl e, c1, env1) \<Rightarrow> (Inl (wrap ''error adding finalizer'' e), c1, env1)
            | (Inr True, c1, env1) \<Rightarrow> (Inr requeueNow, c1, env1)
            | (Inr False, c1, env1) \<Rightarrow>
                (case onWorld (NewMachineProvider newProvider c1) env1 of
                   (Inl e, env2) \<Rightarrow> (Inl (wrap ''error constructing machine provider'' e), c1, env2)
                 | (Inr p, env2) \<Rightarrow>
                     (case onWorld (mpGetMachineInfos ops p) env2 of
                        (Inl e, env3) \<Rightarrow> (Inl (wrap ''error fetching machine info'' e), c1, env3)
                      | (Inr infos, env3) \<Rightarrow>
                          (case machineInfosByIndex c1 infos of
                             Inl e \<Rightarrow> (Inl (wrap ''could not sort machine info by index'' e), c1, env3)
                           | Inr mis \<Rightarrow>
                               (case reconcileMachines cl ops ns c1 p mis env3 of
                                  (Inl e, c2, env4) \<Rightarrow> (Inl (wrap ''error reconciling machines'' e), c2, env4)
                                | (Inr res, c2, env4) \<Rightarrow> (Inr res, c2, env4)))))))"

record reconciler =
  rNamespace :: string
  rOperatorName :: string
  rReleaseVersion :: string
  rLastError :: "lastErrorTracker option"

definition errOf :: "'a result \<Rightarrow> goerror option" where
  "errOf r = (case r of Inl e \<Rightarrow> Some e | Inr _ \<Rightarrow> None)"

text \<open>
  The top-level Reconcile of one request; \<open>now\<close> is the printed current time. It returns the result,
  the reconciler with its changed error tracker, and the environment.
\<close>

definition Reconcile ::
  "'w apiClient \<Rightarrow> ('p, 'w) machineProvider \<Rightarrow> (cpms \<Rightarrow> 'w \<Rightarrow> 'p result \<times> 'w) \<Rightarrow> string \<Rightarrow> string \<Rightarrow> string \<Rightarrow>
   reconciler \<Rightarrow> 'w env \<Rightarrow> ctrlResult result \<times> reconciler \<times> 'w env" where
  "Reconcile cl ops newProvider now reqNamespace reqName r env =
     (case clGetCpms cl reqNamespace reqName (envWorld env) of
        Inl e \<Rightarrow>
          if isNotFound e
          then (case onWorld (setClusterOperatorAvailable cl (rOperatorName r) (rReleaseVersion r)) env of
                  (Inl e', env') \<Rightarrow> (Inl (wrap ''unable to reconcile cluster operator status'' e'), r, env')
                | (Inr _, env') \<Rightarrow> (Inr emptyResult, r, env'))
          else (Inl (wrap ''unable to fetch control plane machine set'' e), r, env)
      | Inr c \<Rightarrow>
          (case reconcile cl ops newProvider (rNamespace r) c env of
             (res, c1, env1) \<Rightarrow>
               (let errs1 = (case res of Inl e \<Rightarrow> [wrap ''error reconciling control plane machine set'' e]
                             | Inr _ \<Rightarrow> []);
                    (c2, le) = setLastError now c1 (errOf res) (rLastError r);
                    r' = r\<lparr>rLastError := le\<rparr>
                in case updateControlPlaneMachineSetStatus cl c c2 (envWorld env1) of
                     (sres, c3, w2) \<Rightarrow>
                       (let env2 = env1\<lparr>envWorld := w2\<rparr>;
                            errs2 = errs1 @ (case sres of
                                      Inl e \<Rightarrow> [wrap ''error updating control plane machine set status'' e]
                                    | Inr _ \<Rightarrow> [])
                        in if isActive c3
                           then (case onWorld (updateClusterOperatorStatus cl (rOperatorName r)
                                               (rReleaseVersion r) c3) env2 of
                                   (cres, env3) \<Rightarrow>
                                     (let errs3 = errs2 @ (case cres of
                                                Inl e \<Rightarrow> [wrap ''error updating control plane machine set status'' e]
                                              | Inr _ \<Rightarrow> [])
                                      in (if errs3 \<noteq> [] then Inl (AggregateErr errs3) else res, r', env3)))
                           else (case onWorld (setClusterOperatorAvailable cl (rOperatorName r)
                                               (rReleaseVersion r)) env2 of
                                   (Inl e, env3) \<Rightarrow>
                                     (Inl (wrap ''unable to reconcile cluster operator status'' e), r', env3)
                                 | (Inr _, env3) \<Rightarrow>
                                     (if errs2 \<noteq> [] then Inl (AggregateErr errs2) else res, r', env3))))))"

end
