(* ===== verification/Controller_Properties.thy ===== *)
theory Controller_Properties
  imports Controller Update_Properties
begin

text \<open>
  What the reconciler guarantees: when it may act on machines at all, the finalizer protocol, the
  deletion of a ControlPlaneMachineSet, and how errors surface.
\<close>

section \<open>Which checks pass\<close>

lemma degrade_sel [simp]:
  "isControlPlaneMachineSetDegraded (degrade r m c)" "cpmsSpecOf (degrade r m c) = cpmsSpecOf c"
  "cpmsMeta (degrade r m c) = cpmsMeta c"
  by (simp_all add: degrade_def isControlPlaneMachineSetDegraded_def condition_simps)

lemma replicasOf_cong: "cpmsSpecOf c = cpmsSpecOf c' \<Longrightarrow> replicasOf c = replicasOf c'"
  by (simp add: replicasOf_def)

lemma checkReady_cases:
  "checkReadyControlPlaneMachineExists c ims = (ok, c') \<Longrightarrow>
     if ok then c' = c \<and> nonReadyIndexes ims \<noteq> ims else isControlPlaneMachineSetDegraded c'"
  by (auto simp: checkReadyControlPlaneMachineExists_def split: if_splits)

lemma checkNodes_cases:
  "checkControlPlaneNodesToMachinesMappings cl c ims w = (Inr ok, c') \<Longrightarrow>
     if ok then c' = c \<and> (\<exists>nodes. fetchControlPlaneNodes cl w = Inr nodes \<and> unmanagedNodeNames nodes ims = [])
     else isControlPlaneMachineSetDegraded c'"
  by (auto simp: checkControlPlaneNodesToMachinesMappings_def Let_def split: sum.splits if_splits)

lemma checkIndexes_cases:
  "checkCorrectNumberOfIndexes c ims = (ok, c') \<Longrightarrow>
     if ok then c' = c \<and> sint (int32len ims) \<le> sint (replicasOf c) else isControlPlaneMachineSetDegraded c'"
  by (auto simp: checkCorrectNumberOfIndexes_def Let_def split: if_splits)

lemma checkUpdated_cases:
  "checkValidNumerOfUpdatedMachinesPerIndex c ims = (ok, c') \<Longrightarrow>
     if ok then c' = c \<and> (strategyType (cpmsSpecOf c) = OnDelete \<longrightarrow>
                           (\<forall>im \<in> set ims. length (updatedMachines (itmMachineInfos im)) \<le> 1))
     else isControlPlaneMachineSetDegraded c'"
  by (induction c ims rule: checkValidNumerOfUpdatedMachinesPerIndex.induct)
    (auto simp: Let_def split: if_splits)

lemma checkErrors_cases:
  "checkNoErrorForReplacements c ims = (ok, c') \<Longrightarrow>
     if ok then c' = c \<and> erroredReplacements ims = [] else isControlPlaneMachineSetDegraded c'"
  by (auto simp: checkNoErrorForReplacements_def Let_def split: if_splits)

lemma IsTrue_Find: "IsStatusConditionTrue cs t \<Longrightarrow> FindStatusCondition cs t \<noteq> None"
  by (auto simp: IsStatusConditionTrue_def IsStatusConditionPresentAndEqual_Find)

lemma ensureConditionPresent_sel [simp]:
  "cpmsSpecOf (ensureConditionPresent t c) = cpmsSpecOf c"
  "cpmsMeta (ensureConditionPresent t c) = cpmsMeta c"
  "isControlPlaneMachineSetDegraded (ensureConditionPresent t c) = isControlPlaneMachineSetDegraded c"
  using IsTrue_Find [of "conditionsOf c" conditionDegraded]
  by (auto simp: ensureConditionPresent_def isControlPlaneMachineSetDegraded_def condition_simps)

text \<open>
  The state of a cluster that passes validation, apart from the readiness check: every control plane
  node has a machine, there are no more indexes than replicas, with the on-delete strategy no index
  has two updated machines, and no replacement reports an error.
\<close>

definition validCluster :: "'w apiClient \<Rightarrow> cpms \<Rightarrow> indexedMachines \<Rightarrow> 'w \<Rightarrow> bool" where
  "validCluster cl c mis w \<longleftrightarrow>
     (let ims = sortMachineInfosByIndex mis
      in (case fetchControlPlaneNodes cl w of Inl _ \<Rightarrow> False | Inr nodes \<Rightarrow> unmanagedNodeNames nodes ims = []) \<and>
         sint (int32len ims) \<le> sint (replicasOf c) \<and>
         (strategyType (cpmsSpecOf c) = OnDelete \<longrightarrow>
            list_all (\<lambda>im. length (updatedMachines (itmMachineInfos im)) \<le> 1) ims) \<and>
         erroredReplacements ims = [])"

lemma validateClusterState_valid:
  assumes "validateClusterState cl c mis w = (Inr u, c')" and "\<not> isControlPlaneMachineSetDegraded c'"
  shows "validCluster cl c mis w" and "nonReadyIndexes (sortMachineInfosByIndex mis) \<noteq> sortMachineInfosByIndex mis"
    and "cpmsSpecOf c' = cpmsSpecOf c" and "cpmsMeta c' = cpmsMeta c"
    and "isControlPlaneMachineSetDegraded c' = isControlPlaneMachineSetDegraded c"
proof -
  let ?ims = "sortMachineInfosByIndex mis"
  obtain c1 c2 c3 c4 c5 where
    a: "checkReadyControlPlaneMachineExists c ?ims = (True, c1)" and
    b: "checkControlPlaneNodesToMachinesMappings cl c1 ?ims w = (Inr True, c2)" and
    d: "checkCorrectNumberOfIndexes c2 ?ims = (True, c3)" and
    e: "checkValidNumerOfUpdatedMachinesPerIndex c3 ?ims = (True, c4)" and
    f: "checkNoErrorForReplacements c4 ?ims = (True, c5)" and
    g: "c' = ensureConditionPresent conditionProgressing (ensureConditionPresent conditionDegraded c5)"
    using assms checkReady_cases [of c ?ims] checkNodes_cases [of cl _ ?ims w] checkIndexes_cases [of _ ?ims]
      checkUpdated_cases [of _ ?ims] checkErrors_cases [of _ ?ims]
    by (auto simp: validateClusterState_def Let_def split: prod.splits bool.splits sum.splits)
  have c: "c1 = c" "c2 = c" "c3 = c" "c4 = c" "c5 = c"
    using checkReady_cases [OF a] checkNodes_cases [OF b] checkIndexes_cases [OF d]
      checkUpdated_cases [OF e] checkErrors_cases [OF f] by auto
  show "validCluster cl c mis w"
    using checkNodes_cases [OF b] checkIndexes_cases [OF d] checkUpdated_cases [OF e] checkErrors_cases [OF f] c
    by (auto simp: validCluster_def Let_def list_all_iff)
  show "nonReadyIndexes ?ims \<noteq> ?ims" using checkReady_cases [OF a] by simp
  show "cpmsSpecOf c' = cpmsSpecOf c" "cpmsMeta c' = cpmsMeta c"
    "isControlPlaneMachineSetDegraded c' = isControlPlaneMachineSetDegraded c" using g c by simp_all
qed

section \<open>When the reconciler acts\<close>

lemma reconcileMachines_acts:
  assumes "reconcileMachines cl ops ns c p mis env = (r, c', env')" and "env' \<noteq> env"
  shows "isActive c" and "validCluster cl c mis (envWorld env)"
    and "list_ex Ready (machineInfosMaptoSlice mis)"
proof -
  from assms obtain u1 c1 u2 c2 where
    s: "reconcileStatusWithMachineInfo c mis = (Inr u1, c1)" and
    v: "validateClusterState cl c1 mis (envWorld env) = (Inr u2, c2)" and
    g: "\<not> isControlPlaneMachineSetDegraded c2" "isActive c2"
    by (auto simp: reconcileMachines_def split: prod.splits sum.splits if_splits)
  note spec = reconcileStatus_Inr(1) [OF s] validateClusterState_valid(3) [OF v g(1)]
  show "isActive c" using g(2) spec by (simp add: isActive_def)
  show "validCluster cl c mis (envWorld env)"
    using validateClusterState_valid(1) [OF v g(1)] spec replicasOf_cong [of c1 c]
    by (simp add: validCluster_def)
  have "cntReady (countReplicas mis) \<noteq> 0"
    using validateClusterState_valid(5) [OF v g(1)] g(1) reconcileStatus_Inr(9) [OF s]
    by (simp add: isControlPlaneMachineSetDegraded_def)
  then have "filter Ready (machineInfosMaptoSlice mis) \<noteq> []"
    by (auto simp: countReplicas_eq)
  then show "list_ex Ready (machineInfosMaptoSlice mis)"
    by (auto simp: filter_empty_conv list_ex_iff)
qed

lemma erroredReplacements_Nil:
  assumes "erroredReplacements ims = []" and "im \<in> set ims" and "needReplacementMachines (itmMachineInfos im) \<noteq> []"
    and "m \<in> set (pendingMachines (itmMachineInfos im))"
  shows "ErrorMessage m = ''''"
proof -
  have "pendingMachines (itmMachineInfos im) \<noteq> []" using assms(4) by auto
  with assms(1-3) have "filter (\<lambda>m. ErrorMessage m \<noteq> '''') (pendingMachines (itmMachineInfos im)) = []"
    by (auto simp: erroredReplacements_def Let_def dest!: bspec [of _ _ im])
  with assms(4) show ?thesis by (auto simp: filter_empty_conv)
qed

text \<open>
  C16: the reconciler acts only on a healthy, active cluster. If reconciling the machines changes
  anything in the cluster or calls the machine provider, then the ControlPlaneMachineSet is Active,
  some machine is Ready, every control plane node has a machine, there are no more indexes than
  replicas, no replacement reports an error, and with the on-delete strategy no index has two updated
  machines.
\<close>

theorem reconcile_acts_only_when_valid:
  assumes "machineInfosByIndex c infos = Inr mis"
    and "reconcileMachines cl ops ns c p mis env = (r, c', env')" and "env' \<noteq> env"
  shows "isActive c \<and> list_ex Ready infos \<and> sint (int32len mis) \<le> sint (replicasOf c) \<and>
    (\<exists>nodes. fetchControlPlaneNodes cl (envWorld env) = Inr nodes \<and>
       (\<forall>n \<in> set nodes. \<exists>m \<in> set infos. map_option (omName \<circ> refMeta) (NodeRef m) = Some (omName (nodeMeta n)))) \<and>
    (strategyType (cpmsSpecOf c) = OnDelete \<longrightarrow> (\<forall>(i, ms) \<in> set mis. length (updatedMachines ms) \<le> 1)) \<and>
    (\<forall>(i, ms) \<in> set mis. needReplacementMachines ms \<noteq> [] \<longrightarrow>
       (\<forall>m \<in> set (pendingMachines ms). ErrorMessage m = ''''))"
proof -
  note a = reconcileMachines_acts [OF assms(2,3)]
  let ?ims = "sortMachineInfosByIndex mis"
  have set: "set (machineInfosMaptoSlice mis) = set infos"
    using machineInfosByIndex_slice [OF assms(1)] by (rule mset_eq_setD)
  have mem: "m \<in> set infos" if "im \<in> set ?ims" "m \<in> set (itmMachineInfos im)" for im m
    using that by (force simp: set [symmetric] machineInfosMaptoSlice_def mem_sortMachineInfosByIndex)
  have entry: "\<lparr>itmIndex = i, itmMachineInfos = ms\<rparr> \<in> set ?ims" if "(i, ms) \<in> set mis" for i ms
    using that by (simp add: mem_sortMachineInfosByIndex)
  from a(2) obtain nodes where nodes: "fetchControlPlaneNodes cl (envWorld env) = Inr nodes"
      "unmanagedNodeNames nodes ?ims = []"
    by (auto simp: validCluster_def Let_def split: sum.splits)
  have "\<exists>m \<in> set infos. map_option (omName \<circ> refMeta) (NodeRef m) = Some (omName (nodeMeta n))"
    if "n \<in> set nodes" for n
  proof -
    from nodes(2) that obtain im m r where "im \<in> set ?ims" "m \<in> set (itmMachineInfos im)"
        "NodeRef m = Some r" "omName (refMeta r) = omName (nodeMeta n)"
      by (fastforce simp: unmanagedNodeNames_def filter_empty_conv list_ex_iff split: option.splits)
    with mem show ?thesis by force
  qed
  moreover have "length (updatedMachines ms) \<le> 1"
    if "strategyType (cpmsSpecOf c) = OnDelete" "(i, ms) \<in> set mis" for i ms
  proof -
    have "list_all (\<lambda>im. length (updatedMachines (itmMachineInfos im)) \<le> 1) ?ims"
      using a(2) that(1) by (simp add: validCluster_def Let_def)
    from this [unfolded list_all_iff, THEN bspec, OF entry [OF that(2)]] show ?thesis by simp
  qed
  moreover have "ErrorMessage m = ''''"
    if "(i, ms) \<in> set mis" "needReplacementMachines ms \<noteq> []" "m \<in> set (pendingMachines ms)" for i ms m
    using erroredReplacements_Nil [OF _ entry [OF that(1)], of m] a(2) that(2,3)
    by (simp add: validCluster_def Let_def)
  moreover have "list_ex Ready infos" using a(3) set by (simp add: list_ex_iff)
  moreover have "sint (int32len mis) \<le> sint (replicasOf c)"
    using a(2) by (simp add: validCluster_def int32len_def Let_def)
  ultimately show ?thesis using a(1) nodes(1) by blast
qed

definition simClient :: "cpms \<Rightarrow> machineInfo list apiClient" where
  "simClient c =
     \<lparr>clGetCpms = (\<lambda>ns n w. if n = ''cluster'' then Inr c else Inl (ApiErr reasonNotFound ''not found'')),
      clUpdateCpms = (\<lambda>x w. (Inr x, w)),
      clStatusUpdateCpms = (\<lambda>x w. (Inr x, w)),
      clCpmsPatchData = (\<lambda>a b. Inr (if a = b then ''{}'' else ''{...}'')),
      clGetClusterOperator = (\<lambda>n w. Inr simClusterOperator),
      clStatusUpdateClusterOperator = (\<lambda>co w. (Inr co, w)),
      clListMachineMetas = (\<lambda>tm sel w. Inr (map machineMeta w)),
      clPatchMachineMeta = (\<lambda>a b w. (Inr (), w)),
      clListNodes = (\<lambda>l w. Inr []),
      clKindFor = (\<lambda>g. Inr simGVK),
      clLabelSelectorAsSelector = (\<lambda>s. Inr (\<lambda>l. True)),
      clGVKForCpms = (\<lambda>x. Inr simGVK)\<rparr>"

theorem reconcile_acts_only_when_valid_witness:
  "\<exists>r c' env'. reconcileMachines (simClient (simCpms RollingUpdate 3)) simProvider ''ns''
      (simCpms RollingUpdate 3) () simIndexed (startEnv simInfos) = (r, c', env') \<and>
     env' \<noteq> startEnv simInfos \<and> list_ex Ready simInfos"
proof -
  let ?R = "reconcileMachines (simClient (simCpms RollingUpdate 3)) simProvider ''ns''
      (simCpms RollingUpdate 3) () simIndexed (startEnv simInfos)"
  obtain r c' env' where R: "?R = (r, c', env')" by (rule prod_cases3)
  have "envCalls (snd (snd ?R)) = [CreateCalled 1 True]" by code_simp
  with R have e: "env' \<noteq> startEnv simInfos" by (auto simp: startEnv_def)
  from reconcile_acts_only_when_valid [OF sim_by_index R e] R e show ?thesis by auto
qed

section \<open>The finalizer protocol\<close>

text \<open>
  The finalizer comes first. For a ControlPlaneMachineSet that is not being deleted and lacks the
  finalizer, a reconcile only asks the API to store the object with the finalizer added: no provider
  call, no other write. When that succeeds the request is requeued.
\<close>

lemma finalizer_before_action:
  assumes "omDeletionTimestamp (cpmsMeta c) = None"
    and "controlPlaneMachineSetFinalizer \<notin> set (omFinalizers (cpmsMeta c))"
  shows "\<exists>c1. controlPlaneMachineSetFinalizer \<in> set (omFinalizers (cpmsMeta c1)) \<and>
     cpmsSpecOf c1 = cpmsSpecOf c \<and> cpmsStatusOf c1 = cpmsStatusOf c \<and>
     (case onWorld (clUpdateCpms cl c1) env of
        (Inl e, env') \<Rightarrow> (\<exists>e' c'. reconcile cl ops newProvider ns c env = (Inl e', c', env'))
      | (Inr c2, env') \<Rightarrow> reconcile cl ops newProvider ns c env = (Inr requeueNow, c2, env'))"
proof -
  let ?c1 = "setFinalizers (omFinalizers (cpmsMeta c) @ [controlPlaneMachineSetFinalizer]) c"
  have "ensureFinalizer cl c env =
     (case onWorld (clUpdateCpms cl ?c1) env of
        (Inl e, env') \<Rightarrow> (Inl (wrap ''error updating control plane machine set'' e), ?c1, env')
      | (Inr c2, env') \<Rightarrow> (Inr True, c2, env'))"
    using assms(2) by (auto simp: ensureFinalizer_def list_ex_iff Let_def)
  with assms(1) show ?thesis
    by (intro exI [of _ ?c1]) (auto simp: reconcile_def setFinalizers_def split: prod.splits sum.splits)
qed

lemma finalizer_before_action_witness:
  "omDeletionTimestamp (cpmsMeta (simCpms RollingUpdate 3)) = None \<and>
   fst (reconcile (simClient (simCpms RollingUpdate 3)) simProvider (\<lambda>c w. (Inr (), w)) ''ns''
      (simCpms RollingUpdate 3) (startEnv simInfos)) = Inr requeueNow"
proof -
  have a: "omDeletionTimestamp (cpmsMeta (simCpms RollingUpdate 3)) = None" by code_simp
  have b: "controlPlaneMachineSetFinalizer \<notin> set (omFinalizers (cpmsMeta (simCpms RollingUpdate 3)))"
    by code_simp
  from finalizer_before_action [OF a b, where cl = "simClient (simCpms RollingUpdate 3)" and
      env = "startEnv simInfos" and ops = simProvider and newProvider = "\<lambda>c w. (Inr (), w)" and ns = "''ns''"] a
  show ?thesis by (auto simp: onWorld_def simClient_def)
qed

section \<open>Deletion\<close>

lemma removeOwnerRefs_inv:
  assumes "\<And>a b w. P w \<Longrightarrow> P (snd (clPatchMachineMeta cl a b w))" and "P (envWorld env)"
    and "removeOwnerRefs cl owner ms errs env = (errs', env')"
  shows "P (envWorld env') \<and> envCalls env' = envCalls env \<and> (\<exists>es. errs' = errs @ es)"
  using assms(2,3)
proof (induction ms arbitrary: errs env)
  case (Cons m ms)
  obtain b m' where o: "removeOwnerRef m owner = (b, m')" by force
  obtain r env1 where p: "onWorld (clPatchMachineMeta cl m m') env = (r, env1)" by force
  have "P (envWorld env1)" "envCalls env1 = envCalls env"
    using assms(1) [OF Cons.prems(1), of m m'] p by (auto simp: onWorld_def split: prod.splits)
  then show ?case
    using Cons.IH [of env errs] Cons.IH [of env1] Cons.prems o p
    by (cases b; cases r) fastforce+
qed simp

lemma removeOwnerRefs_fails:
  assumes "m \<in> set ms" and "hasOwnerRef m owner"
    and "\<And>w. isl (fst (clPatchMachineMeta cl m (snd (removeOwnerRef m owner)) w))"
    and "removeOwnerRefs cl owner ms errs env = (errs', env')"
  shows "errs' \<noteq> []"
  using assms(1,4)
proof (induction ms arbitrary: errs env)
  case (Cons x ms)
  have mono: "errs' \<noteq> []" if "removeOwnerRefs cl owner ms (errs @ [e]) env1 = (errs', env')" for e env1
    using removeOwnerRefs_inv [of "\<lambda>_. True" cl env1 owner ms "errs @ [e]"] that by auto
  obtain b x' where o: "removeOwnerRef x owner = (b, x')" by force
  obtain r env1 where p: "onWorld (clPatchMachineMeta cl x x') env = (r, env1)" by force
  show ?case
  proof (cases "x = m")
    case True
    with assms(2) o have "b" by (simp add: removeOwnerRef_def)
    moreover have "isl r" using assms(3) [of "envWorld env"] True o p by (auto simp: onWorld_def split: prod.splits)
    ultimately show ?thesis using Cons.prems(2) o p mono by (cases r) auto
  next
    case False
    with Cons.prems(1) have "m \<in> set ms" by simp
    with Cons.IH [of errs env] Cons.IH [of errs env1] Cons.prems(2) o p mono show ?thesis
      by (cases b; cases r) auto
  qed
qed simp

text \<open>
  C39: deletion is blocked while an owner reference cannot be removed. If the patch that removes the
  owner reference of some listed machine keeps failing, the deletion of the set returns an error, makes
  no provider call, and whatever holds of the cluster and is kept by patches of machines still holds:
  the object is not written, so its finalizer stays.
\<close>

theorem delete_blocked_by_failed_patch:
  assumes "clLabelSelectorAsSelector cl (cpmsSelector (cpmsSpecOf c)) = Inr sel"
    and "clListMachineMetas cl \<lparr>tmKind = ''Machine'', tmAPIVersion = ''machine.openshift.io/v1beta1''\<rparr> sel
           (envWorld env) = Inr metas"
    and "m \<in> set metas" and "hasOwnerRef m (cpmsMeta c)"
    and "\<And>w. isl (fst (clPatchMachineMeta cl m (snd (removeOwnerRef m (cpmsMeta c))) w))"
    and "\<And>a b w. P w \<Longrightarrow> P (snd (clPatchMachineMeta cl a b w))" and "P (envWorld env)"
    and "reconcileDelete cl c env = (r, env')"
  shows "isl r \<and> P (envWorld env') \<and> envCalls env' = envCalls env"
proof (cases "machineType (cpmsTemplateOf (cpmsSpecOf c)) = OpenShiftMachineV1Beta1MachineType")
  case True
  obtain errs env1 where l: "removeOwnerRefs cl (cpmsMeta c) metas [] env = (errs, env1)" by force
  have "errs \<noteq> []" using removeOwnerRefs_fails [OF assms(3,4,5) l] .
  with True assms(1,2,8) l have "r = Inl (AggregateErr errs)" "env' = env1"
    by (auto simp: reconcileDelete_def GetMachineTypeMeta_def)
  with removeOwnerRefs_inv [where P = P, OF assms(6,7) l] show ?thesis by simp
next
  case False
  with assms(7,8) show ?thesis by (auto simp: reconcileDelete_def GetMachineTypeMeta_def)
qed

definition simOwnedMeta :: objectMeta where
  "simOwnedMeta = emptyMeta\<lparr>omName := ''m-0'', omOwnerReferences :=
     [controllerRefOf simGVK (cpmsMeta (simCpms RollingUpdate 3))]\<rparr>"

definition simStuckClient :: "bool apiClient" where
  "simStuckClient =
     \<lparr>clGetCpms = (\<lambda>ns n w. Inr (simCpms RollingUpdate 3)), clUpdateCpms = (\<lambda>x w. (Inr x, False)),
      clStatusUpdateCpms = (\<lambda>x w. (Inr x, w)), clCpmsPatchData = (\<lambda>a b. Inr ''{}''),
      clGetClusterOperator = (\<lambda>n w. Inr simClusterOperator),
      clStatusUpdateClusterOperator = (\<lambda>co w. (Inr co, w)),
      clListMachineMetas = (\<lambda>tm sel w. Inr [simOwnedMeta]),
      clPatchMachineMeta = (\<lambda>a b w. (Inl (ErrNew ''conflict''), w)),
      clListNodes = (\<lambda>l w. Inr []), clKindFor = (\<lambda>g. Inr simGVK),
      clLabelSelectorAsSelector = (\<lambda>s. Inr (\<lambda>l. True)), clGVKForCpms = (\<lambda>x. Inr simGVK)\<rparr>"

text \<open>In this run the world is whether the stored object still has its finalizer.\<close>

theorem delete_blocked_by_failed_patch_witness:
  "\<exists>r env'. reconcileDelete simStuckClient (simCpms RollingUpdate 3) (startEnv True) = (r, env') \<and>
     isl r \<and> envWorld env'"
proof -
  obtain r env' where r: "reconcileDelete simStuckClient (simCpms RollingUpdate 3) (startEnv True) = (r, env')"
    by (meson surj_pair)
  have o: "hasOwnerRef simOwnedMeta (cpmsMeta (simCpms RollingUpdate 3))" by code_simp
  have "isl r \<and> envWorld env' \<and> envCalls env' = envCalls (startEnv True)"
    by (rule delete_blocked_by_failed_patch
        [where cl = simStuckClient and P = "\<lambda>w. w" and m = simOwnedMeta and sel = "\<lambda>l. True" and
          metas = "[simOwnedMeta]", OF _ _ _ o _ _ _ r])
      (simp_all add: simStuckClient_def)
  with r show ?thesis by auto
qed

section \<open>Errors and requeues of the top-level reconcile\<close>

text \<open>
  C40: no error is lost. When Reconcile returns no error, one of two things has happened. The set is
  known not to exist: nothing is reconciled, the empty result is returned, the error tracker is left as
  it was, and the cluster operator's status update to available succeeded. Or the set was found: the
  inner reconcile succeeded and its result is what is returned, the update of the set's status, with the
  Error condition false, succeeded, so did that of the cluster operator (from the set's status when the
  set is Active, to available otherwise), and the error tracker is reset.
\<close>

theorem reconcile_success_means_all_succeeded:
  assumes "Reconcile cl ops newProvider now ns name r env = (Inr res, r', env')"
  shows "(\<exists>e. clGetCpms cl ns name (envWorld env) = Inl e \<and> isNotFound e \<and> r' = r \<and> res = emptyResult \<and>
       setClusterOperatorAvailable cl (rOperatorName r) (rReleaseVersion r) (envWorld env) = (Inr (), envWorld env')) \<or>
    (\<exists>c c1 env1 c3 w2. clGetCpms cl ns name (envWorld env) = Inr c \<and>
       reconcile cl ops newProvider (rNamespace r) c env = (Inr res, c1, env1) \<and>
       updateControlPlaneMachineSetStatus cl c
         (setCondition (mkCondition conditionError ConditionFalse reasonAsExpected '''' (omGeneration (cpmsMeta c1))) c1)
         (envWorld env1) = (Inr (), c3, w2) \<and>
       (if isActive c3 then updateClusterOperatorStatus cl (rOperatorName r) (rReleaseVersion r) c3 w2
        else setClusterOperatorAvailable cl (rOperatorName r) (rReleaseVersion r) w2) = (Inr (), envWorld env') \<and>
       rLastError r' = None)"
proof (cases "clGetCpms cl ns name (envWorld env)")
  case (Inl e)
  with assms show ?thesis by (auto simp: Reconcile_def onWorld_def split: if_splits prod.splits sum.splits)
next
  case (Inr c)
  obtain rr c1 env1 where i: "reconcile cl ops newProvider (rNamespace r) c env = (rr, c1, env1)"
    by (rule prod_cases3)
  obtain c2 le where l: "setLastError now c1 (errOf rr) (rLastError r) = (c2, le)" by force
  obtain sres c3 w2 where s: "updateControlPlaneMachineSetStatus cl c c2 (envWorld env1) = (sres, c3, w2)"
    by (rule prod_cases3)
  have ok: "rr = Inr res" "sres = Inr ()" "rLastError r' = le"
    "(if isActive c3 then updateClusterOperatorStatus cl (rOperatorName r) (rReleaseVersion r) c3 w2
      else setClusterOperatorAvailable cl (rOperatorName r) (rReleaseVersion r) w2) = (Inr (), envWorld env')"
    using assms Inr i l s
    by (auto simp: Reconcile_def onWorld_def Let_def split: if_splits prod.splits sum.splits)
  have c2: "c2 = setCondition (mkCondition conditionError ConditionFalse reasonAsExpected ''''
      (omGeneration (cpmsMeta c1))) c1" and le: "le = None"
    using l ok(1) by (simp_all add: setLastError_def errOf_def trackError_def getErrorCondition_def Let_def)
  from Inr i s ok c2 le show ?thesis by auto
qed

definition simReconciler :: reconciler where
  "simReconciler = \<lparr>rNamespace = ''ns'', rOperatorName = ''control-plane-machine-set'',
     rReleaseVersion = ''4.20'', rLastError = None\<rparr>"

theorem reconcile_success_means_all_succeeded_witness:
  "\<exists>res r' env'. Reconcile (simClient (simCpms RollingUpdate 3)) simProvider (\<lambda>c w. (Inr (), w)) ''now'' ''ns''
       ''cluster'' simReconciler (startEnv simInfos) = (Inr res, r', env') \<and> rLastError r' = None"
proof -
  let ?R = "Reconcile (simClient (simCpms RollingUpdate 3)) simProvider (\<lambda>c w. (Inr (), w)) ''now'' ''ns''
       ''cluster'' simReconciler (startEnv simInfos)"
  have "\<not> isl (fst ?R)" by code_simp
  then obtain res r' env' where R: "?R = (Inr res, r', env')"
    by (cases ?R; cases "fst ?R") auto
  have "clGetCpms (simClient (simCpms RollingUpdate 3)) ''ns'' ''cluster'' (envWorld (startEnv simInfos))
      = Inr (simCpms RollingUpdate 3)" by code_simp
  with reconcile_success_means_all_succeeded [OF R] R show ?thesis by auto
qed

section \<open>Control plane nodes\<close>

lemma addNewNodes_facts:
  assumes "set lookup = nodeName ` set out" and "distinct (map nodeName out)"
    and "addNewNodes ns (lookup, out) = (lookup', out')"
  shows "set lookup' = nodeName ` set out' \<and> distinct (map nodeName out') \<and>
    nodeName ` set out' = nodeName ` set out \<union> nodeName ` set ns \<and> set out' \<subseteq> set out \<union> set ns"
  using assms
proof (induction ns arbitrary: lookup out)
  case (Cons n ns)
  show ?case
  proof (cases "nodeName n \<in> set lookup")
    case True
    with Cons.IH [OF Cons.prems(1,2)] Cons.prems show ?thesis by auto
  next
    case False
    have "set (nodeName n # lookup) = nodeName ` set (out @ [n])" "distinct (map nodeName (out @ [n]))"
      using Cons.prems(1,2) False by auto
    from Cons.IH [OF this] Cons.prems(3) False show ?thesis by auto
  qed
qed simp

text \<open>
  The control plane nodes are the nodes with the master or the control-plane role label, each
  name once: no two of the returned nodes share a name, and every node served for either label has a
  returned node of its name.
\<close>

lemma control_plane_nodes_unique:
  assumes "fetchControlPlaneNodes cl w = Inr nodes"
  shows "distinct (map (\<lambda>n. omName (nodeMeta n)) nodes) \<and>
    (\<exists>ms cs. clListNodes cl (masterNodeRoleLabel, '''') w = Inr ms \<and>
       clListNodes cl (controlPlaneNodeRoleLabel, '''') w = Inr cs \<and> set nodes \<subseteq> set ms \<union> set cs \<and>
       (\<forall>n \<in> set ms \<union> set cs. \<exists>n' \<in> set nodes. omName (nodeMeta n') = omName (nodeMeta n)))"
proof -
  from assms obtain ms cs where l: "clListNodes cl (masterNodeRoleLabel, '''') w = Inr ms"
    "clListNodes cl (controlPlaneNodeRoleLabel, '''') w = Inr cs"
    and n: "nodes = snd (addNewNodes cs (addNewNodes ms ([], [])))"
    by (auto simp: fetchControlPlaneNodes_def Let_def split: sum.splits)
  obtain l1 o1 where a: "addNewNodes ms ([], []) = (l1, o1)" by force
  obtain l2 o2 where b: "addNewNodes cs (l1, o1) = (l2, o2)" by force
  have f1: "set l1 = nodeName ` set o1" "distinct (map nodeName o1)" "nodeName ` set o1 = nodeName ` set ms"
    "set o1 \<subseteq> set ms"
    using addNewNodes_facts [OF _ _ a] by auto
  note f2 = addNewNodes_facts [OF f1(1,2) b]
  have "nodes = o2" using n a b by simp
  moreover from f2 f1(3) have img: "nodeName ` set o2 = nodeName ` (set ms \<union> set cs)" by (simp add: image_Un)
  moreover have "\<exists>n' \<in> set o2. nodeName n' = nodeName n" if "n \<in> set ms \<union> set cs" for n
    using imageI [OF that, of nodeName] unfolding img [symmetric] by auto
  ultimately show ?thesis
    using l f1(4) f2 by (auto simp: nodeName_def [abs_def])
qed

definition simNode :: "string \<Rightarrow> node" where
  "simNode n = \<lparr>nodeMeta = emptyMeta\<lparr>omName := n\<rparr>, nodeConditions = []\<rparr>"

theorem control_plane_nodes_unique_witness:
  "\<exists>nodes. fetchControlPlaneNodes (simStuckClient\<lparr>clListNodes := (\<lambda>l w. Inr [simNode ''a'', simNode ''b''])\<rparr>) True
     = Inr nodes \<and> distinct (map (\<lambda>n. omName (nodeMeta n)) nodes)"
proof -
  let ?cl = "simStuckClient\<lparr>clListNodes := (\<lambda>l w. Inr [simNode ''a'', simNode ''b''])\<rparr>"
  obtain nodes where n: "fetchControlPlaneNodes ?cl True = Inr nodes"
    by (simp add: fetchControlPlaneNodes_def)
  from control_plane_nodes_unique [OF n] n show ?thesis by blast
qed

section \<open>Divergences\<close>

definition simForeignOwner :: ownerReference where
  "simForeignOwner = \<lparr>orAPIVersion = ''example.com/v1'', orKind = ''Other'', orName = ''other'', orUID = ''u'',
     orController = True\<rparr>"

definition simForeign :: machineInfo where
  "simForeign = (simMachine ''m-1'' 1 True True 2 None)\<lparr>MachineRef :=
     map_option (\<lambda>r. r\<lparr>refMeta := (refMeta r)\<lparr>omOwnerReferences := [simForeignOwner]\<rparr>\<rparr>)
       (MachineRef (simMachine ''m-1'' 1 True True 2 None))\<rparr>"

text \<open>
  A machine that another controller owns degrades the set with reason MachinesAlreadyOwned, but
  the same pass goes on to the machine updates: here it creates a replacement for the foreign machine.
\<close>

lemma foreign_owner_degrades_but_continues:
  "case reconcileMachines (simClient (simCpms RollingUpdate 3)) simProvider ''ns'' (simCpms RollingUpdate 3) ()
          [(0, [simMachine ''m-0'' 0 True False 1 None]), (1, [simForeign]),
           (2, [simMachine ''m-2'' 2 True False 3 None])]
          (startEnv [simMachine ''m-0'' 0 True False 1 None, simForeign,
             simMachine ''m-2'' 2 True False 3 None]) of
     (r, c', env') \<Rightarrow>
       isControlPlaneMachineSetDegraded c' \<and>
       map_option condReason (FindStatusCondition (conditionsOf c') conditionDegraded)
         = Some reasonMachinesAlreadyOwned \<and>
       envCalls env' = [CreateCalled 1 True]"
  by code_simp

text \<open>
  The check that a Ready machine exists passes without any Ready machine as soon as one index has
  no machine at all; the status condition computed before it still degrades the set.
\<close>

lemma ready_check_ignores_empty_indexes:
  "let mis = [(0, [simMachine ''m-0'' 0 False False 1 None]), (1, [])]; c = simCpms RollingUpdate 2
   in fst (checkReadyControlPlaneMachineExists c (sortMachineInfosByIndex mis)) \<and>
      \<not> list_ex Ready (machineInfosMaptoSlice mis) \<and>
      isControlPlaneMachineSetDegraded (snd (reconcileStatusWithMachineInfo c mis))"
  by code_simp

end
