(* ===== verification/Reconcile_Course.thy ===== *)
theory Reconcile_Course
  imports OnDelete_Course Controller_Properties
begin

text \<open>
  The reconciler and the course of a rollout: every call that a \<^verbatim>\<open>Reconcile\<close> makes to the machine provider
  belongs to one pass of the update strategy over the machines the provider reported, so a Reconcile
  is a step of the course of its strategy (\<open>Rollout_Course\<close>, \<open>OnDelete_Course\<close>) and the invariants of the
  course hold across it.
\<close>

section \<open>Where the calls of a Reconcile come from\<close>

lemma env_startEnv: "envCalls env = [] \<Longrightarrow> env = startEnv (envWorld env)"
  by (simp add: startEnv_def)

lemma ensureOwnerReference_frame:
  assumes "ensureOwnerReference cl c m env = (r, c', env')"
  shows "cpmsSpecOf c' = cpmsSpecOf c \<and> envCalls env' = envCalls env"
  using assms
  by (auto simp: ensureOwnerReference_def condition_simps
      split: option.splits sum.splits ownerError.splits if_splits prod.splits dest: onWorld_calls)

lemma ensureOwnerReferencesLoop_frame:
  "ensureOwnerReferencesLoop cl c ms env = (r, c', env') \<Longrightarrow>
     cpmsSpecOf c' = cpmsSpecOf c \<and> envCalls env' = envCalls env"
proof (induction ms arbitrary: c env)
  case (Cons m ms)
  obtain r1 c1 env1 where o: "ensureOwnerReference cl c m env = (r1, c1, env1)" by (rule prod_cases3)
  with Cons ensureOwnerReference_frame [OF o] show ?case by (cases r1) auto
qed simp

lemma reconcileMachines_calls:
  assumes "reconcileMachines cl ops ns c p mis env = (r, c', env')" and "envCalls env = []"
    and "envCalls env' \<noteq> []"
  obtains c3 w3 r4 c4 where "cpmsSpecOf c3 = cpmsSpecOf c" and "isActive c"
    and "reconcileMachineUpdates ops p ns c3 mis (startEnv w3) = (r4, c4, env')"
proof -
  from assms obtain u1 c1 u2 c2 where
    s: "reconcileStatusWithMachineInfo c mis = (Inr u1, c1)" and
    v: "validateClusterState cl c1 mis (envWorld env) = (Inr u2, c2)" and
    g: "\<not> isControlPlaneMachineSetDegraded c2" "isActive c2"
    by (auto simp: reconcileMachines_def split: prod.splits sum.splits if_splits)
  note spec = reconcileStatus_Inr(1) [OF s] validateClusterState_valid(3) [OF v g(1)]
  obtain r3 c3 env3 where o: "ensureOwnerReferences cl c2 mis env = (r3, c3, env3)" by (rule prod_cases3)
  from ensureOwnerReferencesLoop_frame [OF o [unfolded ensureOwnerReferences_def]]
  have f: "cpmsSpecOf c3 = cpmsSpecOf c2" "envCalls env3 = []" using assms(2) by auto
  obtain r4 c4 env4 where u: "reconcileMachineUpdates ops p ns c3 mis env3 = (r4, c4, env4)" by (rule prod_cases3)
  from assms(1,3) s v g o u f(2) have "env4 = env'"
    by (auto simp: reconcileMachines_def split: sum.splits)
  then show thesis
    using that [of c3 "envWorld env3"] f spec g(2) u env_startEnv [OF f(2)] by (auto simp: isActive_def)
qed

lemma reconcile_calls:
  assumes "reconcile cl ops newProvider ns c env = (r, c', env')" and "envCalls env = []"
    and "envCalls env' \<noteq> []"
  obtains p infos mis w1 w2 c3 w3 r4 c4 where "omDeletionTimestamp (cpmsMeta c) = None"
    and "controlPlaneMachineSetFinalizer \<in> set (omFinalizers (cpmsMeta c))"
    and "NewMachineProvider newProvider c (envWorld env) = (Inr p, w1)"
    and "mpGetMachineInfos ops p w1 = (Inr infos, w2)" and "machineInfosByIndex c infos = Inr mis"
    and "isActive c" and "cpmsSpecOf c3 = cpmsSpecOf c"
    and "reconcileMachineUpdates ops p ns c3 mis (startEnv w3) = (r4, c4, env')"
proof -
  have nd: "omDeletionTimestamp (cpmsMeta c) = None"
  proof (rule ccontr)
    assume "omDeletionTimestamp (cpmsMeta c) \<noteq> None"
    then have "reconcileDelete cl c env = (r, env')" using assms(1) by (auto simp: reconcile_def split: prod.splits)
    then have "envCalls env' = envCalls env"
      using removeOwnerRefs_inv [where P = "\<lambda>_. True"]
      by (fastforce simp: reconcileDelete_def split: sum.splits prod.splits bool.splits if_splits dest: onWorld_calls)
    with assms show False by simp
  qed
  obtain b c1 env1 where f: "ensureFinalizer cl c env = (b, c1, env1)" by (rule prod_cases3)
  have fin: "controlPlaneMachineSetFinalizer \<in> set (omFinalizers (cpmsMeta c))" "b = Inr False" "c1 = c" "env1 = env"
    using assms nd f
    by (auto simp: reconcile_def ensureFinalizer_def list_ex_iff Let_def
        split: if_splits prod.splits sum.splits bool.splits dest: onWorld_calls)
  obtain rp env2 where p: "onWorld (NewMachineProvider newProvider c) env = (rp, env2)" by force
  then have e2: "envCalls env2 = []" using assms(2) by auto
  with assms nd f fin p obtain p' where p': "rp = Inr p'" by (cases rp) (auto simp: reconcile_def)
  obtain ri env3 where i: "onWorld (mpGetMachineInfos ops p') env2 = (ri, env3)" by force
  then have e3: "envCalls env3 = []" using e2 by auto
  with assms nd f fin p p' i obtain infos where infos: "ri = Inr infos" by (cases ri) (auto simp: reconcile_def)
  with assms e3 nd f fin p p' i obtain mis where mis: "machineInfosByIndex c infos = Inr mis"
    by (cases "machineInfosByIndex c infos") (auto simp: reconcile_def)
  obtain rr c2 env4 where m: "reconcileMachines cl ops ns c p' mis env3 = (rr, c2, env4)" by (rule prod_cases3)
  have "env4 = env'"
    using assms(1) nd f fin p p' i infos mis m by (auto simp: reconcile_def split: sum.splits)
  with assms(3) m have m': "reconcileMachines cl ops ns c p' mis env3 = (rr, c2, env')" by simp
  have read: "\<exists>w2. NewMachineProvider newProvider c (envWorld env) = (Inr p', envWorld env2) \<and>
      mpGetMachineInfos ops p' (envWorld env2) = (Inr infos, w2)"
    using p p' i infos by (auto simp: onWorld_def split: prod.splits)
  from reconcileMachines_calls [OF m' e3 assms(3)] obtain c3 w3 r4 c4 where "isActive c"
    "cpmsSpecOf c3 = cpmsSpecOf c" "reconcileMachineUpdates ops p' ns c3 mis (startEnv w3) = (r4, c4, env')" by metis
  with nd fin(1) mis read show thesis by (blast intro: that)
qed

lemma Reconcile_calls:
  assumes "Reconcile cl ops newProvider now ns name r env = (res, r', env')" and "envCalls env' \<noteq> envCalls env"
  obtains c r1 c1 env1 where "clGetCpms cl ns name (envWorld env) = Inr c"
    and "reconcile cl ops newProvider (rNamespace r) c env = (r1, c1, env1)" and "envCalls env1 = envCalls env'"
proof (cases "clGetCpms cl ns name (envWorld env)")
  case (Inl e)
  with assms have False
    by (auto simp: Reconcile_def split: if_splits prod.splits sum.splits dest: onWorld_calls)
  then show thesis ..
next
  case (Inr c)
  obtain r1 c1 env1 where i: "reconcile cl ops newProvider (rNamespace r) c env = (r1, c1, env1)" by (rule prod_cases3)
  obtain c2 le where l: "setLastError now c1 (errOf r1) (rLastError r) = (c2, le)" by force
  obtain sres c3 w2 where s: "updateControlPlaneMachineSetStatus cl c c2 (envWorld env1) = (sres, c3, w2)"
    by (rule prod_cases3)
  have "envCalls env' = envCalls (env1\<lparr>envWorld := w2\<rparr>)"
    using assms(1) Inr i l s
    by (auto simp: Reconcile_def Let_def split: if_splits prod.splits sum.splits dest!: onWorld_calls)
  with Inr i show thesis by (intro that) auto
qed

text \<open>
  C5: a Reconcile that calls the machine provider is one pass of the update strategy. The set exists, is
  Active, has the finalizer and is not being deleted, and the calls are made for machines the provider
  reported. Wherever these calls lead the machines is a step of the rolling update, or of the on-delete
  course, as the strategy of the set says. No other strategy calls the provider.
\<close>

theorem reconcile_refines_rollout:
  assumes "Reconcile cl ops newProvider now ns name r (startEnv w) = (res, r', env')"
    and "envCalls env' \<noteq> []"
  shows "\<exists>c p w1 w2 infos. clGetCpms cl ns name w = Inr c \<and> isActive c \<and>
    omDeletionTimestamp (cpmsMeta c) = None \<and> controlPlaneMachineSetFinalizer \<in> set (omFinalizers (cpmsMeta c)) \<and>
    NewMachineProvider newProvider c w = (Inr p, w1) \<and> mpGetMachineInfos ops p w1 = (Inr infos, w2) \<and>
    (strategyType (cpmsSpecOf c) = RollingUpdate \<and>
       (\<forall>infos'. clusterRun infosCreate infosDelete infos (envCalls env') infos' \<longrightarrow>
                 rolloutStep ops (rNamespace r) c infos infos') \<or>
     strategyType (cpmsSpecOf c) = OnDelete \<and>
       (\<forall>infos'. clusterRun infosCreate infosDelete infos (envCalls env') infos' \<longrightarrow>
                 onDeleteStep ops c infos infos'))"
proof -
  from Reconcile_calls [OF assms(1)] assms(2) obtain c r1 c1 env1 where c: "clGetCpms cl ns name w = Inr c"
    "reconcile cl ops newProvider (rNamespace r) c (startEnv w) = (r1, c1, env1)" "envCalls env1 = envCalls env'"
    by (metis startEnv_sel)
  with assms(2) have "envCalls env1 \<noteq> []" by simp
  from reconcile_calls [OF c(2) startEnv_sel(2) this] obtain p infos mis w1 w2 c3 w3 r4 c4 where
    a: "omDeletionTimestamp (cpmsMeta c) = None" "controlPlaneMachineSetFinalizer \<in> set (omFinalizers (cpmsMeta c))"
      "isActive c" "NewMachineProvider newProvider c w = (Inr p, w1)" "mpGetMachineInfos ops p w1 = (Inr infos, w2)" "machineInfosByIndex c infos = Inr mis"
      "cpmsSpecOf c3 = cpmsSpecOf c"
    and u: "reconcileMachineUpdates ops p (rNamespace r) c3 mis (startEnv w3) = (r4, c4, env1)"
    unfolding startEnv_sel by metis
  have repl: "replicasOf c3 = replicasOf c" using a(7) by (rule replicasOf_cong)
  consider (rolling) r5 where "strategyType (cpmsSpecOf c) = RollingUpdate"
      "reconcileMachineRollingUpdate ops p (rNamespace r) (replicasOf c) mis (startEnv w3) = (r5, env1)"
    | (ondelete) r5 where "strategyType (cpmsSpecOf c) = OnDelete"
      "reconcileMachineOnDeleteUpdate ops p mis (startEnv w3) = (r5, env1)"
    using u \<open>envCalls env1 \<noteq> []\<close> a(7) repl
    by (auto simp: reconcileMachineUpdates_def Let_def split: if_splits prod.splits)
  then have "strategyType (cpmsSpecOf c) = RollingUpdate \<and>
       (\<forall>infos'. clusterRun infosCreate infosDelete infos (envCalls env1) infos' \<longrightarrow>
                 rolloutStep ops (rNamespace r) c infos infos') \<or>
     strategyType (cpmsSpecOf c) = OnDelete \<and>
       (\<forall>infos'. clusterRun infosCreate infosDelete infos (envCalls env1) infos' \<longrightarrow>
                 onDeleteStep ops c infos infos')"
  proof cases
    case rolling
    then show ?thesis using rolloutStep.pass [OF a(6) rolling(2)] by blast
  next
    case ondelete
    then show ?thesis using onDeleteStep.pass [OF a(6) ondelete(2)] by blast
  qed
  with a c(1) show ?thesis unfolding c(3) by metis
qed

definition simFinalized :: cpms where
  "simFinalized = setFinalizers [controlPlaneMachineSetFinalizer] (simCpms RollingUpdate 3)"

theorem reconcile_refines_rollout_witness:
  "\<exists>res r' env'. Reconcile (simClient simFinalized) simProvider (\<lambda>c w. (Inr (), w)) ''now'' ''ns'' ''cluster''
       simReconciler (startEnv simInfos) = (res, r', env') \<and> envCalls env' = [CreateCalled 1 True] \<and>
     rolloutStep simProvider ''ns'' simFinalized simInfos (simInfos @ [newMachine ''new-1'' 1])"
proof -
  let ?R = "Reconcile (simClient simFinalized) simProvider (\<lambda>c w. (Inr (), w)) ''now'' ''ns'' ''cluster''
       simReconciler (startEnv simInfos)"
  obtain res r' env' where R: "?R = (res, r', env')" by (rule prod_cases3)
  have "envCalls (snd (snd ?R)) = [CreateCalled 1 True]" by code_simp
  with R have calls: "envCalls env' = [CreateCalled 1 True]" by simp
  then have "envCalls env' \<noteq> []" by simp
  from reconcile_refines_rollout [OF R this] obtain c p w1 w2 infos where
    c: "clGetCpms (simClient simFinalized) ''ns'' ''cluster'' simInfos = Inr c" and
    i: "NewMachineProvider (\<lambda>c w. (Inr (), w)) c simInfos = (Inr p, w1)" "mpGetMachineInfos simProvider p w1 = (Inr infos, w2)"
    and s: "strategyType (cpmsSpecOf c) = RollingUpdate \<and>
       (\<forall>infos'. clusterRun infosCreate infosDelete infos (envCalls env') infos' \<longrightarrow>
                 rolloutStep simProvider (rNamespace simReconciler) c infos infos') \<or>
     strategyType (cpmsSpecOf c) = OnDelete" by blast
  have cc: "c = simFinalized" using c by (simp add: simClient_def)
  then have "infos = simInfos" using i
    by (simp add: simProvider_def NewMachineProvider_def simFinalized_def setFinalizers_def simCpms_def)
  moreover have "infosCreate simInfos 1 True (simInfos @ [newMachine ''new-1'' 1])"
    by (rule infosCreate_append) code_simp
  moreover have "strategyType (cpmsSpecOf c) \<noteq> OnDelete" unfolding cc by code_simp
  moreover have "rNamespace simReconciler = ''ns''" by code_simp
  ultimately show ?thesis using R calls s cc by auto
qed

end
