(* ===== verification/Failure_Domain.thy ===== *)
theory Failure_Domain
  imports Api_Types
begin

text \<open>
  Failure domains across platforms: \<^verbatim>\<open>failuredomain/failuredomain.go\<close> and \<^verbatim>\<open>failuredomain/set.go\<close> under
  \<^verbatim>\<open>pkg/machineproviders/providers/openshift/machine/v1beta1\<close>. A failure domain is the record of its
  platform and one field per platform, of which the others hold their zero value. A nil
  \<^verbatim>\<open>FailureDomain\<close> is \<^const>\<open>None\<close> where the source tests for it.
\<close>

section \<open>The failure domain\<close>

record failureDomain =
  platformType :: string
  fdAws :: awsFailureDomain
  fdAzure :: azureFailureDomain
  fdGcp :: gcpFailureDomain
  fdOpenstack :: openStackFailureDomain
  fdVsphere :: vSphereFailureDomain
  fdNutanix :: nutanixFailureDomainReference

definition unknownFailureDomain :: string where
  "unknownFailureDomain = ''<unknown>''"

definition errUnsupportedPlatformType :: goerror where
  "errUnsupportedPlatformType = ErrNew ''unsupported platform type''"
definition errMissingFailureDomain :: goerror where
  "errMissingFailureDomain = ErrNew ''missing failure domain configuration''"
definition errMissingTemplateFailureDomain :: goerror where
  "errMissingTemplateFailureDomain = ErrNew ''failure domain extracted from machine template is nil''"
definition errMismatchedPlatformType :: goerror where
  "errMismatchedPlatformType = ErrNew ''platform types do not match''"

definition NewGenericFailureDomain :: failureDomain where
  "NewGenericFailureDomain =
     \<lparr>platformType = '''', fdAws = \<lparr>awsSubnet = None, awsAvailabilityZone = ''''\<rparr>,
      fdAzure = \<lparr>azureZone = '''', azureSubnet = ''''\<rparr>, fdGcp = \<lparr>gcpZone = ''''\<rparr>,
      fdOpenstack = \<lparr>osAvailabilityZone = '''', osRootVolume = None\<rparr>, fdVsphere = \<lparr>vsName = ''''\<rparr>,
      fdNutanix = \<lparr>nxName = ''''\<rparr>\<rparr>"

definition NewAWSFailureDomain :: "awsFailureDomain \<Rightarrow> failureDomain" where
  "NewAWSFailureDomain fd = NewGenericFailureDomain\<lparr>platformType := AWSPlatformType, fdAws := fd\<rparr>"
definition NewAzureFailureDomain :: "azureFailureDomain \<Rightarrow> failureDomain" where
  "NewAzureFailureDomain fd = NewGenericFailureDomain\<lparr>platformType := AzurePlatformType, fdAzure := fd\<rparr>"
definition NewGCPFailureDomain :: "gcpFailureDomain \<Rightarrow> failureDomain" where
  "NewGCPFailureDomain fd = NewGenericFailureDomain\<lparr>platformType := GCPPlatformType, fdGcp := fd\<rparr>"
definition NewOpenStackFailureDomain :: "openStackFailureDomain \<Rightarrow> failureDomain" where
  "NewOpenStackFailureDomain fd =
     NewGenericFailureDomain\<lparr>platformType := OpenStackPlatformType, fdOpenstack := fd\<rparr>"
definition NewVSphereFailureDomain :: "vSphereFailureDomain \<Rightarrow> failureDomain" where
  "NewVSphereFailureDomain fd = NewGenericFailureDomain\<lparr>platformType := VSpherePlatformType, fdVsphere := fd\<rparr>"
definition NewNutanixFailureDomain :: "nutanixFailureDomainReference \<Rightarrow> failureDomain" where
  "NewNutanixFailureDomain fd = NewGenericFailureDomain\<lparr>platformType := NutanixPlatformType, fdNutanix := fd\<rparr>"

section \<open>Equality\<close>

definition Equal :: "failureDomain \<Rightarrow> failureDomain \<Rightarrow> bool" where
  "Equal f other =
     (if platformType f \<noteq> platformType other then False
      else if platformType f = AWSPlatformType then fdAws f = fdAws other
      else if platformType f = AzurePlatformType then fdAzure f = fdAzure other
      else if platformType f = GCPPlatformType then fdGcp f = fdGcp other
      else if platformType f = OpenStackPlatformType then fdOpenstack f = fdOpenstack other
      else if platformType f = VSpherePlatformType then fdVsphere f = fdVsphere other
      else if platformType f = NutanixPlatformType then fdNutanix f = fdNutanix other
      else True)"

section \<open>Text\<close>

definition azString :: "string \<Rightarrow> string" where
  "azString az = (if az = '''' then '''' else ''AvailabilityZone:'' @ az @ '', '')"

definition AWSIDReferenceType :: string where "AWSIDReferenceType = ''ID''"
definition AWSARNReferenceType :: string where "AWSARNReferenceType = ''ARN''"
definition AWSFiltersReferenceType :: string where "AWSFiltersReferenceType = ''Filters''"

text \<open>The format \<^verbatim>\<open>%+v\<close> of a pointer to a slice of filters.\<close>

definition filtersString :: "awsResourceFilter list \<Rightarrow> string" where
  "filtersString fs =
     ''&['' @ joinStr '' '' (map (\<lambda>f. ''{Name:'' @ filterName f @ '' Values:['' @ joinStr '' '' (filterValues f) @
        '']}'') fs) @ '']''"

definition awsSubnetString :: "string \<Rightarrow> string \<Rightarrow> string \<Rightarrow> string" where
  "awsSubnetString az t v = ''AWSFailureDomain{'' @ azString az @ ''Subnet:{Type:'' @ t @ '', Value:'' @ v @ ''}}''"

definition awsFailureDomainToString :: "awsFailureDomain \<Rightarrow> string" where
  "awsFailureDomainToString fd =
     (case awsSubnet fd of
        None \<Rightarrow> if awsAvailabilityZone fd \<noteq> ''''
                then ''AWSFailureDomain{AvailabilityZone:'' @ awsAvailabilityZone fd @ ''}''
                else unknownFailureDomain
      | Some sub \<Rightarrow>
          let az = awsAvailabilityZone fd; t = awsRefType sub
          in if t = AWSARNReferenceType
             then (case awsRefARN sub of Some v \<Rightarrow> awsSubnetString az t v | None \<Rightarrow> unknownFailureDomain)
             else if t = AWSFiltersReferenceType
             then (case awsRefFilters sub of Some fs \<Rightarrow> awsSubnetString az t (filtersString fs)
                   | None \<Rightarrow> unknownFailureDomain)
             else if t = AWSIDReferenceType
             then (case awsRefID sub of Some v \<Rightarrow> awsSubnetString az t v | None \<Rightarrow> unknownFailureDomain)
             else unknownFailureDomain)"

definition labelled :: "string \<Rightarrow> string \<Rightarrow> string list" where
  "labelled l v = (if v \<noteq> '''' then [l @ v] else [])"

definition azureFailureDomainToString :: "azureFailureDomain \<Rightarrow> string" where
  "azureFailureDomainToString fd =
     (let parts = labelled ''Zone:'' (azureZone fd) @ labelled ''Subnet:'' (azureSubnet fd)
      in if length parts = 0 then unknownFailureDomain
         else ''AzureFailureDomain{'' @ joinStr '', '' parts @ ''}'')"

definition gcpFailureDomainToString :: "gcpFailureDomain \<Rightarrow> string" where
  "gcpFailureDomainToString fd =
     (if gcpZone fd \<noteq> '''' then ''GCPFailureDomain{Zone:'' @ gcpZone fd @ ''}'' else unknownFailureDomain)"

definition openstackFailureDomainToString :: "openStackFailureDomain \<Rightarrow> string" where
  "openstackFailureDomainToString fd =
     (if osAvailabilityZone fd = '''' \<and> osRootVolume fd = None then unknownFailureDomain
      else let parts = labelled ''AvailabilityZone:'' (osAvailabilityZone fd) @
                 (case osRootVolume fd of None \<Rightarrow> []
                  | Some rv \<Rightarrow> [''RootVolume:{'' @ joinStr '', ''
                       (labelled ''AvailabilityZone:'' (rvAvailabilityZone rv) @
                        labelled ''VolumeType:'' (rvVolumeType rv)) @ ''}''])
           in ''OpenStackFailureDomain{'' @ joinStr '', '' parts @ ''}'')"

definition vsphereFailureDomainToString :: "vSphereFailureDomain \<Rightarrow> string" where
  "vsphereFailureDomainToString fd =
     (if vsName fd \<noteq> '''' then ''VSphereFailureDomain{Name:'' @ vsName fd @ ''}'' else unknownFailureDomain)"

definition nutanixFailureDomainToString :: "nutanixFailureDomainReference \<Rightarrow> string" where
  "nutanixFailureDomainToString fd =
     (if nxName fd \<noteq> '''' then ''NutanixFailureDomainReference{Name:'' @ nxName fd @ ''}''
      else unknownFailureDomain)"

definition fdString :: "failureDomain \<Rightarrow> string" where
  "fdString f =
     (if platformType f = AWSPlatformType then awsFailureDomainToString (fdAws f)
      else if platformType f = AzurePlatformType then azureFailureDomainToString (fdAzure f)
      else if platformType f = GCPPlatformType then gcpFailureDomainToString (fdGcp f)
      else if platformType f = OpenStackPlatformType then openstackFailureDomainToString (fdOpenstack f)
      else if platformType f = VSpherePlatformType then vsphereFailureDomainToString (fdVsphere f)
      else if platformType f = NutanixPlatformType then nutanixFailureDomainToString (fdNutanix f)
      else platformType f @ ''FailureDomain{}'')"

section \<open>Completion with the template\<close>

text \<open>
  In \<^verbatim>\<open>completeAWS\<close> the second conjunct of the subnet guard compares a pointer with a struct value,
  which \<^verbatim>\<open>reflect.DeepEqual\<close> never finds equal, so the guard is that the subnet is set.
\<close>

definition completeAWS :: "failureDomain \<Rightarrow> awsFailureDomain \<Rightarrow> failureDomain" where
  "completeAWS f tmpl =
     (let fd1 = (if awsAvailabilityZone (fdAws f) \<noteq> ''''
                 then tmpl\<lparr>awsAvailabilityZone := awsAvailabilityZone (fdAws f)\<rparr> else tmpl);
          fd2 = (case awsSubnet (fdAws f) of Some s \<Rightarrow> fd1\<lparr>awsSubnet := Some s\<rparr> | None \<Rightarrow> fd1)
      in NewAWSFailureDomain fd2)"

definition completeAzure :: "failureDomain \<Rightarrow> azureFailureDomain \<Rightarrow> failureDomain" where
  "completeAzure f tmpl =
     (let fd1 = (if azureZone (fdAzure f) \<noteq> '''' then tmpl\<lparr>azureZone := azureZone (fdAzure f)\<rparr> else tmpl);
          fd2 = (if azureSubnet (fdAzure f) \<noteq> '''' then fd1\<lparr>azureSubnet := azureSubnet (fdAzure f)\<rparr> else fd1)
      in NewAzureFailureDomain fd2)"

definition completeGCP :: "failureDomain \<Rightarrow> gcpFailureDomain \<Rightarrow> failureDomain" where
  "completeGCP f tmpl =
     NewGCPFailureDomain (if gcpZone (fdGcp f) \<noteq> '''' then tmpl\<lparr>gcpZone := gcpZone (fdGcp f)\<rparr> else tmpl)"

definition completeOpenStack :: "failureDomain \<Rightarrow> openStackFailureDomain \<Rightarrow> failureDomain" where
  "completeOpenStack f tmpl =
     (let fd1 = (if osAvailabilityZone (fdOpenstack f) \<noteq> ''''
                 then tmpl\<lparr>osAvailabilityZone := osAvailabilityZone (fdOpenstack f)\<rparr> else tmpl);
          fd2 = (case osRootVolume fd1 of
                   None \<Rightarrow> fd1\<lparr>osRootVolume := osRootVolume (fdOpenstack f)\<rparr>
                 | Some rv \<Rightarrow>
                     (case osRootVolume (fdOpenstack f) of
                        None \<Rightarrow> fd1
                      | Some frv \<Rightarrow>
                          let rv1 = (if rvAvailabilityZone frv \<noteq> ''''
                                     then rv\<lparr>rvAvailabilityZone := rvAvailabilityZone frv\<rparr> else rv);
                              rv2 = (if rvVolumeType frv \<noteq> ''''
                                     then rv1\<lparr>rvVolumeType := rvVolumeType frv\<rparr> else rv1)
                          in fd1\<lparr>osRootVolume := Some rv2\<rparr>))
      in NewOpenStackFailureDomain fd2)"

definition completeVSphere :: "failureDomain \<Rightarrow> vSphereFailureDomain \<Rightarrow> failureDomain" where
  "completeVSphere f tmpl =
     NewVSphereFailureDomain (if vsName (fdVsphere f) \<noteq> '''' then tmpl\<lparr>vsName := vsName (fdVsphere f)\<rparr> else tmpl)"

definition completeNutanix :: "failureDomain \<Rightarrow> nutanixFailureDomainReference \<Rightarrow> failureDomain" where
  "completeNutanix f tmpl =
     NewNutanixFailureDomain (if nxName (fdNutanix f) \<noteq> '''' then tmpl\<lparr>nxName := nxName (fdNutanix f)\<rparr> else tmpl)"

definition Complete :: "failureDomain \<Rightarrow> failureDomain option \<Rightarrow> failureDomain result" where
  "Complete f tmpl =
     (case tmpl of
        None \<Rightarrow> Inl errMissingTemplateFailureDomain
      | Some t \<Rightarrow>
          if platformType f \<noteq> platformType t then Inl errMismatchedPlatformType
          else if platformType f = AWSPlatformType then Inr (completeAWS f (fdAws t))
          else if platformType f = AzurePlatformType then Inr (completeAzure f (fdAzure t))
          else if platformType f = GCPPlatformType then Inr (completeGCP f (fdGcp t))
          else if platformType f = OpenStackPlatformType then Inr (completeOpenStack f (fdOpenstack t))
          else if platformType f = VSpherePlatformType then Inr (completeVSphere f (fdVsphere t))
          else if platformType f = NutanixPlatformType then Inr (completeNutanix f (fdNutanix t))
          else Inr NewGenericFailureDomain)"

fun CompleteFailureDomains :: "failureDomain list \<Rightarrow> failureDomain option \<Rightarrow> failureDomain list result" where
  "CompleteFailureDomains [] tmpl = Inr []"
| "CompleteFailureDomains (f # fs) tmpl =
     (case Complete f tmpl of
        Inl e \<Rightarrow> Inl (wrap ''cannot combine failure domain with template failure domain'' e)
      | Inr f' \<Rightarrow>
          (case CompleteFailureDomains fs tmpl of Inl e \<Rightarrow> Inl e | Inr fs' \<Rightarrow> Inr (f' # fs')))"

section \<open>Failure domains of a ControlPlaneMachineSet\<close>

definition newAWSFailureDomains :: "failureDomains \<Rightarrow> failureDomain list result" where
  "newAWSFailureDomains fds =
     (case fdsAWS fds of None \<Rightarrow> Inl errMissingFailureDomain | Some l \<Rightarrow> Inr (map NewAWSFailureDomain l))"
definition newAzureFailureDomains :: "failureDomains \<Rightarrow> failureDomain list result" where
  "newAzureFailureDomains fds =
     (case fdsAzure fds of None \<Rightarrow> Inl errMissingFailureDomain | Some l \<Rightarrow> Inr (map NewAzureFailureDomain l))"
definition newGCPFailureDomains :: "failureDomains \<Rightarrow> failureDomain list result" where
  "newGCPFailureDomains fds =
     (case fdsGCP fds of None \<Rightarrow> Inl errMissingFailureDomain | Some l \<Rightarrow> Inr (map NewGCPFailureDomain l))"
definition newOpenStackFailureDomains :: "failureDomains \<Rightarrow> failureDomain list result" where
  "newOpenStackFailureDomains fds =
     (if length (fdsOpenStack fds) = 0 then Inl errMissingFailureDomain
      else Inr (map NewOpenStackFailureDomain (fdsOpenStack fds)))"
definition newVSphereFailureDomains :: "failureDomains \<Rightarrow> failureDomain list result" where
  "newVSphereFailureDomains fds =
     (if length (fdsVSphere fds) = 0 then Inl errMissingFailureDomain
      else Inr (map NewVSphereFailureDomain (fdsVSphere fds)))"
definition newNutanixFailureDomains :: "failureDomains \<Rightarrow> failureDomain list result" where
  "newNutanixFailureDomains fds =
     (if length (fdsNutanix fds) = 0 then Inl errMissingFailureDomain
      else Inr (map NewNutanixFailureDomain (fdsNutanix fds)))"

definition NewFailureDomains :: "failureDomains option \<Rightarrow> failureDomain list result" where
  "NewFailureDomains fds =
     (case fds of
        None \<Rightarrow> Inr []
      | Some d \<Rightarrow>
          if fdsPlatform d = AWSPlatformType then newAWSFailureDomains d
          else if fdsPlatform d = AzurePlatformType then newAzureFailureDomains d
          else if fdsPlatform d = GCPPlatformType then newGCPFailureDomains d
          else if fdsPlatform d = OpenStackPlatformType then newOpenStackFailureDomains d
          else if fdsPlatform d = VSpherePlatformType then newVSphereFailureDomains d
          else if fdsPlatform d = NutanixPlatformType then newNutanixFailureDomains d
          else if fdsPlatform d = '''' then Inr []
          else Inl (Wrapf '''' errUnsupportedPlatformType ('': '' @ fdsPlatform d)))"

section \<open>Sets of failure domains\<close>

text \<open>
  The set compares its items with the equality of the \<^verbatim>\<open>FailureDomain\<close> interface, here an argument;
  its list is sorted by the text of the items (stably: equal texts keep their order).
\<close>

definition setHas :: "('a \<Rightarrow> 'a \<Rightarrow> bool) \<Rightarrow> 'a list \<Rightarrow> 'a \<Rightarrow> bool" where
  "setHas eq items item = list_ex (\<lambda>fd. eq fd item) items"

definition setInsert :: "('a \<Rightarrow> 'a \<Rightarrow> bool) \<Rightarrow> 'a list \<Rightarrow> 'a \<Rightarrow> 'a list" where
  "setInsert eq items item = (if \<not> setHas eq items item then items @ [item] else items)"

definition newSet :: "('a \<Rightarrow> 'a \<Rightarrow> bool) \<Rightarrow> 'a list \<Rightarrow> 'a list" where
  "newSet eq items = foldl (setInsert eq) [] items"

definition setList :: "('a \<Rightarrow> string) \<Rightarrow> 'a list \<Rightarrow> 'a list" where
  "setList str items = sort_key str items"

section \<open>The equality contract\<close>

text \<open>
  What the sets and the index mapping rely on: the \<^verbatim>\<open>Equal\<close> of the interface is an equivalence.
\<close>

locale fd_equality =
  fixes eq :: "'a \<Rightarrow> 'a \<Rightarrow> bool"
  assumes eq_refl [simp]: "eq x x"
    and eq_sym: "eq x y \<Longrightarrow> eq y x"
    and eq_trans: "eq x y \<Longrightarrow> eq y z \<Longrightarrow> eq x z"
begin

lemma eq_cong: "eq x y \<Longrightarrow> eq x z = eq y z" "eq x y \<Longrightarrow> eq z x = eq z y"
  using eq_sym eq_trans by blast+

lemma setHas_mem [simp]: "x \<in> set items \<Longrightarrow> setHas eq items x"
  unfolding setHas_def list_ex_iff by (rule bexI [of _ x]) simp_all

lemma setHas_cong: "eq x y \<Longrightarrow> setHas eq items x \<longleftrightarrow> setHas eq items y"
  unfolding setHas_def list_ex_iff using eq_cong(2) [of x y] by simp

lemma setHas_insert: "setHas eq (setInsert eq items x) y \<longleftrightarrow> setHas eq items y \<or> eq x y"
proof (cases "setHas eq items x")
  case True
  then show ?thesis using setHas_cong [of x y items] by (auto simp: setInsert_def)
next
  case False
  then show ?thesis by (auto simp: setInsert_def setHas_def)
qed

lemma setHas_Cons: "setHas eq (x # xs) y \<longleftrightarrow> eq x y \<or> setHas eq xs y" "\<not> setHas eq [] y"
  by (simp_all add: setHas_def)

lemma foldl_setInsert_has:
  "setHas eq (foldl (setInsert eq) acc items) y \<longleftrightarrow> setHas eq acc y \<or> setHas eq items y"
  by (induction items arbitrary: acc) (simp_all add: setHas_insert setHas_Cons disj_assoc)

lemma newSet_has: "setHas eq (newSet eq items) y \<longleftrightarrow> setHas eq items y"
  by (simp add: newSet_def foldl_setInsert_has setHas_Cons)

lemma setInsert_unique:
  "sorted_wrt (\<lambda>x y. \<not> eq x y) items \<Longrightarrow> sorted_wrt (\<lambda>x y. \<not> eq x y) (setInsert eq items x)"
  by (auto simp: setInsert_def setHas_def list_ex_iff sorted_wrt_append)

lemma newSet_unique: "sorted_wrt (\<lambda>x y. \<not> eq x y) (newSet eq items)"
proof -
  have "sorted_wrt (\<lambda>x y. \<not> eq x y) (foldl (setInsert eq) acc items)"
    if "sorted_wrt (\<lambda>x y. \<not> eq x y) acc" for acc
    using that by (induction items arbitrary: acc) (simp_all add: setInsert_unique)
  then show ?thesis by (simp add: newSet_def)
qed

lemma newSet_subset: "set (newSet eq items) \<subseteq> set items"
proof -
  have "set (foldl (setInsert eq) acc items) \<subseteq> set acc \<union> set items" for acc
  proof (induction items arbitrary: acc)
    case (Cons x items)
    from Cons.IH [of "setInsert eq acc x"] show ?case
      by (auto simp: setInsert_def split: if_splits)
  qed simp
  from this [of "[]"] show ?thesis by (simp add: newSet_def)
qed

end

interpretation fdEq: fd_equality Equal
  by unfold_locales (auto simp: Equal_def split: if_splits)

section \<open>Lemmas on completion\<close>

lemmas newFD_defs =
  NewAWSFailureDomain_def NewAzureFailureDomain_def NewGCPFailureDomain_def NewOpenStackFailureDomain_def
  NewVSphereFailureDomain_def NewNutanixFailureDomain_def NewGenericFailureDomain_def

lemma platformType_New [simp]:
  "platformType (NewAWSFailureDomain a) = AWSPlatformType"
  "platformType (NewAzureFailureDomain b) = AzurePlatformType"
  "platformType (NewGCPFailureDomain c) = GCPPlatformType"
  "platformType (NewOpenStackFailureDomain d) = OpenStackPlatformType"
  "platformType (NewVSphereFailureDomain e) = VSpherePlatformType"
  "platformType (NewNutanixFailureDomain f) = NutanixPlatformType"
  by (simp_all add: newFD_defs)

lemma payload_New [simp]:
  "fdAws (NewAWSFailureDomain a) = a" "fdAzure (NewAzureFailureDomain b) = b"
  "fdGcp (NewGCPFailureDomain c) = c" "fdOpenstack (NewOpenStackFailureDomain d) = d"
  "fdVsphere (NewVSphereFailureDomain e) = e" "fdNutanix (NewNutanixFailureDomain f) = f"
  by (simp_all add: newFD_defs)

lemma complete_idem:
  "completeAWS (completeAWS f a) a = completeAWS f a"
  "completeAzure (completeAzure f b) b = completeAzure f b"
  "completeGCP (completeGCP f c) c = completeGCP f c"
  "completeOpenStack (completeOpenStack f d) d = completeOpenStack f d"
  "completeVSphere (completeVSphere f e) e = completeVSphere f e"
  "completeNutanix (completeNutanix f g) g = completeNutanix f g"
proof -
  show "completeAWS (completeAWS f a) a = completeAWS f a"
    by (cases a; cases "awsSubnet (fdAws f)") (auto simp: completeAWS_def Let_def split: option.splits)
  show "completeAzure (completeAzure f b) b = completeAzure f b"
    by (cases b) (auto simp: completeAzure_def Let_def)
  show "completeGCP (completeGCP f c) c = completeGCP f c"
    by (cases c) (auto simp: completeGCP_def)
  show "completeOpenStack (completeOpenStack f d) d = completeOpenStack f d"
    by (cases d; cases "osRootVolume d"; cases "osRootVolume (fdOpenstack f)")
      (auto simp: completeOpenStack_def Let_def)
  show "completeVSphere (completeVSphere f e) e = completeVSphere f e"
    by (cases e) (auto simp: completeVSphere_def)
  show "completeNutanix (completeNutanix f g) g = completeNutanix f g"
    by (cases g) (auto simp: completeNutanix_def)
qed

lemma platform_complete [simp]:
  "platformType (completeAWS f a) = AWSPlatformType"
  "platformType (completeAzure f b) = AzurePlatformType"
  "platformType (completeGCP f c) = GCPPlatformType"
  "platformType (completeOpenStack f d) = OpenStackPlatformType"
  "platformType (completeVSphere f e) = VSpherePlatformType"
  "platformType (completeNutanix f g) = NutanixPlatformType"
  by (simp_all add: completeAWS_def completeAzure_def completeGCP_def completeOpenStack_def
      completeVSphere_def completeNutanix_def Let_def)

section \<open>Properties\<close>

definition supportedPlatforms :: "string list" where
  "supportedPlatforms = [AWSPlatformType, AzurePlatformType, GCPPlatformType, OpenStackPlatformType,
     VSpherePlatformType, NutanixPlatformType]"

text \<open>
  Completing a failure domain is idempotent. On a supported platform, completing succeeds exactly
  when the template is set and of the same platform; the result has that platform, and completing it
  again with the same template changes nothing.
\<close>

lemma complete_idempotent:
  assumes "platformType f \<in> set supportedPlatforms"
  shows "(case Complete f tmpl of
            Inl e \<Rightarrow> tmpl = None \<and> e = errMissingTemplateFailureDomain \<or>
                    (\<exists>t. tmpl = Some t \<and> platformType t \<noteq> platformType f \<and> e = errMismatchedPlatformType)
          | Inr g \<Rightarrow> (\<exists>t. tmpl = Some t \<and> platformType t = platformType f) \<and>
                    platformType g = platformType f \<and> Complete g tmpl = Inr g)"
proof (cases tmpl)
  case None
  then show ?thesis by (simp add: Complete_def)
next
  case (Some t)
  show ?thesis
  proof (cases "platformType f = platformType t")
    case False
    with Some show ?thesis by (auto simp: Complete_def)
  next
    case True
    from assms consider "platformType f = AWSPlatformType" | "platformType f = AzurePlatformType"
      | "platformType f = GCPPlatformType" | "platformType f = OpenStackPlatformType"
      | "platformType f = VSpherePlatformType" | "platformType f = NutanixPlatformType"
      by (auto simp: supportedPlatforms_def)
    then show ?thesis
      using True Some by cases (simp_all add: Complete_def complete_idem platform_defs)
  qed
qed

lemma complete_idempotent_witness:
  "\<exists>g. Complete (NewAzureFailureDomain \<lparr>azureZone = ''1'', azureSubnet = ''''\<rparr>)
         (Some (NewAzureFailureDomain \<lparr>azureZone = ''2'', azureSubnet = ''s''\<rparr>)) = Inr g \<and>
       g = NewAzureFailureDomain \<lparr>azureZone = ''1'', azureSubnet = ''s''\<rparr> \<and>
       Complete g (Some (NewAzureFailureDomain \<lparr>azureZone = ''2'', azureSubnet = ''s''\<rparr>)) = Inr g"
proof -
  let ?f = "NewAzureFailureDomain \<lparr>azureZone = ''1'', azureSubnet = ''''\<rparr>"
  let ?t = "Some (NewAzureFailureDomain \<lparr>azureZone = ''2'', azureSubnet = ''s''\<rparr>)"
  have s: "platformType ?f \<in> set supportedPlatforms" by code_simp
  have c: "Complete ?f ?t = Inr (NewAzureFailureDomain \<lparr>azureZone = ''1'', azureSubnet = ''s''\<rparr>)" by code_simp
  from complete_idempotent [OF s, of ?t] c show ?thesis by simp
qed

text \<open>
  A set of failure domains holds, up to the equality of failure domains, exactly the inserted
  items, and no two of its members are equal.
\<close>

lemma failure_domain_set:
  "(\<forall>x. setHas Equal (newSet Equal items) x \<longleftrightarrow> (\<exists>y \<in> set items. Equal y x)) \<and>
   set (newSet Equal items) \<subseteq> set items \<and> sorted_wrt (\<lambda>x y. \<not> Equal x y) (newSet Equal items)"
  using fdEq.newSet_has fdEq.newSet_subset fdEq.newSet_unique
  by (simp add: setHas_def list_ex_iff)

end
