(* ===== verification/Index_Mapping.thy ===== *)
theory Index_Mapping
  imports Failure_Domain Machine_Info
begin

text \<open>
  The mapping of machine indexes to failure domains:
  \<^verbatim>\<open>pkg/machineproviders/providers/openshift/machine/v1beta1/mapping.go\<close>.
  The functions that only compare failure domains take the equality of the \<^verbatim>\<open>FailureDomain\<close> interface as
  their first argument. A result \<^const>\<open>None\<close> stands for what the source must never do: panic because the
  base mapping is too short, or read a missing index of a mapping, which in Go stores or dereferences
  a nil failure domain; \<open>reconcile_mappings_total\<close> shows that it does not happen.
  Sets of indexes are lists. \<^verbatim>\<open>sort.Slice\<close> is the stable \<^const>\<open>sort_key\<close>, which is what Go computes on up to
  twelve elements.
\<close>

type_synonym 'a fdmap = "(int, 'a) gomap"

section \<open>Helpers\<close>

definition sortedIndexes :: "(int, 'a) gomap \<Rightarrow> int list" where
  "sortedIndexes m = sort (gm_keys m)"

definition contains :: "('a \<Rightarrow> 'a \<Rightarrow> bool) \<Rightarrow> 'a fdmap \<Rightarrow> 'a \<Rightarrow> bool" where
  "contains eq s e = list_ex (\<lambda>(_, a). eq a e) s"

definition indexExists :: "'a fdmap \<Rightarrow> int \<Rightarrow> bool" where
  "indexExists m idx \<longleftrightarrow> gm_get m idx \<noteq> None"

definition swapIndexes :: "'a fdmap \<Rightarrow> int \<Rightarrow> int \<Rightarrow> 'a fdmap option" where
  "swapIndexes m x y =
     (case gm_get m x of None \<Rightarrow> None
      | Some a \<Rightarrow> (case gm_get m y of None \<Rightarrow> None | Some b \<Rightarrow> Some (gm_put y a (gm_put x b m))))"

definition countUniqueFailureDomain :: "('a \<Rightarrow> 'a \<Rightarrow> bool) \<Rightarrow> 'a fdmap \<Rightarrow> nat" where
  "countUniqueFailureDomain eq m = length (newSet eq (map snd m))"

text \<open>The ceiling of a quotient of integers, which the source computes in floating point.\<close>

definition maxIndexesPerFailureDomain :: "('a \<Rightarrow> 'a \<Rightarrow> bool) \<Rightarrow> 'a fdmap \<Rightarrow> nat" where
  "maxIndexesPerFailureDomain eq base =
     (let u = countUniqueFailureDomain eq base in (length base + u - 1) div u)"

definition countForFailureDomain :: "('a \<Rightarrow> 'a \<Rightarrow> bool) \<Rightarrow> 'a fdmap \<Rightarrow> 'a \<Rightarrow> nat" where
  "countForFailureDomain eq m target = length (filter (\<lambda>(_, fd). eq fd target) m)"

definition extraIndexes :: "'a fdmap \<Rightarrow> 'a fdmap \<Rightarrow> int list" where
  "extraIndexes s superset = sort (filter (\<lambda>idx. gm_get superset idx = None) (gm_keys s))"

definition parseMachineNameIndex :: "string \<Rightarrow> int option" where
  "parseMachineNameIndex name = parseInt32 (afterLast (CHR ''-'') name)"

section \<open>Reconciling the mappings\<close>

fun reconcileIndexesLoop :: "int list \<Rightarrow> int list \<Rightarrow> 'a fdmap \<Rightarrow> 'a fdmap option" where
  "reconcileIndexesLoop [] nonReconciled m = Some m"
| "reconcileIndexesLoop (idx # idxs) [] m = Some m"
| "reconcileIndexesLoop (idx # idxs) (newIdx # nonReconciled) m =
     (case gm_get m idx of
        None \<Rightarrow> None
      | Some v \<Rightarrow> reconcileIndexesLoop idxs nonReconciled (gm_del idx (gm_put newIdx v m)))"

definition reconcileIndexes :: "'a fdmap \<Rightarrow> 'a fdmap \<Rightarrow> 'a fdmap option" where
  "reconcileIndexes reconciled preferred =
     reconcileIndexesLoop (extraIndexes reconciled preferred) (extraIndexes preferred reconciled) reconciled"

definition createUnmatchedIndexes :: "'a fdmap \<Rightarrow> int list" where
  "createUnmatchedIndexes candidates = gm_keys candidates"

definition useCandidate :: "int \<Rightarrow> 'a fdmap \<times> int list \<Rightarrow> 'a fdmap \<times> int list" where
  "useCandidate idx s = (gm_del idx (fst s), removeAll idx (snd s))"

text \<open>One index of the machine mapping: the first equal candidate is swapped to the index and used.\<close>

definition matchIndex ::
  "('a \<Rightarrow> 'a \<Rightarrow> bool) \<Rightarrow> 'a \<Rightarrow> int \<Rightarrow> 'a fdmap \<times> int list \<Rightarrow> ('a fdmap \<times> int list) option" where
  "matchIndex eq fd idy s =
     (case find (\<lambda>idx. case gm_get (fst s) idx of None \<Rightarrow> False | Some c \<Rightarrow> eq fd c) (sortedIndexes (fst s)) of
        None \<Rightarrow> Some s
      | Some idx \<Rightarrow>
          (case (if idx \<noteq> idy then swapIndexes (fst s) idx idy else Some (fst s)) of
             None \<Rightarrow> None
           | Some cands \<Rightarrow> Some (useCandidate idy (cands, snd s))))"

fun matchLoop ::
  "('a \<Rightarrow> 'a \<Rightarrow> bool) \<Rightarrow> 'a fdmap \<Rightarrow> int list \<Rightarrow> int list \<Rightarrow> 'a fdmap \<times> int list \<Rightarrow>
   ('a fdmap \<times> int list) option" where
  "matchLoop eq out deleting [] s = Some s"
| "matchLoop eq out deleting (idy # idys) s =
     (if idy \<in> set deleting then matchLoop eq out deleting idys s
      else (case gm_get out idy of
              None \<Rightarrow> None
            | Some fd \<Rightarrow>
                (case matchIndex eq fd idy s of None \<Rightarrow> None
                 | Some s' \<Rightarrow> matchLoop eq out deleting idys s')))"

definition matchMachinesToCandidates ::
  "('a \<Rightarrow> 'a \<Rightarrow> bool) \<Rightarrow> 'a fdmap \<Rightarrow> int list \<Rightarrow> 'a fdmap \<times> int list \<Rightarrow> ('a fdmap \<times> int list) option" where
  "matchMachinesToCandidates eq out deleting s = matchLoop eq out deleting (sortedIndexes out) s"

text \<open>An unmatched index: the failure domain it maps to, \<^const>\<open>None\<close> for a missing candidate.\<close>

definition chooseDomain ::
  "('a \<Rightarrow> 'a \<Rightarrow> bool) \<Rightarrow> int \<Rightarrow> 'a fdmap \<Rightarrow> 'a fdmap \<Rightarrow> 'a fdmap \<Rightarrow> nat \<Rightarrow> 'a option" where
  "chooseDomain eq idx out base candidates maxPerFailureDomain =
     (case gm_get out idx of
        None \<Rightarrow> gm_get candidates idx
      | Some fd \<Rightarrow>
          if \<not> contains eq base fd then gm_get candidates idx
          else if countForFailureDomain eq out fd > maxPerFailureDomain then gm_get candidates idx
          else Some fd)"

definition handleUnmatchedIndex ::
  "('a \<Rightarrow> 'a \<Rightarrow> bool) \<Rightarrow> int \<Rightarrow> 'a fdmap \<Rightarrow> nat \<Rightarrow> 'a fdmap \<times> 'a fdmap \<times> int list \<Rightarrow>
   ('a fdmap \<times> 'a fdmap \<times> int list) option" where
  "handleUnmatchedIndex eq idx base maxPer s =
     (case s of (out, s') \<Rightarrow>
        (case chooseDomain eq idx out base (fst s') maxPer of
           None \<Rightarrow> None
         | Some fd \<Rightarrow> Some (gm_put idx fd out, useCandidate idx s')))"

fun handleLoop ::
  "('a \<Rightarrow> 'a \<Rightarrow> bool) \<Rightarrow> 'a fdmap \<Rightarrow> nat \<Rightarrow> int list \<Rightarrow> 'a fdmap \<times> 'a fdmap \<times> int list \<Rightarrow>
   ('a fdmap \<times> 'a fdmap \<times> int list) option" where
  "handleLoop eq base maxPer [] s = Some s"
| "handleLoop eq base maxPer (idx # idxs) s =
     (case handleUnmatchedIndex eq idx base maxPer s of None \<Rightarrow> None
      | Some s' \<Rightarrow> handleLoop eq base maxPer idxs s')"

definition reconcileMappings ::
  "('a \<Rightarrow> 'a \<Rightarrow> bool) \<Rightarrow> 'a fdmap \<Rightarrow> 'a fdmap \<Rightarrow> int list \<Rightarrow> 'a fdmap option" where
  "reconcileMappings eq base machines deleting =
     (if length base < length machines then None
      else (case reconcileIndexes base machines of
              None \<Rightarrow> None
            | Some candidates \<Rightarrow>
                (case matchMachinesToCandidates eq machines deleting
                        (candidates, createUnmatchedIndexes candidates) of
                   None \<Rightarrow> None
                 | Some (cands, unmatched) \<Rightarrow>
                     map_option fst (handleLoop eq base (maxIndexesPerFailureDomain eq base)
                       (sort unmatched) (machines, cands, unmatched)))))"

section \<open>The base mapping\<close>

definition errNoFailureDomains :: goerror where
  "errNoFailureDomains = ErrNew ''no failure domains configured''"

definition baseIndexCount :: "32 word \<Rightarrow> 'a fdmap \<Rightarrow> int" where
  "baseIndexCount replicas machineMapping =
     (let n = (if sint replicas > sint (int32len machineMapping) then sint replicas
               else int (length machineMapping))
      in sint (word_of_int n :: 32 word))"

text \<open>Sorted by text, then those that some machine already uses first.\<close>

definition sortDomains :: "failureDomain list \<Rightarrow> failureDomain fdmap \<Rightarrow> failureDomain list" where
  "sortDomains fds machineMapping =
     (let used = newSet Equal (map snd machineMapping)
      in sort_key (\<lambda>fd. if setHas Equal used fd then 0 else (1::nat)) (sort_key fdString fds))"

definition roundRobin :: "nat \<Rightarrow> 'a list \<Rightarrow> 'a fdmap" where
  "roundRobin n fds = map (\<lambda>i. (int i, fds ! (i mod length fds))) [0..<n]"

definition createBaseFailureDomainMapping ::
  "32 word \<Rightarrow> failureDomain list \<Rightarrow> failureDomain option \<Rightarrow> failureDomain fdmap \<Rightarrow>
   failureDomain fdmap result" where
  "createBaseFailureDomainMapping replicas fds tmpl machineMapping =
     (if sint replicas < 1 then Inl errReplicasRequired
      else if length fds = 0 then Inl errNoFailureDomains
      else (case CompleteFailureDomains fds tmpl of
              Inl e \<Rightarrow> Inl (wrap ''unable to make failure domains comparable'' e)
            | Inr comparable \<Rightarrow>
                Inr (roundRobin (nat (baseIndexCount replicas machineMapping))
                       (sortDomains comparable machineMapping))))"

section \<open>The machine mapping\<close>

text \<open>
  \<^verbatim>\<open>ExtractFailureDomainFromMachine\<close> is an argument here. The entry of an index is replaced unless the
  index already has another failure domain from a machine created later.
\<close>

fun mapMachinesLoop ::
  "(machine \<Rightarrow> failureDomain result) \<Rightarrow> machine list \<Rightarrow>
   failureDomain fdmap \<times> (int, machine) gomap \<Rightarrow> failureDomain fdmap result" where
  "mapMachinesLoop extract [] (out, newest) = Inr out"
| "mapMachinesLoop extract (m # ms) (out, newest) =
     (case extract m of
        Inl e \<Rightarrow> Inl (wrap (''could not extract failure domain from machine '' @ omName (mMeta m)) e)
      | Inr fd \<Rightarrow>
          (case parseMachineNameIndex (omName (mMeta m)) of
             None \<Rightarrow> mapMachinesLoop extract ms (out, newest)
           | Some idx \<Rightarrow>
               (case (gm_get out idx, gm_get newest idx) of
                  (Some old, Some oldMachine) \<Rightarrow>
                    if fdString old \<noteq> fdString fd
                    then if omCreationTimestamp (mMeta oldMachine) > omCreationTimestamp (mMeta m)
                         then mapMachinesLoop extract ms (out, newest)
                         else (case extract oldMachine of
                                 Inl e \<Rightarrow> Inl (wrap (''could not extract failure domain from machine '' @
                                            omName (mMeta oldMachine)) e)
                               | Inr _ \<Rightarrow>
                                   mapMachinesLoop extract ms (gm_put idx fd out, gm_put idx m newest))
                    else mapMachinesLoop extract ms (gm_put idx fd out, gm_put idx m newest)
                | _ \<Rightarrow> mapMachinesLoop extract ms (gm_put idx fd out, gm_put idx m newest))))"

definition mapIndexesToFailureDomainsForMachines ::
  "(machine \<Rightarrow> failureDomain result) \<Rightarrow> machine list \<Rightarrow> failureDomain fdmap result" where
  "mapIndexesToFailureDomainsForMachines extract machines = mapMachinesLoop extract machines ([], [])"

definition indexesOf :: "machine list \<Rightarrow> int list" where
  "indexesOf ms = List.map_filter (\<lambda>m. parseMachineNameIndex (omName (mMeta m))) ms"

definition listDeletingIndexes :: "machine list \<Rightarrow> int list" where
  "listDeletingIndexes machines =
     (let deleting = filter (\<lambda>m. omDeletionTimestamp (mMeta m) \<noteq> None) machines;
          live = filter (\<lambda>m. omDeletionTimestamp (mMeta m) = None) machines
      in filter (\<lambda>i. i \<notin> set (indexesOf live)) (indexesOf deleting))"

definition createMachineMapping ::
  "(machine \<Rightarrow> failureDomain result) \<Rightarrow> machine list \<Rightarrow> (failureDomain fdmap \<times> int list) result" where
  "createMachineMapping extract machines =
     (case mapIndexesToFailureDomainsForMachines extract machines of
        Inl e \<Rightarrow> Inl (wrap ''could not map indexes to failure domains for machines'' e)
      | Inr m \<Rightarrow> Inr (m, listDeletingIndexes machines))"

text \<open>The outer option is \<^const>\<open>None\<close> where \<^const>\<open>reconcileMappings\<close> is.\<close>

definition mapMachineIndexesToFailureDomains ::
  "(machine \<Rightarrow> failureDomain result) \<Rightarrow> machine list \<Rightarrow> 32 word \<Rightarrow> failureDomain list \<Rightarrow>
   failureDomain option \<Rightarrow> failureDomain fdmap result option" where
  "mapMachineIndexesToFailureDomains extract machines replicas fds tmpl =
     (if length fds = 0 then Some (Inl errNoFailureDomains)
      else (case createMachineMapping extract machines of
              Inl e \<Rightarrow> Some (Inl (wrap ''could not construct machine mapping'' e))
            | Inr (machineMapping, deleting) \<Rightarrow>
                (case createBaseFailureDomainMapping replicas (setList fdString (newSet Equal fds)) tmpl
                        machineMapping of
                   Inl e \<Rightarrow> Some (Inl (wrap ''could not construct base failure domain mapping'' e))
                 | Inr base \<Rightarrow> map_option Inr (reconcileMappings Equal base machineMapping deleting))))"

section \<open>Counting\<close>

lemma cnt_Cons:
  "countForFailureDomain eq ((k, v) # m) f = of_bool (eq v f) + countForFailureDomain eq m f"
  by (simp add: countForFailureDomain_def)

lemma cnt_Nil [simp]: "countForFailureDomain eq [] f = 0"
  by (simp add: countForFailureDomain_def)

lemma cnt_put_fresh:
  "gm_get m k = None \<Longrightarrow>
     countForFailureDomain eq (gm_put k v m) f = countForFailureDomain eq m f + of_bool (eq v f)"
  by (simp add: gm_put_fresh countForFailureDomain_def)

lemma cnt_put_old:
  "gm_get m k = Some u \<Longrightarrow>
     countForFailureDomain eq (gm_put k v m) f + of_bool (eq u f) =
     countForFailureDomain eq m f + of_bool (eq v f)"
  by (induction m) (auto simp: cnt_Cons split: if_splits)

lemma cnt_put_same: "gm_get m k = Some u \<Longrightarrow> gm_put k u m = m"
  by (induction m) (auto split: if_splits)

lemma gm_del_fresh: "gm_get m k = None \<Longrightarrow> gm_del k m = m"
  by (induction m) (auto split: if_splits)

lemma cnt_del:
  "gm_ok m \<Longrightarrow> gm_get m k = Some u \<Longrightarrow>
     countForFailureDomain eq (gm_del k m) f + of_bool (eq u f) = countForFailureDomain eq m f"
proof (induction m)
  case (Cons p m)
  obtain a b where p: "p = (a, b)" by force
  from Cons.prems p have ok: "gm_ok m" and fresh: "gm_get m a = None"
    by (auto simp: gm_ok_def map_of_eq_None_iff)
  show ?case
  proof (cases "a = k")
    case True
    with Cons.prems p fresh show ?thesis by (simp add: gm_del_fresh cnt_Cons)
  next
    case False
    with Cons.IH [OF ok] Cons.prems p show ?thesis by (simp add: cnt_Cons)
  qed
qed simp

lemma cnt_pos: "gm_get m k = Some u \<Longrightarrow> eq u f \<Longrightarrow> 0 < countForFailureDomain eq m f"
  by (induction m) (auto simp: cnt_Cons split: if_splits)

lemma cnt_pos_iff:
  "gm_ok m \<Longrightarrow> 0 < countForFailureDomain eq m f \<longleftrightarrow> (\<exists>k u. gm_get m k = Some u \<and> eq u f)"
  by (simp add: countForFailureDomain_def filter_empty_conv Bex_def case_prod_unfold split_paired_Ex gm_entries)

lemma contains_iff: "gm_ok m \<Longrightarrow> contains eq m f \<longleftrightarrow> (\<exists>k u. gm_get m k = Some u \<and> eq u f)"
  by (simp add: contains_def list_ex_iff Bex_def case_prod_unfold split_paired_Ex gm_entries)

lemma length_del: "gm_ok m \<Longrightarrow> gm_get m k \<noteq> None \<Longrightarrow> length m = Suc (length (gm_del k m))"
proof -
  assume ok: "gm_ok m" and k: "gm_get m k \<noteq> None"
  have "dom (gm_get (gm_del k m)) = dom (gm_get m) - {k}" by (auto simp: gm_get_del)
  moreover have "k \<in> dom (gm_get m)" using k by auto
  ultimately show ?thesis
    using ok card.remove [of "dom (gm_get m)" k] by (simp add: gm_length_card finite_dom_map_of)
qed

section \<open>Index reconciliation\<close>

lemma reconcileIndexesLoop_facts:
  assumes "gm_ok m" and "distinct is" and "distinct ns" and "set is \<subseteq> dom (gm_get m)"
    and "set ns \<inter> dom (gm_get m) = {}" and "length ns \<le> length is"
  shows "\<exists>m'. reconcileIndexesLoop is ns m = Some m' \<and> gm_ok m' \<and> length m' = length m \<and>
    dom (gm_get m') = dom (gm_get m) - set (take (length ns) is) \<union> set ns \<and>
    (\<forall>eq f. countForFailureDomain eq m' f = countForFailureDomain eq m f)"
  using assms
proof (induction "is" ns m rule: reconcileIndexesLoop.induct)
  case (3 idx idxs newIdx ns m)
  from "3.prems"(4) obtain v where v: "gm_get m idx = Some v" by auto
  have new: "gm_get m newIdx = None" "newIdx \<noteq> idx" using "3.prems"(4,5) by auto
  let ?m = "gm_del idx (gm_put newIdx v m)"
  have ok: "gm_ok ?m" using "3.prems"(1) by simp
  have get: "gm_get (gm_put newIdx v m) idx = Some v" using v new by (simp add: gm_get_put)
  have dom: "dom (gm_get ?m) = dom (gm_get m) - {idx} \<union> {newIdx}"
    using new(2) by (auto simp: gm_get_del gm_get_put)
  have len: "length ?m = length m"
    using length_del [of "gm_put newIdx v m" idx] get new(1) "3.prems"(1) by (simp add: gm_length_put)
  have cnt: "countForFailureDomain eq ?m f = countForFailureDomain eq m f" for eq f
    using cnt_del [of "gm_put newIdx v m" idx v eq f] get new(1) "3.prems"(1)
    by (simp add: cnt_put_fresh)
  have "set idxs \<subseteq> dom (gm_get ?m)" "set ns \<inter> dom (gm_get ?m) = {}"
    using "3.prems" dom by auto
  from "3.IH" [OF v ok _ _ this] "3.prems" obtain m' where
    m': "reconcileIndexesLoop idxs ns ?m = Some m'" "gm_ok m'" "length m' = length ?m"
    "dom (gm_get m') = dom (gm_get ?m) - set (take (length ns) idxs) \<union> set ns"
    "\<forall>eq f. countForFailureDomain eq m' f = countForFailureDomain eq ?m f" by auto
  have "newIdx \<notin> set (take (length ns) idxs)"
    using "3.prems"(4,5) by (auto dest: in_set_takeD)
  with m' v len cnt dom show ?case by auto
qed auto

lemma extraIndexes_props:
  "gm_ok s \<Longrightarrow> distinct (extraIndexes s t)" "set (extraIndexes s t) = dom (gm_get s) - dom (gm_get t)"
  by (auto simp: extraIndexes_def gm_ok_def gm_keys_dom [symmetric] map_of_eq_None_iff)

text \<open>The candidates: as many as in the base, the same failure domains, and every machine index.\<close>

lemma reconcileIndexes_facts:
  assumes "gm_ok base" and "gm_ok machines" and "length machines \<le> length base"
  shows "\<exists>m'. reconcileIndexes base machines = Some m' \<and> gm_ok m' \<and> length m' = length base \<and>
    dom (gm_get machines) \<subseteq> dom (gm_get m') \<and>
    (\<forall>eq f. countForFailureDomain eq m' f = countForFailureDomain eq base f)"
proof -
  let ?B = "dom (gm_get base)" and ?M = "dom (gm_get machines)"
  let ?is = "extraIndexes base machines" and ?ns = "extraIndexes machines base"
  note p = extraIndexes_props [of base machines] extraIndexes_props [of machines base]
  have fin: "finite ?B" "finite ?M" by (simp_all add: finite_dom_map_of)
  have "length ?is = card (?B - ?M)" "length ?ns = card (?M - ?B)"
    using assms p distinct_card by metis+
  moreover have "card ?M \<le> card ?B" using assms by (simp add: gm_length_card)
  moreover have "card (?B - ?M) + card (?B \<inter> ?M) = card ?B" "card (?M - ?B) + card (?B \<inter> ?M) = card ?M"
    using fin by (metis Int_commute card_Diff_subset_Int card_mono finite_Int inf_le1 le_add_diff_inverse2)+
  ultimately have len: "length ?ns \<le> length ?is" by linarith
  have "distinct ?is" "distinct ?ns" "set ?is \<subseteq> ?B" "set ?ns \<inter> ?B = {}" using p assms by auto
  from reconcileIndexesLoop_facts [OF assms(1) this len] obtain m' where
    m': "reconcileIndexesLoop ?is ?ns base = Some m'" "gm_ok m'" "length m' = length base"
    "dom (gm_get m') = ?B - set (take (length ?ns) ?is) \<union> set ?ns"
    "\<forall>eq f. countForFailureDomain eq m' f = countForFailureDomain eq base f" by blast
  have "set (take (length ?ns) ?is) \<inter> ?M = {}" using p(2) by (auto dest: in_set_takeD)
  with m'(4) p(4) have "?M \<subseteq> dom (gm_get m')" by auto
  with m' show ?thesis by (auto simp: reconcileIndexes_def)
qed

section \<open>Matching\<close>

text \<open>How many of the indexes in a set map to a failure domain equal to the given one.\<close>

definition onIndexes :: "('a \<Rightarrow> 'a \<Rightarrow> bool) \<Rightarrow> 'a fdmap \<Rightarrow> int set \<Rightarrow> 'a \<Rightarrow> nat" where
  "onIndexes eq m A f = card {i \<in> A. \<exists>v. gm_get m i = Some v \<and> eq v f}"

lemma onIndexes_empty [simp]: "onIndexes eq m {} f = 0"
  by (simp add: onIndexes_def)

lemma onIndexes_insert:
  assumes "finite A" and "i \<notin> A"
  shows "onIndexes eq m (insert i A) f =
    onIndexes eq m A f + of_bool (\<exists>v. gm_get m i = Some v \<and> eq v f)"
proof -
  have "{j \<in> insert i A. \<exists>v. gm_get m j = Some v \<and> eq v f} =
      (if \<exists>v. gm_get m i = Some v \<and> eq v f then insert i else id) {j \<in> A. \<exists>v. gm_get m j = Some v \<and> eq v f}"
    by auto
  then show ?thesis using assms by (simp add: onIndexes_def)
qed

lemma onIndexes_put: "i \<notin> A \<Longrightarrow> onIndexes eq (gm_put i v m) A f = onIndexes eq m A f"
  unfolding onIndexes_def by (rule arg_cong [where f = card]) (auto simp: gm_get_put)

lemma onIndexes_dom: "gm_ok m \<Longrightarrow> onIndexes eq m (dom (gm_get m)) f = countForFailureDomain eq m f"
proof (induction m)
  case (Cons p m)
  obtain k v where p: "p = (k, v)" by force
  from Cons.prems p have ok: "gm_ok m" and k: "k \<notin> dom (gm_get m)"
    by (simp_all add: gm_ok_def dom_map_of_conv_image_fst)
  have "onIndexes eq (p # m) (dom (gm_get m)) f = onIndexes eq m (dom (gm_get m)) f"
    unfolding onIndexes_def using k by (intro arg_cong [where f = card]) (auto simp: p)
  moreover have dom: "dom (gm_get (p # m)) = insert k (dom (gm_get m))" by (auto simp: p)
  ultimately show ?case
    using Cons.IH [OF ok] k onIndexes_insert [of "dom (gm_get m)" k eq "p # m" f]
    unfolding dom by (simp add: p cnt_Cons finite_dom_map_of)
qed simp

context fd_equality
begin

lemma cnt_cong: "eq x y \<Longrightarrow> countForFailureDomain eq m x = countForFailureDomain eq m y"
  using eq_cong(2) [of x y] by (simp add: countForFailureDomain_def)

lemma swapIndexes_facts:
  assumes "gm_get m x = Some a" and "gm_get m y = Some b" and "x \<noteq> y" and "gm_ok m"
  shows "\<exists>m'. swapIndexes m x y = Some m' \<and> gm_ok m' \<and> gm_get m' = (gm_get m)(x \<mapsto> b, y \<mapsto> a) \<and>
    (\<forall>f. countForFailureDomain eq m' f = countForFailureDomain eq m f)"
proof -
  have y: "gm_get (gm_put x b m) y = Some b" using assms(2,3) by (simp add: gm_get_put)
  have "countForFailureDomain eq (gm_put y a (gm_put x b m)) f = countForFailureDomain eq m f" for f
    using cnt_put_old [OF y, of eq a f] cnt_put_old [OF assms(1), of eq b f] by linarith
  then show ?thesis using assms by (auto simp: swapIndexes_def gm_get_put)
qed

lemma matchIndex_facts:
  assumes "gm_ok C" and "gm_get C idy \<noteq> None"
  shows "(\<exists>C'. matchIndex eq fd idy (C, U) = Some (C', removeAll idy U) \<and> gm_ok C' \<and>
            dom (gm_get C') = dom (gm_get C) - {idy} \<and>
            (\<forall>f. countForFailureDomain eq C' f + of_bool (eq fd f) = countForFailureDomain eq C f)) \<or>
         matchIndex eq fd idy (C, U) = Some (C, U) \<and> countForFailureDomain eq C fd = 0"
proof (cases "find (\<lambda>idx. case gm_get C idx of None \<Rightarrow> False | Some c \<Rightarrow> eq fd c) (sortedIndexes C)")
  case None
  have "\<not> eq c fd" if "gm_get C k = Some c" for k c
  proof -
    have "k \<in> set (sortedIndexes C)" using that by (auto simp: sortedIndexes_def gm_keys_dom simp del: set_map)
    then have "\<not> eq fd c" using None that by (auto simp: find_None_iff)
    then show ?thesis using eq_sym by blast
  qed
  then have "countForFailureDomain eq C fd = 0" using cnt_pos_iff [OF assms(1), of eq fd] by auto
  with None show ?thesis by (simp add: matchIndex_def)
next
  case (Some idx)
  then obtain c where c: "gm_get C idx = Some c" "eq fd c"
    by (auto simp: find_Some_iff split: option.splits)
  obtain d where d: "gm_get C idy = Some d" using assms(2) by auto
  obtain C1 where C1: "(if idx \<noteq> idy then swapIndexes C idx idy else Some C) = Some C1" "gm_ok C1"
    "gm_get C1 idy = Some c" "dom (gm_get C1) = dom (gm_get C)"
    "\<forall>f. countForFailureDomain eq C1 f = countForFailureDomain eq C f"
  proof (cases "idx = idy")
    case True
    with c assms(1) that show ?thesis by auto
  next
    case False
    from swapIndexes_facts [OF c(1) d False assms(1)] False that c d show ?thesis by fastforce
  qed
  have "dom (gm_get (gm_del idy C1)) = dom (gm_get C) - {idy}" using C1(4) by (auto simp: gm_get_del)
  moreover have "countForFailureDomain eq (gm_del idy C1) f + of_bool (eq fd f) = countForFailureDomain eq C f" for f
    using cnt_del [OF C1(2,3), of eq f] C1(5) eq_cong(1) [OF c(2)] by simp
  moreover have "matchIndex eq fd idy (C, U) = Some (gm_del idy C1, removeAll idy U)"
    using Some C1(1) by (simp add: matchIndex_def useCandidate_def split: if_splits)
  moreover have "gm_ok (gm_del idy C1)" using C1(2) by simp
  ultimately show ?thesis by blast
qed

lemma matchLoop_facts:
  assumes "gm_ok C" and "distinct idys" and "set idys \<subseteq> dom (gm_get out)" and "set idys \<subseteq> dom (gm_get C)"
  shows "\<exists>C' U' Mt. matchLoop eq out deleting idys (C, U) = Some (C', U') \<and> gm_ok C' \<and>
    Mt \<subseteq> set idys - set deleting \<and> dom (gm_get C') = dom (gm_get C) - Mt \<and> U' = filter (\<lambda>i. i \<notin> Mt) U \<and>
    (\<forall>f. countForFailureDomain eq C' f + onIndexes eq out Mt f = countForFailureDomain eq C f) \<and>
    (\<forall>i \<in> set idys - set deleting - Mt. \<forall>v. gm_get out i = Some v \<longrightarrow> countForFailureDomain eq C' v = 0)"
  using assms
proof (induction idys arbitrary: C U)
  case Nil
  then show ?case by (auto intro!: exI [of _ "{}"])
next
  case (Cons idy idys)
  show ?case
  proof (cases "idy \<in> set deleting")
    case True
    with Cons.IH [of C U] Cons.prems show ?thesis by auto
  next
    case False
    from Cons.prems(3) obtain fd where fd: "gm_get out idy = Some fd" by auto
    have "gm_get C idy \<noteq> None" using Cons.prems(4) by auto
    from matchIndex_facts [OF Cons.prems(1) this, of fd U] show ?thesis
    proof (elim disjE exE conjE)
      fix C1 assume C1: "matchIndex eq fd idy (C, U) = Some (C1, removeAll idy U)" "gm_ok C1"
        "dom (gm_get C1) = dom (gm_get C) - {idy}"
        "\<forall>f. countForFailureDomain eq C1 f + of_bool (eq fd f) = countForFailureDomain eq C f"
      have "set idys \<subseteq> dom (gm_get C1)" using C1(3) Cons.prems(2,4) by auto
      from Cons.IH [OF C1(2) _ _ this, of "removeAll idy U"] Cons.prems obtain C' U' Mt where
        m: "matchLoop eq out deleting idys (C1, removeAll idy U) = Some (C', U')" "gm_ok C'"
        "Mt \<subseteq> set idys - set deleting" "dom (gm_get C') = dom (gm_get C1) - Mt"
        "U' = filter (\<lambda>i. i \<notin> Mt) (removeAll idy U)"
        "\<forall>f. countForFailureDomain eq C' f + onIndexes eq out Mt f = countForFailureDomain eq C1 f"
        "\<forall>i \<in> set idys - set deleting - Mt. \<forall>v. gm_get out i = Some v \<longrightarrow> countForFailureDomain eq C' v = 0"
        by auto
      have Mt: "finite Mt" "idy \<notin> Mt" using m(3) Cons.prems(2) finite_subset by auto
      have "countForFailureDomain eq C' f + onIndexes eq out (insert idy Mt) f = countForFailureDomain eq C f" for f
        using spec [OF m(6), of f] spec [OF C1(4), of f] fd onIndexes_insert [OF Mt, of eq out f] by simp
      moreover have "U' = filter (\<lambda>i. i \<notin> insert idy Mt) U"
        using m(5) by (simp add: removeAll_filter_not_eq) (metis (lifting))
      ultimately show ?thesis
        using m C1 False fd by (intro exI [of _ C'] exI [of _ U'] exI [of _ "insert idy Mt"]) auto
    next
      assume n: "matchIndex eq fd idy (C, U) = Some (C, U)" "countForFailureDomain eq C fd = 0"
      from Cons.IH [of C U] Cons.prems obtain C' U' Mt where
        m: "matchLoop eq out deleting idys (C, U) = Some (C', U')" "gm_ok C'"
        "Mt \<subseteq> set idys - set deleting" "dom (gm_get C') = dom (gm_get C) - Mt"
        "U' = filter (\<lambda>i. i \<notin> Mt) U"
        "\<forall>f. countForFailureDomain eq C' f + onIndexes eq out Mt f = countForFailureDomain eq C f"
        "\<forall>i \<in> set idys - set deleting - Mt. \<forall>v. gm_get out i = Some v \<longrightarrow> countForFailureDomain eq C' v = 0"
        by auto
      have "countForFailureDomain eq C' fd = 0" using m(6) n(2) by (metis add_is_0)
      with m n False fd show ?thesis by (intro exI [of _ C'] exI [of _ U'] exI [of _ Mt]) auto
    qed
  qed
qed

end

section \<open>Handling the unmatched indexes\<close>

text \<open>
  What holds of a failure domain while the unmatched indexes are handled: either no index still to
  handle maps to it, and its occurrences with those of the candidates stay within the bound, or it has
  no candidate left, and it exceeds the bound by at most the indexes still to handle.
\<close>

definition balancedAt ::
  "('a \<Rightarrow> 'a \<Rightarrow> bool) \<Rightarrow> nat \<Rightarrow> 'a fdmap \<Rightarrow> 'a fdmap \<Rightarrow> int set \<Rightarrow> 'a \<Rightarrow> bool" where
  "balancedAt eq mx out C rest f \<longleftrightarrow>
     onIndexes eq out rest f = 0 \<and> countForFailureDomain eq out f + countForFailureDomain eq C f \<le> mx \<or>
     countForFailureDomain eq C f = 0 \<and> countForFailureDomain eq out f \<le> mx + onIndexes eq out rest f"

context fd_equality
begin

lemma handleUnmatchedIndex_Some:
  assumes "gm_get C idx = Some g"
  obtains fd where "handleUnmatchedIndex eq idx base mx (out, C, U) =
      Some (gm_put idx fd out, gm_del idx C, removeAll idx U)"
    and "fd = g \<and> (gm_get out idx = None \<or> (\<exists>h. gm_get out idx = Some h \<and>
           (\<not> contains eq base h \<or> countForFailureDomain eq out h > mx))) \<or>
         gm_get out idx = Some fd \<and> contains eq base fd \<and> countForFailureDomain eq out fd \<le> mx"
proof -
  have "\<exists>fd. chooseDomain eq idx out base C mx = Some fd"
    using assms by (auto simp: chooseDomain_def split: option.splits)
  then obtain fd where fd: "chooseDomain eq idx out base C mx = Some fd" by blast
  show ?thesis
  proof (rule that [of fd])
    show "handleUnmatchedIndex eq idx base mx (out, C, U) =
        Some (gm_put idx fd out, gm_del idx C, removeAll idx U)"
      using fd by (simp add: handleUnmatchedIndex_def useCandidate_def)
    show "fd = g \<and> (gm_get out idx = None \<or> (\<exists>h. gm_get out idx = Some h \<and>
           (\<not> contains eq base h \<or> countForFailureDomain eq out h > mx))) \<or>
         gm_get out idx = Some fd \<and> contains eq base fd \<and> countForFailureDomain eq out fd \<le> mx"
      using fd assms by (cases "gm_get out idx") (auto simp: chooseDomain_def split: if_splits)
  qed
qed

lemma balancedAt_step:
  assumes "gm_ok C" and C: "gm_get C idx = Some g" and rest: "finite rest" "idx \<notin> rest"
    and bal: "\<And>f. balancedAt eq mx out C (insert idx rest) f"
    and fd: "fd = g \<or> gm_get out idx = Some fd \<and> countForFailureDomain eq out fd \<le> mx"
  shows "balancedAt eq mx (gm_put idx fd out) (gm_del idx C) rest f"
proof -
  let ?T = "countForFailureDomain eq out f" and ?C = "countForFailureDomain eq C f"
  have del: "countForFailureDomain eq (gm_del idx C) f + of_bool (eq g f) = ?C"
    using cnt_del [OF assms(1) C] .
  have P: "onIndexes eq out (insert idx rest) f =
      onIndexes eq out rest f + of_bool (\<exists>v. gm_get out idx = Some v \<and> eq v f)"
    by (rule onIndexes_insert [OF rest])
  have put: "onIndexes eq (gm_put idx fd out) rest f = onIndexes eq out rest f"
    using rest(2) by (rule onIndexes_put)
  show ?thesis
  proof (cases "gm_get out idx")
    case None
    with fd have "fd = g" by simp
    then have "countForFailureDomain eq (gm_put idx fd out) f = ?T + of_bool (eq g f)"
      using None by (simp add: cnt_put_fresh)
    with bal [of f] del P put None show ?thesis by (auto simp: balancedAt_def split: if_splits)
  next
    case (Some h)
    have T: "countForFailureDomain eq (gm_put idx fd out) f + of_bool (eq h f) = ?T + of_bool (eq fd f)"
      using Some by (rule cnt_put_old)
    have P': "onIndexes eq out (insert idx rest) f = onIndexes eq out rest f + of_bool (eq h f)"
      using P Some by simp
    show ?thesis
    proof (cases "fd = g")
      case True
      with bal [of f] del P' put T show ?thesis by (auto simp: balancedAt_def split: if_splits)
    next
      case False
      with fd Some have h: "fd = h" "countForFailureDomain eq out h \<le> mx" by auto
      have "?T \<le> mx" if "eq h f" using h(2) cnt_cong [OF that, of out] by simp
      with bal [of f] del P' put T h(1) show ?thesis
        by (cases "eq h f"; cases "eq g f") (auto simp: balancedAt_def)
    qed
  qed
qed

lemma handleLoop_balanced:
  assumes "gm_ok out" and "gm_ok C" and "distinct idxs" and "dom (gm_get C) = set idxs"
    and "\<And>f. balancedAt eq mx out C (set idxs) f"
  shows "\<exists>out' C' U'. handleLoop eq base mx idxs (out, C, U) = Some (out', C', U') \<and>
    (\<forall>f. countForFailureDomain eq out' f \<le> mx)"
  using assms
proof (induction idxs arbitrary: out C U)
  case Nil
  then have "countForFailureDomain eq out f \<le> mx" for f
    using Nil.prems(5) [of f] by (auto simp: balancedAt_def)
  then show ?case by simp
next
  case (Cons idx idxs)
  from Cons.prems(4) have "idx \<in> dom (gm_get C)" by auto
  then obtain g where g: "gm_get C idx = Some g" by blast
  from handleUnmatchedIndex_Some [OF g] obtain fd where
    h: "handleUnmatchedIndex eq idx base mx (out, C, U) = Some (gm_put idx fd out, gm_del idx C, removeAll idx U)"
    "fd = g \<or> gm_get out idx = Some fd \<and> countForFailureDomain eq out fd \<le> mx" by blast
  have "dom (gm_get (gm_del idx C)) = set idxs"
    using Cons.prems(3,4) by (auto simp: gm_get_del)
  moreover have "balancedAt eq mx (gm_put idx fd out) (gm_del idx C) (set idxs) f" for f
    using Cons.prems(2,3,5) g h(2) by (intro balancedAt_step) auto
  ultimately show ?case
    using Cons.IH [of "gm_put idx fd out" "gm_del idx C" "removeAll idx U"] Cons.prems h(1) by simp
qed

end

section \<open>The reconciled mapping\<close>

context fd_equality
begin

lemma handleLoop_facts:
  assumes "gm_ok out" and "gm_ok C" and "distinct idxs" and "set idxs \<subseteq> dom (gm_get C)"
  shows "\<exists>out' C' U'. handleLoop eq base mx idxs (out, C, U) = Some (out', C', U') \<and> gm_ok out' \<and>
    dom (gm_get out') = dom (gm_get out) \<union> set idxs \<and>
    (\<forall>i. i \<notin> set idxs \<longrightarrow> gm_get out' i = gm_get out i) \<and>
    (\<forall>i \<in> set idxs. gm_get out' i = gm_get C i \<or>
       (\<exists>v. gm_get out' i = Some v \<and> gm_get out i = Some v \<and> contains eq base v))"
  using assms
proof (induction idxs arbitrary: out C U)
  case (Cons idx idxs)
  from Cons.prems(4) obtain g where g: "gm_get C idx = Some g" by auto
  from handleUnmatchedIndex_Some [OF g] obtain fd where
    h: "handleUnmatchedIndex eq idx base mx (out, C, U) = Some (gm_put idx fd out, gm_del idx C, removeAll idx U)"
    "fd = g \<or> gm_get out idx = Some fd \<and> contains eq base fd" by blast
  have "set idxs \<subseteq> dom (gm_get (gm_del idx C))"
    using Cons.prems(3,4) by (auto simp: gm_get_del)
  from Cons.IH [OF _ _ _ this, of "gm_put idx fd out" "removeAll idx U"] Cons.prems obtain out' C' U' where
    o: "handleLoop eq base mx idxs (gm_put idx fd out, gm_del idx C, removeAll idx U) = Some (out', C', U')"
    "gm_ok out'" "dom (gm_get out') = dom (gm_get (gm_put idx fd out)) \<union> set idxs"
    "\<forall>i. i \<notin> set idxs \<longrightarrow> gm_get out' i = gm_get (gm_put idx fd out) i"
    "\<forall>i \<in> set idxs. gm_get out' i = gm_get (gm_del idx C) i \<or>
       (\<exists>v. gm_get out' i = Some v \<and> gm_get (gm_put idx fd out) i = Some v \<and> contains eq base v)"
    by auto
  have i: "gm_get out' idx = Some fd" using o(4) Cons.prems(3) by (simp add: gm_get_put)
  have "dom (gm_get out') = dom (gm_get out) \<union> set (idx # idxs)" using o(3) by (auto simp: gm_get_put)
  moreover have "gm_get out' j = gm_get out j" if "j \<notin> set (idx # idxs)" for j
    using o(4) that by (simp add: gm_get_put)
  moreover have "gm_get out' j = gm_get C j \<or> (\<exists>v. gm_get out' j = Some v \<and> gm_get out j = Some v \<and> contains eq base v)"
    if "j \<in> set (idx # idxs)" for j
  proof (cases "j = idx")
    case True
    with i g h(2) show ?thesis by auto
  next
    case False
    with that have "j \<in> set idxs" by simp
    with o(5) False show ?thesis by (auto simp: gm_get_put gm_get_del)
  qed
  ultimately show ?case using o(1,2) h(1) by auto
qed simp

text \<open>
  A failure domain without candidates that is not over-represented keeps its indexes.
\<close>

lemma handleLoop_stable:
  assumes "gm_ok C" and "distinct idxs" and "set idxs \<subseteq> dom (gm_get C)"
    and "countForFailureDomain eq C f = 0" and "countForFailureDomain eq out f \<le> mx"
    and "handleLoop eq base mx idxs (out, C, U) = Some (out', s')"
    and "gm_get out j = Some v" and "eq v f" and "contains eq base v"
  shows "gm_get out' j = Some v"
  using assms
proof (induction idxs arbitrary: out C U)
  case (Cons idx idxs)
  from Cons.prems(3) obtain g where g: "gm_get C idx = Some g" by auto
  from handleUnmatchedIndex_Some [OF g] obtain fd where
    h: "handleUnmatchedIndex eq idx base mx (out, C, U) = Some (gm_put idx fd out, gm_del idx C, removeAll idx U)"
    "fd = g \<and> (gm_get out idx = None \<or> (\<exists>h. gm_get out idx = Some h \<and>
           (\<not> contains eq base h \<or> countForFailureDomain eq out h > mx))) \<or>
         gm_get out idx = Some fd \<and> contains eq base fd \<and> countForFailureDomain eq out fd \<le> mx" .
  have gf: "\<not> eq g f" using cnt_pos [of C idx g eq f] g Cons.prems(4) by auto
  have cnt: "countForFailureDomain eq (gm_put idx fd out) f \<le> mx"
  proof (cases "gm_get out idx")
    case None
    with h(2) gf Cons.prems(5) show ?thesis by (auto simp: cnt_put_fresh)
  next
    case (Some h')
    from cnt_put_old [OF this, of eq fd f] h(2) gf Cons.prems(5) Some show ?thesis
      by (auto simp: cnt_put_same split: if_splits)
  qed
  have "gm_get (gm_put idx fd out) j = Some v"
  proof (cases "j = idx")
    case True
    have "countForFailureDomain eq out v \<le> mx" using cnt_cong [OF Cons.prems(8)] Cons.prems(5) by simp
    with True h(2) Cons.prems(7,9) show ?thesis by (auto simp: gm_get_put)
  next
    case False
    with Cons.prems(7) show ?thesis by (simp add: gm_get_put)
  qed
  moreover have "countForFailureDomain eq (gm_del idx C) f = 0"
    using cnt_del [OF Cons.prems(1) g, of eq f] Cons.prems(4) by simp
  moreover have "set idxs \<subseteq> dom (gm_get (gm_del idx C))"
    using Cons.prems(2,3) by (auto simp: gm_get_del)
  ultimately show ?case
    using Cons.IH [of "gm_del idx C" "gm_put idx fd out" "removeAll idx U"] Cons.prems h(1) cnt by simp
qed simp

text \<open>The state between the two phases.\<close>

lemma match_phase:
  assumes "gm_ok base" and "gm_ok machines" and "length machines \<le> length base"
  obtains K C U Mt where
    "reconcileMappings eq base machines deleting =
       map_option fst (handleLoop eq base (maxIndexesPerFailureDomain eq base) (sort U) (machines, C, U))"
    and "gm_ok C" and "distinct U" and "set U = dom (gm_get C)"
    and "finite K" and "card K = length base" and "dom (gm_get machines) \<subseteq> K"
    and "dom (gm_get C) = K - Mt" and "Mt \<subseteq> dom (gm_get machines)" and "Mt \<inter> set deleting = {}"
    and "\<And>f. countForFailureDomain eq C f + onIndexes eq machines Mt f = countForFailureDomain eq base f"
    and "\<And>i v. gm_get machines i = Some v \<Longrightarrow> i \<notin> Mt \<Longrightarrow> i \<notin> set deleting \<Longrightarrow> countForFailureDomain eq C v = 0"
proof -
  from reconcileIndexes_facts [OF assms] obtain C0 where
    C0: "reconcileIndexes base machines = Some C0" "gm_ok C0" "length C0 = length base"
    "dom (gm_get machines) \<subseteq> dom (gm_get C0)"
    "\<forall>eq f. countForFailureDomain eq C0 f = countForFailureDomain eq base f" by blast
  have idys: "distinct (sortedIndexes machines)" "set (sortedIndexes machines) = dom (gm_get machines)"
    using assms(2) by (simp_all add: sortedIndexes_def gm_ok_def dom_map_of_conv_image_fst)
  have sub: "set (sortedIndexes machines) \<subseteq> dom (gm_get machines)"
    "set (sortedIndexes machines) \<subseteq> dom (gm_get C0)" using idys(2) C0(4) by auto
  from matchLoop_facts [OF C0(2) idys(1) sub, of deleting "gm_keys C0"] obtain C U Mt where
    m: "matchLoop eq machines deleting (sortedIndexes machines) (C0, gm_keys C0) = Some (C, U)" "gm_ok C"
    "Mt \<subseteq> set (sortedIndexes machines) - set deleting" "dom (gm_get C) = dom (gm_get C0) - Mt"
    "U = filter (\<lambda>i. i \<notin> Mt) (gm_keys C0)"
    "\<forall>f. countForFailureDomain eq C f + onIndexes eq machines Mt f = countForFailureDomain eq C0 f"
    "\<forall>i \<in> set (sortedIndexes machines) - set deleting - Mt. \<forall>v. gm_get machines i = Some v \<longrightarrow>
       countForFailureDomain eq C v = 0" by blast
  show ?thesis
  proof (rule that [of U C "dom (gm_get C0)" Mt])
    show "reconcileMappings eq base machines deleting =
       map_option fst (handleLoop eq base (maxIndexesPerFailureDomain eq base) (sort U) (machines, C, U))"
      using assms(3) C0(1) m(1)
      by (simp add: reconcileMappings_def matchMachinesToCandidates_def createUnmatchedIndexes_def)
    show "distinct U" using m(5) C0(2) by (simp add: gm_ok_def)
    show "set U = dom (gm_get C)" using m(4,5) by (auto simp: dom_map_of_conv_image_fst)
    show "card (dom (gm_get C0)) = length base" using C0(2,3) by (simp add: gm_length_card)
    show "countForFailureDomain eq C f + onIndexes eq machines Mt f = countForFailureDomain eq base f" for f
      using m(6) C0(5) by simp
    show "countForFailureDomain eq C v = 0"
      if "gm_get machines i = Some v" "i \<notin> Mt" "i \<notin> set deleting" for i v
      using m(7) that idys(2) by auto
  qed (use m C0 idys in \<open>auto simp: finite_dom_map_of\<close>)
qed

end

context fd_equality
begin

lemma reconcileMappings_total:
  assumes "gm_ok base" and "gm_ok machines" and "length machines \<le> length base"
  shows "\<exists>out. reconcileMappings eq base machines deleting = Some out \<and> gm_ok out \<and>
    length out = length base \<and> dom (gm_get machines) \<subseteq> dom (gm_get out) \<and>
    (\<forall>i v. gm_get out i = Some v \<longrightarrow> contains eq base v)"
proof -
  obtain K C U Mt where r: "reconcileMappings eq base machines deleting =
       map_option fst (handleLoop eq base (maxIndexesPerFailureDomain eq base) (sort U) (machines, C, U))"
    and C: "gm_ok C" and U: "distinct U" "set U = dom (gm_get C)"
    and K: "finite K" "card K = length base" "dom (gm_get machines) \<subseteq> K" "dom (gm_get C) = K - Mt"
    and Mt: "Mt \<subseteq> dom (gm_get machines)"
    and cnt: "\<And>f. countForFailureDomain eq C f + onIndexes eq machines Mt f = countForFailureDomain eq base f"
    using match_phase [OF assms, of deleting] by metis
  have inBase: "contains eq base v" if "0 < countForFailureDomain eq base v" for v
    using that cnt_pos_iff [OF assms(1)] contains_iff [OF assms(1)] by auto
  have "distinct (sort U)" "set (sort U) \<subseteq> dom (gm_get C)" using U by auto
  from handleLoop_facts [OF assms(2) C this, of base "maxIndexesPerFailureDomain eq base" U] obtain out C' U' where
    o: "handleLoop eq base (maxIndexesPerFailureDomain eq base) (sort U) (machines, C, U) = Some (out, C', U')"
    "gm_ok out" "dom (gm_get out) = dom (gm_get machines) \<union> set (sort U)"
    "\<forall>i. i \<notin> set (sort U) \<longrightarrow> gm_get out i = gm_get machines i"
    "\<forall>i \<in> set (sort U). gm_get out i = gm_get C i \<or>
       (\<exists>v. gm_get out i = Some v \<and> gm_get machines i = Some v \<and> contains eq base v)" by blast
  have dom: "dom (gm_get out) = K" using o(3) U(2) K(3,4) Mt by auto
  have "contains eq base v" if v: "gm_get out i = Some v" for i v
  proof (cases "i \<in> set U")
    case True
    with o(5) v have "gm_get C i = Some v \<or> contains eq base v" by auto
    moreover have "contains eq base v" if "gm_get C i = Some v"
      using inBase [of v] cnt_pos [OF that, of eq v] cnt [of v] by auto
    ultimately show ?thesis by blast
  next
    case False
    with o(4) v have m: "gm_get machines i = Some v" by simp
    have "i \<in> Mt" using False v dom U(2) K(4) by auto
    moreover have "finite Mt" using Mt finite_dom_map_of finite_subset by blast
    ultimately have "0 < onIndexes eq machines Mt v" using m by (auto simp: onIndexes_def card_gt_0_iff)
    with cnt [of v] show ?thesis by (intro inBase) simp
  qed
  moreover have "length out = length base" using gm_length_card [OF o(2)] dom K(2) by simp
  ultimately show ?thesis using r o(1,2) dom K(3) by auto
qed

lemma reconcileMappings_balanced:
  assumes "gm_ok base" and "gm_ok machines" and "length machines \<le> length base"
    and "dom (gm_get machines) \<inter> set deleting = {}"
    and "\<And>f. countForFailureDomain eq base f \<le> maxIndexesPerFailureDomain eq base"
    and "reconcileMappings eq base machines deleting = Some out"
  shows "countForFailureDomain eq out f \<le> maxIndexesPerFailureDomain eq base"
proof -
  let ?mx = "maxIndexesPerFailureDomain eq base"
  obtain K C U Mt where r: "reconcileMappings eq base machines deleting =
       map_option fst (handleLoop eq base ?mx (sort U) (machines, C, U))"
    and C: "gm_ok C" and U: "distinct U" "set U = dom (gm_get C)"
    and K: "dom (gm_get machines) \<subseteq> K" "dom (gm_get C) = K - Mt"
    and Mt: "Mt \<subseteq> dom (gm_get machines)"
    and cnt: "\<And>f. countForFailureDomain eq C f + onIndexes eq machines Mt f = countForFailureDomain eq base f"
    and none: "\<And>i v. gm_get machines i = Some v \<Longrightarrow> i \<notin> Mt \<Longrightarrow> i \<notin> set deleting \<Longrightarrow>
      countForFailureDomain eq C v = 0"
    using match_phase [OF assms(1-3), of deleting] by metis
  have fin: "finite (dom (gm_get machines))" by (simp add: finite_dom_map_of)
  have split: "countForFailureDomain eq machines f = onIndexes eq machines Mt f + onIndexes eq machines (K - Mt) f" for f
  proof -
    let ?S = "\<lambda>A. {i \<in> A. \<exists>v. gm_get machines i = Some v \<and> eq v f}"
    have "?S (dom (gm_get machines)) = ?S Mt \<union> ?S (K - Mt)" using K(1) Mt by auto
    moreover have "finite (?S Mt)" "finite (?S (K - Mt))"
      using fin Mt by (auto intro: finite_subset [of _ "dom (gm_get machines)"])
    ultimately show ?thesis
      using onIndexes_dom [OF assms(2), of eq f]
      by (simp add: onIndexes_def card_Un_disjoint [symmetric] Int_def)
  qed
  have "balancedAt eq ?mx machines C (set (sort U)) f" for f
  proof (cases "onIndexes eq machines (K - Mt) f = 0")
    case True
    with split [of f] cnt [of f] assms(5) [of f] U(2) K(2) show ?thesis by (simp add: balancedAt_def)
  next
    case False
    then obtain i v where i: "i \<in> K - Mt" "gm_get machines i = Some v" "eq v f"
      by (auto simp: onIndexes_def card_eq_0_iff)
    have "i \<notin> set deleting" using i(2) assms(4) by auto
    then have "countForFailureDomain eq C f = 0" using none [OF i(2)] i cnt_cong [OF i(3)] by auto
    with split [of f] cnt [of f] assms(5) [of f] U(2) K(2) show ?thesis by (simp add: balancedAt_def)
  qed
  with handleLoop_balanced [of machines C "sort U" ?mx base U] assms(2) C U
  have "\<exists>out' C' U'. handleLoop eq base ?mx (sort U) (machines, C, U) = Some (out', C', U') \<and>
    (\<forall>f. countForFailureDomain eq out' f \<le> ?mx)" by simp
  with r assms(6) show ?thesis by auto
qed

lemma reconcileMappings_stable:
  assumes "gm_ok base" and "gm_ok machines" and "length machines \<le> length base"
    and "reconcileMappings eq base machines deleting = Some out"
    and "gm_get machines i = Some v" and "i \<notin> set deleting" and "contains eq base v"
    and "countForFailureDomain eq machines v \<le> maxIndexesPerFailureDomain eq base"
  shows "gm_get out i = Some v"
proof -
  let ?mx = "maxIndexesPerFailureDomain eq base"
  obtain K C U Mt where r: "reconcileMappings eq base machines deleting =
       map_option fst (handleLoop eq base ?mx (sort U) (machines, C, U))"
    and C: "gm_ok C" and U: "distinct U" "set U = dom (gm_get C)"
    and K: "dom (gm_get machines) \<subseteq> K" "dom (gm_get C) = K - Mt"
    and none: "\<And>i v. gm_get machines i = Some v \<Longrightarrow> i \<notin> Mt \<Longrightarrow> i \<notin> set deleting \<Longrightarrow>
      countForFailureDomain eq C v = 0"
    using match_phase [OF assms(1-3), of deleting] by metis
  from r assms(4) obtain C' U' where
    h: "handleLoop eq base ?mx (sort U) (machines, C, U) = Some (out, C', U')" by (cases "handleLoop eq base ?mx (sort U) (machines, C, U)") auto
  have sub: "distinct (sort U)" "set (sort U) \<subseteq> dom (gm_get C)" using U by auto
  show ?thesis
  proof (cases "i \<in> Mt")
    case True
    with handleLoop_facts [OF assms(2) C sub, of base ?mx U] h U(2) K(2) assms(5) show ?thesis by auto
  next
    case False
    from handleLoop_stable [OF C sub none [OF assms(5) False assms(6)] assms(8) h assms(5) _ assms(7)]
    show ?thesis by simp
  qed
qed

end

section \<open>The base mapping is balanced\<close>

lemma gm_ok_roundRobin: "gm_ok (roundRobin n L)"
  by (simp add: gm_ok_def roundRobin_def comp_def distinct_map)

lemma length_roundRobin [simp]: "length (roundRobin n L) = n"
  by (simp add: roundRobin_def)

lemma snd_roundRobin: "map snd (roundRobin n L) = map (\<lambda>i. L ! (i mod length L)) [0..<n]"
  by (simp add: roundRobin_def comp_def)

lemma card_mod_class: "k > 0 \<Longrightarrow> card {i. i < n \<and> i mod k = j} \<le> (n + k - 1) div (k::nat)"
proof -
  assume k: "k > 0"
  have "inj_on (\<lambda>i. i div k) {i. i < n \<and> i mod k = j}"
    by (rule inj_onI) (metis (mono_tags, lifting) div_mult_mod_eq mem_Collect_eq)
  moreover have "(\<lambda>i. i div k) ` {i. i < n \<and> i mod k = j} \<subseteq> {..<(n + k - 1) div k}"
  proof (clarsimp)
    fix i assume "i < n"
    then have "i div k \<le> (n - 1) div k" by (intro div_le_mono) simp
    also have "\<dots> < (n - 1) div k + 1" by simp
    also have "\<dots> = (n - 1 + k) div k" using div_add_self2 [of k "n - 1"] k by simp
    also have "\<dots> = (n + k - 1) div k" using \<open>i < n\<close> by simp
    finally show "i div k < (n + k - Suc 0) div k" by simp
  qed
  ultimately show ?thesis using card_inj_on_le [of "\<lambda>i. i div k" _ "{..<(n + k - 1) div k}"] by simp
qed

context fd_equality
begin

lemma countFor_roundRobin:
  "countForFailureDomain eq (roundRobin n L) f = card {i. i < n \<and> eq (L ! (i mod length L)) f}"
proof -
  have "countForFailureDomain eq (roundRobin n L) f = length (filter (\<lambda>i. eq (L ! (i mod length L)) f) [0..<n])"
    by (simp add: countForFailureDomain_def roundRobin_def filter_map comp_def)
  also have "\<dots> = card (set (filter (\<lambda>i. eq (L ! (i mod length L)) f) [0..<n]))"
    by (rule distinct_card [symmetric]) simp
  also have "set (filter (\<lambda>i. eq (L ! (i mod length L)) f) [0..<n]) = {i. i < n \<and> eq (L ! (i mod length L)) f}"
    by auto
  finally show ?thesis .
qed

lemma newSet_snoc: "newSet eq (xs @ [x]) = setInsert eq (newSet eq xs) x"
  by (simp add: newSet_def)

lemma newSet_roundRobin:
  assumes "sorted_wrt (\<lambda>x y. \<not> eq x y) L" and "L \<noteq> []"
  shows "newSet eq (map snd (roundRobin n L)) = take n L"
proof (induction n)
  case 0
  show ?case by (simp add: roundRobin_def newSet_def)
next
  case (Suc n)
  let ?x = "L ! (n mod length L)"
  have "newSet eq (map snd (roundRobin (Suc n) L)) = setInsert eq (take n L) ?x"
    using Suc by (simp add: snd_roundRobin newSet_snoc)
  also have "\<dots> = take (Suc n) L"
  proof (cases "n < length L")
    case True
    have "\<not> setHas eq (take n L) (L ! n)"
      using True sorted_wrt_nth_less [OF assms(1)] by (auto simp: setHas_def list_ex_iff in_set_conv_nth)
    with True show ?thesis by (simp add: setInsert_def take_Suc_conv_app_nth)
  next
    case False
    have "?x \<in> set (take n L)" using False assms(2) by simp
    with False show ?thesis by (simp add: setInsert_def)
  qed
  finally show ?case .
qed

lemma roundRobin_balanced:
  assumes "sorted_wrt (\<lambda>x y. \<not> eq x y) L" and "L \<noteq> []"
  shows "countForFailureDomain eq (roundRobin n L) f \<le> maxIndexesPerFailureDomain eq (roundRobin n L)"
proof (cases "n = 0")
  case True
  then show ?thesis by (simp add: countFor_roundRobin)
next
  case False
  let ?k = "length L"
  have k: "?k > 0" using assms(2) by simp
  have mx: "maxIndexesPerFailureDomain eq (roundRobin n L) = (n + min n ?k - 1) div min n ?k"
    by (simp add: maxIndexesPerFailureDomain_def countUniqueFailureDomain_def newSet_roundRobin [OF assms] min.commute
        Let_def)
  have same: "j = j'" if "eq (L ! j) f" "eq (L ! j') f" "j < ?k" "j' < ?k" for j j'
    using that sorted_wrt_nth_less [OF assms(1), of j j'] sorted_wrt_nth_less [OF assms(1), of j' j]
      eq_trans eq_sym by (metis linorder_neqE_nat)
  show ?thesis
  proof (cases "\<exists>j < ?k. eq (L ! j) f")
    case False
    then have "{i. i < n \<and> eq (L ! (i mod ?k)) f} = {}" using k by auto
    then show ?thesis unfolding countFor_roundRobin by (simp only: card.empty)
  next
    case True
    then obtain j where j: "j < ?k" "eq (L ! j) f" by blast
    have "{i. i < n \<and> eq (L ! (i mod ?k)) f} \<subseteq> {i. i < n \<and> i mod ?k = j}"
      using same [OF _ j(2) _ j(1)] k by auto
    then have le: "countForFailureDomain eq (roundRobin n L) f \<le> card {i. i < n \<and> i mod ?k = j}"
      unfolding countFor_roundRobin by (rule card_mono [rotated]) simp
    show ?thesis
    proof (cases "n < ?k")
      case True
      have "{i. i < n \<and> i mod ?k = j} \<subseteq> {j}" using True by auto
      then have "card {i. i < n \<and> i mod ?k = j} \<le> card {j}" by (rule card_mono [rotated]) simp
      moreover have "n \<le> n + n - 1" using \<open>n \<noteq> 0\<close> by simp
      then have "n div n \<le> (n + n - 1) div n" by (rule div_le_mono)
      ultimately show ?thesis using le mx True \<open>n \<noteq> 0\<close> by simp
    next
      case False
      with le mx card_mod_class [OF k, of n j] show ?thesis by simp
    qed
  qed
qed

end

end
