(* ===== verification/Mapping_Properties.thy ===== *)
theory Mapping_Properties
  imports Index_Mapping
begin

text \<open>
  What the mapping of indexes to failure domains guarantees, for the failure domains of the operator
  (the equality contract is interpreted on \<^const>\<open>Equal\<close>): it exists, it covers every index of a
  machine, it uses configured failure domains only, it is balanced, it moves no machine without need.
\<close>

section \<open>The mappings the code builds\<close>

lemma mapMachinesLoop_ok:
  "mapMachinesLoop extract ms (out, newest) = Inr m \<Longrightarrow> gm_ok out \<Longrightarrow> length out \<le> n \<Longrightarrow>
     gm_ok m \<and> length m \<le> n + length ms"
proof (induction ms arbitrary: out newest n)
  case (Cons x ms)
  have upd: "gm_ok (gm_put i fd out)" "length (gm_put i fd out) \<le> Suc n" for i fd
    using Cons.prems(2,3) by (auto simp: gm_length_put)
  have step: "gm_ok m \<and> length m \<le> n + length (x # ms)"
    if "mapMachinesLoop extract ms (gm_put i fd out, k) = Inr m" for i fd k
    using Cons.IH [OF that upd] by simp
  have skip: "gm_ok m \<and> length m \<le> n + length (x # ms)"
    if "mapMachinesLoop extract ms (out, newest) = Inr m"
    using Cons.IH [OF that Cons.prems(2,3)] by simp
  from Cons.prems(1) consider "mapMachinesLoop extract ms (out, newest) = Inr m"
    | i fd k where "mapMachinesLoop extract ms (gm_put i fd out, k) = Inr m"
    by (auto split: sum.splits option.splits if_splits)
  then show ?case by cases (use step skip in blast)+
qed auto

lemma createMachineMapping_ok:
  assumes "createMachineMapping extract machines = Inr (m, d)"
  shows "gm_ok m" "length m \<le> length machines" "d = listDeletingIndexes machines"
  using assms mapMachinesLoop_ok [of "extract" machines "[]" "[]" m 0]
  by (auto simp: createMachineMapping_def mapIndexesToFailureDomainsForMachines_def split: sum.splits)

lemma sint_word_of_int32: "- (2 ^ 31) \<le> n \<Longrightarrow> n < 2 ^ 31 \<Longrightarrow> sint (word_of_int n :: 32 word) = n"
  by (simp add: signed_of_int signed_take_bit_int_eq_self_iff)

lemma baseIndexCount_eq:
  assumes "length m < 2 ^ 31"
  shows "baseIndexCount replicas m = max (sint replicas) (int (length m))"
proof -
  have "sint (int32len m) = int (length m)" using assms by (simp add: int32len_def sint32_of_nat)
  moreover have "- (2 ^ 31) \<le> max (sint replicas) (int (length m))" "max (sint replicas) (int (length m)) < 2 ^ 31"
    using assms sint32_range [of replicas] by auto
  ultimately show ?thesis
    using sint_word_of_int32 [of "max (sint replicas) (int (length m))"]
    by (auto simp: baseIndexCount_def max_def Let_def split: if_splits)
qed

lemma createBase_ok:
  assumes "createBaseFailureDomainMapping replicas fds tmpl m = Inr base" and "length m < 2 ^ 31"
  obtains comparable where "CompleteFailureDomains fds tmpl = Inr comparable" and "fds \<noteq> []"
    and "base = roundRobin (length base) (sortDomains comparable m)"
    and "int (length base) = max (sint replicas) (int (length m))" and "1 \<le> sint replicas"
proof -
  from assms(1) obtain comparable where c: "CompleteFailureDomains fds tmpl = Inr comparable" "fds \<noteq> []"
    "base = roundRobin (nat (baseIndexCount replicas m)) (sortDomains comparable m)" "1 \<le> sint replicas"
    by (auto simp: createBaseFailureDomainMapping_def split: if_splits sum.splits)
  have "int (length base) = max (sint replicas) (int (length m))"
    using c(3,4) by (simp add: baseIndexCount_eq [OF assms(2)])
  with c show ?thesis by (intro that) auto
qed

lemma CompleteFailureDomains_length:
  "CompleteFailureDomains fds tmpl = Inr out \<Longrightarrow> length out = length fds"
  by (induction fds arbitrary: out) (auto split: sum.splits)

lemma mset_sortDomains: "mset (sortDomains fds m) = mset fds"
  by (simp add: sortDomains_def Let_def)

text \<open>That no two members are equal does not depend on their order.\<close>

lemma unique_mset:
  assumes "mset xs = mset ys" and "sorted_wrt (\<lambda>x y. \<not> Equal x y) xs"
  shows "sorted_wrt (\<lambda>x y. \<not> Equal x y) ys"
  using assms
proof (induction ys arbitrary: xs)
  case (Cons y ys)
  then have "y \<in> set xs" by (metis list.set_intros(1) mset_eq_setD)
  then obtain as bs where xs: "xs = as @ y # bs" by (meson split_list)
  with Cons.prems have m: "mset (as @ bs) = mset ys" by simp
  have "sorted_wrt (\<lambda>x y. \<not> Equal x y) (as @ bs)" using Cons.prems(2) xs by (auto simp: sorted_wrt_append)
  with m have "sorted_wrt (\<lambda>x y. \<not> Equal x y) ys" by (rule Cons.IH)
  moreover have "\<not> Equal y z" if "z \<in> set ys" for z
  proof -
    have "z \<in> set as \<union> set bs" using m that by (metis mset_eq_setD set_append)
    with Cons.prems(2) xs fdEq.eq_sym [of y z] show ?thesis by (auto simp: sorted_wrt_append)
  qed
  ultimately show ?case by simp
qed simp

text \<open>The failure domains in use come first, and there are no more of them than machine indexes.\<close>

lemma insort_01:
  assumes "list_all P xs" and "list_all (\<lambda>x. \<not> P x) ys"
  shows "insort_key (\<lambda>x. if P x then 0 else (1::nat)) z (xs @ ys) = (if P z then z # xs @ ys else xs @ z # ys)"
  using assms by (induction xs) (auto; cases ys; auto)+

lemma sort_key_01:
  "sort_key (\<lambda>x. if P x then 0 else (1::nat)) xs = filter P xs @ filter (\<lambda>x. \<not> P x) xs"
  by (induction xs) (auto simp: insort_01 list_all_iff)

lemma unique_eq:
  "sorted_wrt (\<lambda>x y. \<not> Equal x y) xs \<Longrightarrow> x \<in> set xs \<Longrightarrow> y \<in> set xs \<Longrightarrow> Equal x y \<Longrightarrow> x = y"
proof (induction xs)
  case (Cons z zs)
  then show ?case using fdEq.eq_sym [of x y] by auto
qed simp

lemma used_le_machines:
  assumes "sorted_wrt (\<lambda>x y. \<not> Equal x y) fds"
  shows "length (filter (setHas Equal (map snd m)) fds) \<le> length m"
proof -
  let ?F = "filter (setHas Equal (map snd m)) fds"
  let ?f = "\<lambda>u. SOME e. e \<in> set m \<and> Equal (snd e) u"
  have u: "sorted_wrt (\<lambda>x y. \<not> Equal x y) ?F" using assms by (rule sorted_wrt_filter)
  then have d: "distinct ?F" by (induction fds) (auto split: if_splits)
  note same = unique_eq [OF u]
  have f: "?f x \<in> set m \<and> Equal (snd (?f x)) x" if "x \<in> set ?F" for x
  proof (rule someI_ex)
    show "\<exists>e. e \<in> set m \<and> Equal (snd e) x" using that by (force simp: setHas_def list_ex_iff)
  qed
  have "inj_on ?f (set ?F)"
  proof (rule inj_onI)
    fix x y assume xy: "x \<in> set ?F" "y \<in> set ?F" "?f x = ?f y"
    from f [OF xy(1)] have "Equal x (snd (?f y))" using xy(3) fdEq.eq_sym by metis
    moreover from f [OF xy(2)] have "Equal (snd (?f y)) y" by blast
    ultimately have "Equal x y" by (rule fdEq.eq_trans)
    with xy same show "x = y" by blast
  qed
  then have "card (set ?F) \<le> card (set m)" using f by (intro card_inj_on_le [of ?f]) auto
  also have "\<dots> \<le> length m" by (rule card_length)
  finally show ?thesis using distinct_card [OF d] by simp
qed

lemma used_domain_early:
  assumes "sorted_wrt (\<lambda>x y. \<not> Equal x y) fds" and "length m \<le> n"
    and "c \<in> set fds" and "gm_get m i = Some fd" and "Equal c fd"
  shows "c \<in> set (take n (sortDomains fds m))"
proof -
  let ?P = "setHas Equal (newSet Equal (map snd m))"
  have P: "?P = setHas Equal (map snd m)" using fdEq.newSet_has by blast
  have "sorted_wrt (\<lambda>x y. \<not> Equal x y) (sort_key fdString fds)"
    by (rule unique_mset [OF _ assms(1)]) simp
  then have le: "length (filter ?P (sort_key fdString fds)) \<le> n"
    using used_le_machines [of "sort_key fdString fds" m] assms(2) P by simp
  have "?P c"
    unfolding P setHas_def list_ex_iff using assms(4,5) fdEq.eq_sym
    by (intro bexI [of _ fd]) (auto dest!: map_of_SomeD intro: rev_image_eqI)
  then have "c \<in> set (filter ?P (sort_key fdString fds))" using assms(3) by simp
  then show ?thesis using le by (simp add: sortDomains_def sort_key_01 Let_def)
qed

text \<open>A successful mapping comes from these parts.\<close>

lemma mapMachineIndexes_parts:
  assumes "mapMachineIndexesToFailureDomains extract machines replicas fds tmpl = Some (Inr out)"
    and "length machines < 2 ^ 31"
  obtains m base comparable where
    "createMachineMapping extract machines = Inr (m, listDeletingIndexes machines)"
    and "reconcileMappings Equal base m (listDeletingIndexes machines) = Some out"
    and "gm_ok base" and "gm_ok m" and "length m \<le> length base"
    and "int (length base) = max (sint replicas) (int (length m))"
    and "CompleteFailureDomains (setList fdString (newSet Equal fds)) tmpl = Inr comparable"
    and "base = roundRobin (length base) (sortDomains comparable m)" and "comparable \<noteq> []"
proof -
  from assms(1) obtain m d base where c: "createMachineMapping extract machines = Inr (m, d)"
    and b: "createBaseFailureDomainMapping replicas (setList fdString (newSet Equal fds)) tmpl m = Inr base"
    and r: "reconcileMappings Equal base m d = Some out"
    by (auto simp: mapMachineIndexesToFailureDomains_def split: if_splits sum.splits prod.splits)
  note ok = createMachineMapping_ok [OF c]
  have lt: "length m < 2 ^ 31" using ok(2) assms(2) by simp
  from createBase_ok [OF b lt] obtain comparable where
    k: "CompleteFailureDomains (setList fdString (newSet Equal fds)) tmpl = Inr comparable"
    "setList fdString (newSet Equal fds) \<noteq> []"
    "base = roundRobin (length base) (sortDomains comparable m)"
    "int (length base) = max (sint replicas) (int (length m))" by blast
  have "gm_ok base" using k(3) gm_ok_roundRobin by metis
  moreover have "comparable \<noteq> []" using CompleteFailureDomains_length [OF k(1)] k(2) by auto
  moreover have "length m \<le> length base" using k(4) by linarith
  ultimately show ?thesis using that c r k ok by blast
qed

lemma mapping_total:
  assumes "length machines < 2 ^ 31"
  shows "\<exists>r. mapMachineIndexesToFailureDomains extract machines replicas fds tmpl = Some r"
proof (rule ccontr)
  assume none: "\<not> ?thesis"
  then obtain m d base where c: "createMachineMapping extract machines = Inr (m, d)"
    and b: "createBaseFailureDomainMapping replicas (setList fdString (newSet Equal fds)) tmpl m = Inr base"
    and r: "reconcileMappings Equal base m d = None"
    by (auto simp: mapMachineIndexesToFailureDomains_def split: if_splits sum.splits prod.splits)
  note ok = createMachineMapping_ok [OF c]
  have lt: "length m < 2 ^ 31" using ok(2) assms by simp
  from createBase_ok [OF b lt] obtain comparable where
    k: "base = roundRobin (length base) (sortDomains comparable m)"
    "int (length base) = max (sint replicas) (int (length m))" by blast
  have "gm_ok base" using k(1) gm_ok_roundRobin by metis
  moreover have "length m \<le> length base" using k(2) by linarith
  ultimately show False using fdEq.reconcileMappings_total [of base m d] ok(1) r by auto
qed

lemma mapping_keeps:
  assumes "mapMachineIndexesToFailureDomains extract machines replicas fds tmpl = Some (Inr out)"
    and "length machines < 2 ^ 31"
    and "createMachineMapping extract machines = Inr (m, d)"
    and "CompleteFailureDomains (setList fdString (newSet Equal fds)) tmpl = Inr comparable"
    and "sorted_wrt (\<lambda>x y. \<not> Equal x y) comparable"
    and "gm_get m i = Some fd" and "i \<notin> set d"
    and "Equal c fd" and "c \<in> set comparable"
    and "countForFailureDomain Equal m fd \<le>
           (length out + min (length out) (length comparable) - 1) div min (length out) (length comparable)"
  shows "gm_get out i = Some fd"
proof -
  from mapMachineIndexes_parts [OF assms(1,2)] obtain m' base comparable' where
    p: "createMachineMapping extract machines = Inr (m', listDeletingIndexes machines)"
    "reconcileMappings Equal base m' (listDeletingIndexes machines) = Some out"
    "gm_ok base" "gm_ok m'" "length m' \<le> length base" "int (length base) = max (sint replicas) (int (length m'))"
    "CompleteFailureDomains (setList fdString (newSet Equal fds)) tmpl = Inr comparable'"
    "base = roundRobin (length base) (sortDomains comparable' m')" "comparable' \<noteq> []" .
  let ?L = "sortDomains comparable m"
  have same: "m' = m" "listDeletingIndexes machines = d" "comparable' = comparable"
    using p(1,7) assms(3,4) by auto
  have L: "sorted_wrt (\<lambda>x y. \<not> Equal x y) ?L"
    using mset_sortDomains [symmetric] assms(5) by (rule unique_mset)
  have len: "length ?L = length comparable" using mset_sortDomains by (rule mset_eq_length)
  then have ne: "?L \<noteq> []" using p(9) same by auto
  have b: "base = roundRobin (length base) ?L" using p(8) same by simp
  have lo: "length out = length base"
    using fdEq.reconcileMappings_total [OF p(3-5), of "listDeletingIndexes machines"] p(2) by auto
  have ns: "newSet Equal (map snd base) = take (length base) ?L"
    using fdEq.newSet_roundRobin [OF L ne, of "length base"] b by simp
  have mx: "maxIndexesPerFailureDomain Equal base =
      (length base + min (length base) (length ?L) - 1) div min (length base) (length ?L)"
    using ns by (simp add: maxIndexesPerFailureDomain_def countUniqueFailureDomain_def Let_def min.commute)
  have "c \<in> set (take (length base) ?L)"
    using used_domain_early [OF assms(5) _ assms(9,6,8)] p(5) same by simp
  then have "setHas Equal (map snd base) fd"
    using fdEq.newSet_has [of "map snd base" fd] ns assms(8) by (auto simp: setHas_def list_ex_iff)
  then have con: "contains Equal base fd" by (auto simp: contains_def setHas_def list_ex_iff)
  show ?thesis
    using fdEq.reconcileMappings_stable [OF p(3-5,2), of i fd] con assms(6,7,10) same lo mx len by simp
qed

lemma mapping_length:
  assumes "mapMachineIndexesToFailureDomains extract machines replicas fds tmpl = Some (Inr out)"
    and "length machines < 2 ^ 31" and "createMachineMapping extract machines = Inr (m, d)"
  shows "int (length out) = max (sint replicas) (int (length m))"
proof -
  from mapMachineIndexes_parts [OF assms(1,2)] obtain m' base where
    p: "createMachineMapping extract machines = Inr (m', listDeletingIndexes machines)"
    "reconcileMappings Equal base m' (listDeletingIndexes machines) = Some out"
    "gm_ok base" "gm_ok m'" "length m' \<le> length base" "int (length base) = max (sint replicas) (int (length m'))" .
  from fdEq.reconcileMappings_total [OF p(3,4,5), of "listDeletingIndexes machines"] p(2) have "length out = length base" by auto
  with p(1,6) assms(3) show ?thesis by simp
qed

text \<open>With replicas and failure domains that complete, a mapping is found.\<close>

lemma mapping_found:
  assumes "length machines < 2 ^ 31" and "fds \<noteq> []" and "createMachineMapping extract machines = Inr (m, d)"
    and "1 \<le> sint replicas" and "CompleteFailureDomains (setList fdString (newSet Equal fds)) tmpl = Inr comparable"
  obtains out where "mapMachineIndexesToFailureDomains extract machines replicas fds tmpl = Some (Inr out)"
proof -
  have "newSet Equal fds \<noteq> []"
    using assms(2) fdEq.newSet_has [of fds "hd fds"] by (cases fds) (auto simp: setHas_def)
  then have "setList fdString (newSet Equal fds) \<noteq> []" by (metis set_sort set_empty setList_def)
  with mapping_total [OF assms(1), of "extract" replicas fds tmpl] assms(2-5) that show thesis
    by (auto simp: mapMachineIndexesToFailureDomains_def createBaseFailureDomainMapping_def)
qed

text \<open>Machines with different indexes in their names: the machine mapping lists them with their domains.\<close>

lemma mapMachinesLoop_distinct:
  assumes "\<forall>m \<in> set ms. extract m = Inr (fdOf m) \<and> parseMachineNameIndex (omName (mMeta m)) = Some (idx m)"
    and "distinct (map idx ms)" and "\<forall>m \<in> set ms. gm_get out (idx m) = None"
  shows "mapMachinesLoop extract ms (out, newest) = Inr (out @ map (\<lambda>m. (idx m, fdOf m)) ms)"
  using assms
proof (induction ms arbitrary: out newest)
  case (Cons x xs)
  have "mapMachinesLoop extract (x # xs) (out, newest) = mapMachinesLoop extract xs (gm_put (idx x) (fdOf x) out, gm_put (idx x) x newest)"
    using Cons.prems(1,3) by simp
  also have "\<dots> = Inr (gm_put (idx x) (fdOf x) out @ map (\<lambda>m. (idx m, fdOf m)) xs)"
    using Cons.prems by (intro Cons.IH) (auto simp: gm_get_put image_iff)
  finally show ?case using Cons.prems(3) by (simp add: gm_put_fresh)
qed simp

lemma createMachineMapping_distinct:
  assumes "\<forall>m \<in> set ms. extract m = Inr (fdOf m) \<and> parseMachineNameIndex (omName (mMeta m)) = Some (idx m)"
    and "distinct (map idx ms)" and "\<forall>m \<in> set ms. omDeletionTimestamp (mMeta m) = None"
  shows "createMachineMapping extract ms = Inr (map (\<lambda>m. (idx m, fdOf m)) ms, [])"
proof -
  have "filter (\<lambda>m. omDeletionTimestamp (mMeta m) \<noteq> None) ms = []" using assms(3) by (simp add: filter_empty_conv)
  then show ?thesis
    using mapMachinesLoop_distinct [OF assms(1,2), of "[]" "[]"]
    by (simp add: createMachineMapping_def mapIndexesToFailureDomainsForMachines_def listDeletingIndexes_def indexesOf_def
        Let_def List.map_filter_simps)
qed

section \<open>Panics\<close>

lemma gm_put_values: "snd ` set (gm_put k v m) \<subseteq> insert v (snd ` set m)"
  by (induction m) auto

text \<open>An error of the mapping that is a panic is one of an extraction.\<close>

lemma mapMachinesLoop_panic:
  assumes "mapMachinesLoop extract ms (out, newest) = Inl e" and "panicked e"
  shows "\<exists>m \<in> set ms \<union> snd ` set newest. \<exists>e'. extract m = Inl e' \<and> panicked e'"
  using assms
proof (induction ms arbitrary: out newest)
  case (Cons m ms)
  have later: ?case if "mapMachinesLoop extract ms (out', gm_put idx m newest) = Inl e" for out' idx
  proof -
    from Cons.IH [OF that Cons.prems(2)] obtain x where
      x: "x \<in> set ms \<union> snd ` set (gm_put idx m newest)" "\<exists>e'. extract x = Inl e' \<and> panicked e'" by blast
    have "x \<in> set (m # ms) \<union> snd ` set newest" using x(1) gm_put_values [of idx m newest] by auto
    with x(2) show ?thesis by (rule rev_bexI [rotated])
  qed
  show ?case
  proof (cases "extract m")
    case (Inl e')
    with Cons.prems show ?thesis by auto
  next
    case (Inr fd)
    show ?thesis
    proof (cases "parseMachineNameIndex (omName (mMeta m))")
      case None
      with Inr Cons show ?thesis by fastforce
    next
      case (Some idx)
      show ?thesis
      proof (cases "gm_get out idx = None \<or> gm_get newest idx = None")
        case True
        with Cons.prems(1) Inr Some show ?thesis
          by (intro later [of "gm_put idx fd out" idx]) (auto split: option.splits)
      next
        case False
        then obtain old oldMachine where o: "gm_get out idx = Some old" "gm_get newest idx = Some oldMachine" by auto
        then have old: "oldMachine \<in> snd ` set newest" by (force dest: map_of_SomeD)
        consider (skip) "mapMachinesLoop extract ms (out, newest) = Inl e"
          | (panic) e' where "extract oldMachine = Inl e'" "e = wrap (''could not extract failure domain from machine '' @ omName (mMeta oldMachine)) e'"
          | (put) "mapMachinesLoop extract ms (gm_put idx fd out, gm_put idx m newest) = Inl e"
          using Cons.prems(1) Inr Some o by (auto split: if_splits sum.splits)
        then show ?thesis
        proof cases
          case skip
          from Cons.IH [OF this Cons.prems(2)] show ?thesis by auto
        next
          case panic
          with Cons.prems(2) have "panicked e'" by simp
          moreover have "oldMachine \<in> set (m # ms) \<union> snd ` set newest"
            using old by simp
          ultimately show ?thesis using panic(1) by blast
        next
          case put
          then show ?thesis by (rule later)
        qed
      qed
    qed
  qed
qed simp

lemma CompleteFailureDomains_no_panic: "CompleteFailureDomains fds t = Inl e \<Longrightarrow> \<not> panicked e"
  by (induction fds arbitrary: e)
    (auto simp: Complete_def errMissingTemplateFailureDomain_def errMismatchedPlatformType_def split: sum.splits option.splits if_splits)

lemma createBase_no_panic: "createBaseFailureDomainMapping replicas fds t m = Inl e \<Longrightarrow> \<not> panicked e"
  using CompleteFailureDomains_no_panic
  by (auto simp: createBaseFailureDomainMapping_def errReplicasRequired_def errNoFailureDomains_def split: sum.splits if_splits)

lemma mapping_panic:
  assumes "mapMachineIndexesToFailureDomains extract machines replicas fds tmpl = Some (Inl e)" and "panicked e"
  shows "\<exists>m \<in> set machines. \<exists>e'. extract m = Inl e' \<and> panicked e'"
proof -
  have "\<not> panicked errNoFailureDomains" by (simp add: errNoFailureDomains_def)
  with assms obtain e1 where "createMachineMapping extract machines = Inl e1" "panicked e1"
    using createBase_no_panic
    by (auto simp: mapMachineIndexesToFailureDomains_def split: if_splits sum.splits prod.splits)
  then obtain e2 where "mapMachinesLoop extract machines ([], []) = Inl e2" "panicked e2"
    by (auto simp: createMachineMapping_def mapIndexesToFailureDomainsForMachines_def split: sum.splits)
  from mapMachinesLoop_panic [OF this] show ?thesis by simp
qed

section \<open>Properties\<close>

text \<open>
  C25: the mapping itself never panics. With fewer than 2^31 machines, mapping indexes to failure domains
  never dereferences a missing index or candidate: it returns a mapping or an error, and the error is a
  panic only if extracting the failure domain of one of the machines panics.
\<close>

theorem mapping_never_panics:
  assumes "length machines < 2 ^ 31"
  shows "\<exists>r. mapMachineIndexesToFailureDomains extract machines replicas fds tmpl = Some r \<and>
    (\<forall>e. r = Inl e \<and> panicked e \<longrightarrow> (\<exists>m \<in> set machines. \<exists>e'. extract m = Inl e' \<and> panicked e'))"
  using mapping_total [OF assms] mapping_panic by fastforce

definition simFd :: "string \<Rightarrow> failureDomain" where
  "simFd z = NewGCPFailureDomain \<lparr>gcpZone = z\<rparr>"

definition simMapMachine :: "string \<Rightarrow> string \<Rightarrow> int option \<Rightarrow> machine" where
  "simMapMachine name zone deleted =
     \<lparr>mMeta = emptyMeta\<lparr>omName := name, omDeletionTimestamp := deleted\<rparr>,
      mSpec = \<lparr>msProviderSpec = Some zone, msAuthoritativeAPI = '''', msOther = ''''\<rparr>,
      mNodeRef = None, mPhase = None, mErrorMessage = None\<rparr>"

definition simExtract :: "machine \<Rightarrow> failureDomain result" where
  "simExtract m = (case msProviderSpec (mSpec m) of None \<Rightarrow> Inl (ErrNew ''no spec'') | Some z \<Rightarrow> Inr (simFd z))"

definition simZones :: "failureDomain list" where
  "simZones = [simFd ''a'', simFd ''b'', simFd ''c'']"

lemma simExtract_no_panic: "simExtract m = Inl e \<Longrightarrow> \<not> panicked e"
  by (auto simp: simExtract_def split: option.splits)

theorem mapping_never_panics_witness:
  "\<exists>r. mapMachineIndexesToFailureDomains simExtract [simMapMachine ''m-0'' ''c'' None, simMapMachine ''m-2'' ''b'' None]
     3 simZones (Some (simFd ''a'')) = Some r \<and> (\<forall>e. r = Inl e \<longrightarrow> \<not> panicked e)"
proof -
  let ?ms = "[simMapMachine ''m-0'' ''c'' None, simMapMachine ''m-2'' ''b'' None]"
  have "length ?ms < 2 ^ 31" by simp
  from mapping_never_panics [OF this, of simExtract 3 simZones "Some (simFd ''a'')"] show ?thesis
    using simExtract_no_panic by metis
qed

text \<open>Where an extraction panics, so does the mapping.\<close>

lemma mapping_passes_panic_on:
  "mapMachineIndexesToFailureDomains (\<lambda>m. Inl nilDereference) [simMapMachine ''m-0'' ''c'' None] 3 simZones (Some (simFd ''a'')) =
     Some (Inl (wrap ''could not construct machine mapping'' (wrap ''could not map indexes to failure domains for machines''
       (wrap ''could not extract failure domain from machine m-0'' nilDereference))))"
  by code_simp


text \<open>
  C22: balance. When the configured failure domains stay distinct after completion with the template
  and no index has only machines being deleted, no failure domain gets more indexes than the number of
  indexes divided by the number of failure domains in use, rounded up.
\<close>

theorem mapping_balanced:
  assumes "mapMachineIndexesToFailureDomains extract machines replicas fds tmpl = Some (Inr out)"
    and "length machines < 2 ^ 31" and "listDeletingIndexes machines = []"
    and "CompleteFailureDomains (setList fdString (newSet Equal fds)) tmpl = Inr comparable"
    and "sorted_wrt (\<lambda>x y. \<not> Equal x y) comparable"
  shows "countForFailureDomain Equal out f \<le>
           (length out + min (length out) (length comparable) - 1) div min (length out) (length comparable)"
proof -
  from mapMachineIndexes_parts [OF assms(1,2)] obtain m base comparable' where
    p: "createMachineMapping extract machines = Inr (m, listDeletingIndexes machines)"
    "reconcileMappings Equal base m (listDeletingIndexes machines) = Some out"
    "gm_ok base" "gm_ok m" "length m \<le> length base" "int (length base) = max (sint replicas) (int (length m))"
    "CompleteFailureDomains (setList fdString (newSet Equal fds)) tmpl = Inr comparable'"
    "base = roundRobin (length base) (sortDomains comparable' m)" "comparable' \<noteq> []" .
  let ?L = "sortDomains comparable m"
  have same: "comparable' = comparable" using p(7) assms(4) by simp
  have L: "sorted_wrt (\<lambda>x y. \<not> Equal x y) ?L"
    using mset_sortDomains [symmetric] assms(5) by (rule unique_mset)
  have len: "length ?L = length comparable" using mset_sortDomains by (rule mset_eq_length)
  then have ne: "?L \<noteq> []" using p(9) same by auto
  have b: "base = roundRobin (length base) ?L" using p(8) same by simp
  have bal: "countForFailureDomain Equal base g \<le> maxIndexesPerFailureDomain Equal base" for g
    using fdEq.roundRobin_balanced [OF L ne, of "length base" g] b by simp
  have "length out = length base"
    using fdEq.reconcileMappings_total [OF p(3-5), of "listDeletingIndexes machines"] p(2) by auto
  moreover have "maxIndexesPerFailureDomain Equal base =
      (length base + min (length base) (length ?L) - 1) div min (length base) (length ?L)"
    using fdEq.newSet_roundRobin [OF L ne, of "length base"] b
    by (simp add: maxIndexesPerFailureDomain_def countUniqueFailureDomain_def Let_def min.commute)
  ultimately show ?thesis
    using fdEq.reconcileMappings_balanced [OF p(3-5) _ bal p(2), of f] assms(3) len by simp
qed

definition simMapMachines :: "machine list" where
  "simMapMachines = [simMapMachine ''m-0'' ''c'' None, simMapMachine ''m-2'' ''b'' None]"

lemma simMapping:
  "mapMachineIndexesToFailureDomains simExtract simMapMachines 3 simZones (Some (simFd ''a'')) =
     Some (Inr [(0, simFd ''c''), (2, simFd ''b''), (1, simFd ''a'')])"
  by code_simp

lemma simComplete:
  "CompleteFailureDomains (setList fdString (newSet Equal simZones)) (Some (simFd ''a'')) = Inr simZones"
  by code_simp


theorem mapping_balanced_witness:
  "\<exists>out. mapMachineIndexesToFailureDomains simExtract simMapMachines 3 simZones (Some (simFd ''a'')) = Some (Inr out)
     \<and> countForFailureDomain Equal out (simFd ''c'') \<le> 1"
proof -
  have l: "length simMapMachines < 2 ^ 31" by (simp add: simMapMachines_def)
  have d: "listDeletingIndexes simMapMachines = []" by code_simp
  have u: "sorted_wrt (\<lambda>x y. \<not> Equal x y) simZones" by code_simp
  have z: "length simZones = 3" by (simp add: simZones_def)
  from mapping_balanced [OF simMapping l d simComplete u, of "simFd ''c''"] simMapping z show ?thesis by simp
qed

text \<open>
  C24: stability. An index keeps the failure domain that the machine mapping gives it, that of its newest
  machine, provided the index is not one whose machines are all being deleted, the configured domains,
  completed with the template, are pairwise different, the domain is one of them, and no more machine
  indexes use it than the bound allows.
\<close>

theorem mapping_stable:
  assumes "mapMachineIndexesToFailureDomains extract machines replicas fds tmpl = Some (Inr out)"
    and "length machines < 2 ^ 31"
    and "createMachineMapping extract machines = Inr (m, d)"
    and "CompleteFailureDomains (setList fdString (newSet Equal fds)) tmpl = Inr comparable"
    and "sorted_wrt (\<lambda>x y. \<not> Equal x y) comparable"
    and "gm_get m i = Some fd" and "i \<notin> set d"
    and "Equal c fd" and "c \<in> set comparable"
    and "countForFailureDomain Equal m fd \<le>
           (length out + min (length out) (length comparable) - 1) div min (length out) (length comparable)"
  shows "gm_get out i = Some fd"
  using assms by (rule mapping_keeps)

theorem mapping_stable_witness:
  "\<exists>out. mapMachineIndexesToFailureDomains simExtract simMapMachines 3 simZones (Some (simFd ''a'')) = Some (Inr out)
     \<and> gm_get out 2 = Some (simFd ''b'')"
proof -
  let ?m = "[(0, simFd ''c''), (2, simFd ''b'')]" and ?out = "[(0, simFd ''c''), (2, simFd ''b''), (1, simFd ''a'')]"
  have l: "length simMapMachines < 2 ^ 31" by (simp add: simMapMachines_def)
  have c: "createMachineMapping simExtract simMapMachines = Inr (?m, [])" by code_simp
  have u: "sorted_wrt (\<lambda>x y. \<not> Equal x y) simZones" by code_simp
  have g: "gm_get ?m (2::int) = Some (simFd ''b'')" by simp
  have n: "(2::int) \<notin> set []" by simp
  have e: "Equal (simFd ''b'') (simFd ''b'')" by simp
  have t: "simFd ''b'' \<in> set simZones" by (simp add: simZones_def)
  have k: "countForFailureDomain Equal ?m (simFd ''b'') \<le> (length ?out + min (length ?out) (length simZones) - 1)
      div min (length ?out) (length simZones)" by code_simp
  from mapping_stable [OF simMapping l c simComplete u g n e t k] simMapping show ?thesis by blast
qed

section \<open>Where balance fails\<close>

text \<open>
  With an index whose machines are all being deleted the mapping can be unbalanced: here three
  indexes, three failure domains, and the domain c is used twice while a is not used.
\<close>

lemma mapping_unbalanced_with_deleting_index:
  "mapMachineIndexesToFailureDomains simExtract
     [simMapMachine ''m-0'' ''c'' (Some 1), simMapMachine ''m-2'' ''b'' None] 3 simZones (Some (simFd ''a''))
   = Some (Inr [(0, simFd ''c''), (2, simFd ''b''), (1, simFd ''c'')])"
  by code_simp

text \<open>
  An index whose machines are all being deleted can lose a domain that is configured and used no more
  than allowed: of two live machines in a and a deleted one in b, the latter's index is moved to c.
\<close>

lemma mapping_moves_deleting_index:
  "mapMachineIndexesToFailureDomains simExtract
     [simMapMachine ''m-0'' ''a'' None, simMapMachine ''m-1'' ''a'' None, simMapMachine ''m-2'' ''b'' (Some 1)] 3 simZones
     (Some (simFd ''a'')) = Some (Inr [(0, simFd ''a''), (1, simFd ''b''), (2, simFd ''c'')])"
  by code_simp

section \<open>Machine names\<close>

text \<open>
  Machine indexes. The index parsed from a machine name is never negative and fits an int32, and
  the index printed after the last dash of a name is the one that is parsed back.
\<close>

lemma machine_name_index_roundtrip:
  "(\<forall>name i. parseMachineNameIndex name = Some i \<longrightarrow> 0 \<le> i \<and> i < 2 ^ 31) \<and>
   (\<forall>prefix n. n < 2 ^ 31 \<longrightarrow> parseMachineNameIndex (prefix @ ''-'' @ showNat n) = Some (int n))"
proof (intro conjI allI impI)
  fix name i assume p: "parseMachineNameIndex name = Some i"
  then show "0 \<le> i" unfolding parseMachineNameIndex_def
    using afterLast_no_sep [of "CHR ''-''" name] parseInt32_unsigned by blast
  show "i < 2 ^ 31" using p parseInt32_range unfolding parseMachineNameIndex_def by blast
next
  fix "prefix" :: string and n :: nat assume n: "n < 2 ^ 31"
  have "afterLast (CHR ''-'') (prefix @ ''-'' @ showNat n) = showNat n"
    using afterLast_append [of "CHR ''-''" "showNat n" "prefix"] digits_no_dash [OF showNat_digits] by simp
  with n show "parseMachineNameIndex (prefix @ ''-'' @ showNat n) = Some (int n)"
    by (simp add: parseMachineNameIndex_def parseInt32_showNat)
qed

theorem machine_name_index_roundtrip_witness:
  "parseMachineNameIndex (''cluster-abc-master'' @ ''-'' @ showNat 2) = Some 2"
proof -
  have "parseMachineNameIndex (''cluster-abc-master'' @ ''-'' @ showNat 2) = Some (int 2)"
    by (rule machine_name_index_roundtrip [THEN conjunct2, rule_format]) simp
  then show ?thesis by (simp only: of_nat_numeral)
qed

end
