(* ===== verification/Provider_Config.thy ===== *)
theory Provider_Config
  imports Failure_Domain
begin

text \<open>
  Provider configurations across platforms: the package \<^verbatim>\<open>providerconfig\<close> under
  \<^verbatim>\<open>pkg/machineproviders/providers/openshift/machine/v1beta1\<close>. A provider configuration is the record of
  its platform and one field per platform. Each platform's provider spec has the fields the code reads
  or writes; the remaining fields are carried along in one opaque field, so that equality of records is
  the deep equality of the source. A slice whose nil value matters is an option.
  The JSON and YAML codecs and the comparison \<^verbatim>\<open>deep.Equal\<close> of a third-party package are arguments.
  Two of the injections write through a pointer or slice that the receiver shares with the new value;
  those return the receiver as it is left behind, too.
\<close>

section \<open>Provider specs\<close>

record betaFilter =
  bfName :: string
  bfValues :: "string list"

record awsBetaReference =
  betaID :: "string option"
  betaARN :: "string option"
  betaFilters :: "betaFilter list option"

record awsMachineProviderConfig =
  awsAMI :: awsBetaReference
  awsPlacementZone :: string
  awsConfigSubnet :: awsBetaReference
  awsOther :: string

record azureImageRef =
  imgPublisher :: string
  imgOffer :: string
  imgOther :: string

record azureMachineProviderSpec =
  azureImage :: azureImageRef
  azureInternalLoadBalancer :: string
  azureConfigZone :: string
  azureConfigSubnet :: string
  azureOther :: string

record gcpDisk =
  diskImage :: string
  diskOther :: string

record gcpMachineProviderSpec =
  gcpDisks :: "gcpDisk list option"
  gcpTargetPools :: "string list option"
  gcpConfigZone :: string
  gcpOther :: string

record openstackRootVolume =
  orvZone :: string
  orvVolumeType :: string
  orvOther :: string

record additionalBlockDevice =
  abdName :: string
  abdSizeGiB :: int
  abdOther :: string

record openstackProviderSpec =
  ospServerGroupName :: string
  ospAdditionalBlockDevices :: "additionalBlockDevice list option"
  ospAvailabilityZone :: string
  ospRootVolume :: "openstackRootVolume option"
  ospOther :: string

record workspace =
  wsServer :: string
  wsDatacenter :: string
  wsFolder :: string
  wsDatastore :: string
  wsResourcePool :: string
  wsVMGroup :: string

record networkDevice =
  ndNetworkName :: string
  ndAddressesFromPools :: "string list option"
  ndNameservers :: "string list option"
  ndOther :: string

record vsphereMachineProviderSpec =
  vspTemplate :: string
  vspWorkspace :: "workspace option"
  vspDevices :: "networkDevice list option"
  vspOther :: string

record nutanixResourceIdentifier =
  nriType :: string
  nriUUID :: "string option"
  nriName :: "string option"

record nutanixMachineProviderConfig =
  nxCluster :: nutanixResourceIdentifier
  nxSubnets :: "nutanixResourceIdentifier list option"
  nxFailureDomain :: "nutanixFailureDomainReference option"
  nxOther :: string

text \<open>The elements of a slice, none for nil.\<close>

definition sliceOf :: "'a list option \<Rightarrow> 'a list" where
  "sliceOf s = (case s of None \<Rightarrow> [] | Some xs \<Rightarrow> xs)"

section \<open>The infrastructure object\<close>

record vsphereTopology =
  topDatacenter :: string
  topComputeCluster :: string
  topNetworks :: "string list"
  topDatastore :: string
  topResourcePool :: string
  topFolder :: string
  topTemplate :: string

text \<open>\<open>infPlatformStatus\<close> below is the type in the optional platform status. The zone affinity is an optional host group, of which the VM group is read.\<close>

record vspherePlatformFailureDomain =
  vfdName :: string
  vfdRegion :: string
  vfdZone :: string
  vfdServer :: string
  vfdTopology :: vsphereTopology
  vfdZoneAffinity :: "string option option"

record nutanixFailureDomain =
  nfdName :: string
  nfdCluster :: nutanixResourceIdentifier
  nfdSubnets :: "nutanixResourceIdentifier list"

record infrastructure =
  infInfrastructureName :: string
  infPlatformStatus :: "string option"
  infSpecType :: string
  infVSphere :: "vspherePlatformFailureDomain list option"
  infNutanix :: "nutanixFailureDomain list option"

section \<open>Codecs\<close>

text \<open>
  For one platform: strict YAML decoding into a zero spec and JSON decoding into a spec, both with the
  error and the spec as it is left; JSON encoding; the differences \<^verbatim>\<open>deep.Equal\<close> reports.
\<close>

record 'c platformCodec =
  codecStrict :: "string \<Rightarrow> goerror option \<times> 'c"
  codecJson :: "string \<Rightarrow> 'c \<Rightarrow> goerror option \<times> 'c"
  codecMarshal :: "'c \<Rightarrow> string result"
  codecDeep :: "'c \<Rightarrow> 'c \<Rightarrow> string list"

record codecs =
  kindOf :: "string \<Rightarrow> string result"
  cdAWS :: "awsMachineProviderConfig platformCodec"
  cdAzure :: "azureMachineProviderSpec platformCodec"
  cdGCP :: "gcpMachineProviderSpec platformCodec"
  cdNutanix :: "nutanixMachineProviderConfig platformCodec"
  cdOpenStack :: "openstackProviderSpec platformCodec"
  cdVSphere :: "vsphereMachineProviderSpec platformCodec"
  cdRawDeep :: "string option \<Rightarrow> string option \<Rightarrow> string list"

definition checkForUnknownFieldsInProviderSpecAndUnmarshal :: "'c platformCodec \<Rightarrow> string \<Rightarrow> 'c result" where
  "checkForUnknownFieldsInProviderSpecAndUnmarshal cd raw =
     (case codecStrict cd raw of
        (None, spec) \<Rightarrow> Inr spec
      | (Some _, spec) \<Rightarrow>
          (case codecJson cd raw spec of
             (None, spec') \<Rightarrow> Inr spec'
           | (Some e, _) \<Rightarrow> Inl (wrap ''failed to unmarshal provider config'' e)))"

section \<open>The provider configuration\<close>

record nutanixProviderConfig =
  npcConfig :: nutanixMachineProviderConfig
  npcInfrastructure :: "infrastructure option"

record vsphereProviderConfig =
  vpcConfig :: vsphereMachineProviderSpec
  vpcInfrastructure :: "infrastructure option"

record providerConfig =
  pcType :: string
  pcAWS :: awsMachineProviderConfig
  pcAzure :: azureMachineProviderSpec
  pcGCP :: gcpMachineProviderSpec
  pcNutanix :: nutanixProviderConfig
  pcGeneric :: "string option"
  pcOpenStack :: openstackProviderSpec
  pcVSphere :: vsphereProviderConfig

definition errMismatchedPlatformTypes :: goerror where
  "errMismatchedPlatformTypes = ErrNew ''mistmatched platform types''"
definition errNilProviderSpec :: goerror where
  "errNilProviderSpec = ErrNew ''provider spec is nil''"
definition errNilFailureDomain :: goerror where
  "errNilFailureDomain = ErrNew ''failure domain is nil''"
definition errFailureDomainNotDefinedInInfrastructure :: goerror where
  "errFailureDomainNotDefinedInInfrastructure =
     ErrNew ''failure domain is not defined in the infrastructure resource''"
definition errInvalidFailureDomainName :: goerror where
  "errInvalidFailureDomainName = ErrNew ''invalid failure domain name''"

definition zeroBetaReference :: awsBetaReference where
  "zeroBetaReference = \<lparr>betaID = None, betaARN = None, betaFilters = None\<rparr>"

definition zeroIdentifier :: nutanixResourceIdentifier where
  "zeroIdentifier = \<lparr>nriType = '''', nriUUID = None, nriName = None\<rparr>"

definition zeroAzureImage :: azureImageRef where
  "zeroAzureImage = \<lparr>imgPublisher = '''', imgOffer = '''', imgOther = ''''\<rparr>"

definition zeroProviderConfig :: providerConfig where
  "zeroProviderConfig =
     \<lparr>pcType = '''',
      pcAWS = \<lparr>awsAMI = zeroBetaReference, awsPlacementZone = '''', awsConfigSubnet = zeroBetaReference,
               awsOther = ''''\<rparr>,
      pcAzure = \<lparr>azureImage = zeroAzureImage, azureInternalLoadBalancer = '''', azureConfigZone = '''', azureConfigSubnet = '''', azureOther = ''''\<rparr>,
      pcGCP = \<lparr>gcpDisks = None, gcpTargetPools = None, gcpConfigZone = '''', gcpOther = ''''\<rparr>,
      pcNutanix = \<lparr>npcConfig = \<lparr>nxCluster = zeroIdentifier, nxSubnets = None, nxFailureDomain = None,
                                nxOther = ''''\<rparr>, npcInfrastructure = None\<rparr>,
      pcGeneric = None,
      pcOpenStack = \<lparr>ospServerGroupName = '''', ospAdditionalBlockDevices = None, ospAvailabilityZone = '''', ospRootVolume = None, ospOther = ''''\<rparr>,
      pcVSphere = \<lparr>vpcConfig = \<lparr>vspTemplate = '''', vspWorkspace = None, vspDevices = None, vspOther = ''''\<rparr>,
                   vpcInfrastructure = None\<rparr>\<rparr>"

section \<open>AWS\<close>

definition convertAWSResourceReferenceV1Beta1ToV1 :: "awsBetaReference \<Rightarrow> awsResourceReference option" where
  "convertAWSResourceReferenceV1Beta1ToV1 ref =
     (let v1 = \<lparr>awsRefType = '''', awsRefID = None, awsRefARN = None, awsRefFilters = None\<rparr>
      in if betaID ref \<noteq> None then Some (v1\<lparr>awsRefType := AWSIDReferenceType, awsRefID := betaID ref\<rparr>)
         else if betaFilters ref \<noteq> None
         then Some (v1\<lparr>awsRefType := AWSFiltersReferenceType, awsRefFilters := Some
                (map (\<lambda>f. \<lparr>filterName = bfName f, filterValues = bfValues f\<rparr>) (sliceOf (betaFilters ref)))\<rparr>)
         else if betaARN ref \<noteq> None
         then Some (v1\<lparr>awsRefType := AWSARNReferenceType, awsRefARN := betaARN ref\<rparr>)
         else None)"

text \<open>A reference of type Filters with a nil list of filters is dereferenced: a panic.\<close>

definition convertAWSResourceReferenceV1ToV1Beta1 :: "awsResourceReference option \<Rightarrow> awsBetaReference result" where
  "convertAWSResourceReferenceV1ToV1Beta1 ref =
     (case ref of
        None \<Rightarrow> Inr zeroBetaReference
      | Some r \<Rightarrow>
          if awsRefType r = AWSIDReferenceType then Inr (zeroBetaReference\<lparr>betaID := awsRefID r\<rparr>)
          else if awsRefType r = AWSFiltersReferenceType
          then (case awsRefFilters r of
                  None \<Rightarrow> Inl nilDereference
                | Some fs \<Rightarrow> Inr (zeroBetaReference\<lparr>betaFilters :=
                     Some (map (\<lambda>f. \<lparr>bfName = filterName f, bfValues = filterValues f\<rparr>) fs)\<rparr>))
          else if awsRefType r = AWSARNReferenceType then Inr (zeroBetaReference\<lparr>betaARN := awsRefARN r\<rparr>)
          else Inr zeroBetaReference)"

definition awsInjectFailureDomain ::
  "awsMachineProviderConfig \<Rightarrow> awsFailureDomain \<Rightarrow> awsMachineProviderConfig result" where
  "awsInjectFailureDomain a fd =
     (let a1 = (if awsAvailabilityZone fd \<noteq> '''' then a\<lparr>awsPlacementZone := awsAvailabilityZone fd\<rparr> else a)
      in if awsSubnet fd \<noteq> None
         then (case convertAWSResourceReferenceV1ToV1Beta1 (awsSubnet fd) of
                 Inl e \<Rightarrow> Inl e | Inr s \<Rightarrow> Inr (a1\<lparr>awsConfigSubnet := s\<rparr>))
         else Inr a1)"

definition awsExtractFailureDomain :: "awsMachineProviderConfig \<Rightarrow> awsFailureDomain" where
  "awsExtractFailureDomain a =
     \<lparr>awsSubnet = convertAWSResourceReferenceV1Beta1ToV1 (awsConfigSubnet a),
      awsAvailabilityZone = awsPlacementZone a\<rparr>"

definition awsDiff :: "codecs \<Rightarrow> awsMachineProviderConfig \<Rightarrow> awsMachineProviderConfig \<Rightarrow> string list" where
  "awsDiff cd a other =
     codecDeep (cdAWS cd) (a\<lparr>awsAMI := zeroBetaReference\<rparr>) (other\<lparr>awsAMI := zeroBetaReference\<rparr>)"

definition newAWSProviderConfig :: "codecs \<Rightarrow> string option \<Rightarrow> providerConfig result" where
  "newAWSProviderConfig cd raw =
     (case raw of
        None \<Rightarrow> Inl errNilProviderSpec
      | Some r \<Rightarrow>
          (case checkForUnknownFieldsInProviderSpecAndUnmarshal (cdAWS cd) r of
             Inl e \<Rightarrow> Inl (wrap ''failed to check for unknown fields in the provider spec'' e)
           | Inr spec \<Rightarrow> Inr (zeroProviderConfig\<lparr>pcType := AWSPlatformType, pcAWS := spec\<rparr>)))"

section \<open>Azure\<close>

definition azureInjectFailureDomain ::
  "azureMachineProviderSpec \<Rightarrow> azureFailureDomain \<Rightarrow> azureMachineProviderSpec" where
  "azureInjectFailureDomain a fd =
     (let a1 = (if azureZone fd \<noteq> '''' then a\<lparr>azureConfigZone := azureZone fd\<rparr> else a)
      in if azureSubnet fd \<noteq> '''' then a1\<lparr>azureConfigSubnet := azureSubnet fd\<rparr> else a1)"

definition azureExtractFailureDomain :: "azureMachineProviderSpec \<Rightarrow> azureFailureDomain" where
  "azureExtractFailureDomain a = \<lparr>azureZone = azureConfigZone a, azureSubnet = azureConfigSubnet a\<rparr>"

definition azureDiff :: "codecs \<Rightarrow> azureMachineProviderSpec \<Rightarrow> azureMachineProviderSpec \<Rightarrow> string list" where
  "azureDiff cd a other = codecDeep (cdAzure cd) (a\<lparr>azureImage := zeroAzureImage\<rparr>) (other\<lparr>azureImage := zeroAzureImage\<rparr>)"

text \<open>The other constructors dereference the raw extension; the only caller has checked that it is set.\<close>

definition newAzureProviderConfig :: "codecs \<Rightarrow> string \<Rightarrow> providerConfig result" where
  "newAzureProviderConfig cd raw =
     (case checkForUnknownFieldsInProviderSpecAndUnmarshal (cdAzure cd) raw of
        Inl e \<Rightarrow> Inl (wrap ''failed to check for unknown fields in the provider spec'' e)
      | Inr spec \<Rightarrow> Inr (zeroProviderConfig\<lparr>pcType := AzurePlatformType, pcAzure := spec\<rparr>))"

section \<open>GCP\<close>

definition gcpInjectFailureDomain ::
  "gcpMachineProviderSpec \<Rightarrow> gcpFailureDomain \<Rightarrow> gcpMachineProviderSpec" where
  "gcpInjectFailureDomain g fd = (if gcpZone fd \<noteq> '''' then g\<lparr>gcpConfigZone := gcpZone fd\<rparr> else g)"

definition gcpExtractFailureDomain :: "gcpMachineProviderSpec \<Rightarrow> gcpFailureDomain" where
  "gcpExtractFailureDomain g = \<lparr>gcpZone = gcpConfigZone g\<rparr>"

text \<open>
  The comparison blanks the images of the disks of both operands through their shared pointers; the
  callers compare values decoded for the comparison, so only the result is modelled.
\<close>

definition blankImages :: "gcpMachineProviderSpec \<Rightarrow> gcpMachineProviderSpec" where
  "blankImages g = g\<lparr>gcpDisks := map_option (map (\<lambda>d. d\<lparr>diskImage := ''''\<rparr>)) (gcpDisks g)\<rparr>"

definition gcpDiff :: "codecs \<Rightarrow> gcpMachineProviderSpec \<Rightarrow> gcpMachineProviderSpec \<Rightarrow> string list" where
  "gcpDiff cd g other = codecDeep (cdGCP cd) (blankImages g) (blankImages other)"

definition newGCPProviderConfig :: "codecs \<Rightarrow> string \<Rightarrow> providerConfig result" where
  "newGCPProviderConfig cd raw =
     (case checkForUnknownFieldsInProviderSpecAndUnmarshal (cdGCP cd) raw of
        Inl e \<Rightarrow> Inl (wrap ''failed to check for unknown fields in the provider spec'' e)
      | Inr spec \<Rightarrow> Inr (zeroProviderConfig\<lparr>pcType := GCPPlatformType, pcGCP := spec\<rparr>))"

section \<open>OpenStack\<close>

text \<open>
  The root volume is a pointer that the receiver shares with the new value, so an injected zone or
  volume type is written to both: the second component is the receiver afterwards.
\<close>

definition openstackInjectRootVolume ::
  "openstackRootVolume option \<Rightarrow> rootVolume option \<Rightarrow> openstackRootVolume option" where
  "openstackInjectRootVolume vol fdVol =
     (case fdVol of
        None \<Rightarrow> vol
      | Some f \<Rightarrow>
          map_option (\<lambda>v.
            let v1 = (if rvAvailabilityZone f \<noteq> '''' then v\<lparr>orvZone := rvAvailabilityZone f\<rparr> else v)
            in if rvVolumeType f \<noteq> '''' then v1\<lparr>orvVolumeType := rvVolumeType f\<rparr> else v1) vol)"

definition openstackInjectFailureDomain ::
  "openstackProviderSpec \<Rightarrow> openStackFailureDomain \<Rightarrow> openstackProviderSpec \<times> openstackProviderSpec" where
  "openstackInjectFailureDomain a fd =
     (let vol = openstackInjectRootVolume (ospRootVolume a) (osRootVolume fd);
          a1 = (if osAvailabilityZone fd \<noteq> '''' then a\<lparr>ospAvailabilityZone := osAvailabilityZone fd\<rparr> else a)
      in (a1\<lparr>ospRootVolume := vol\<rparr>, a\<lparr>ospRootVolume := vol\<rparr>))"

definition openstackExtractFailureDomain :: "openstackProviderSpec \<Rightarrow> openStackFailureDomain" where
  "openstackExtractFailureDomain a =
     \<lparr>osAvailabilityZone = ospAvailabilityZone a,
      osRootVolume =
        (case ospRootVolume a of
           None \<Rightarrow> None
         | Some v \<Rightarrow> if orvZone v \<noteq> '''' \<or> orvVolumeType v \<noteq> ''''
                     then Some \<lparr>rvAvailabilityZone = orvZone v, rvVolumeType = orvVolumeType v\<rparr>
                     else None)\<rparr>"

definition newOpenStackProviderConfig :: "codecs \<Rightarrow> string \<Rightarrow> providerConfig result" where
  "newOpenStackProviderConfig cd raw =
     (case checkForUnknownFieldsInProviderSpecAndUnmarshal (cdOpenStack cd) raw of
        Inl e \<Rightarrow> Inl (wrap ''failed to check for unknown fields in the provider spec'' e)
      | Inr spec \<Rightarrow> Inr (zeroProviderConfig\<lparr>pcType := OpenStackPlatformType, pcOpenStack := spec\<rparr>))"

section \<open>Nutanix\<close>

definition NutanixIdentifierName :: string where "NutanixIdentifierName = ''name''"
definition NutanixIdentifierUUID :: string where "NutanixIdentifierUUID = ''uuid''"
definition configNutanixIdentifierName :: string where "configNutanixIdentifierName = ''Name''"
definition configNutanixIdentifierUUID :: string where "configNutanixIdentifierUUID = ''UUID''"

definition newNutanixProviderConfig ::
  "codecs \<Rightarrow> string \<Rightarrow> infrastructure option \<Rightarrow> providerConfig result" where
  "newNutanixProviderConfig cd raw infra =
     (case checkForUnknownFieldsInProviderSpecAndUnmarshal (cdNutanix cd) raw of
        Inl e \<Rightarrow> Inl (wrap ''failed to check for unknown fields in the provider spec'' e)
      | Inr spec \<Rightarrow> Inr (zeroProviderConfig\<lparr>pcType := NutanixPlatformType,
                          pcNutanix := \<lparr>npcConfig = spec, npcInfrastructure = infra\<rparr>\<rparr>))"

definition GetFailureDomainByName :: "nutanixProviderConfig \<Rightarrow> string \<Rightarrow> nutanixFailureDomain result" where
  "GetFailureDomainByName n name =
     (if name = '''' then Inl (Wrapf ''empty failure domain name. '' errInvalidFailureDomainName '''')
      else (case Option.bind (npcInfrastructure n) infNutanix of
              None \<Rightarrow> Inl nilDereference
            | Some fds \<Rightarrow>
                (case find (\<lambda>fd. nfdName fd = name) fds of
                   Some fd \<Rightarrow> Inr fd
                 | None \<Rightarrow> Inl (Wrapf (''the failure domain with name '' @ quoted name @
                             '' is not defined in the infrastructure resource. '') errInvalidFailureDomainName ''''))))"

definition toMachineIdentifier :: "nutanixResourceIdentifier \<Rightarrow> nutanixResourceIdentifier" where
  "toMachineIdentifier i =
     \<lparr>nriType = (if nriType i = configNutanixIdentifierName then NutanixIdentifierName
                 else if nriType i = configNutanixIdentifierUUID then NutanixIdentifierUUID else ''''),
      nriUUID = nriUUID i, nriName = nriName i\<rparr>"

definition nutanixInjectFailureDomain ::
  "nutanixProviderConfig \<Rightarrow> nutanixFailureDomainReference \<Rightarrow> nutanixProviderConfig result" where
  "nutanixInjectFailureDomain n ref =
     (if nxName ref = '''' then Inr n
      else (case GetFailureDomainByName n (nxName ref) of
              Inl e \<Rightarrow> Inl (wrap ''unknown failure domain'' e)
            | Inr fd \<Rightarrow>
                Inr (n\<lparr>npcConfig := (npcConfig n)
                         \<lparr>nxFailureDomain := Some \<lparr>nxName = nfdName fd\<rparr>,
                          nxCluster := toMachineIdentifier (nfdCluster fd),
                          nxSubnets := Some (map toMachineIdentifier (nfdSubnets fd))\<rparr>\<rparr>)))"

text \<open>An error of the lookup is dropped, a panic is not.\<close>

definition nutanixExtractFailureDomain :: "nutanixProviderConfig \<Rightarrow> nutanixFailureDomainReference result" where
  "nutanixExtractFailureDomain n =
     (case nxFailureDomain (npcConfig n) of
        None \<Rightarrow> Inr \<lparr>nxName = ''''\<rparr>
      | Some ref \<Rightarrow>
          (case GetFailureDomainByName n (nxName ref) of
             Inr _ \<Rightarrow> Inr ref
           | Inl e \<Rightarrow> if panicked e then Inl e else Inr \<lparr>nxName = ''''\<rparr>))"

definition ResetFailureDomainRelatedFields :: "nutanixProviderConfig \<Rightarrow> providerConfig" where
  "ResetFailureDomainRelatedFields n =
     zeroProviderConfig\<lparr>pcType := NutanixPlatformType,
       pcNutanix := n\<lparr>npcConfig := (npcConfig n)\<lparr>nxCluster := zeroIdentifier, nxSubnets := Some [],
                                                  nxFailureDomain := None\<rparr>\<rparr>\<rparr>"

section \<open>Slash-separated paths\<close>

text \<open>\<^verbatim>\<open>path.Clean\<close>: empty and dot elements go, a dot-dot element removes the element before it.\<close>

definition splitSlash :: "string \<Rightarrow> string list" where
  "splitSlash s = foldr (\<lambda>c acc. if c = CHR ''/'' then [] # acc
                          else (case acc of [] \<Rightarrow> [[c]] | x # xs \<Rightarrow> (c # x) # xs)) s [[]]"

definition cleanStep :: "bool \<Rightarrow> string list \<Rightarrow> string \<Rightarrow> string list" where
  "cleanStep rooted stack e =
     (if e = '''' \<or> e = ''.'' then stack
      else if e = ''..''
      then (case stack of
              [] \<Rightarrow> if rooted then [] else [''..'']
            | t # ts \<Rightarrow> if t = ''..'' then ''..'' # stack else ts)
      else e # stack)"

definition pathClean :: "string \<Rightarrow> string" where
  "pathClean p =
     (let rooted = (take 1 p = ''/'');
          elems = rev (foldl (cleanStep rooted) [] (splitSlash p));
          out = (if rooted then ''/'' else '''') @ joinStr ''/'' elems
      in if out = '''' then ''.'' else out)"

section \<open>vSphere\<close>

definition getFailureDomainFromInfrastructure ::
  "vsphereProviderConfig \<Rightarrow> vSphereFailureDomain \<Rightarrow> vspherePlatformFailureDomain result" where
  "getFailureDomainFromInfrastructure v fd =
     (case vpcInfrastructure v of
        None \<Rightarrow> Inl nilDereference
      | Some infra \<Rightarrow>
          (case find (\<lambda>d. vfdName d = vsName fd) (sliceOf (infVSphere infra)) of
             Some d \<Rightarrow> Inr d
           | None \<Rightarrow> Inl errFailureDomainNotDefinedInInfrastructure))"

definition vmGroupOf :: "vspherePlatformFailureDomain \<Rightarrow> string" where
  "vmGroupOf d = (case vfdZoneAffinity d of Some (Some g) \<Rightarrow> g | _ \<Rightarrow> '''')"

text \<open>\<open>infraName\<close> is the infrastructure name of the receiver's infrastructure object.\<close>

definition getWorkspaceFromFailureDomain :: "string \<Rightarrow> vspherePlatformFailureDomain \<Rightarrow> workspace" where
  "getWorkspaceFromFailureDomain infraName d =
     (let top = vfdTopology d;
          pool = (if topComputeCluster top \<noteq> ''''
                  then pathClean (''/'' @ topComputeCluster top @ ''/Resources'') else '''')
      in \<lparr>wsServer = vfdServer d,
          wsDatacenter = topDatacenter top,
          wsFolder = (if topFolder top \<noteq> '''' then topFolder top
                      else ''/'' @ topDatacenter top @ ''/vm/'' @ infraName),
          wsDatastore = topDatastore top,
          wsResourcePool = (if topResourcePool top \<noteq> '''' then topResourcePool top else pool),
          wsVMGroup = vmGroupOf d\<rparr>)"

definition getTemplateName :: "string \<Rightarrow> string" where
  "getTemplateName template =
     (if CHR ''/'' \<in> set template then afterLast (CHR ''/'') template else template)"

definition vsphereDiff ::
  "codecs \<Rightarrow> vsphereMachineProviderSpec \<Rightarrow> vsphereMachineProviderSpec \<Rightarrow> string list" where
  "vsphereDiff cd v other =
     (let other' = (if getTemplateName (vspTemplate other) = getTemplateName (vspTemplate v)
                    then other\<lparr>vspTemplate := vspTemplate v\<rparr> else other)
      in codecDeep (cdVSphere cd) v other')"

definition emptyDevice :: networkDevice where
  "emptyDevice = \<lparr>ndNetworkName = '''', ndAddressesFromPools = None, ndNameservers = None, ndOther = ''''\<rparr>"

fun setNetworks :: "string list \<Rightarrow> networkDevice list \<Rightarrow> networkDevice list" where
  "setNetworks [] ds = ds"
| "setNetworks (n # ns) [] = emptyDevice\<lparr>ndNetworkName := n\<rparr> # setNetworks ns []"
| "setNetworks (n # ns) (d # ds) = d\<lparr>ndNetworkName := n\<rparr> # setNetworks ns ds"

text \<open>
  With addresses from pools on its first device the new value takes over the device slice of the
  receiver, so the network names are written to the receiver's devices too: the second component is
  the receiver afterwards.
\<close>

definition staticDevices :: "vsphereMachineProviderSpec \<Rightarrow> bool" where
  "staticDevices v = (case sliceOf (vspDevices v) of
      [] \<Rightarrow> False | d # _ \<Rightarrow> sliceOf (ndAddressesFromPools d) \<noteq> [])"

definition vsphereInjectFailureDomain ::
  "vsphereProviderConfig \<Rightarrow> vSphereFailureDomain \<Rightarrow> vsphereProviderConfig result \<times> vsphereProviderConfig" where
  "vsphereInjectFailureDomain v fd =
     (case getFailureDomainFromInfrastructure v fd of
        Inl e \<Rightarrow> (Inl (wrap ''unknown failure domain'' e), v)
      | Inr d \<Rightarrow>
          (case vpcInfrastructure v of
             None \<Rightarrow> (Inl nilDereference, v)
           | Some infra \<Rightarrow>
               (let cfg = vpcConfig v; top = vfdTopology d; ns = topNetworks top;
                    old = sliceOf (vspDevices cfg); static = staticDevices cfg;
                    devices = setNetworks ns (if static then old else []);
                    cfg1 = cfg\<lparr>vspWorkspace :=
                               Some (getWorkspaceFromFailureDomain (infInfrastructureName infra) d)\<rparr>;
                    cfg2 = (if ns \<noteq> [] then cfg1\<lparr>vspDevices := Some devices\<rparr> else cfg1);
                    cfg3 = (if topTemplate top \<noteq> ''''
                            then cfg2\<lparr>vspTemplate := afterLast (CHR ''/'') (topTemplate top)\<rparr>
                            else if sliceOf (infVSphere infra) \<noteq> []
                            then cfg2\<lparr>vspTemplate := infInfrastructureName infra @ ''-rhcos-'' @ vfdRegion d @
                                        ''-'' @ vfdZone d\<rparr>
                            else cfg2);
                    self = (if ns \<noteq> [] \<and> static
                            then v\<lparr>vpcConfig := cfg\<lparr>vspDevices := Some (take (length old) devices)\<rparr>\<rparr> else v)
                in (Inr (v\<lparr>vpcConfig := cfg3\<rparr>), self))))"

definition vsphereMatches :: "workspace \<Rightarrow> vspherePlatformFailureDomain \<Rightarrow> bool" where
  "vsphereMatches ws d \<longleftrightarrow>
     wsDatacenter ws = topDatacenter (vfdTopology d) \<and> wsDatastore ws = topDatastore (vfdTopology d) \<and>
     wsServer ws = vfdServer d \<and> wsVMGroup ws = vmGroupOf d \<and>
     pathClean (wsResourcePool ws) = pathClean (topResourcePool (vfdTopology d))"

definition vsphereExtractFailureDomain :: "vsphereProviderConfig \<Rightarrow> vSphereFailureDomain result" where
  "vsphereExtractFailureDomain v =
     (case vspWorkspace (vpcConfig v) of
        None \<Rightarrow> Inr \<lparr>vsName = ''''\<rparr>
      | Some ws \<Rightarrow>
          (case vpcInfrastructure v of
             None \<Rightarrow> Inl nilDereference
           | Some infra \<Rightarrow>
               if infSpecType infra \<noteq> VSpherePlatformType then Inr \<lparr>vsName = ''''\<rparr>
               else (case find (vsphereMatches ws) (sliceOf (infVSphere infra)) of
                       None \<Rightarrow> Inr \<lparr>vsName = ''''\<rparr>
                     | Some d \<Rightarrow> Inr \<lparr>vsName = vfdName d\<rparr>)))"

definition emptyWorkspace :: workspace where
  "emptyWorkspace = \<lparr>wsServer = '''', wsDatacenter = '''', wsFolder = '''', wsDatastore = '''',
     wsResourcePool = '''', wsVMGroup = ''''\<rparr>"

definition ResetTopologyRelatedFields :: "vsphereProviderConfig \<Rightarrow> providerConfig" where
  "ResetTopologyRelatedFields v =
     (let kept = map (\<lambda>d. emptyDevice\<lparr>ndAddressesFromPools := ndAddressesFromPools d, ndNameservers := ndNameservers d\<rparr>)
                   (filter (\<lambda>d. sliceOf (ndAddressesFromPools d) \<noteq> []) (sliceOf (vspDevices (vpcConfig v))))
      in zeroProviderConfig\<lparr>pcType := VSpherePlatformType,
           pcVSphere := v\<lparr>vpcConfig := (vpcConfig v)\<lparr>vspWorkspace := Some emptyWorkspace, vspTemplate := '''',
                                                      vspDevices := (if kept = [] then None else Some kept)\<rparr>\<rparr>\<rparr>)"

text \<open>Only the network name, the address pools and their nameservers of a device are compared.\<close>

definition normalDevice :: "networkDevice \<Rightarrow> networkDevice" where
  "normalDevice d =
     (let d1 = (if ndNetworkName d \<noteq> '''' then emptyDevice\<lparr>ndNetworkName := ndNetworkName d\<rparr> else emptyDevice)
      in if ndAddressesFromPools d \<noteq> None
         then d1\<lparr>ndAddressesFromPools := ndAddressesFromPools d, ndNameservers := ndNameservers d\<rparr> else d1)"

definition newVSphereProviderConfig ::
  "codecs \<Rightarrow> string \<Rightarrow> infrastructure option \<Rightarrow> providerConfig result" where
  "newVSphereProviderConfig cd raw infra =
     (case checkForUnknownFieldsInProviderSpecAndUnmarshal (cdVSphere cd) raw of
        Inl e \<Rightarrow> Inl (wrap ''failed to check for unknown fields in the provider spec'' e)
      | Inr spec \<Rightarrow> Inr (zeroProviderConfig\<lparr>pcType := VSpherePlatformType,
           pcVSphere := \<lparr>vpcConfig = spec\<lparr>vspDevices := map_option (map normalDevice) (vspDevices spec)\<rparr>,
                         vpcInfrastructure = infra\<rparr>\<rparr>))"

section \<open>Construction\<close>

definition genericExtractFailureDomain :: "string option \<Rightarrow> failureDomain" where
  "genericExtractFailureDomain raw = NewGenericFailureDomain"

definition newGenericProviderConfig :: "string option \<Rightarrow> string \<Rightarrow> providerConfig result" where
  "newGenericProviderConfig raw platform = Inr (zeroProviderConfig\<lparr>pcType := platform, pcGeneric := raw\<rparr>)"

definition getPlatformTypeFromProviderSpecKind :: "string \<Rightarrow> string" where
  "getPlatformTypeFromProviderSpecKind kind =
     (case map_of [(''AWSMachineProviderConfig'', AWSPlatformType),
                   (''AzureMachineProviderSpec'', AzurePlatformType),
                   (''GCPMachineProviderSpec'', GCPPlatformType),
                   (''NutanixMachineProviderConfig'', NutanixPlatformType),
                   (''OpenstackProviderSpec'', OpenStackPlatformType),
                   (''VSphereMachineProviderSpec'', VSpherePlatformType)] kind of
        None \<Rightarrow> ''UnknownPlatform'' | Some p \<Rightarrow> p)"

definition getPlatformTypeFromProviderSpec :: "codecs \<Rightarrow> string option \<Rightarrow> string result" where
  "getPlatformTypeFromProviderSpec cd spec =
     (case spec of
        None \<Rightarrow> Inl errNilProviderSpec
      | Some raw \<Rightarrow>
          (case kindOf cd raw of
             Inl e \<Rightarrow> Inl (wrap ''could not unmarshal provider spec'' e)
           | Inr k \<Rightarrow> Inr (getPlatformTypeFromProviderSpecKind k)))"

definition getPlatformTypeFromMachineTemplate :: "codecs \<Rightarrow> openShiftMachineTemplate \<Rightarrow> string result" where
  "getPlatformTypeFromMachineTemplate cd tmpl =
     (case tmplFailureDomains tmpl of
        Some fds \<Rightarrow> if fdsPlatform fds \<noteq> '''' then Inr (fdsPlatform fds)
                    else getPlatformTypeFromProviderSpec cd (msProviderSpec (tmplSpec tmpl))
      | None \<Rightarrow> getPlatformTypeFromProviderSpec cd (msProviderSpec (tmplSpec tmpl)))"

definition newProviderConfigFromProviderSpec ::
  "codecs \<Rightarrow> string option \<Rightarrow> string \<Rightarrow> infrastructure option \<Rightarrow> providerConfig result" where
  "newProviderConfigFromProviderSpec cd spec platform infra =
     (case spec of
        None \<Rightarrow> Inl errNilProviderSpec
      | Some raw \<Rightarrow>
          if platform = AWSPlatformType then newAWSProviderConfig cd (Some raw)
          else if platform = AzurePlatformType then newAzureProviderConfig cd raw
          else if platform = GCPPlatformType then newGCPProviderConfig cd raw
          else if platform = NutanixPlatformType then newNutanixProviderConfig cd raw infra
          else if platform = OpenStackPlatformType then newOpenStackProviderConfig cd raw
          else if platform = VSpherePlatformType then newVSphereProviderConfig cd raw infra
          else if platform = NonePlatformType
          then Inl (Wrapf '''' errUnsupportedPlatformType ('': '' @ platform))
          else newGenericProviderConfig (Some raw) platform)"

definition NewProviderConfigFromMachineTemplate ::
  "codecs \<Rightarrow> openShiftMachineTemplate \<Rightarrow> infrastructure option \<Rightarrow> providerConfig result" where
  "NewProviderConfigFromMachineTemplate cd tmpl infra =
     (case getPlatformTypeFromMachineTemplate cd tmpl of
        Inl e \<Rightarrow> Inl (wrap ''could not determine platform type'' e)
      | Inr platform \<Rightarrow> newProviderConfigFromProviderSpec cd (msProviderSpec (tmplSpec tmpl)) platform infra)"

definition NewProviderConfigFromMachineSpec ::
  "codecs \<Rightarrow> machineSpec \<Rightarrow> infrastructure option \<Rightarrow> providerConfig result" where
  "NewProviderConfigFromMachineSpec cd spec infra =
     (case getPlatformTypeFromProviderSpec cd (msProviderSpec spec) of
        Inl e \<Rightarrow> Inl (wrap ''could not determine platform type'' e)
      | Inr platform \<Rightarrow> newProviderConfigFromProviderSpec cd (msProviderSpec spec) platform infra)"

section \<open>Operations across platforms\<close>

text \<open>The result, and the receiver as it is left behind.\<close>

definition InjectFailureDomain ::
  "providerConfig \<Rightarrow> failureDomain option \<Rightarrow> providerConfig result \<times> providerConfig" where
  "InjectFailureDomain p fdo =
     (case fdo of
        None \<Rightarrow> (Inl errNilFailureDomain, p)
      | Some fd \<Rightarrow>
          if pcType p = AWSPlatformType
          then (case awsInjectFailureDomain (pcAWS p) (fdAws fd) of
                  Inl e \<Rightarrow> (Inl e, p) | Inr a \<Rightarrow> (Inr (p\<lparr>pcAWS := a\<rparr>), p))
          else if pcType p = AzurePlatformType
          then (Inr (p\<lparr>pcAzure := azureInjectFailureDomain (pcAzure p) (fdAzure fd)\<rparr>), p)
          else if pcType p = GCPPlatformType
          then (Inr (p\<lparr>pcGCP := gcpInjectFailureDomain (pcGCP p) (fdGcp fd)\<rparr>), p)
          else if pcType p = OpenStackPlatformType
          then (case openstackInjectFailureDomain (pcOpenStack p) (fdOpenstack fd) of
                  (new, self) \<Rightarrow> (Inr (p\<lparr>pcOpenStack := new\<rparr>), p\<lparr>pcOpenStack := self\<rparr>))
          else if pcType p = VSpherePlatformType
          then (case vsphereInjectFailureDomain (pcVSphere p) (fdVsphere fd) of
                  (Inl e, self) \<Rightarrow> (Inl (wrap ''failed to inject failure domain'' e), p\<lparr>pcVSphere := self\<rparr>)
                | (Inr new, self) \<Rightarrow> (Inr (p\<lparr>pcVSphere := new\<rparr>), p\<lparr>pcVSphere := self\<rparr>))
          else if pcType p = NutanixPlatformType
          then (case nutanixInjectFailureDomain (pcNutanix p) (fdNutanix fd) of
                  Inl e \<Rightarrow> (Inl (wrap ''failed to inject failure domain'' e), p)
                | Inr n \<Rightarrow> (Inr (p\<lparr>pcNutanix := n\<rparr>), p))
          else if pcType p = NonePlatformType
          then (Inl (Wrapf '''' errUnsupportedPlatformType ('': '' @ pcType p)), p)
          else (Inr p, p))"

text \<open>\<^const>\<open>None\<close> is the nil failure domain of the platform None.\<close>

definition ExtractFailureDomain :: "providerConfig \<Rightarrow> failureDomain option result" where
  "ExtractFailureDomain p =
     (if pcType p = AWSPlatformType then Inr (Some (NewAWSFailureDomain (awsExtractFailureDomain (pcAWS p))))
      else if pcType p = AzurePlatformType
      then Inr (Some (NewAzureFailureDomain (azureExtractFailureDomain (pcAzure p))))
      else if pcType p = GCPPlatformType
      then Inr (Some (NewGCPFailureDomain (gcpExtractFailureDomain (pcGCP p))))
      else if pcType p = OpenStackPlatformType
      then Inr (Some (NewOpenStackFailureDomain (openstackExtractFailureDomain (pcOpenStack p))))
      else if pcType p = VSpherePlatformType
      then map_sum id (Some \<circ> NewVSphereFailureDomain) (vsphereExtractFailureDomain (pcVSphere p))
      else if pcType p = NutanixPlatformType
      then map_sum id (Some \<circ> NewNutanixFailureDomain) (nutanixExtractFailureDomain (pcNutanix p))
      else if pcType p = NonePlatformType then Inr None
      else Inr (Some (genericExtractFailureDomain (pcGeneric p))))"

definition pcDiff :: "codecs \<Rightarrow> providerConfig \<Rightarrow> providerConfig option \<Rightarrow> string list result" where
  "pcDiff cd p other =
     (case other of
        None \<Rightarrow> Inr []
      | Some q \<Rightarrow>
          if pcType p \<noteq> pcType q then Inl errMismatchedPlatformTypes
          else if pcType p = AWSPlatformType then Inr (awsDiff cd (pcAWS p) (pcAWS q))
          else if pcType p = AzurePlatformType then Inr (azureDiff cd (pcAzure p) (pcAzure q))
          else if pcType p = GCPPlatformType then Inr (gcpDiff cd (pcGCP p) (pcGCP q))
          else if pcType p = NutanixPlatformType
          then Inr (codecDeep (cdNutanix cd) (npcConfig (pcNutanix p)) (npcConfig (pcNutanix q)))
          else if pcType p = OpenStackPlatformType
          then Inr (codecDeep (cdOpenStack cd) (pcOpenStack p) (pcOpenStack q))
          else if pcType p = VSpherePlatformType
          then Inr (vsphereDiff cd (vpcConfig (pcVSphere p)) (vpcConfig (pcVSphere q)))
          else if pcType p = NonePlatformType then Inl errUnsupportedPlatformType
          else Inr (cdRawDeep cd (pcGeneric p) (pcGeneric q)))"

definition pcEqual :: "providerConfig \<Rightarrow> providerConfig option \<Rightarrow> bool result" where
  "pcEqual p other =
     (case other of
        None \<Rightarrow> Inr False
      | Some q \<Rightarrow>
          if pcType p \<noteq> pcType q then Inl errMismatchedPlatformTypes
          else if pcType p = AWSPlatformType then Inr (pcAWS p = pcAWS q)
          else if pcType p = AzurePlatformType then Inr (pcAzure p = pcAzure q)
          else if pcType p = GCPPlatformType then Inr (pcGCP p = pcGCP q)
          else if pcType p = NutanixPlatformType then Inr (npcConfig (pcNutanix p) = npcConfig (pcNutanix q))
          else if pcType p = OpenStackPlatformType then Inr (pcOpenStack p = pcOpenStack q)
          else if pcType p = VSpherePlatformType then Inr (vpcConfig (pcVSphere p) = vpcConfig (pcVSphere q))
          else if pcType p = NonePlatformType then Inl errUnsupportedPlatformType
          else Inr (pcGeneric p = pcGeneric q))"

text \<open>A generic configuration always holds a raw spec, see \<open>newGenericProviderConfig\<close>.\<close>

definition RawConfig :: "codecs \<Rightarrow> providerConfig \<Rightarrow> string result" where
  "RawConfig cd p =
     (if pcType p = NonePlatformType then Inl errUnsupportedPlatformType
      else (case
        (if pcType p = AWSPlatformType then codecMarshal (cdAWS cd) (pcAWS p)
         else if pcType p = AzurePlatformType then codecMarshal (cdAzure cd) (pcAzure p)
         else if pcType p = GCPPlatformType then codecMarshal (cdGCP cd) (pcGCP p)
         else if pcType p = NutanixPlatformType then codecMarshal (cdNutanix cd) (npcConfig (pcNutanix p))
         else if pcType p = OpenStackPlatformType then codecMarshal (cdOpenStack cd) (pcOpenStack p)
         else if pcType p = VSpherePlatformType then codecMarshal (cdVSphere cd) (vpcConfig (pcVSphere p))
         else (case pcGeneric p of None \<Rightarrow> Inl nilDereference | Some raw \<Rightarrow> Inr raw)) of
          Inl e \<Rightarrow> Inl (wrap ''could not marshal provider config'' e)
        | Inr raw \<Rightarrow> Inr raw))"

definition ExtractFailureDomainFromMachine ::
  "codecs \<Rightarrow> infrastructure option \<Rightarrow> machine \<Rightarrow> failureDomain option result" where
  "ExtractFailureDomainFromMachine cd infra m =
     (case NewProviderConfigFromMachineSpec cd (mSpec m) infra of
        Inl e \<Rightarrow> Inl (wrap (''error getting failure domain from machine '' @ omName (mMeta m)) e)
      | Inr p \<Rightarrow> ExtractFailureDomain p)"

text \<open>The set orders and compares failure domains, so a nil one would be dereferenced.\<close>

fun extractLoop ::
  "codecs \<Rightarrow> infrastructure option \<Rightarrow> machine list \<Rightarrow> failureDomain list \<Rightarrow> failureDomain list result" where
  "extractLoop cd infra [] acc = Inr acc"
| "extractLoop cd infra (m # ms) acc =
     (case ExtractFailureDomainFromMachine cd infra m of
        Inl e \<Rightarrow> Inl e
      | Inr None \<Rightarrow> Inl nilDereference
      | Inr (Some fd) \<Rightarrow> extractLoop cd infra ms (setInsert Equal acc fd))"

definition ExtractFailureDomainsFromMachines ::
  "codecs \<Rightarrow> infrastructure option \<Rightarrow> machine list \<Rightarrow> failureDomain list result" where
  "ExtractFailureDomainsFromMachines cd infra ms = map_sum id (setList fdString) (extractLoop cd infra ms [])"

end
