(* ===== verification/Machine_Provider.thy ===== *)
theory Machine_Provider
  imports Provider_Config Index_Mapping Provider_Interface Ownership
begin

text \<open>
  The OpenShift Machine v1beta1 provider:
  \<^verbatim>\<open>pkg/machineproviders/providers/openshift/machine/v1beta1/provider.go\<close>.
  The API client, the clock and the random suffix of machine names are arguments over an abstract
  cluster. Besides the cluster the world holds the memory that provider values share: the raw provider
  spec of the machine template, a pointer that every shallow copy of the template spec carries along,
  and the template's provider configuration. \<^verbatim>\<open>CreateMachine\<close> and the dry run of \<^verbatim>\<open>GetMachineInfos\<close> write the raw
  spec of the machine they build through that pointer, and the client decodes the server's answer into
  it. One cell is enough: a reconcile builds one provider, and \<^verbatim>\<open>WithClient\<close> copies share its pointers.
  On a platform handled generically the template's configuration is that very pointer
  (\<^verbatim>\<open>generic_platform.go\<close>), so there every such write changes the configuration, too.
  Log messages and events are left out, and so are the label and annotation maps that machines share
  with the template.
\<close>

section \<open>State\<close>

record 'k machineClient =
  mcGetInfrastructure :: "string \<Rightarrow> 'k \<Rightarrow> infrastructure result"
  mcListMachines :: "clientKind \<Rightarrow> ((string, string) gomap \<Rightarrow> bool) \<Rightarrow> 'k \<Rightarrow> machine list result"
  mcGetNode :: "clientKind \<Rightarrow> string \<Rightarrow> 'k \<Rightarrow> node result"
  mcDryRunCreate :: "clientKind \<Rightarrow> machine \<Rightarrow> 'k \<Rightarrow> machine result"
  mcCreate :: "clientKind \<Rightarrow> machine \<Rightarrow> 'k \<Rightarrow> machine result \<times> 'k"
  mcDelete :: "clientKind \<Rightarrow> objectMeta \<Rightarrow> 'k \<Rightarrow> unit result \<times> 'k"
  mcNow :: "'k \<Rightarrow> int"
  mcRandString :: "'k \<Rightarrow> string \<times> 'k"
  mcLabelSelectorAsSelector :: "labelSelector \<Rightarrow> ((string, string) gomap \<Rightarrow> bool) result"
  mcGVKForCpms :: "groupVersionKind result"

record openshiftMachineProvider =
  opClient :: clientKind
  opIndexToFailureDomain :: "failureDomain fdmap"
  opFailureDomains :: "failureDomain list"
  opMachines :: "machine list"
  opSelector :: "(string, string) gomap \<Rightarrow> bool"
  opTemplate :: openShiftMachineTemplate
  opOwnerMetadata :: objectMeta
  opReplicas :: "32 word"
  opMachineNamePrefix :: string
  opNamespace :: string
  opInfrastructure :: infrastructure

record 'k providerWorld =
  pwCluster :: 'k
  pwTemplateRaw :: "string option"
  pwConfig :: providerConfig

text \<open>The template spec with its raw provider spec read through the pointer.\<close>

definition templateSpec :: "openshiftMachineProvider \<Rightarrow> 'k providerWorld \<Rightarrow> machineSpec" where
  "templateSpec m w = (tmplSpec (opTemplate m))\<lparr>msProviderSpec := pwTemplateRaw w\<rparr>"

section \<open>Constants and errors\<close>

definition runningPhase :: string where "runningPhase = ''Running''"
definition deletingPhase :: string where "deletingPhase = ''Deleting''"
definition NodeReady :: string where "NodeReady = ''Ready''"

definition unreadyNodeGracePeriod :: int where
  "unreadyNodeGracePeriod = 20 * 60 * 1000000000"

definition openshiftMachineRoleLabel :: string where
  "openshiftMachineRoleLabel = ''machine.openshift.io/cluster-api-machine-role''"
definition MachineClusterIDLabel :: string where
  "MachineClusterIDLabel = ''machine.openshift.io/cluster-api-cluster''"

definition errCouldNotDetermineMachineIndex :: goerror where
  "errCouldNotDetermineMachineIndex = ErrNew ''could not determine Machine index from name or failure domain''"
definition errEmptyConfig :: goerror where
  "errEmptyConfig = ErrNew (''cannot initialise '' @ OpenShiftMachineV1Beta1MachineType @ '' provider with empty config'')"
definition errMissingClusterIDLabel :: goerror where
  "errMissingClusterIDLabel = ErrNew (''missing required label on machine template metadata: '' @ MachineClusterIDLabel)"
definition errMissingMachineRoleLabel :: goerror where
  "errMissingMachineRoleLabel =
     ErrNew (''missing required label on machine template metadata: '' @ openshiftMachineRoleLabel)"
definition errUnexpectedProviderMachineType :: goerror where
  "errUnexpectedProviderMachineType =
     ErrNew (''unexpected machine type while initialising '' @ OpenShiftMachineV1Beta1MachineType @ '' provider'')"
definition errUnknownGroupVersionResource :: goerror where
  "errUnknownGroupVersionResource = ErrNew ''unknown group/version/resource''"

definition machinesGVR :: groupVersionResource where
  "machinesGVR = \<lparr>gvrGroup = ''machine.openshift.io'', gvrVersion = ''v1beta1'', gvrResource = ''machines''\<rparr>"
definition nodesGVR :: groupVersionResource where
  "nodesGVR = \<lparr>gvrGroup = '''', gvrVersion = ''v1'', gvrResource = ''nodes''\<rparr>"

definition gvrString :: "groupVersionResource \<Rightarrow> string" where
  "gvrString g = gvrGroup g @ ''/'' @ gvrVersion g @ '', Resource='' @ gvrResource g"

definition InfrastructureName :: string where "InfrastructureName = ''cluster''"

definition GetInfrastructure :: "'k machineClient \<Rightarrow> 'k \<Rightarrow> infrastructure result" where
  "GetInfrastructure cl k =
     (case mcGetInfrastructure cl InfrastructureName k of
        Inl e \<Rightarrow> Inl (wrap ''unable to get infrastructure object'' e) | Inr i \<Rightarrow> Inr i)"

section \<open>The machine cache\<close>

text \<open>The mapping stores failure domains, so a nil one would be dereferenced.\<close>

definition extractFrom :: "codecs \<Rightarrow> infrastructure \<Rightarrow> machine \<Rightarrow> failureDomain result" where
  "extractFrom cd infra m =
     (case ExtractFailureDomainFromMachine cd (Some infra) m of
        Inl e \<Rightarrow> Inl e | Inr None \<Rightarrow> Inl nilDereference | Inr (Some fd) \<Rightarrow> Inr fd)"

definition updateMachineCache ::
  "'k machineClient \<Rightarrow> codecs \<Rightarrow> openshiftMachineProvider \<Rightarrow> 'k providerWorld \<Rightarrow> openshiftMachineProvider result" where
  "updateMachineCache cl cd m w =
     (case mcListMachines cl (opClient m) (opSelector m) (pwCluster w) of
        Inl e \<Rightarrow> Inl (wrap ''failed to list machines'' e)
      | Inr machines \<Rightarrow>
          (case NewProviderConfigFromMachineSpec cd (templateSpec m w) (Some (opInfrastructure m)) of
             Inl e \<Rightarrow> Inl (wrap ''error building provider config from machine template'' e)
           | Inr config \<Rightarrow>
               (case ExtractFailureDomain config of
                  Inl e \<Rightarrow> Inl e
                | Inr tmplDomain \<Rightarrow>
                    (case mapMachineIndexesToFailureDomains (extractFrom cd (opInfrastructure m)) machines
                            (opReplicas m) (opFailureDomains m) tmplDomain of
                       None \<Rightarrow> Inl nilDereference
                     | Some (Inr mapping) \<Rightarrow>
                         Inr (m\<lparr>opMachines := machines, opIndexToFailureDomain := mapping\<rparr>)
                     | Some (Inl e) \<Rightarrow>
                         if errorIs e errNoFailureDomains
                         then Inr (m\<lparr>opMachines := machines, opIndexToFailureDomain := []\<rparr>)
                         else Inl (wrap ''error mapping machine indexes'' e)))))"

definition newOpenshiftMachineProvider ::
  "'k machineClient \<Rightarrow> codecs \<Rightarrow> cpms \<Rightarrow> 'k providerWorld \<Rightarrow>
   openshiftMachineProvider result \<times> 'k providerWorld" where
  "newOpenshiftMachineProvider cl cd c w =
     (let spec = cpmsSpecOf c; tmpl = cpmsTemplateOf spec
      in if machineType tmpl \<noteq> OpenShiftMachineV1Beta1MachineType
         then (Inl (Wrapf '''' errUnexpectedProviderMachineType ('': '' @ machineType tmpl)), w)
         else (case openShiftMachine tmpl of
           None \<Rightarrow> (Inl errEmptyConfig, w)
         | Some t \<Rightarrow>
             (case GetInfrastructure cl (pwCluster w) of
                Inl e \<Rightarrow> (Inl (wrap ''could not retrieve infrastructure resource'' e), w)
              | Inr infra \<Rightarrow>
                  (case NewProviderConfigFromMachineTemplate cd t (Some infra) of
                     Inl e \<Rightarrow> (Inl (wrap ''error building a provider config'' e), w)
                   | Inr config \<Rightarrow>
                       (case NewFailureDomains (tmplFailureDomains t) of
                          Inl e \<Rightarrow> (Inl (wrap ''error constructing failure domain config'' e), w)
                        | Inr fds \<Rightarrow>
                            (case mcLabelSelectorAsSelector cl (cpmsSelector spec) of
                               Inl e \<Rightarrow> (Inl (wrap ''could not convert label selector to selector'' e), w)
                             | Inr sel \<Rightarrow>
                                 (let m = \<lparr>opClient = CachedClient, opIndexToFailureDomain = [], opFailureDomains = fds,
                                           opMachines = [], opSelector = sel, opTemplate = t,
                                           opOwnerMetadata = cpmsMeta c,
                                           opReplicas = (case specReplicas spec of None \<Rightarrow> 0 | Some r \<Rightarrow> r),
                                           opMachineNamePrefix = machineNamePrefix spec,
                                           opNamespace = omNamespace (cpmsMeta c), opInfrastructure = infra\<rparr>;
                                      w' = w\<lparr>pwTemplateRaw := msProviderSpec (tmplSpec t), pwConfig := config\<rparr>
                                  in case updateMachineCache cl cd m w' of
                                       Inl e \<Rightarrow> (Inl (wrap ''error updating machine cache'' e), w')
                                     | Inr m' \<Rightarrow> (Inr m', w'))))))))"

definition WithClient ::
  "'k machineClient \<Rightarrow> codecs \<Rightarrow> openshiftMachineProvider \<Rightarrow> clientKind \<Rightarrow> 'k providerWorld \<Rightarrow>
   openshiftMachineProvider result" where
  "WithClient cl cd m kind w =
     (case updateMachineCache cl cd (m\<lparr>opClient := kind\<rparr>) w of
        Inl e \<Rightarrow> Inl (wrap ''error updating machine cache'' e) | Inr o' \<Rightarrow> Inr o')"

section \<open>Readiness\<close>

text \<open>The first condition of type Ready decides.\<close>

definition isNodeReady :: "node \<Rightarrow> bool" where
  "isNodeReady n =
     (case find (\<lambda>c. ncType c = NodeReady) (nodeConditions n) of
        None \<Rightarrow> False | Some c \<Rightarrow> ncStatus c = ConditionTrue)"

definition isNodeNotReadyWithinNodeGracePeriod :: "int \<Rightarrow> node \<Rightarrow> bool" where
  "isNodeNotReadyWithinNodeGracePeriod now n =
     list_ex (\<lambda>c. ncType c = NodeReady \<and>
        (ncStatus c = ConditionTrue \<or>
         (ncStatus c = ConditionFalse \<or> ncStatus c = ConditionUnknown) \<and>
         ncLastTransitionTime c + unreadyNodeGracePeriod > now)) (nodeConditions n)"

definition derefString :: "string option \<Rightarrow> string" where
  "derefString s = (case s of None \<Rightarrow> '''' | Some v \<Rightarrow> v)"

definition isMachineReady ::
  "'k machineClient \<Rightarrow> openshiftMachineProvider \<Rightarrow> machine \<Rightarrow> 'k \<Rightarrow> bool result" where
  "isMachineReady cl m machine k =
     (case mNodeRef machine of
        None \<Rightarrow> Inr False
      | Some nodeName \<Rightarrow>
          (case mcGetNode cl (opClient m) nodeName k of
             Inl e \<Rightarrow> Inl (wrap (''failed to get Node '' @ quoted nodeName) e)
           | Inr node \<Rightarrow>
               Inr (derefString (mPhase machine) = runningPhase \<and> isNodeReady node \<or>
                    derefString (mPhase machine) = runningPhase \<and>
                      isNodeNotReadyWithinNodeGracePeriod (mcNow cl k) node \<or>
                    derefString (mPhase machine) = deletingPhase \<and> isNodeReady node)))"

section \<open>Indexes\<close>

definition getMachineNameIndex :: "machine \<Rightarrow> int option" where
  "getMachineNameIndex machine = parseInt32 (afterLast (CHR ''-'') (omName (mMeta machine)))"

text \<open>The first entry in the iteration order of the map.\<close>

definition failureDomainToIndex :: "openshiftMachineProvider \<Rightarrow> failureDomain \<Rightarrow> int option" where
  "failureDomainToIndex m fd =
     map_option fst (find (\<lambda>(i, d). Equal d fd) (opIndexToFailureDomain m))"

definition getMachineIndex ::
  "codecs \<Rightarrow> openshiftMachineProvider \<Rightarrow> machine \<Rightarrow> 'k providerWorld \<Rightarrow> int result" where
  "getMachineIndex cd m machine w =
     (case getMachineNameIndex machine of
        Some i \<Rightarrow> Inr i
      | None \<Rightarrow>
          (case extractFrom cd (opInfrastructure m) machine of
             Inl e \<Rightarrow> Inl (wrap ''cannot extract failure domain from machine'' e)
           | Inr fd \<Rightarrow>
               (case NewProviderConfigFromMachineSpec cd (templateSpec m w) (Some (opInfrastructure m)) of
                  Inl e \<Rightarrow> Inl (wrap ''cannot get provider config for machine'' e)
                | Inr config \<Rightarrow>
                    (case ExtractFailureDomain config of
                       Inl e \<Rightarrow> Inl e
                     | Inr tmplDomain \<Rightarrow>
                         (case Complete fd tmplDomain of
                            Inl e \<Rightarrow> Inl (wrap ''cannot combine failure domain with template failure domain'' e)
                          | Inr comparable \<Rightarrow>
                              (case failureDomainToIndex m comparable of
                                 None \<Rightarrow> Inl errCouldNotDetermineMachineIndex
                               | Some i \<Rightarrow> Inr i))))))"

section \<open>Machine information\<close>

definition getMachineRef :: "machine \<Rightarrow> objectRef" where
  "getMachineRef machine = \<lparr>refGVR = machinesGVR, refMeta = mMeta machine\<rparr>"

definition getNodeRef :: "machine \<Rightarrow> objectRef option" where
  "getNodeRef machine = map_option (\<lambda>n. \<lparr>refGVR = nodesGVR, refMeta = emptyMeta\<lparr>omName := n\<rparr>\<rparr>) (mNodeRef machine)"

text \<open>
  Building a machine from the template: its raw spec is written through the shared pointer, a panic if
  that is nil, and after a successful call the client has decoded the answer into the same place. A
  generic configuration sees what is written.
\<close>

definition genericPlatform :: "string \<Rightarrow> bool" where
  "genericPlatform platform \<longleftrightarrow>
     platform \<notin> set [AWSPlatformType, AzurePlatformType, GCPPlatformType, NutanixPlatformType,
                        OpenStackPlatformType, VSpherePlatformType, NonePlatformType]"

definition storeRaw :: "string \<Rightarrow> 'k providerWorld \<Rightarrow> 'k providerWorld" where
  "storeRaw raw w =
     (let config = pwConfig w
      in w\<lparr>pwTemplateRaw := Some raw,
           pwConfig := (if genericPlatform (pcType config) then config\<lparr>pcGeneric := Some raw\<rparr> else config)\<rparr>)"

definition writeRaw :: "string \<Rightarrow> 'k providerWorld \<Rightarrow> 'k providerWorld option" where
  "writeRaw raw w = (if pwTemplateRaw w = None then None else Some (storeRaw raw w))"

definition decodeAnswer :: "machine \<Rightarrow> 'k providerWorld \<Rightarrow> 'k providerWorld" where
  "decodeAnswer answer w =
     (case msProviderSpec (mSpec answer) of None \<Rightarrow> w | Some raw \<Rightarrow> storeRaw raw w)"

definition dryRunMachine :: "openshiftMachineProvider \<Rightarrow> 'k providerWorld \<Rightarrow> machine" where
  "dryRunMachine m w =
     \<lparr>mMeta = emptyMeta\<lparr>omNamespace := opNamespace m, omAnnotations := omAnnotations (opOwnerMetadata m),
                        omLabels := omLabels (opOwnerMetadata m)\<rparr>,
      mSpec = templateSpec m w, mNodeRef = None, mPhase = None, mErrorMessage = None\<rparr>"

definition ensureValidProviderConfig ::
  "'k machineClient \<Rightarrow> codecs \<Rightarrow> openshiftMachineProvider \<Rightarrow> providerConfig \<Rightarrow> 'k providerWorld \<Rightarrow>
   providerConfig result \<times> 'k providerWorld" where
  "ensureValidProviderConfig cl cd m config w =
     (case RawConfig cd config of
        Inl e \<Rightarrow> (Inl (wrap ''could not fetch raw config from provider config'' e), w)
      | Inr raw \<Rightarrow>
          (case writeRaw raw w of
             None \<Rightarrow> (Inl nilDereference, w)
           | Some w1 \<Rightarrow>
               (case mcDryRunCreate cl (opClient m) (dryRunMachine m w1) (pwCluster w1) of
                  Inl e \<Rightarrow> (Inl (wrap ''could not dry-run create the machine'' e), w1)
                | Inr answer \<Rightarrow>
                    (let w2 = decodeAnswer answer w1
                     in case NewProviderConfigFromMachineSpec cd
                               ((mSpec answer)\<lparr>msProviderSpec := pwTemplateRaw w2\<rparr>) None of
                          Inl e \<Rightarrow> (Inl (wrap ''could not get provider config for machine'' e), w2)
                        | Inr valid \<Rightarrow> (Inr valid, w2)))))"

text \<open>The template configuration for an index: with the mapped failure domain when the index has one.\<close>

definition templateConfigFor ::
  "openshiftMachineProvider \<Rightarrow> int \<Rightarrow> 'k providerWorld \<Rightarrow> providerConfig result \<times> 'k providerWorld" where
  "templateConfigFor m index w =
     (if length (opIndexToFailureDomain m) > 0
      then (case gm_get (opIndexToFailureDomain m) index of
              None \<Rightarrow> (Inr (pwConfig w), w)
            | Some fd \<Rightarrow>
                (case InjectFailureDomain (pwConfig w) (Some fd) of
                   (Inl e, self) \<Rightarrow>
                     (Inl (wrap ''error injecting failure domain into provider config'' e), w\<lparr>pwConfig := self\<rparr>)
                 | (Inr new, self) \<Rightarrow> (Inr new, w\<lparr>pwConfig := self\<rparr>)))
      else (Inr (pwConfig w), w))"

definition generateMachineInfo ::
  "'k machineClient \<Rightarrow> codecs \<Rightarrow> openshiftMachineProvider \<Rightarrow> machine \<Rightarrow> 'k providerWorld \<Rightarrow>
   machineInfo result \<times> 'k providerWorld" where
  "generateMachineInfo cl cd m machine w =
     (case getMachineIndex cd m machine w of
        Inl e \<Rightarrow> (Inl (wrap ''could not determine machine index'' e), w)
      | Inr index \<Rightarrow>
          (case NewProviderConfigFromMachineSpec cd (mSpec machine) (Some (opInfrastructure m)) of
             Inl e \<Rightarrow> (Inl (wrap ''could not compare existing and desired provider configs'' e), w)
           | Inr config \<Rightarrow>
               (case templateConfigFor m index w of
                  (Inl e, w1) \<Rightarrow> (Inl e, w1)
                | (Inr tmplConfig, w1) \<Rightarrow>
                    (case ensureValidProviderConfig cl cd m tmplConfig w1 of
                       (Inl e, w2) \<Rightarrow> (Inl (wrap ''cannot ensure that the provider config is valid'' e), w2)
                     | (Inr valid, w2) \<Rightarrow>
                         (case pcDiff cd valid (Some config) of
                            Inl e \<Rightarrow> (Inl (wrap ''cannot compare provider configs'' e), w2)
                          | Inr diff \<Rightarrow>
                              (case isMachineReady cl m machine (pwCluster w2) of
                                 Inl e \<Rightarrow> (Inl (wrap ''error checking machine readiness'' e), w2)
                               | Inr ready \<Rightarrow>
                                   (Inr \<lparr>MachineRef = Some (getMachineRef machine), NodeRef = getNodeRef machine,
                                         Ready = ready, NeedsUpdate = (diff \<noteq> []), Diff = diff, Index = index,
                                         ErrorMessage = derefString (mErrorMessage machine)\<rparr>, w2)))))))"

fun machineInfosLoop ::
  "'k machineClient \<Rightarrow> codecs \<Rightarrow> openshiftMachineProvider \<Rightarrow> machine list \<Rightarrow> 'k providerWorld \<Rightarrow>
   machineInfo list result \<times> 'k providerWorld" where
  "machineInfosLoop cl cd m [] w = (Inr [], w)"
| "machineInfosLoop cl cd m (x # xs) w =
     (case generateMachineInfo cl cd m x w of
        (Inl e, w') \<Rightarrow> (Inl (wrap (''could not generate machine info for machine '' @ omName (mMeta x)) e), w')
      | (Inr i, w') \<Rightarrow>
          (case machineInfosLoop cl cd m xs w' of
             (Inl e, w'') \<Rightarrow> (Inl e, w'') | (Inr is, w'') \<Rightarrow> (Inr (i # is), w'')))"

definition GetMachineInfos ::
  "'k machineClient \<Rightarrow> codecs \<Rightarrow> openshiftMachineProvider \<Rightarrow> 'k providerWorld \<Rightarrow>
   machineInfo list result \<times> 'k providerWorld" where
  "GetMachineInfos cl cd m w = machineInfosLoop cl cd m (opMachines m) w"

section \<open>Creation and deletion\<close>

definition getMachineName ::
  "'k machineClient \<Rightarrow> openshiftMachineProvider \<Rightarrow> int \<Rightarrow> 'k \<Rightarrow> string result \<times> 'k" where
  "getMachineName cl m index k =
     (if length (opMachineNamePrefix m) > 0
      then (case mcRandString cl k of
              (r, k') \<Rightarrow> (Inr (opMachineNamePrefix m @ ''-'' @ r @ ''-'' @ showInt index), k'))
      else (case gm_get (tmplLabels (opTemplate m)) MachineClusterIDLabel of
              None \<Rightarrow> (Inl errMissingClusterIDLabel, k)
            | Some clusterID \<Rightarrow>
                (case gm_get (tmplLabels (opTemplate m)) openshiftMachineRoleLabel of
                   None \<Rightarrow> (Inl errMissingMachineRoleLabel, k)
                 | Some role \<Rightarrow>
                     (case mcRandString cl k of
                        (r, k') \<Rightarrow>
                          (Inr (clusterID @ ''-'' @ role @ ''-'' @ r @ ''-'' @ showInt index), k')))))"

definition getProviderConfigForIndex ::
  "openshiftMachineProvider \<Rightarrow> int \<Rightarrow> 'k providerWorld \<Rightarrow> providerConfig result \<times> 'k providerWorld" where
  "getProviderConfigForIndex m index w =
     (if length (opIndexToFailureDomain m) = 0 then (Inr (pwConfig w), w)
      else (case InjectFailureDomain (pwConfig w) (gm_get (opIndexToFailureDomain m) index) of
              (Inl e, self) \<Rightarrow>
                (Inl (wrap ''cannot inject failure domain in the provider config'' e), w\<lparr>pwConfig := self\<rparr>)
            | (Inr new, self) \<Rightarrow> (Inr new, w\<lparr>pwConfig := self\<rparr>)))"

definition newMachine :: "openshiftMachineProvider \<Rightarrow> string \<Rightarrow> 'k providerWorld \<Rightarrow> machine" where
  "newMachine m name w =
     \<lparr>mMeta = emptyMeta\<lparr>omName := name, omNamespace := opNamespace m,
                        omAnnotations := tmplAnnotations (opTemplate m), omLabels := tmplLabels (opTemplate m)\<rparr>,
      mSpec = templateSpec m w, mNodeRef = None, mPhase = None, mErrorMessage = None\<rparr>"

text \<open>The errors of \<^verbatim>\<open>SetControllerReference\<close> as Go errors.\<close>

definition ownerGoerror :: "ownerError \<Rightarrow> goerror" where
  "ownerGoerror e =
     (case e of OwnerErr g \<Rightarrow> g
      | AlreadyOwnedError obj owner \<Rightarrow>
          ErrNew (''Object '' @ omNamespace obj @ ''/'' @ omName obj @ '' is already owned by another '' @
                  orKind owner @ '' controller '' @ orName owner))"

definition CreateMachine ::
  "'k machineClient \<Rightarrow> codecs \<Rightarrow> openshiftMachineProvider \<Rightarrow> int \<Rightarrow> 'k providerWorld \<Rightarrow>
   unit result \<times> 'k providerWorld" where
  "CreateMachine cl cd m index w =
     (case getMachineName cl m index (pwCluster w) of
        (Inl e, k) \<Rightarrow> (Inl (wrap ''could not generate machine name'' e), w\<lparr>pwCluster := k\<rparr>)
      | (Inr name, k) \<Rightarrow>
          (case getProviderConfigForIndex m index (w\<lparr>pwCluster := k\<rparr>) of
             (Inl e, w1) \<Rightarrow> (Inl (wrap (''could not get provider config for index '' @ showInt index) e), w1)
           | (Inr config, w1) \<Rightarrow>
               (case RawConfig cd config of
                  Inl e \<Rightarrow> (Inl (wrap ''cannot fetch raw config from provider config'' e), w1)
                | Inr raw \<Rightarrow>
                    (case writeRaw raw w1 of
                       None \<Rightarrow> (Inl nilDereference, w1)
                     | Some w2 \<Rightarrow>
                         (let machine = newMachine m name w2
                          in case SetControllerReference (mcGVKForCpms cl) (opOwnerMetadata m) (mMeta machine) of
                               Inl e \<Rightarrow> (Inl (wrap ''could not set owner reference'' (ownerGoerror e)), w2)
                             | Inr meta \<Rightarrow>
                                 (case mcCreate cl (opClient m) (machine\<lparr>mMeta := meta\<rparr>) (pwCluster w2) of
                                    (Inl e, k') \<Rightarrow> (Inl (wrap ''cannot create machine'' e), w2\<lparr>pwCluster := k'\<rparr>)
                                  | (Inr answer, k') \<Rightarrow>
                                      (Inr (), decodeAnswer answer (w2\<lparr>pwCluster := k'\<rparr>))))))))"

definition DeleteMachine ::
  "'k machineClient \<Rightarrow> openshiftMachineProvider \<Rightarrow> objectRef \<Rightarrow> 'k providerWorld \<Rightarrow>
   unit result \<times> 'k providerWorld" where
  "DeleteMachine cl m ref w =
     (if refGVR ref \<noteq> machinesGVR
      then (Inl (Wrapf '''' errUnknownGroupVersionResource
              ('': expected '' @ gvrString machinesGVR @ '', got '' @ gvrString (refGVR ref))), w)
      else (case mcDelete cl (opClient m) (refMeta ref) (pwCluster w) of
              (Inr _, k) \<Rightarrow> (Inr (), w\<lparr>pwCluster := k\<rparr>)
            | (Inl e, k) \<Rightarrow>
                if isNotFound e then (Inr (), w\<lparr>pwCluster := k\<rparr>)
                else (Inl (wrap (''could not delete machine '' @ omName (refMeta ref) @ '' in namespace '' @
                        omNamespace (refMeta ref)) e), w\<lparr>pwCluster := k\<rparr>)))"

text \<open>The provider as an implementation of the interface.\<close>

definition openshiftProvider ::
  "'k machineClient \<Rightarrow> codecs \<Rightarrow> (openshiftMachineProvider, 'k providerWorld) machineProvider" where
  "openshiftProvider cl cd =
     \<lparr>mpGetMachineInfos = GetMachineInfos cl cd, mpWithClient = WithClient cl cd,
      mpCreateMachine = CreateMachine cl cd, mpDeleteMachine = DeleteMachine cl\<rparr>"

end
