(* ===== verification/Generator.thy ===== *)
theory Generator
  imports Machine_Provider "HOL-Library.Product_Lexorder"
begin

text \<open>
  The generator of ControlPlaneMachineSets: \<^verbatim>\<open>pkg/controllers/controlplanemachinesetgenerator\<close>.
  An apply configuration is the record of the API type with the same JSON fields, a nil pointer being
  the zero value or \<^const>\<open>None\<close>. The conversion of an apply configuration through JSON, the comparison
  \<^verbatim>\<open>deep.Equal\<close> of two specs and the API client are arguments. A write returns the cluster afterwards.
\<close>

section \<open>Client, constants and errors\<close>

record 'k generatorClient =
  gcBase :: "'k machineClient"
  gcGetCpms :: "string \<Rightarrow> string \<Rightarrow> 'k \<Rightarrow> cpms result"
  gcListMachines :: "string \<Rightarrow> string \<times> string \<Rightarrow> 'k \<Rightarrow> machine list result"
  gcCreateCpms :: "cpms \<Rightarrow> 'k \<Rightarrow> unit result \<times> 'k"
  gcDeleteCpms :: "cpms \<Rightarrow> string \<Rightarrow> 'k \<Rightarrow> unit result \<times> 'k"

record generatorJson =
  gjConvertDomains :: "failureDomains \<Rightarrow> failureDomains result"
  gjConvertCpms :: "cpms \<Rightarrow> cpms result"
  gjSpecDeep :: "cpmsSpec \<Rightarrow> cpmsSpec \<Rightarrow> string list"

definition clusterControlPlaneMachineSetName :: string where "clusterControlPlaneMachineSetName = ''cluster''"
definition machineRoleLabelKey :: string where "machineRoleLabelKey = ''machine.openshift.io/cluster-api-machine-role''"
definition clusterIDLabelKey :: string where "clusterIDLabelKey = ''machine.openshift.io/cluster-api-cluster''"
definition clusterMachineRoleLabelKey :: string where
  "clusterMachineRoleLabelKey = ''machine.openshift.io/cluster-api-machine-role''"
definition clusterMachineTypeLabelKey :: string where
  "clusterMachineTypeLabelKey = ''machine.openshift.io/cluster-api-machine-type''"
definition clusterMachineLabelValueMaster :: string where "clusterMachineLabelValueMaster = ''master''"
definition clusterMachineLabelValueControlPlane :: string where "clusterMachineLabelValueControlPlane = ''control-plane''"

definition errUnsupportedPlatform :: goerror where "errUnsupportedPlatform = ErrNew ''unsupported platform''"
definition errMixedEmptyFailureDomains :: goerror where
  "errMixedEmptyFailureDomains =
     ErrNew ''an empty failure domain was found and other failure domains are not empty''"
definition errInconsistentProviderSpec :: goerror where
  "errInconsistentProviderSpec = ErrNew ''provider specs are inconsistent''"
definition errNoFailureDomainsGenerated :: goerror where
  "errNoFailureDomainsGenerated = ErrNew ''no failure domains were generated''"

definition indexOutOfRange :: goerror where
  "indexOutOfRange = PanicErr ''runtime error: index out of range [0] with length 0''"

text \<open>\<^verbatim>\<open>replicas\<close>, the number of indexes.\<close>

definition generatedReplicas :: "32 word" where "generatedReplicas = 3"

definition zeroDomains :: failureDomains where
  "zeroDomains = \<lparr>fdsPlatform = '''', fdsAWS = None, fdsAzure = None, fdsGCP = None, fdsVSphere = [],
     fdsOpenStack = [], fdsNutanix = []\<rparr>"

definition zeroStatus :: cpmsStatus where
  "zeroStatus = \<lparr>statusConditions = [], statusObservedGeneration = 0, statusReplicas = 0, statusReadyReplicas = 0,
     statusUpdatedReplicas = 0, statusUnavailableReplicas = 0\<rparr>"

definition zeroCpms :: cpms where
  "zeroCpms = \<lparr>cpmsAPIVersion = '''', cpmsKind = '''', cpmsMeta = emptyMeta,
     cpmsSpecOf = \<lparr>machineNamePrefix = '''', cpmsState = '''', specReplicas = None, strategyType = '''',
       cpmsSelector = \<lparr>selMatchLabels = [], selMatchExpressions = []\<rparr>,
       cpmsTemplateOf = \<lparr>machineType = '''', openShiftMachine = None\<rparr>\<rparr>,
     cpmsStatusOf = zeroStatus\<rparr>"

section \<open>Machines\<close>

text \<open>By creation time and name, the newest and the last name first.\<close>

definition sortMachinesByCreationTimeDescending :: "machine list \<Rightarrow> machine list" where
  "sortMachinesByCreationTimeDescending ms =
     rev (sort_key (\<lambda>m. (omCreationTimestamp (mMeta m), omName (mMeta m))) ms)"

fun mergeLoop :: "machine list \<Rightarrow> string list \<Rightarrow> machine list \<Rightarrow> machine list" where
  "mergeLoop [] allKeys list = list"
| "mergeLoop (item # rest) allKeys list =
     (if omName (mMeta item) \<notin> set allKeys then mergeLoop rest (omName (mMeta item) # allKeys) (list @ [item])
      else mergeLoop rest allKeys list)"

definition mergeMachineSlices :: "machine list \<Rightarrow> machine list \<Rightarrow> machine list" where
  "mergeMachineSlices a b = mergeLoop (a @ b) [] []"

definition getControlPlaneMachines :: "'k generatorClient \<Rightarrow> string \<Rightarrow> 'k \<Rightarrow> machine list result" where
  "getControlPlaneMachines cl ns k =
     (case gcListMachines cl ns (machineRoleLabelKey, clusterMachineLabelValueMaster) k of
        Inl e \<Rightarrow> Inl (wrap ''unable to list control plane machines'' e)
      | Inr masters \<Rightarrow>
          (case gcListMachines cl ns (machineRoleLabelKey, clusterMachineLabelValueControlPlane) k of
             Inl e \<Rightarrow> Inl (wrap ''unable to list control plane machines'' e)
           | Inr controlPlanes \<Rightarrow>
               Inr (sortMachinesByCreationTimeDescending (mergeMachineSlices masters controlPlanes))))"

definition isSupportedControlPlaneMachinesNumber :: "machine list \<Rightarrow> bool" where
  "isSupportedControlPlaneMachinesNumber machines \<longleftrightarrow> \<not> length machines \<le> 1"

section \<open>The generic spec\<close>

text \<open>The machine spec of the template is filled in by the platform.\<close>

definition genericControlPlaneMachineSetSpec :: "32 word \<Rightarrow> string \<Rightarrow> cpmsSpec" where
  "genericControlPlaneMachineSetSpec replicas clusterID =
     (let labels = [(clusterIDLabelKey, clusterID), (clusterMachineRoleLabelKey, clusterMachineLabelValueMaster),
                    (clusterMachineTypeLabelKey, clusterMachineLabelValueMaster)]
      in \<lparr>machineNamePrefix = '''', cpmsState = StateInactive, specReplicas = Some replicas,
          strategyType = RollingUpdate,
          cpmsSelector = \<lparr>selMatchLabels = labels, selMatchExpressions = []\<rparr>,
          cpmsTemplateOf = \<lparr>machineType = OpenShiftMachineV1Beta1MachineType,
            openShiftMachine = Some \<lparr>tmplFailureDomains = None, tmplLabels = labels, tmplAnnotations = [],
              tmplSpec = \<lparr>msProviderSpec = None, msAuthoritativeAPI = '''', msOther = ''''\<rparr>\<rparr>\<rparr>\<rparr>)"

text \<open>The machine spec apply configuration of a raw provider spec.\<close>

definition rawMachineSpec :: "string \<Rightarrow> machineSpec" where
  "rawMachineSpec raw = \<lparr>msProviderSpec = Some raw, msAuthoritativeAPI = '''', msOther = ''''\<rparr>"

text \<open>Setting the failure domains and the machine spec of the template of a generic spec.\<close>

definition fillTemplate :: "failureDomains option \<Rightarrow> machineSpec \<Rightarrow> cpmsSpec \<Rightarrow> cpmsSpec" where
  "fillTemplate fds ms spec =
     spec\<lparr>cpmsTemplateOf := (cpmsTemplateOf spec)\<lparr>openShiftMachine :=
       map_option (\<lambda>t. t\<lparr>tmplFailureDomains := fds, tmplSpec := ms\<rparr>) (openShiftMachine (cpmsTemplateOf spec))\<rparr>\<rparr>"

text \<open>\<^verbatim>\<open>machines[0]\<close>; the callers have checked that there are machines.\<close>

definition newestMachine :: "machine list \<Rightarrow> machine result" where
  "newestMachine machines = (case machines of [] \<Rightarrow> Inl indexOutOfRange | m # _ \<Rightarrow> Inr m)"

definition completeSpec :: "machine list \<Rightarrow> failureDomains option \<Rightarrow> machineSpec \<Rightarrow> cpmsSpec result" where
  "completeSpec machines fds ms =
     (case newestMachine machines of
        Inl e \<Rightarrow> Inl e
      | Inr m \<Rightarrow> Inr (fillTemplate fds ms
                   (genericControlPlaneMachineSetSpec generatedReplicas (labelAt (omLabels (mMeta m)) clusterIDLabelKey))))"

section \<open>Failure domains per platform\<close>

definition buildAWSFailureDomains :: "failureDomain list \<Rightarrow> failureDomains" where
  "buildAWSFailureDomains fds =
     zeroDomains\<lparr>fdsAWS := Some (map fdAws (setList fdString fds)), fdsPlatform := AWSPlatformType\<rparr>"

definition allFailureDomainsZonesMatch :: "azureFailureDomain list \<Rightarrow> bool" where
  "allFailureDomainsZonesMatch fds =
     (case fds of [] \<Rightarrow> True | f # _ \<Rightarrow> list_all (\<lambda>fd. azureZone fd = azureZone f) fds)"

definition allFailureDomainsSubnetsMatch :: "azureFailureDomain list \<Rightarrow> bool" where
  "allFailureDomainsSubnetsMatch fds =
     (case fds of [] \<Rightarrow> True | f # _ \<Rightarrow> list_all (\<lambda>fd. azureSubnet fd = azureSubnet f) fds)"

definition buildAzureFailureDomains :: "failureDomain list \<Rightarrow> failureDomains" where
  "buildAzureFailureDomains fds =
     (let az = map fdAzure (setList fdString fds)
      in if length az \<le> 1 then zeroDomains
         else (let az1 = (if allFailureDomainsSubnetsMatch az then map (\<lambda>f. f\<lparr>azureSubnet := ''''\<rparr>) az else az);
                   az2 = (if allFailureDomainsZonesMatch az1 then map (\<lambda>f. f\<lparr>azureZone := ''''\<rparr>) az1 else az1)
               in zeroDomains\<lparr>fdsAzure := Some az2, fdsPlatform := AzurePlatformType\<rparr>))"

definition buildGCPFailureDomains :: "failureDomain list \<Rightarrow> failureDomains" where
  "buildGCPFailureDomains fds =
     zeroDomains\<lparr>fdsGCP := Some (map fdGcp (setList fdString fds)), fdsPlatform := GCPPlatformType\<rparr>"

definition emptyOpenStackFailureDomain :: openStackFailureDomain where
  "emptyOpenStackFailureDomain = \<lparr>osAvailabilityZone = '''', osRootVolume = None\<rparr>"

text \<open>An empty list here stands for the nil slice, too.\<close>

definition buildOpenStackFailureDomains :: "failureDomain list \<Rightarrow> failureDomains result" where
  "buildOpenStackFailureDomains fds =
     (let os = map fdOpenstack (setList fdString fds)
      in if length os > 1 \<and> list_ex (\<lambda>fd. fd = emptyOpenStackFailureDomain) os
         then Inl (wrap ''error building OpenStack failure domains'' errMixedEmptyFailureDomains)
         else Inr (zeroDomains\<lparr>fdsOpenStack := (if os = [emptyOpenStackFailureDomain] then [] else os),
                               fdsPlatform := OpenStackPlatformType\<rparr>))"

definition buildVSphereFailureDomains :: "failureDomain list \<Rightarrow> failureDomains" where
  "buildVSphereFailureDomains fds =
     (let vs = filter (\<lambda>v. length (vsName v) \<noteq> 0) (map fdVsphere (setList fdString fds))
      in if length vs > 0 then zeroDomains\<lparr>fdsVSphere := vs, fdsPlatform := VSpherePlatformType\<rparr>
         else zeroDomains)"

fun nutanixRefsLoop ::
  "string list \<Rightarrow> nutanixFailureDomainReference list \<Rightarrow> nutanixFailureDomainReference list result" where
  "nutanixRefsLoop names [] = Inr []"
| "nutanixRefsLoop names (fd # fds) =
     (if nxName fd = '''' then nutanixRefsLoop names fds
      else if nxName fd \<notin> set names
      then Inl (wrap (''failure domain name '' @ quoted (nxName fd) @ '' is not defined in the Infrastructure resource'')
                  errInvalidFailureDomainName)
      else map_sum id (Cons fd) (nutanixRefsLoop names fds))"

definition buildNutanixFailureDomains ::
  "failureDomain list \<Rightarrow> infrastructure option \<Rightarrow> failureDomains result" where
  "buildNutanixFailureDomains fds infra =
     (case Option.bind infra infNutanix of
        None \<Rightarrow> Inl nilDereference
      | Some defined \<Rightarrow>
          (case nutanixRefsLoop (map nfdName defined) (map fdNutanix (setList fdString fds)) of
             Inl e \<Rightarrow> Inl e
           | Inr refs \<Rightarrow>
               Inr (if length refs > 0 then zeroDomains\<lparr>fdsPlatform := NutanixPlatformType, fdsNutanix := refs\<rparr>
                    else zeroDomains)))"

definition buildPlatformFailureDomains ::
  "string \<Rightarrow> failureDomain list \<Rightarrow> infrastructure option \<Rightarrow> failureDomains result" where
  "buildPlatformFailureDomains platform fds infra =
     (if platform = AWSPlatformType then Inr (buildAWSFailureDomains fds)
      else if platform = AzurePlatformType then Inr (buildAzureFailureDomains fds)
      else if platform = GCPPlatformType then Inr (buildGCPFailureDomains fds)
      else if platform = VSpherePlatformType
      then (let d = buildVSphereFailureDomains fds
            in if fdsVSphere d = [] \<or> fdsPlatform d = '''' then Inl errNoFailureDomainsGenerated else Inr d)
      else if platform = OpenStackPlatformType
      then (case buildOpenStackFailureDomains fds of
              Inl e \<Rightarrow> Inl (wrap ''failed to build OpenStack failure domains'' e)
            | Inr d \<Rightarrow> if fdsOpenStack d = [] \<or> fdsPlatform d = '''' then Inl errNoFailureDomainsGenerated else Inr d)
      else if platform = NutanixPlatformType
      then (case buildNutanixFailureDomains fds infra of
              Inl e \<Rightarrow> Inl (wrap ''failed to build Nutanix failure domains'' e) | Inr d \<Rightarrow> Inr d)
      else Inl (Wrapf '''' errUnsupportedPlatform ('': '' @ platform @ ''FailureDomain{}'')))"

definition buildFailureDomains ::
  "codecs \<Rightarrow> generatorJson \<Rightarrow> machine list \<Rightarrow> infrastructure option \<Rightarrow> failureDomains result" where
  "buildFailureDomains cd j machines infra =
     (case ExtractFailureDomainsFromMachines cd infra machines of
        Inl e \<Rightarrow> Inl (wrap ''failed to extract failure domains from machines'' e)
      | Inr [] \<Rightarrow> Inl indexOutOfRange
      | Inr (fd # fds) \<Rightarrow>
          (case buildPlatformFailureDomains (platformType fd) (newSet Equal (fd # fds)) infra of
             Inl e \<Rightarrow> Inl (wrap ''failed to build platform specific failure domains'' e)
           | Inr d \<Rightarrow>
               (case gjConvertDomains j d of
                  Inl e \<Rightarrow> Inl (wrap ''failed to convert machinev1.FailureDomains to machinev1builder.FailureDomainsApplyConfiguration'' e)
                | Inr d' \<Rightarrow> Inr d')))"

section \<open>Machine specs per platform\<close>

text \<open>The configuration of the newest machine.\<close>

definition newestConfig ::
  "codecs \<Rightarrow> string \<Rightarrow> machine list \<Rightarrow> infrastructure option \<Rightarrow> providerConfig result" where
  "newestConfig cd text machines infra =
     (case newestMachine machines of
        Inl e \<Rightarrow> Inl e
      | Inr m \<Rightarrow> (case NewProviderConfigFromMachineSpec cd (mSpec m) infra of
                   Inl e \<Rightarrow> Inl (wrap text e) | Inr p \<Rightarrow> Inr p))"

definition marshalled :: "string \<Rightarrow> string result \<Rightarrow> machineSpec result" where
  "marshalled text raw = (case raw of Inl e \<Rightarrow> Inl (wrap text e) | Inr r \<Rightarrow> Inr (rawMachineSpec r))"

definition buildControlPlaneMachineSetAWSMachineSpec :: "codecs \<Rightarrow> machine list \<Rightarrow> machineSpec result" where
  "buildControlPlaneMachineSetAWSMachineSpec cd machines =
     (case newestConfig cd ''failed to extract machine's aws providerSpec'' machines None of
        Inl e \<Rightarrow> Inl e
      | Inr p \<Rightarrow> marshalled ''error marshalling aws providerSpec''
          (codecMarshal (cdAWS cd) ((pcAWS p)\<lparr>awsConfigSubnet := zeroBetaReference, awsPlacementZone := ''''\<rparr>)))"

definition allProviderConfigSubnetsMatch :: "providerConfig list \<Rightarrow> bool" where
  "allProviderConfigSubnetsMatch ps =
     list_all (\<lambda>p. azureConfigSubnet (pcAzure p) = azureConfigSubnet (pcAzure (hd ps))) ps"

definition allProviderConfigZonesMatch :: "providerConfig list \<Rightarrow> bool" where
  "allProviderConfigZonesMatch ps =
     list_all (\<lambda>p. azureConfigZone (pcAzure p) = azureConfigZone (pcAzure (hd ps))) ps"

fun azureConfigs :: "codecs \<Rightarrow> machine list \<Rightarrow> providerConfig list result" where
  "azureConfigs cd [] = Inr []"
| "azureConfigs cd (m # ms) =
     (case NewProviderConfigFromMachineSpec cd (mSpec m) None of
        Inl e \<Rightarrow> Inl (wrap ''failed to extract machine's azure providerSpec'' e)
      | Inr p \<Rightarrow> map_sum id (Cons p) (azureConfigs cd ms))"

definition buildControlPlaneMachineSetAzureMachineSpec :: "codecs \<Rightarrow> machine list \<Rightarrow> machineSpec result" where
  "buildControlPlaneMachineSetAzureMachineSpec cd machines =
     (case azureConfigs cd machines of
        Inl e \<Rightarrow> Inl e
      | Inr [] \<Rightarrow> Inl indexOutOfRange
      | Inr (p # ps) \<Rightarrow>
          (let a = pcAzure p;
               a1 = (if \<not> allProviderConfigZonesMatch (p # ps) then a\<lparr>azureConfigZone := ''''\<rparr> else a);
               a2 = (if \<not> allProviderConfigSubnetsMatch (p # ps) then a1\<lparr>azureConfigSubnet := ''''\<rparr> else a1)
           in marshalled ''error marshalling azure providerSpec'' (codecMarshal (cdAzure cd) a2)))"

definition buildControlPlaneMachineSetGCPMachineSpec :: "codecs \<Rightarrow> machine list \<Rightarrow> machineSpec result" where
  "buildControlPlaneMachineSetGCPMachineSpec cd machines =
     (case newestConfig cd ''failed to extract machine's GCP providerSpec'' machines None of
        Inl e \<Rightarrow> Inl e
      | Inr p \<Rightarrow> marshalled ''error marshalling GCP providerSpec''
          (codecMarshal (cdGCP cd) ((pcGCP p)\<lparr>gcpConfigZone := ''''\<rparr>)))"

definition buildControlPlaneMachineSetNutanixMachineSpec ::
  "codecs \<Rightarrow> machine list \<Rightarrow> infrastructure \<Rightarrow> bool \<Rightarrow> machineSpec result" where
  "buildControlPlaneMachineSetNutanixMachineSpec cd machines infra configured =
     (case newestConfig cd ''failed to extract machine's providerSpec'' machines (Some infra) of
        Inl e \<Rightarrow> Inl e
      | Inr p \<Rightarrow> marshalled ''error marshalling providerSpec''
          (RawConfig cd (if configured then ResetFailureDomainRelatedFields (pcNutanix p) else p)))"

definition buildControlPlaneMachineSetOpenStackMachineSpec ::
  "codecs \<Rightarrow> machine list \<Rightarrow> failureDomains option \<Rightarrow> machineSpec result" where
  "buildControlPlaneMachineSetOpenStackMachineSpec cd machines fds =
     (case newestConfig cd ''failed to extract machine's OpenStack providerSpec'' machines None of
        Inl e \<Rightarrow> Inl e
      | Inr p \<Rightarrow>
          (let o0 = pcOpenStack p;
               o1 = (if (case fds of None \<Rightarrow> False | Some f \<Rightarrow> fdsOpenStack f \<noteq> [])
                     then o0\<lparr>ospAvailabilityZone := '''',
                             ospRootVolume := map_option (\<lambda>v. v\<lparr>orvZone := '''', orvVolumeType := ''''\<rparr>) (ospRootVolume o0)\<rparr>
                     else o0)
           in marshalled ''error marshalling OpenStack providerSpec'' (codecMarshal (cdOpenStack cd) o1)))"

text \<open>The infrastructure object's vSphere spec is dereferenced: a panic if it is nil.\<close>

definition buildControlPlaneMachineSetVSphereMachineSpec ::
  "codecs \<Rightarrow> machine list \<Rightarrow> infrastructure \<Rightarrow> machineSpec result" where
  "buildControlPlaneMachineSetVSphereMachineSpec cd machines infra =
     (case newestConfig cd ''failed to extract machine's providerSpec'' machines (Some infra) of
        Inl e \<Rightarrow> Inl e
      | Inr p \<Rightarrow>
          (case infVSphere infra of
             None \<Rightarrow> Inl nilDereference
           | Some fds \<Rightarrow>
               marshalled ''error marshalling providerSpec''
                 (RawConfig cd (if length fds > 0 then ResetTopologyRelatedFields (pcVSphere p) else p))))"

section \<open>Generation\<close>

text \<open>Failure domains, none when there are none to generate.\<close>

definition domainsOrNone :: "string \<Rightarrow> failureDomains result \<Rightarrow> failureDomains option result" where
  "domainsOrNone text r =
     (case r of
        Inr d \<Rightarrow> Inr (Some d)
      | Inl e \<Rightarrow> if errorIs e errNoFailureDomainsGenerated then Inr None else Inl (wrap text e))"

definition withSpec ::
  "machine list \<Rightarrow> string \<Rightarrow> failureDomains option \<Rightarrow> machineSpec result \<Rightarrow> cpmsSpec result" where
  "withSpec machines text fds ms =
     (case ms of Inl e \<Rightarrow> Inl (wrap text e) | Inr spec \<Rightarrow> completeSpec machines fds spec)"

definition generateControlPlaneMachineSetAWSSpec ::
  "codecs \<Rightarrow> generatorJson \<Rightarrow> machine list \<Rightarrow> cpmsSpec result" where
  "generateControlPlaneMachineSetAWSSpec cd j machines =
     (case domainsOrNone ''failed to build ControlPlaneMachineSet's AWS failure domains''
             (buildFailureDomains cd j machines None) of
        Inl e \<Rightarrow> Inl e
      | Inr fds \<Rightarrow> withSpec machines ''failed to build ControlPlaneMachineSet's AWS spec'' fds
          (buildControlPlaneMachineSetAWSMachineSpec cd machines))"

definition generateControlPlaneMachineSetAzureSpec ::
  "codecs \<Rightarrow> generatorJson \<Rightarrow> machine list \<Rightarrow> cpmsSpec result" where
  "generateControlPlaneMachineSetAzureSpec cd j machines =
     (case domainsOrNone ''failed to build ControlPlaneMachineSet's Azure failure domains''
             (buildFailureDomains cd j machines None) of
        Inl e \<Rightarrow> Inl e
      | Inr fds \<Rightarrow> withSpec machines ''failed to build ControlPlaneMachineSet's Azure spec'' fds
          (buildControlPlaneMachineSetAzureMachineSpec cd machines))"

definition generateControlPlaneMachineSetGCPSpec ::
  "codecs \<Rightarrow> generatorJson \<Rightarrow> machine list \<Rightarrow> cpmsSpec result" where
  "generateControlPlaneMachineSetGCPSpec cd j machines =
     (case domainsOrNone ''failed to build ControlPlaneMachineSet's GCP failure domains''
             (buildFailureDomains cd j machines None) of
        Inl e \<Rightarrow> Inl e
      | Inr fds \<Rightarrow> withSpec machines ''failed to build ControlPlaneMachineSet's GCP spec'' fds
          (buildControlPlaneMachineSetGCPMachineSpec cd machines))"

definition generateControlPlaneMachineSetNutanixSpec ::
  "codecs \<Rightarrow> generatorJson \<Rightarrow> machine list \<Rightarrow> infrastructure \<Rightarrow> cpmsSpec result" where
  "generateControlPlaneMachineSetNutanixSpec cd j machines infra =
     (case domainsOrNone ''failed to build ControlPlaneMachineSet's Nutanix failure domains''
             (buildFailureDomains cd j machines (Some infra)) of
        Inl e \<Rightarrow> Inl e
      | Inr fdso \<Rightarrow>
          (let fds = (case fdso of None \<Rightarrow> zeroDomains | Some d \<Rightarrow> d)
           in withSpec machines ''failed to build ControlPlaneMachineSet's Nutanix spec'' (Some fds)
                (buildControlPlaneMachineSetNutanixMachineSpec cd machines infra (length (fdsNutanix fds) > 0))))"

fun serverGroupsLoop :: "codecs \<Rightarrow> string \<Rightarrow> machine list \<Rightarrow> unit result" where
  "serverGroupsLoop cd newest [] = Inr ()"
| "serverGroupsLoop cd newest (m # ms) =
     (case NewProviderConfigFromMachineSpec cd (mSpec m) None of
        Inl e \<Rightarrow> Inl (wrap ''failed to extract machine's OpenStack providerSpec'' e)
      | Inr p \<Rightarrow>
          if ospServerGroupName (pcOpenStack p) \<noteq> newest
          then Inl (Wrapf '''' errInconsistentProviderSpec ('': machine '' @ omName (mMeta m) @
                 '' has a different ServerGroup than the newest machine. Check this KCS article for more information: https://access.redhat.com/solutions/7013893''))
          else serverGroupsLoop cd newest ms)"

definition checkOpenStackMachinesServerGroups :: "codecs \<Rightarrow> machine list \<Rightarrow> unit result" where
  "checkOpenStackMachinesServerGroups cd machines =
     (case newestConfig cd ''failed to extract newest machine's OpenStack providerSpec'' machines None of
        Inl e \<Rightarrow> Inl e
      | Inr p \<Rightarrow> serverGroupsLoop cd (ospServerGroupName (pcOpenStack p)) machines)"

definition generateControlPlaneMachineSetOpenStackSpec ::
  "codecs \<Rightarrow> generatorJson \<Rightarrow> machine list \<Rightarrow> cpmsSpec result" where
  "generateControlPlaneMachineSetOpenStackSpec cd j machines =
     (case checkOpenStackMachinesServerGroups cd machines of
        Inl e \<Rightarrow> Inl (wrap ''failed to check OpenStack machines ServerGroup'' e)
      | Inr _ \<Rightarrow>
          (case domainsOrNone ''failed to build ControlPlaneMachineSet's OpenStack failure domains''
                  (buildFailureDomains cd j machines None) of
             Inl e \<Rightarrow> Inl e
           | Inr fds \<Rightarrow> withSpec machines ''failed to build ControlPlaneMachineSet's OpenStack spec'' fds
               (buildControlPlaneMachineSetOpenStackMachineSpec cd machines fds)))"

definition generateControlPlaneMachineSetVSphereSpec ::
  "codecs \<Rightarrow> generatorJson \<Rightarrow> machine list \<Rightarrow> infrastructure \<Rightarrow> cpmsSpec result" where
  "generateControlPlaneMachineSetVSphereSpec cd j machines infra =
     (case buildFailureDomains cd j machines (Some infra) of
        Inl e \<Rightarrow> Inl (wrap ''failed to build ControlPlaneMachineSet's VSphere failure domains'' e)
      | Inr fds \<Rightarrow> withSpec machines ''failed to build ControlPlaneMachineSet's VSphere spec'' (Some fds)
          (buildControlPlaneMachineSetVSphereMachineSpec cd machines infra))"

text \<open>The platform status is dereferenced: a panic if it is nil.\<close>

definition generateControlPlaneMachineSet ::
  "codecs \<Rightarrow> generatorJson \<Rightarrow> string \<Rightarrow> infrastructure \<Rightarrow> machine list \<Rightarrow> cpms result" where
  "generateControlPlaneMachineSet cd j ns infra machines =
     (case infPlatformStatus infra of
        None \<Rightarrow> Inl nilDereference
      | Some platform \<Rightarrow>
          if platform \<notin> set [AWSPlatformType, AzurePlatformType, GCPPlatformType, NutanixPlatformType,
                             OpenStackPlatformType, VSpherePlatformType]
          then Inl errUnsupportedPlatform
          else (case
            (if platform = AWSPlatformType then generateControlPlaneMachineSetAWSSpec cd j machines
             else if platform = AzurePlatformType then generateControlPlaneMachineSetAzureSpec cd j machines
             else if platform = GCPPlatformType then generateControlPlaneMachineSetGCPSpec cd j machines
             else if platform = NutanixPlatformType then generateControlPlaneMachineSetNutanixSpec cd j machines infra
             else if platform = OpenStackPlatformType then generateControlPlaneMachineSetOpenStackSpec cd j machines
             else generateControlPlaneMachineSetVSphereSpec cd j machines infra) of
              Inl e \<Rightarrow> Inl (wrap ''unable to generate control plane machine set spec'' e)
            | Inr spec \<Rightarrow>
                (case gjConvertCpms j (zeroCpms\<lparr>cpmsAPIVersion := ''machine.openshift.io/v1'',
                        cpmsKind := ''ControlPlaneMachineSet'',
                        cpmsMeta := emptyMeta\<lparr>omName := clusterControlPlaneMachineSetName, omNamespace := ns\<rparr>,
                        cpmsSpecOf := spec\<rparr>) of
                   Inl e \<Rightarrow> Inl (wrap ''unable to convert ControlPlaneMachineSetApplyConfig to ControlPlaneMachineSet'' e)
                 | Inr c \<Rightarrow> Inr c)))"

section \<open>Comparison\<close>

text \<open>The spec without its provider spec and authoritative API.\<close>

definition bareSpec :: "openShiftMachineTemplate \<Rightarrow> cpmsSpec \<Rightarrow> cpmsSpec" where
  "bareSpec t spec = spec\<lparr>cpmsTemplateOf := (cpmsTemplateOf spec)\<lparr>openShiftMachine :=
     Some (t\<lparr>tmplSpec := (tmplSpec t)\<lparr>msProviderSpec := None, msAuthoritativeAPI := ''''\<rparr>\<rparr>)\<rparr>\<rparr>"

definition compareControlPlaneMachineSets ::
  "codecs \<Rightarrow> generatorJson \<Rightarrow> cpms \<Rightarrow> cpms \<Rightarrow> string list result" where
  "compareControlPlaneMachineSets cd j a b =
     (case openShiftMachine (cpmsTemplateOf (cpmsSpecOf a)) of
        None \<Rightarrow> Inl nilDereference
      | Some ta \<Rightarrow>
          (case NewProviderConfigFromMachineSpec cd (tmplSpec ta) None of
             Inl e \<Rightarrow> Inl (wrap ''failed to extract providerSpec from MachineSpec'' e)
           | Inr pa \<Rightarrow>
               (case openShiftMachine (cpmsTemplateOf (cpmsSpecOf b)) of
                  None \<Rightarrow> Inl nilDereference
                | Some tb \<Rightarrow>
                    (case NewProviderConfigFromMachineSpec cd (tmplSpec tb) None of
                       Inl e \<Rightarrow> Inl (wrap ''failed to extract providerSpec from MachineSpec'' e)
                     | Inr pb \<Rightarrow>
                         (case pcDiff cd pa (Some pb) of
                            Inl e \<Rightarrow> Inl (wrap ''failed to compare providerConfigs'' e)
                          | Inr specDiff \<Rightarrow>
                              Inr (gjSpecDeep j (bareSpec ta (cpmsSpecOf a)) (bareSpec tb (cpmsSpecOf b)) @ specDiff))))))"

section \<open>Reconciliation\<close>

definition ensureControlPlaneMachineSet ::
  "'k generatorClient \<Rightarrow> cpms \<Rightarrow> cpms \<Rightarrow> 'k \<Rightarrow> (bool \<times> ctrlResult) result \<times> 'k" where
  "ensureControlPlaneMachineSet cl c generated k =
     (if omName (cpmsMeta c) = ''''
      then (case gcCreateCpms cl generated k of
              (Inl e, k') \<Rightarrow> (Inl (wrap ''unable to create control plane machine set'' e), k')
            | (Inr _, k') \<Rightarrow> (Inr (True, emptyResult), k'))
      else (Inr (False, emptyResult), k))"

definition recreateControlPlaneMachineSet ::
  "'k generatorClient \<Rightarrow> cpms \<Rightarrow> cpms \<Rightarrow> 'k \<Rightarrow> ctrlResult result \<times> 'k" where
  "recreateControlPlaneMachineSet cl c generated k =
     (case gcDeleteCpms cl c (omResourceVersion (cpmsMeta c)) k of
        (Inl e, k') \<Rightarrow> (Inl (wrap ''unable to delete outdated control plane machine set'' e), k')
      | (Inr _, k') \<Rightarrow>
          (case gcCreateCpms cl generated k' of
             (Inl e, k'') \<Rightarrow> (Inl (wrap ''unable to re-create updated control plane machine set'' e), k'')
           | (Inr _, k'') \<Rightarrow> (Inr emptyResult, k'')))"

text \<open>The inner \<^verbatim>\<open>reconcile\<close>.\<close>

definition reconcileGenerated ::
  "'k generatorClient \<Rightarrow> codecs \<Rightarrow> generatorJson \<Rightarrow> string \<Rightarrow> cpms \<Rightarrow> 'k \<Rightarrow> ctrlResult result \<times> 'k" where
  "reconcileGenerated cl cd j ns c k =
     (case getControlPlaneMachines cl ns k of
        Inl e \<Rightarrow> (Inl (wrap ''failed to get control plane machines'' e), k)
      | Inr machines \<Rightarrow>
          if \<not> isSupportedControlPlaneMachinesNumber machines then (Inr emptyResult, k)
          else (case GetInfrastructure (gcBase cl) k of
            Inl e \<Rightarrow> (Inl (wrap ''failed to get infrastructure object'' e), k)
          | Inr infra \<Rightarrow>
              (case generateControlPlaneMachineSet cd j ns infra machines of
                 Inl e \<Rightarrow> if errorIs e errUnsupportedPlatform then (Inr emptyResult, k)
                          else (Inl (wrap ''unable to generate control plane machine set'' e), k)
               | Inr generated \<Rightarrow>
                   (case ensureControlPlaneMachineSet cl c generated k of
                      (Inl e, k') \<Rightarrow> (Inl (wrap ''unable to create control plane machine set'' e), k')
                    | (Inr (True, res), k') \<Rightarrow> (Inr res, k')
                    | (Inr (False, _), k') \<Rightarrow>
                        (case compareControlPlaneMachineSets cd j c generated of
                           Inl e \<Rightarrow> (Inl (wrap ''unable to compare control plane machine sets'' e), k')
                         | Inr diff \<Rightarrow>
                             if diff \<noteq> [] then recreateControlPlaneMachineSet cl c generated k'
                             else (Inr emptyResult, k'))))))"

text \<open>
  \<^verbatim>\<open>Reconcile\<close> for the request of a namespace and a name; \<open>ns\<close> is the namespace of the reconciler. The
  fetched object stays zero when it is not found.
\<close>

definition ReconcileGenerator ::
  "'k generatorClient \<Rightarrow> codecs \<Rightarrow> generatorJson \<Rightarrow> string \<Rightarrow> string \<Rightarrow> string \<Rightarrow> 'k \<Rightarrow> ctrlResult result \<times> 'k" where
  "ReconcileGenerator cl cd j ns reqNamespace reqName k =
     (let fetched = gcGetCpms cl reqNamespace reqName k
      in case (case fetched of Inr c \<Rightarrow> Inr c | Inl e \<Rightarrow> if isNotFound e then Inr zeroCpms else Inl e) of
           Inl e \<Rightarrow> (Inl (wrap ''unable to fetch control plane machine set'' e), k)
         | Inr c \<Rightarrow>
             if omDeletionTimestamp (cpmsMeta c) \<noteq> None then (Inr emptyResult, k)
             else if cpmsState (cpmsSpecOf c) = StateActive then (Inr emptyResult, k)
             else (case reconcileGenerated cl cd j ns c k of
                     (Inl e, k') \<Rightarrow> (Inl (wrap ''error reconciling control plane machine set'' e), k')
                   | (Inr res, k') \<Rightarrow> (Inr res, k')))"

end
