(* ===== verification/Webhook.thy ===== *)
theory Webhook
  imports Machine_Provider
begin

text \<open>
  The validating admission webhook: \<^verbatim>\<open>pkg/webhooks/controlplanemachineset/webhooks.go\<close>.
  An admission error is a field error (its type, path and detail; the rejected value that the message
  echoes is left out), an internal error of a field, or a plain error; a request is admitted when there
  is none. A panic, which the server answers with a denial, is the \<^const>\<open>Inl\<close> of the outer sum.
  The validation of the provider spec writes the dry-run spec through the pointer in the template of the
  object under validation, so the raw spec of the template is passed in and out.
\<close>

section \<open>Errors and paths\<close>

datatype webhookError =
    FieldRequired string string
  | FieldInvalid string string
  | FieldForbidden string string
  | FieldNotSupported string string
  | FieldInternal string goerror
  | PlainErr goerror

type_synonym 'a admission = "goerror + 'a"

text \<open>Warnings and errors.\<close>

type_synonym verdict = "string list \<times> webhookError list"

definition childPath :: "string \<Rightarrow> string \<Rightarrow> string" where
  "childPath p name = p @ ''.'' @ name"

text \<open>Running a second check after a first one, both reported; a panic ends the validation.\<close>

definition bothChecks :: "verdict admission \<Rightarrow> verdict admission \<Rightarrow> verdict admission" where
  "bothChecks a b =
     (case a of Inl e \<Rightarrow> Inl e
      | Inr (wa, ea) \<Rightarrow> (case b of Inl e \<Rightarrow> Inl e | Inr (wb, eb) \<Rightarrow> Inr (wa @ wb, ea @ eb)))"

text \<open>An error of a called function that ends this check with one field error, unless it is a panic.\<close>

definition orPanic :: "goerror \<Rightarrow> webhookError \<Rightarrow> verdict admission" where
  "orPanic e err = (if panicked e then Inl e else Inr ([], [err]))"

definition openshiftMachineTypeLabel :: string where
  "openshiftMachineTypeLabel = ''machine.openshift.io/cluster-api-machine-type''"
definition masterMachineRole :: string where "masterMachineRole = ''master''"
definition clusterSingletonName :: string where "clusterSingletonName = ''cluster''"
definition aroImagePublisher :: string where "aroImagePublisher = ''azureopenshift''"
definition aroImageOffer :: string where "aroImageOffer = ''aro4''"

definition warnTargetPoolsNotSet :: string where
  "warnTargetPoolsNotSet = ''TargetPools field is not set on ControlPlaneMachineSet. This configuration is valid for private clusters. If your cluster is not private, please determine and set the correct value.''"
definition warnVSphereTemplateMayBeIgnored :: string where
  "warnVSphereTemplateMayBeIgnored = ''template field is configured and may be ignored if configured in the failure domain.''"
definition warnVSphereFolderMayBeIgnored :: string where
  "warnVSphereFolderMayBeIgnored = ''folder field is configured and may be ignored if configured in the failure domain.''"
definition warnVSphereResourcePoolMayBeIgnored :: string where
  "warnVSphereResourcePoolMayBeIgnored = ''resourcePool field is configured and may be ignored if configured in the failure domain.''"

definition errUpdateNilCPMS :: goerror where
  "errUpdateNilCPMS = ErrNew ''cannot update nil control plane machine set''"
definition errVSphereNetworkNotAllowed :: goerror where
  "errVSphereNetworkNotAllowed = ErrNew ''network devices should not be set when control plane nodes are in a failure domain''"
definition errVSphereWorkspaceNotAllowed :: goerror where
  "errVSphereWorkspaceNotAllowed = ErrNew ''workspace fields should not be set when control plane nodes are in a failure domain''"

section \<open>Lists of failure domains\<close>

definition whContains :: "failureDomain list \<Rightarrow> failureDomain \<Rightarrow> bool" where
  "whContains xs fd = list_ex (\<lambda>x. Equal fd x) xs"

definition missingFailureDomains :: "failureDomain list \<Rightarrow> failureDomain list \<Rightarrow> failureDomain list" where
  "missingFailureDomains list1 list2 = filter (\<lambda>o1. \<not> list_ex (\<lambda>i. Equal o1 i) list2) list1"

fun duplicatedLoop :: "failureDomain list \<Rightarrow> failureDomain list \<Rightarrow> failureDomain list \<Rightarrow> failureDomain list" where
  "duplicatedLoop [] seen duplicated = duplicated"
| "duplicatedLoop (fd # fds) seen duplicated =
     (if \<not> whContains seen fd then duplicatedLoop fds (seen @ [fd]) duplicated
      else if \<not> whContains duplicated fd then duplicatedLoop fds seen (duplicated @ [fd])
      else duplicatedLoop fds seen duplicated)"

definition duplicatedFailureDomains :: "failureDomain list \<Rightarrow> failureDomain list" where
  "duplicatedFailureDomains fds = duplicatedLoop fds [] []"

fun getMachineFailureDomains ::
  "codecs \<Rightarrow> infrastructure \<Rightarrow> machine list \<Rightarrow> failureDomain list result" where
  "getMachineFailureDomains cd infra [] = Inr []"
| "getMachineFailureDomains cd infra (m # ms) =
     (case extractFrom cd infra m of
        Inl e \<Rightarrow> Inl (wrap ''could not extract failure domain from machine'' e)
      | Inr fd \<Rightarrow>
          (case getMachineFailureDomains cd infra ms of Inl e \<Rightarrow> Inl e | Inr fds \<Rightarrow> Inr (fd # fds)))"

text \<open>The format \<^verbatim>\<open>%s\<close> of a slice of failure domains.\<close>

definition showDomains :: "failureDomain list \<Rightarrow> string" where
  "showDomains fds = ''['' @ joinStr '' '' (map fdString fds) @ '']''"

section \<open>Checks against the machines of the cluster\<close>

definition checkOpenShiftFailureDomainsMatchMachines ::
  "codecs \<Rightarrow> string \<Rightarrow> failureDomain option \<Rightarrow> failureDomains \<Rightarrow> machine list \<Rightarrow> infrastructure \<Rightarrow> verdict admission" where
  "checkOpenShiftFailureDomainsMatchMachines cd path tmplDomain fds machines infra =
     (case getMachineFailureDomains cd infra machines of
        Inl e \<Rightarrow> orPanic e (FieldInternal (childPath path ''platform'')
                  (wrap (''could not get failure domains from cluster machines on platform '' @ fdsPlatform fds) e))
      | Inr machineDomains \<Rightarrow>
          (case NewFailureDomains (Some fds) of
             Inl e \<Rightarrow> orPanic e (FieldInvalid path
                  (''error getting failure domains from control plane machine set machine template: '' @ errorText e))
           | Inr specified \<Rightarrow>
               (case CompleteFailureDomains specified tmplDomain of
                  Inl e \<Rightarrow> orPanic e (FieldInternal (childPath path ''platform'')
                       (wrap ''could not make failure domains comparable'' e))
                | Inr comparable \<Rightarrow>
                    (let unspecified = missingFailureDomains machineDomains comparable;
                         unused = missingFailureDomains comparable machineDomains;
                         duplicated = duplicatedFailureDomains machineDomains
                     in Inr ([],
                       (if unspecified \<noteq> []
                        then [FieldForbidden path (''control plane machines are using unspecified failure domain(s) '' @
                                showDomains unspecified)] else []) @
                       (if unused \<noteq> [] \<and> duplicated \<noteq> []
                        then [FieldForbidden path (''no control plane machine is using specified failure domain(s) '' @
                                showDomains unused @ '', failure domain(s) '' @ showDomains duplicated @
                                '' are duplicated within the control plane machines, please correct failure domains to match control plane machines'')]
                        else []))))))"

definition checkOpenShiftProviderSpecFailureDomainMatchesMachines ::
  "codecs \<Rightarrow> string \<Rightarrow> openShiftMachineTemplate \<Rightarrow> machine list \<Rightarrow> infrastructure \<Rightarrow> verdict admission" where
  "checkOpenShiftProviderSpecFailureDomainMatchesMachines cd path tmpl machines infra =
     (case NewProviderConfigFromMachineTemplate cd tmpl (Some infra) of
        Inl e \<Rightarrow> orPanic e (FieldInvalid path (''error parsing provider config from machine template: '' @ errorText e))
      | Inr config \<Rightarrow>
          (case ExtractFailureDomain config of
             Inl e \<Rightarrow> Inl e
           | Inr tmplDomain \<Rightarrow>
               (case ExtractFailureDomainsFromMachines cd (Some infra) machines of
                  Inl e \<Rightarrow> orPanic e (FieldInternal path
                       (wrap ''could not get failure domains from cluster machines'' e))
                | Inr fds \<Rightarrow>
                    (case tmplDomain of
                       None \<Rightarrow> if fds = [] then Inr ([], []) else Inl nilDereference
                     | Some t \<Rightarrow>
                         Inr ([], map (\<lambda>fd. FieldInvalid path
                              ''Failure domain extracted from machine template providerSpec does not match failure domain of all control plane machines'')
                            (filter (\<lambda>fd. \<not> Equal t fd) fds))))))"

definition validateOpenShiftMachineV1BetaTemplateOnCreate ::
  "codecs \<Rightarrow> string \<Rightarrow> openShiftMachineTemplate \<Rightarrow> machine list \<Rightarrow> infrastructure \<Rightarrow> verdict admission" where
  "validateOpenShiftMachineV1BetaTemplateOnCreate cd path tmpl machines infra =
     (let specPath = childPath (childPath path ''spec'') ''providerSpec''
      in case tmplFailureDomains tmpl of
           None \<Rightarrow> checkOpenShiftProviderSpecFailureDomainMatchesMachines cd specPath tmpl machines infra
         | Some fds \<Rightarrow>
             if fdsPlatform fds = ''''
             then checkOpenShiftProviderSpecFailureDomainMatchesMachines cd specPath tmpl machines infra
             else (case NewProviderConfigFromMachineSpec cd (tmplSpec tmpl) (Some infra) of
                     Inl e \<Rightarrow> Inl nilDereference
                   | Inr config \<Rightarrow>
                       (case ExtractFailureDomain config of
                          Inl e \<Rightarrow> Inl e
                        | Inr tmplDomain \<Rightarrow>
                            checkOpenShiftFailureDomainsMatchMachines cd (childPath path ''failureDomains'')
                              tmplDomain fds machines infra)))"

text \<open>
  Above, an error of \<^verbatim>\<open>NewProviderConfigFromMachineSpec\<close> is recorded but the nil configuration is used
  all the same, which panics.
\<close>

definition machineTypeRequired :: "string \<Rightarrow> webhookError" where
  "machineTypeRequired path =
     FieldRequired path (OpenShiftMachineV1Beta1MachineType @ '' is required when machine type is '' @
       OpenShiftMachineV1Beta1MachineType)"

definition validateTemplateOnCreate ::
  "codecs \<Rightarrow> string \<Rightarrow> cpmsTemplate \<Rightarrow> machine list \<Rightarrow> infrastructure \<Rightarrow> verdict admission" where
  "validateTemplateOnCreate cd path template machines infra =
     (if machineType template = OpenShiftMachineV1Beta1MachineType
      then (let tmplPath = childPath path OpenShiftMachineV1Beta1MachineType
            in case openShiftMachine template of
                 None \<Rightarrow> Inr ([], [machineTypeRequired tmplPath])
               | Some tmpl \<Rightarrow> validateOpenShiftMachineV1BetaTemplateOnCreate cd tmplPath tmpl machines infra)
      else Inr ([], [FieldNotSupported (childPath path ''machineType'') OpenShiftMachineV1Beta1MachineType]))"

section \<open>Checks of the template\<close>

text \<open>A selector that does not convert is nil, and its match is not checked.\<close>

definition validateTemplateLabels ::
  "'k machineClient \<Rightarrow> string \<Rightarrow> (string, string) gomap \<Rightarrow> labelSelector \<Rightarrow> webhookError list" where
  "validateTemplateLabels cl labelsPath labels sel =
     (case mcLabelSelectorAsSelector cl sel of
        Inl e \<Rightarrow> [FieldInvalid (childPath ''spec'' ''selector'')
                     (errorText (wrap ''could not convert label selector to selector'' e))]
      | Inr matches \<Rightarrow>
          if \<not> matches labels then [FieldInvalid labelsPath ''selector does not match template labels''] else [])"

text \<open>A panic of the lookup ends the loop.\<close>

fun nutanixNamesLoop ::
  "string \<Rightarrow> nutanixProviderConfig \<Rightarrow> nutanixFailureDomainReference list \<Rightarrow> webhookError list admission" where
  "nutanixNamesLoop path config [] = Inr []"
| "nutanixNamesLoop path config (ref # refs) =
     (case GetFailureDomainByName config (nxName ref) of
        Inr _ \<Rightarrow> nutanixNamesLoop path config refs
      | Inl e \<Rightarrow>
          if panicked e then Inl e
          else (case nutanixNamesLoop path config refs of
                  Inl p \<Rightarrow> Inl p
                | Inr es \<Rightarrow> Inr (FieldInvalid (childPath (childPath path ''failureDomain'') ''name'')
                                 (''error: '' @ errorText e) # es)))"

definition validateOpenShiftNutanixProviderConfig ::
  "string \<Rightarrow> nutanixProviderConfig \<Rightarrow> failureDomains option \<Rightarrow> webhookError list admission" where
  "validateOpenShiftNutanixProviderConfig path config fds =
     (case fds of None \<Rightarrow> Inr [] | Some f \<Rightarrow> nutanixNamesLoop path config (fdsNutanix f))"

definition validateOpenShiftAzureProviderConfig :: "string \<Rightarrow> azureMachineProviderSpec \<Rightarrow> webhookError list" where
  "validateOpenShiftAzureProviderConfig path config =
     (if azureInternalLoadBalancer config = '''' \<and>
         (imgPublisher (azureImage config) \<noteq> aroImagePublisher \<or> imgOffer (azureImage config) \<noteq> aroImageOffer)
      then [FieldRequired (childPath path ''internalLoadBalancer'')
              ''internalLoadBalancer is required for control plane machines'']
      else [])"

definition warning :: "string \<Rightarrow> string \<Rightarrow> string" where
  "warning path text = path @ '': '' @ text"

definition validateOpenShiftGCPProviderConfig :: "string \<Rightarrow> gcpMachineProviderSpec \<Rightarrow> verdict" where
  "validateOpenShiftGCPProviderConfig path config =
     (if sliceOf (gcpTargetPools config) = [] then [warning (childPath path ''targetPools'') warnTargetPoolsNotSet] else [], [])"

definition validateOpenShiftOpenStackProviderConfig :: "string \<Rightarrow> openstackProviderSpec \<Rightarrow> webhookError list" where
  "validateOpenShiftOpenStackProviderConfig path config =
     map (\<lambda>d. FieldInvalid (childPath path ''additionalBlockDevices'') ''etcd block device size must be at least 10 GiB'')
       (filter (\<lambda>d. abdName d = ''etcd'' \<and> abdSizeGiB d < 10) (sliceOf (ospAdditionalBlockDevices config)))"

text \<open>
  The pattern \<^verbatim>\<open>^/.*?/vm/.*?\<close>: a slash, then a \<^verbatim>\<open>/vm/\<close> that no newline precedes. The reluctant tail
  matches the empty string.
\<close>

fun vmFollows :: "string \<Rightarrow> bool" where
  "vmFollows [] = False"
| "vmFollows (c # cs) = (take 4 (c # cs) = ''/vm/'' \<or> c \<noteq> CHR 0x0A \<and> vmFollows cs)"

definition matchesVSphereTemplatePattern :: "string \<Rightarrow> bool" where
  "matchesVSphereTemplatePattern s = (case s of [] \<Rightarrow> False | c # cs \<Rightarrow> c = CHR ''/'' \<and> vmFollows cs)"

definition validateVSphereTemplate :: "string \<Rightarrow> string \<Rightarrow> webhookError list" where
  "validateVSphereTemplate path template =
     (if length template > 0 \<and> CHR ''/'' \<in> set template \<and> \<not> matchesVSphereTemplatePattern template
      then [FieldInvalid (childPath path ''template'') ''template must be provided as the full path''] else [])"

text \<open>The dump of the devices and of the workspace in the two messages is left out.\<close>

definition checkForFailureDomainIgnoredFields ::
  "string \<Rightarrow> openShiftMachineTemplate \<Rightarrow> vsphereMachineProviderSpec \<Rightarrow> verdict" where
  "checkForFailureDomainIgnoredFields path tmpl config =
     (let template = vspTemplate config;
          ws0 = (if length template > 0 then [warning (childPath path ''template'') warnVSphereTemplateMayBeIgnored] else []);
          es0 = (if length template > 0 then validateVSphereTemplate path template else [])
      in if (case tmplFailureDomains tmpl of None \<Rightarrow> True | Some f \<Rightarrow> fdsVSphere f = []) then (ws0, es0)
         else
           (let wsPath = childPath path ''workspace'';
                es1 = map (\<lambda>d. FieldInternal (childPath path ''network'') errVSphereNetworkNotAllowed)
                        (filter (\<lambda>d. length (ndNetworkName d) > 0) (sliceOf (vspDevices config)))
            in case vspWorkspace config of
                 None \<Rightarrow> (ws0, es0 @ es1)
               | Some ws \<Rightarrow>
                   (ws0 @ (if length (wsFolder ws) > 0
                           then [warning (childPath wsPath ''folder'') warnVSphereFolderMayBeIgnored] else []) @
                          (if length (wsResourcePool ws) > 0
                           then [warning (childPath wsPath ''resourcePool'') warnVSphereResourcePoolMayBeIgnored] else []),
                    es0 @ es1 @
                      (if length (wsDatacenter ws) > 0 \<or> length (wsDatastore ws) > 0 \<or> length (wsServer ws) > 0
                       then [FieldInternal wsPath errVSphereWorkspaceNotAllowed] else []))))"

definition validateOpenShiftVSphereProviderConfig ::
  "string \<Rightarrow> openShiftMachineTemplate \<Rightarrow> vsphereMachineProviderSpec \<Rightarrow> infrastructure \<Rightarrow> verdict" where
  "validateOpenShiftVSphereProviderConfig path tmpl config infra =
     (if sliceOf (infVSphere infra) \<noteq> [] then checkForFailureDomainIgnoredFields path tmpl config
      else ([], validateVSphereTemplate path (vspTemplate config)))"

definition validateOpenShiftProviderConfig ::
  "codecs \<Rightarrow> string \<Rightarrow> openShiftMachineTemplate \<Rightarrow> infrastructure \<Rightarrow> verdict admission" where
  "validateOpenShiftProviderConfig cd path tmpl infra =
     (let specPath = childPath (childPath path ''spec'') ''providerSpec''; value = childPath specPath ''value''
      in case NewProviderConfigFromMachineTemplate cd tmpl (Some infra) of
           Inl e \<Rightarrow> orPanic e (FieldInvalid specPath (''error determining provider configuration: '' @ errorText e))
         | Inr config \<Rightarrow>
             if pcType config = AzurePlatformType
             then Inr ([], validateOpenShiftAzureProviderConfig value (pcAzure config))
             else if pcType config = GCPPlatformType
             then Inr (validateOpenShiftGCPProviderConfig value (pcGCP config))
             else if pcType config = OpenStackPlatformType
             then Inr ([], validateOpenShiftOpenStackProviderConfig value (pcOpenStack config))
             else if pcType config = VSpherePlatformType
             then Inr (validateOpenShiftVSphereProviderConfig value tmpl (vpcConfig (pcVSphere config)) infra)
             else if pcType config = NutanixPlatformType
             then map_sum id (Pair []) (validateOpenShiftNutanixProviderConfig value (pcNutanix config) (tmplFailureDomains tmpl))
             else Inr ([], []))"

section \<open>The dry run of a machine from the template\<close>

definition withRaw :: "string option \<Rightarrow> openShiftMachineTemplate \<Rightarrow> openShiftMachineTemplate" where
  "withRaw raw tmpl = tmpl\<lparr>tmplSpec := (tmplSpec tmpl)\<lparr>msProviderSpec := raw\<rparr>\<rparr>"

text \<open>The template configuration with the first failure domain, when there is one.\<close>

definition firstDomainConfig ::
  "string \<Rightarrow> openShiftMachineTemplate \<Rightarrow> providerConfig \<Rightarrow> (webhookError list + providerConfig) admission" where
  "firstDomainConfig path tmpl config =
     (if (case tmplFailureDomains tmpl of None \<Rightarrow> True | Some f \<Rightarrow> fdsPlatform f \<noteq> '''')
      then (case NewFailureDomains (tmplFailureDomains tmpl) of
              Inl e \<Rightarrow> if panicked e then Inl e
                       else Inr (Inl [FieldInvalid path (''error constructing failure domain config: '' @ errorText e)])
            | Inr fds \<Rightarrow>
                (case fds of
                   [] \<Rightarrow> Inr (Inr config)
                 | fd # _ \<Rightarrow>
                     (case fst (InjectFailureDomain config (Some fd)) of
                        Inl e \<Rightarrow> if panicked e then Inl e
                                 else Inr (Inl [FieldInvalid path
                                   (''error injecting failure domain into provider config: '' @ errorText e)])
                      | Inr injected \<Rightarrow> Inr (Inr injected))))
      else Inr (Inr config))"

definition webhookDryRunMachine :: "string \<Rightarrow> openShiftMachineTemplate \<Rightarrow> string \<Rightarrow> machine" where
  "webhookDryRunMachine ns tmpl raw =
     \<lparr>mMeta = emptyMeta\<lparr>omNamespace := ns, omAnnotations := tmplAnnotations tmpl, omLabels := tmplLabels tmpl\<rparr>,
      mSpec = (tmplSpec tmpl)\<lparr>msProviderSpec := Some raw\<rparr>, mNodeRef = None, mPhase = None, mErrorMessage = None\<rparr>"

text \<open>What the pointer holds after the answer was decoded over what was sent.\<close>

definition decodedRaw :: "string \<Rightarrow> machine \<Rightarrow> string" where
  "decodedRaw sent answer = (case msProviderSpec (mSpec answer) of None \<Rightarrow> sent | Some r \<Rightarrow> r)"

text \<open>
  The second component is the raw spec behind the template's pointer afterwards. The pointer is not nil
  where it is written: without a provider spec there is no configuration. The generate-name of the
  dry-run machine is not a field of the model.
\<close>

definition validateOpenShiftProviderMachineSpec ::
  "'k machineClient \<Rightarrow> codecs \<Rightarrow> string \<Rightarrow> string \<Rightarrow> openShiftMachineTemplate \<Rightarrow> infrastructure \<Rightarrow> 'k \<Rightarrow>
   verdict admission \<times> string option" where
  "validateOpenShiftProviderMachineSpec cl cd ns path tmpl infra k =
     (let unchanged = msProviderSpec (tmplSpec tmpl)
      in case NewProviderConfigFromMachineTemplate cd tmpl (Some infra) of
           Inl e \<Rightarrow> (orPanic e (FieldInvalid path (''error determining provider configuration: '' @ errorText e)), unchanged)
         | Inr config \<Rightarrow>
             (case firstDomainConfig path tmpl config of
                Inl p \<Rightarrow> (Inl p, unchanged)
              | Inr (Inl es) \<Rightarrow> (Inr ([], es), unchanged)
              | Inr (Inr tmplConfig) \<Rightarrow>
                  (case RawConfig cd tmplConfig of
                     Inl e \<Rightarrow> (orPanic e (FieldInvalid path
                                (''could not fetch raw config from provider config: '' @ errorText e)), unchanged)
                   | Inr raw \<Rightarrow>
                       (case mcDryRunCreate cl CachedClient (webhookDryRunMachine ns tmpl raw) k of
                          Inl e \<Rightarrow> (Inr ([], [PlainErr (wrap ''invalid machine spec'' e)]), Some raw)
                        | Inr answer \<Rightarrow>
                            (Inr ([], []), Some (decodedRaw raw answer))))))"

definition validateOpenShiftMachineV1BetaTemplate ::
  "'k machineClient \<Rightarrow> codecs \<Rightarrow> string \<Rightarrow> string \<Rightarrow> openShiftMachineTemplate \<Rightarrow> labelSelector \<Rightarrow> infrastructure \<Rightarrow> 'k \<Rightarrow>
   verdict admission \<times> string option" where
  "validateOpenShiftMachineV1BetaTemplate cl cd ns path tmpl sel infra k =
     (let labelErrs = validateTemplateLabels cl (childPath (childPath path ''metadata'') ''labels'') (tmplLabels tmpl) sel;
          configVerdict = validateOpenShiftProviderConfig cd path tmpl infra;
          (specVerdict, raw) = validateOpenShiftProviderMachineSpec cl cd ns
             (childPath (childPath path ''spec'') ''providerSpec'') tmpl infra k
      in (bothChecks (Inr ([], labelErrs)) (bothChecks configVerdict specVerdict), raw))"

text \<open>The raw spec afterwards is that of the template, if there is one.\<close>

definition validateTemplate ::
  "'k machineClient \<Rightarrow> codecs \<Rightarrow> string \<Rightarrow> string \<Rightarrow> cpmsTemplate \<Rightarrow> labelSelector \<Rightarrow> infrastructure \<Rightarrow> 'k \<Rightarrow>
   verdict admission \<times> cpmsTemplate" where
  "validateTemplate cl cd ns path template sel infra k =
     (if machineType template = OpenShiftMachineV1Beta1MachineType
      then (let tmplPath = childPath path OpenShiftMachineV1Beta1MachineType
            in case openShiftMachine template of
                 None \<Rightarrow> (Inr ([], [machineTypeRequired tmplPath]), template)
               | Some tmpl \<Rightarrow>
                   (case validateOpenShiftMachineV1BetaTemplate cl cd ns tmplPath tmpl sel infra k of
                      (v, raw) \<Rightarrow> (v, template\<lparr>openShiftMachine := Some (withRaw raw tmpl)\<rparr>)))
      else (Inr ([], [FieldNotSupported (childPath path ''machineType'') OpenShiftMachineV1Beta1MachineType]), template))"

definition validateSpec ::
  "'k machineClient \<Rightarrow> codecs \<Rightarrow> string \<Rightarrow> cpms \<Rightarrow> infrastructure \<Rightarrow> 'k \<Rightarrow> verdict admission \<times> cpms" where
  "validateSpec cl cd path c infra k =
     (case validateTemplate cl cd (omNamespace (cpmsMeta c)) (childPath path ''template'')
             (cpmsTemplateOf (cpmsSpecOf c)) (cpmsSelector (cpmsSpecOf c)) infra k of
        (v, template) \<Rightarrow> (v, c\<lparr>cpmsSpecOf := (cpmsSpecOf c)\<lparr>cpmsTemplateOf := template\<rparr>\<rparr>))"

section \<open>The admission requests\<close>

definition validateMetadata :: "string \<Rightarrow> objectMeta \<Rightarrow> webhookError list" where
  "validateMetadata path meta =
     (if omName meta \<noteq> clusterSingletonName
      then [FieldInvalid (childPath path ''name'') ''control plane machine set name must be cluster''] else [])"

definition isLabelledControlPlane :: "machine \<Rightarrow> bool" where
  "isLabelledControlPlane m \<longleftrightarrow>
     labelAt (omLabels (mMeta m)) openshiftMachineRoleLabel = masterMachineRole \<and>
     labelAt (omLabels (mMeta m)) openshiftMachineTypeLabel = masterMachineRole"

definition fetchControlPlaneMachines :: "'k machineClient \<Rightarrow> 'k \<Rightarrow> machine list result" where
  "fetchControlPlaneMachines cl k =
     (case mcListMachines cl CachedClient (\<lambda>labels. True) k of
        Inl e \<Rightarrow> Inl (wrap ''error querying api for machines'' e)
      | Inr machines \<Rightarrow> Inr (filter isLabelledControlPlane machines))"

definition replicasMismatch :: "cpms \<Rightarrow> machine list \<Rightarrow> bool" where
  "replicasMismatch c machines \<longleftrightarrow>
     cpmsState (cpmsSpecOf c) = StateActive \<and>
     (case specReplicas (cpmsSpecOf c) of None \<Rightarrow> False | Some r \<Rightarrow> sint r \<noteq> int (length machines))"

definition validateSpecOnCreate ::
  "'k machineClient \<Rightarrow> codecs \<Rightarrow> string \<Rightarrow> cpms \<Rightarrow> infrastructure \<Rightarrow> 'k \<Rightarrow> verdict admission" where
  "validateSpecOnCreate cl cd path c infra k =
     (case fetchControlPlaneMachines cl k of
        Inl e \<Rightarrow> Inr ([], [PlainErr (wrap ''could not fetch existing control plane machines'' e)])
      | Inr machines \<Rightarrow>
          bothChecks
            (Inr ([], if replicasMismatch c machines
               then [FieldForbidden (childPath path ''replicas'')
                      (''control plane machine set replicas ('' @
                       showInt (case specReplicas (cpmsSpecOf c) of None \<Rightarrow> 0 | Some r \<Rightarrow> sint r) @
                       '') does not match the current number of control plane machines ('' @
                       showInt (int (length machines)) @ '')'')]
               else []))
            (validateTemplateOnCreate cd (childPath path ''template'') (cpmsTemplateOf (cpmsSpecOf c)) machines infra))"

text \<open>The object handed to the create checks is the one that validating the spec left behind.\<close>

definition ValidateCreate :: "'k machineClient \<Rightarrow> codecs \<Rightarrow> cpms \<Rightarrow> 'k \<Rightarrow> verdict admission" where
  "ValidateCreate cl cd c k =
     (case GetInfrastructure cl k of
        Inl e \<Rightarrow> Inr ([], [PlainErr (wrap ''error getting infrastructure resource'' e)])
      | Inr infra \<Rightarrow>
          (case validateSpec cl cd ''spec'' c infra k of
             (v, c') \<Rightarrow>
               bothChecks (Inr ([], validateMetadata ''metadata'' (cpmsMeta c)))
                 (bothChecks v (validateSpecOnCreate cl cd ''spec'' c' infra k))))"

definition shouldValidateSpecUpdate :: "cpms \<Rightarrow> cpms \<Rightarrow> bool" where
  "shouldValidateSpecUpdate old new \<longleftrightarrow>
     \<not> (omDeletionTimestamp (cpmsMeta new) \<noteq> None \<and>
        length (omFinalizers (cpmsMeta old)) > length (omFinalizers (cpmsMeta new)) \<and>
        length (omFinalizers (cpmsMeta new)) = 0)"

text \<open>\<^const>\<open>None\<close> is a nil old object.\<close>

definition ValidateUpdate :: "'k machineClient \<Rightarrow> codecs \<Rightarrow> cpms option \<Rightarrow> cpms \<Rightarrow> 'k \<Rightarrow> verdict admission" where
  "ValidateUpdate cl cd oldo c k =
     (case oldo of
        None \<Rightarrow> Inr ([], [PlainErr errUpdateNilCPMS])
      | Some old \<Rightarrow>
          if omDeletionTimestamp (cpmsMeta c) \<noteq> None \<and> cpmsState (cpmsSpecOf old) \<noteq> StateActive \<and>
             cpmsState (cpmsSpecOf c) = StateActive
          then Inr ([], [FieldForbidden (childPath ''spec'' ''state'')
                          ''control plane machine set with deletion timestamp cannot be activated''])
          else if \<not> shouldValidateSpecUpdate old c then Inr ([], [])
          else (case GetInfrastructure cl k of
                  Inl e \<Rightarrow> Inr ([], [PlainErr (wrap ''error getting infrastructure resource'' e)])
                | Inr infra \<Rightarrow>
                    bothChecks (Inr ([], validateMetadata ''metadata'' (cpmsMeta c)))
                      (fst (validateSpec cl cd ''spec'' c infra k))))"

definition ValidateDelete :: "cpms \<Rightarrow> verdict admission" where
  "ValidateDelete c = Inr ([], [])"

text \<open>A request is let through when its validation neither panics nor reports an error.\<close>

definition admitted :: "verdict admission \<Rightarrow> bool" where
  "admitted v = (case v of Inl e \<Rightarrow> False | Inr (ws, es) \<Rightarrow> es = [])"

end
