(* ===== verification/Provider_Config_Properties.thy ===== *)
theory Provider_Config_Properties
  imports Provider_Config
begin

text \<open>
  What injecting and extracting failure domains guarantee of a provider configuration, on every
  platform; what the comparison of configurations ignores; and where the shared memory of a
  configuration makes an injection leak into the next one.
\<close>

section \<open>References and failure domains of AWS\<close>

text \<open>A reference of the failure domain API with exactly the field of its type.\<close>

definition wellFormedReference :: "awsResourceReference \<Rightarrow> bool" where
  "wellFormedReference r \<longleftrightarrow>
     (awsRefType r = AWSIDReferenceType \<and> awsRefID r \<noteq> None \<and> awsRefARN r = None \<and> awsRefFilters r = None) \<or>
     (awsRefType r = AWSARNReferenceType \<and> awsRefID r = None \<and> awsRefARN r \<noteq> None \<and> awsRefFilters r = None) \<or>
     (awsRefType r = AWSFiltersReferenceType \<and> awsRefID r = None \<and> awsRefARN r = None \<and> awsRefFilters r \<noteq> None)"

lemmas aws_reference_defs =
  AWSIDReferenceType_def AWSARNReferenceType_def AWSFiltersReferenceType_def
  convertAWSResourceReferenceV1ToV1Beta1_def convertAWSResourceReferenceV1Beta1ToV1_def
  zeroBetaReference_def sliceOf_def

lemma aws_reference_roundtrip:
  assumes "wellFormedReference r"
  obtains b where "convertAWSResourceReferenceV1ToV1Beta1 (Some r) = Inr b"
    and "convertAWSResourceReferenceV1Beta1ToV1 b = Some r"
proof -
  have filters: "map ((\<lambda>f. \<lparr>filterName = bfName f, filterValues = bfValues f\<rparr>) \<circ>
      (\<lambda>f. \<lparr>bfName = filterName f, bfValues = filterValues f\<rparr>)) fs = fs" for fs
    by (rule map_idI) simp
  show ?thesis
    using assms filters
    by (intro that [of "projr (convertAWSResourceReferenceV1ToV1Beta1 (Some r))"])
      (cases r; auto simp: wellFormedReference_def aws_reference_defs)+
qed

lemma aws_inject_extract:
  assumes "\<forall>s. awsSubnet fd = Some s \<longrightarrow> wellFormedReference s"
  obtains a' where "awsInjectFailureDomain a fd = Inr a'"
    and "\<And>f. fdAws f = fd \<Longrightarrow> completeAWS f (awsExtractFailureDomain a) = NewAWSFailureDomain (awsExtractFailureDomain a')"
proof (cases "awsSubnet fd")
  case None
  then show ?thesis
    by (intro that [of "projr (awsInjectFailureDomain a fd)"])
      (auto simp: awsInjectFailureDomain_def completeAWS_def awsExtractFailureDomain_def Let_def)
next
  case (Some s)
  with assms obtain b where "convertAWSResourceReferenceV1ToV1Beta1 (Some s) = Inr b"
    "convertAWSResourceReferenceV1Beta1ToV1 b = Some s"
    using aws_reference_roundtrip by blast
  with Some show ?thesis
    by (intro that [of "projr (awsInjectFailureDomain a fd)"])
      (auto simp: awsInjectFailureDomain_def completeAWS_def awsExtractFailureDomain_def Let_def)
qed

section \<open>Failure domains of the other platforms\<close>

lemma azure_inject_extract:
  "completeAzure f (azureExtractFailureDomain a) =
     NewAzureFailureDomain (azureExtractFailureDomain (azureInjectFailureDomain a (fdAzure f)))"
  by (simp add: completeAzure_def azureExtractFailureDomain_def azureInjectFailureDomain_def)

lemma gcp_inject_extract:
  "completeGCP f (gcpExtractFailureDomain g) =
     NewGCPFailureDomain (gcpExtractFailureDomain (gcpInjectFailureDomain g (fdGcp f)))"
  by (simp add: completeGCP_def gcpExtractFailureDomain_def gcpInjectFailureDomain_def)

text \<open>A root volume of a failure domain needs a root volume in the configuration to go into.\<close>

lemma openstack_inject_extract:
  assumes "\<forall>v. osRootVolume (fdOpenstack f) = Some v \<longrightarrow>
      ospRootVolume a \<noteq> None \<and> (rvAvailabilityZone v \<noteq> '''' \<or> rvVolumeType v \<noteq> '''')"
  shows "completeOpenStack f (openstackExtractFailureDomain a) =
     NewOpenStackFailureDomain (openstackExtractFailureDomain (fst (openstackInjectFailureDomain a (fdOpenstack f))))"
proof (cases "osRootVolume (fdOpenstack f)")
  case None
  then show ?thesis
    by (simp add: completeOpenStack_def openstackExtractFailureDomain_def openstackInjectFailureDomain_def
        openstackInjectRootVolume_def Let_def split: option.splits)
next
  case (Some v)
  with assms obtain w where "ospRootVolume a = Some w" "rvAvailabilityZone v \<noteq> '''' \<or> rvVolumeType v \<noteq> ''''"
    by auto
  with Some show ?thesis
    by (cases v) (auto simp: completeOpenStack_def openstackExtractFailureDomain_def
        openstackInjectFailureDomain_def openstackInjectRootVolume_def Let_def)
qed

lemma nutanix_inject_extract:
  assumes "nxName (fdNutanix f) \<noteq> '''' \<longrightarrow> (\<exists>d. GetFailureDomainByName n (nxName (fdNutanix f)) = Inr d)"
    and "nutanixExtractFailureDomain n = Inr t"
  obtains n' t' where "nutanixInjectFailureDomain n (fdNutanix f) = Inr n'"
    and "nutanixExtractFailureDomain n' = Inr t'" and "completeNutanix f t = NewNutanixFailureDomain t'"
proof (cases "nxName (fdNutanix f) = ''''")
  case True
  with assms show ?thesis
    by (intro that [of n t]) (auto simp: nutanixInjectFailureDomain_def completeNutanix_def)
next
  case False
  with assms(1) obtain d where d: "GetFailureDomainByName n (nxName (fdNutanix f)) = Inr d" by blast
  then have name: "nfdName d = nxName (fdNutanix f)"
    using False by (auto simp: GetFailureDomainByName_def find_Some_iff split: option.splits)
  have same: "GetFailureDomainByName (n\<lparr>npcConfig := c\<rparr>) nm = GetFailureDomainByName n nm" for c nm
    by (simp add: GetFailureDomainByName_def)
  show ?thesis
    using False d name
    by (intro that) (auto simp: nutanixInjectFailureDomain_def nutanixExtractFailureDomain_def same
        completeNutanix_def)
qed

text \<open>
  What the extraction compares of a vSphere failure domain. An injection writes these very values when
  the topology names its resource pool.
\<close>

definition placementKey :: "vspherePlatformFailureDomain \<Rightarrow> string \<times> string \<times> string \<times> string \<times> string" where
  "placementKey d =
     (topDatacenter (vfdTopology d), topDatastore (vfdTopology d), vfdServer d, vmGroupOf d,
      pathClean (topResourcePool (vfdTopology d)))"

lemma vsphereMatches_workspace:
  assumes "topResourcePool (vfdTopology d) \<noteq> ''''"
  shows "vsphereMatches (getWorkspaceFromFailureDomain name d) d' \<longleftrightarrow> placementKey d' = placementKey d"
  using assms by (auto simp: vsphereMatches_def getWorkspaceFromFailureDomain_def placementKey_def Let_def)

lemma find_key_distinct:
  assumes "distinct (map k xs)" and "x \<in> set xs"
  shows "find (\<lambda>y. k y = k x) xs = Some x"
  using assms by (induction xs) (auto simp: image_iff)

lemma vsphere_inject_extract:
  assumes "vpcInfrastructure v = Some infra" and "infSpecType infra = VSpherePlatformType"
    and "distinct (map placementKey (sliceOf (infVSphere infra)))"
    and "d \<in> set (sliceOf (infVSphere infra))" and "topResourcePool (vfdTopology d) \<noteq> ''''"
    and "distinct (map vfdName (sliceOf (infVSphere infra)))"
    and "vsName (fdVsphere f) = vfdName d" and "vfdName d \<noteq> ''''"
  obtains v' self where "vsphereInjectFailureDomain v (fdVsphere f) = (Inr v', self)"
    and "vsphereExtractFailureDomain v' = Inr \<lparr>vsName = vfdName d\<rparr>"
    and "\<And>t. completeVSphere f t = NewVSphereFailureDomain \<lparr>vsName = vfdName d\<rparr>"
proof -
  let ?fds = "sliceOf (infVSphere infra)"
  have "find (\<lambda>x. vfdName x = vsName (fdVsphere f)) ?fds = Some d"
    using find_key_distinct [OF assms(6,4)] assms(7) by simp
  then have g: "getFailureDomainFromInfrastructure v (fdVsphere f) = Inr d"
    using assms(1) by (simp add: getFailureDomainFromInfrastructure_def)
  obtain v' self where i: "vsphereInjectFailureDomain v (fdVsphere f) = (Inr v', self)"
    and ws: "vspWorkspace (vpcConfig v') = Some (getWorkspaceFromFailureDomain (infInfrastructureName infra) d)"
    and inf: "vpcInfrastructure v' = Some infra"
    using g assms(1) by (auto simp: vsphereInjectFailureDomain_def Let_def)
  have "find (vsphereMatches (getWorkspaceFromFailureDomain (infInfrastructureName infra) d)) ?fds = Some d"
    using find_key_distinct [OF assms(3,4)] vsphereMatches_workspace [OF assms(5)] by (simp cong: find_cong)
  then have "vsphereExtractFailureDomain v' = Inr \<lparr>vsName = vfdName d\<rparr>"
    using ws inf assms(2) by (simp add: vsphereExtractFailureDomain_def)
  moreover have "completeVSphere f t = NewVSphereFailureDomain \<lparr>vsName = vfdName d\<rparr>" for t
    using assms(7,8) by (cases t) (simp add: completeVSphere_def)
  ultimately show ?thesis using i by (intro that) auto
qed

section \<open>Injection and extraction\<close>

text \<open>
  When a failure domain can be injected: AWS subnets are well formed; an OpenStack root volume sets
  something and the configuration has a root volume; a Nutanix name, if any, is defined in the
  infrastructure; a vSphere domain is one of the infrastructure, which lists its domains with distinct
  names and placements and a resource pool for this one.
\<close>

definition injectable :: "providerConfig \<Rightarrow> failureDomain \<Rightarrow> bool" where
  "injectable p fd \<longleftrightarrow>
     (if pcType p = AWSPlatformType
      then (case awsSubnet (fdAws fd) of None \<Rightarrow> True | Some s \<Rightarrow> wellFormedReference s)
      else if pcType p = OpenStackPlatformType
      then (case osRootVolume (fdOpenstack fd) of None \<Rightarrow> True
            | Some v \<Rightarrow> ospRootVolume (pcOpenStack p) \<noteq> None \<and>
                (rvAvailabilityZone v \<noteq> '''' \<or> rvVolumeType v \<noteq> ''''))
      else if pcType p = NutanixPlatformType
      then nxName (fdNutanix fd) = '''' \<or> \<not> isl (GetFailureDomainByName (pcNutanix p) (nxName (fdNutanix fd)))
      else if pcType p = VSpherePlatformType
      then (case vpcInfrastructure (pcVSphere p) of
              None \<Rightarrow> False
            | Some infra \<Rightarrow>
                infSpecType infra = VSpherePlatformType \<and>
                distinct (map vfdName (sliceOf (infVSphere infra))) \<and>
                distinct (map placementKey (sliceOf (infVSphere infra))) \<and>
                vsName (fdVsphere fd) \<noteq> '''' \<and>
                list_ex (\<lambda>d. vfdName d = vsName (fdVsphere fd) \<and> topResourcePool (vfdTopology d) \<noteq> '''')
                  (sliceOf (infVSphere infra)))
      else pcType p = AzurePlatformType \<or> pcType p = GCPPlatformType)"

lemma injectable_cases:
  assumes "injectable p fd"
  obtains (aws) "pcType p = AWSPlatformType" | (azure) "pcType p = AzurePlatformType"
    | (gcp) "pcType p = GCPPlatformType" | (openstack) "pcType p = OpenStackPlatformType"
    | (nutanix) "pcType p = NutanixPlatformType" | (vsphere) "pcType p = VSpherePlatformType"
  using assms by (auto simp: injectable_def split: if_splits)

lemma inject_completes_vsphere:
  assumes "injectable p fd" and "platformType fd = pcType p" and ty: "pcType p = VSpherePlatformType"
    and "ExtractFailureDomain p = Inr (Some t)"
  shows "\<exists>p' c. fst (InjectFailureDomain p (Some fd)) = Inr p' \<and> Complete fd (Some t) = Inr c \<and>
           ExtractFailureDomain p' = Inr (Some c)"
proof -
  from assms(1) ty obtain infra where infra: "vpcInfrastructure (pcVSphere p) = Some infra"
    by (auto simp: injectable_def platform_defs split: option.splits)
  from assms(1) ty infra obtain d where d: "d \<in> set (sliceOf (infVSphere infra))"
      "vfdName d = vsName (fdVsphere fd)" "topResourcePool (vfdTopology d) \<noteq> ''''"
    by (auto simp: injectable_def platform_defs list_ex_iff)
  have i: "infSpecType infra = VSpherePlatformType" "distinct (map vfdName (sliceOf (infVSphere infra)))"
    "distinct (map placementKey (sliceOf (infVSphere infra)))" "vfdName d \<noteq> ''''"
    using assms(1) ty infra d(2) by (auto simp: injectable_def platform_defs)
  from vsphere_inject_extract [OF infra i(1,3) d(1,3) i(2) d(2) [symmetric] i(4)]
  obtain v' self where v: "vsphereInjectFailureDomain (pcVSphere p) (fdVsphere fd) = (Inr v', self)"
    "vsphereExtractFailureDomain v' = Inr \<lparr>vsName = vfdName d\<rparr>"
    "\<And>s. completeVSphere fd s = NewVSphereFailureDomain \<lparr>vsName = vfdName d\<rparr>" by blast
  from assms(4) ty have "platformType t = VSpherePlatformType"
    by (cases "vsphereExtractFailureDomain (pcVSphere p)")
      (auto simp: ExtractFailureDomain_def platform_defs NewVSphereFailureDomain_def)
  with v ty assms(2) show ?thesis
    by (simp add: InjectFailureDomain_def ExtractFailureDomain_def Complete_def platform_defs)
qed

lemma inject_extract_completes_core:
  assumes "injectable p fd" and "platformType fd = pcType p" and "ExtractFailureDomain p = Inr (Some t)"
  shows "\<exists>p' c. fst (InjectFailureDomain p (Some fd)) = Inr p' \<and> Complete fd (Some t) = Inr c \<and>
           ExtractFailureDomain p' = Inr (Some c)"
  using assms(1)
proof (cases rule: injectable_cases)
  case aws
  with assms(1) have "\<forall>s. awsSubnet (fdAws fd) = Some s \<longrightarrow> wellFormedReference s"
    by (auto simp: injectable_def)
  from aws_inject_extract [OF this, of "pcAWS p"] obtain a' where
    "awsInjectFailureDomain (pcAWS p) (fdAws fd) = Inr a'"
    "completeAWS fd (awsExtractFailureDomain (pcAWS p)) = NewAWSFailureDomain (awsExtractFailureDomain a')"
    by blast
  with aws assms(2,3) show ?thesis
    by (auto simp: InjectFailureDomain_def ExtractFailureDomain_def Complete_def NewAWSFailureDomain_def)
next
  case azure
  with assms(2,3) show ?thesis
    using azure_inject_extract [of fd "pcAzure p"]
    by (auto simp: InjectFailureDomain_def ExtractFailureDomain_def Complete_def platform_defs
        NewAzureFailureDomain_def)
next
  case gcp
  with assms(2,3) show ?thesis
    using gcp_inject_extract [of fd "pcGCP p"]
    by (auto simp: InjectFailureDomain_def ExtractFailureDomain_def Complete_def platform_defs
        NewGCPFailureDomain_def)
next
  case openstack
  then have "\<forall>v. osRootVolume (fdOpenstack fd) = Some v \<longrightarrow>
      ospRootVolume (pcOpenStack p) \<noteq> None \<and> (rvAvailabilityZone v \<noteq> '''' \<or> rvVolumeType v \<noteq> '''')"
    using assms(1) by (auto simp: injectable_def platform_defs)
  from openstack_inject_extract [OF this] openstack assms(2,3) show ?thesis
    by (auto simp: InjectFailureDomain_def ExtractFailureDomain_def Complete_def platform_defs
        NewOpenStackFailureDomain_def split: prod.splits)
next
  case nutanix
  with assms(1) have n: "nxName (fdNutanix fd) \<noteq> '''' \<longrightarrow>
      (\<exists>d. GetFailureDomainByName (pcNutanix p) (nxName (fdNutanix fd)) = Inr d)"
    by (auto simp: injectable_def platform_defs isl_def split: sum.splits) (metis sum.exhaust)
  from nutanix assms(3) obtain t' where t: "nutanixExtractFailureDomain (pcNutanix p) = Inr t'"
      "t = NewNutanixFailureDomain t'"
    by (cases "nutanixExtractFailureDomain (pcNutanix p)") (auto simp: ExtractFailureDomain_def platform_defs)
  from nutanix_inject_extract [OF n t(1)] obtain n' t'' where
    "nutanixInjectFailureDomain (pcNutanix p) (fdNutanix fd) = Inr n'"
    "nutanixExtractFailureDomain n' = Inr t''" "completeNutanix fd t' = NewNutanixFailureDomain t''" .
  with nutanix assms(2) t(2) show ?thesis
    by (simp add: InjectFailureDomain_def ExtractFailureDomain_def Complete_def platform_defs
        NewNutanixFailureDomain_def)
next
  case vsphere
  then show ?thesis using assms by (intro inject_completes_vsphere)
qed

text \<open>
  C20: what is injected is what is read back. When a failure domain of the platform can be injected,
  injecting it into a configuration succeeds, and the failure domain read from the new configuration is
  the injected one completed with the one of the original configuration: the operation by which the
  index mapping makes domains comparable. On Azure and GCP every domain can be injected; on AWS one
  whose subnet, if any, is a well formed reference; on OpenStack one whose root volume, if any, sets a zone
  or a type, and then only into a configuration with a root volume; on Nutanix one whose name, if any,
  the Infrastructure object knows; on vSphere one that the Infrastructure object names and gives a
  resource pool, where the names and the placements of its domains differ.
\<close>

theorem inject_extract_completes:
  assumes "injectable p fd" and "platformType fd = pcType p" and "ExtractFailureDomain p = Inr (Some t)"
  shows "\<exists>p' c. fst (InjectFailureDomain p (Some fd)) = Inr p' \<and> Complete fd (Some t) = Inr c \<and>
           ExtractFailureDomain p' = Inr (Some c)"
  by (rule inject_extract_completes_core [OF assms])

definition simAwsConfig :: "string \<Rightarrow> string \<Rightarrow> providerConfig" where
  "simAwsConfig zone subnet =
     zeroProviderConfig\<lparr>pcType := AWSPlatformType,
       pcAWS := \<lparr>awsAMI = zeroBetaReference\<lparr>betaID := Some ''ami-1''\<rparr>, awsPlacementZone = zone,
                 awsConfigSubnet = zeroBetaReference\<lparr>betaID := Some subnet\<rparr>, awsOther = ''m6i''\<rparr>\<rparr>"

theorem inject_extract_completes_witness:
  "\<exists>p' c. fst (InjectFailureDomain (simAwsConfig ''us-east-1a'' ''subnet-a'')
        (Some (NewAWSFailureDomain \<lparr>awsSubnet = None, awsAvailabilityZone = ''us-east-1b''\<rparr>))) = Inr p' \<and>
     ExtractFailureDomain p' = Inr (Some c) \<and> awsAvailabilityZone (fdAws c) = ''us-east-1b'' \<and>
     awsSubnet (fdAws c) = Some \<lparr>awsRefType = ''ID'', awsRefID = Some ''subnet-a'', awsRefARN = None, awsRefFilters = None\<rparr>"
proof -
  let ?p = "simAwsConfig ''us-east-1a'' ''subnet-a''"
  let ?fd = "NewAWSFailureDomain \<lparr>awsSubnet = None, awsAvailabilityZone = ''us-east-1b''\<rparr>"
  have i: "injectable ?p ?fd" by code_simp
  have p: "platformType ?fd = pcType ?p" by code_simp
  obtain t where t: "ExtractFailureDomain ?p = Inr (Some t)"
    by (simp add: ExtractFailureDomain_def simAwsConfig_def)
  from inject_extract_completes [OF i p t] obtain p' c where
    r: "fst (InjectFailureDomain ?p (Some ?fd)) = Inr p'" "Complete ?fd (Some t) = Inr c"
      "ExtractFailureDomain p' = Inr (Some c)" by blast
  have "case ExtractFailureDomain ?p of Inr (Some t) \<Rightarrow>
      (case Complete ?fd (Some t) of Inr c \<Rightarrow> awsAvailabilityZone (fdAws c) = ''us-east-1b'' \<and>
         awsSubnet (fdAws c) = Some \<lparr>awsRefType = ''ID'', awsRefID = Some ''subnet-a'', awsRefARN = None,
           awsRefFilters = None\<rparr> | _ \<Rightarrow> False) | _ \<Rightarrow> False" by code_simp
  with t r show ?thesis by auto
qed

text \<open>
  Where a domain cannot be injected, what is read back is another domain, and no error says so. An
  OpenStack root volume is dropped when the configuration has none. A vSphere domain whose resource pool
  the Infrastructure object leaves out is written with the pool of its compute cluster, which the
  extraction does not expect: the machine reads as being in no domain.
\<close>

definition readBack :: "providerConfig \<Rightarrow> failureDomain \<Rightarrow> failureDomain result" where
  "readBack p fd =
     (case fst (InjectFailureDomain p (Some fd)) of
        Inl e \<Rightarrow> Inl e
      | Inr q \<Rightarrow> (case ExtractFailureDomain q of Inl e \<Rightarrow> Inl e | Inr None \<Rightarrow> Inl nilDereference | Inr (Some c) \<Rightarrow> Inr c))"

lemma root_volume_dropped:
  "let p = zeroProviderConfig\<lparr>pcType := OpenStackPlatformType,
         pcOpenStack := (pcOpenStack zeroProviderConfig)\<lparr>ospAvailabilityZone := ''az0''\<rparr>\<rparr>;
       fd = NewOpenStackFailureDomain \<lparr>osAvailabilityZone = ''az1'',
         osRootVolume = Some \<lparr>rvAvailabilityZone = ''cinder1'', rvVolumeType = ''fast''\<rparr>\<rparr>
   in readBack p fd = Inr (NewOpenStackFailureDomain \<lparr>osAvailabilityZone = ''az1'', osRootVolume = None\<rparr>) \<and>
      Complete fd (Some (NewOpenStackFailureDomain (openstackExtractFailureDomain (pcOpenStack p)))) = Inr fd"
  by code_simp

definition simVSphereDomain :: "string \<Rightarrow> vspherePlatformFailureDomain" where
  "simVSphereDomain pool =
     \<lparr>vfdName = ''z1'', vfdRegion = ''r'', vfdZone = ''z1'', vfdServer = ''vc'',
      vfdTopology = \<lparr>topDatacenter = ''dc'', topComputeCluster = ''/dc/host/c1'', topNetworks = [''net''],
        topDatastore = ''/dc/datastore/d1'', topResourcePool = pool, topFolder = '''', topTemplate = ''''\<rparr>,
      vfdZoneAffinity = None\<rparr>"

definition simVSphere :: "string \<Rightarrow> providerConfig" where
  "simVSphere pool =
     zeroProviderConfig\<lparr>pcType := VSpherePlatformType,
       pcVSphere := (pcVSphere zeroProviderConfig)\<lparr>vpcInfrastructure :=
         Some \<lparr>infInfrastructureName = ''c'', infPlatformStatus = Some VSpherePlatformType, infSpecType = VSpherePlatformType,
           infVSphere = Some [simVSphereDomain pool], infNutanix = None\<rparr>\<rparr>\<rparr>"

lemma pool_left_out:
  "let fd = NewVSphereFailureDomain \<lparr>vsName = ''z1''\<rparr>
   in readBack (simVSphere ''/dc/host/c1/Resources/p'') fd = Inr fd \<and>
      readBack (simVSphere '''') fd = Inr (NewVSphereFailureDomain \<lparr>vsName = ''''\<rparr>)"
  by code_simp

section \<open>Comparison\<close>

text \<open>
  What \<^verbatim>\<open>deep.Equal\<close> promises on each type it is used at: it reports a difference exactly for different
  values.
\<close>

definition deepComparison :: "('c \<Rightarrow> 'c \<Rightarrow> string list) \<Rightarrow> bool" where
  "deepComparison diff \<longleftrightarrow> (\<forall>x y. diff x y = [] \<longleftrightarrow> x = y)"

definition deepComparisons :: "codecs \<Rightarrow> bool" where
  "deepComparisons cd \<longleftrightarrow>
     deepComparison (codecDeep (cdAWS cd)) \<and> deepComparison (codecDeep (cdAzure cd)) \<and>
     deepComparison (codecDeep (cdGCP cd)) \<and> deepComparison (codecDeep (cdNutanix cd)) \<and>
     deepComparison (codecDeep (cdOpenStack cd)) \<and> deepComparison (codecDeep (cdVSphere cd)) \<and>
     deepComparison (cdRawDeep cd)"

text \<open>
  Configurations that need no rollout, field by field: on AWS, Azure and GCP the boot images may
  differ, on vSphere the directory of the template may.
\<close>

definition sameMachine :: "providerConfig \<Rightarrow> providerConfig \<Rightarrow> bool" where
  "sameMachine p q \<longleftrightarrow>
     (if pcType p = AWSPlatformType
      then awsPlacementZone (pcAWS p) = awsPlacementZone (pcAWS q) \<and>
           awsConfigSubnet (pcAWS p) = awsConfigSubnet (pcAWS q) \<and> awsOther (pcAWS p) = awsOther (pcAWS q)
      else if pcType p = AzurePlatformType
      then azureExtractFailureDomain (pcAzure p) = azureExtractFailureDomain (pcAzure q) \<and>
           azureInternalLoadBalancer (pcAzure p) = azureInternalLoadBalancer (pcAzure q) \<and>
           azureOther (pcAzure p) = azureOther (pcAzure q)
      else if pcType p = GCPPlatformType
      then gcpConfigZone (pcGCP p) = gcpConfigZone (pcGCP q) \<and> gcpTargetPools (pcGCP p) = gcpTargetPools (pcGCP q) \<and> gcpOther (pcGCP p) = gcpOther (pcGCP q) \<and>
           map_option (map diskOther) (gcpDisks (pcGCP p)) = map_option (map diskOther) (gcpDisks (pcGCP q))
      else if pcType p = NutanixPlatformType then npcConfig (pcNutanix p) = npcConfig (pcNutanix q)
      else if pcType p = OpenStackPlatformType then pcOpenStack p = pcOpenStack q
      else if pcType p = VSpherePlatformType
      then (let v = vpcConfig (pcVSphere p); w = vpcConfig (pcVSphere q)
            in vspWorkspace v = vspWorkspace w \<and> vspDevices v = vspDevices w \<and> vspOther v = vspOther w \<and>
               afterLast (CHR ''/'') (vspTemplate v) = afterLast (CHR ''/'') (vspTemplate w))
      else pcGeneric p = pcGeneric q)"

lemma getTemplateName_eq: "getTemplateName s = afterLast (CHR ''/'') s"
proof (cases "CHR ''/'' \<in> set s")
  case False
  then have "takeWhile (\<lambda>x. x \<noteq> CHR ''/'') (rev s) = rev s"
    by (auto simp: takeWhile_eq_all_conv)
  with False show ?thesis by (simp only: getTemplateName_def afterLast_def rev_rev_ident if_False)
qed (simp add: getTemplateName_def)

lemma blankImages_eq_iff:
  "blankImages g = blankImages h \<longleftrightarrow>
     gcpConfigZone g = gcpConfigZone h \<and> gcpTargetPools g = gcpTargetPools h \<and> gcpOther g = gcpOther h \<and>
     map_option (map diskOther) (gcpDisks g) = map_option (map diskOther) (gcpDisks h)"
proof -
  have disk: "d\<lparr>diskImage := z\<rparr> = e\<lparr>diskImage := z\<rparr> \<longleftrightarrow> diskOther d = diskOther e" for d e :: gcpDisk and z
    by (cases d; cases e) simp
  have "map (\<lambda>d. d\<lparr>diskImage := ''''\<rparr>) xs = map (\<lambda>d. d\<lparr>diskImage := ''''\<rparr>) ys \<longleftrightarrow>
      map diskOther xs = map diskOther ys" for xs ys :: "gcpDisk list"
    by (induction xs arbitrary: ys; case_tac ys) (auto simp: disk)
  then show ?thesis
    by (cases g; cases h) (auto simp: blankImages_def map_option_case split: option.splits)
qed

lemma diff_ignores_images_core:
  assumes "deepComparisons cd" and "pcType p = pcType q" and "pcType p \<noteq> NonePlatformType"
  shows "\<exists>ds. pcDiff cd p (Some q) = Inr ds \<and> (ds = [] \<longleftrightarrow> sameMachine p q)"
proof -
  have aws: "a\<lparr>awsAMI := z\<rparr> = b\<lparr>awsAMI := z\<rparr> \<longleftrightarrow> awsPlacementZone a = awsPlacementZone b \<and>
      awsConfigSubnet a = awsConfigSubnet b \<and> awsOther a = awsOther b" for a b :: awsMachineProviderConfig and z
    by (cases a; cases b) simp
  have azure: "a\<lparr>azureImage := z\<rparr> = b\<lparr>azureImage := z\<rparr> \<longleftrightarrow>
      azureExtractFailureDomain a = azureExtractFailureDomain b \<and>
      azureInternalLoadBalancer a = azureInternalLoadBalancer b \<and> azureOther a = azureOther b" for a b z
    by (cases a; cases b) (auto simp: azureExtractFailureDomain_def)
  have vsphere: "vsphereDiff cd v w = [] \<longleftrightarrow> vspWorkspace v = vspWorkspace w \<and> vspDevices v = vspDevices w \<and>
      vspOther v = vspOther w \<and> afterLast (CHR ''/'') (vspTemplate v) = afterLast (CHR ''/'') (vspTemplate w)" for v w
    using assms(1) by (cases v; cases w) (auto simp: vsphereDiff_def getTemplateName_eq deepComparisons_def
        deepComparison_def)
  show ?thesis
    using assms
    by (auto simp: pcDiff_def sameMachine_def awsDiff_def azureDiff_def gcpDiff_def aws azure vsphere
        blankImages_eq_iff deepComparisons_def deepComparison_def Let_def)
qed

text \<open>
  C26: when machines count as different. For two configurations of the same supported platform the
  comparison succeeds, and it reports no difference exactly when they agree on everything but the boot
  images (AWS, Azure, GCP) and the directory part of the template (vSphere).
\<close>

theorem diff_ignores_images:
  assumes "deepComparisons cd" and "pcType p = pcType q" and "pcType p \<noteq> NonePlatformType"
  shows "\<exists>ds. pcDiff cd p (Some q) = Inr ds \<and> (ds = [] \<longleftrightarrow> sameMachine p q)"
  by (rule diff_ignores_images_core [OF assms])

definition simDeep :: "'c \<Rightarrow> 'c \<Rightarrow> string list" where
  "simDeep x y = (if x = y then [] else [''differ''])"

text \<open>
  A concrete codec for evaluations: each platform has one document, the empty one decodes to a given
  specification and every other text is rejected; the comparison reports one difference.
\<close>

definition simCodec :: "'c \<Rightarrow> 'c platformCodec" where
  "simCodec zero =
     \<lparr>codecStrict = (\<lambda>raw. (if raw = '''' then None else Some (ErrNew ''unknown field''), zero)),
      codecJson = (\<lambda>raw c. (if raw = '''' then None else Some (ErrNew ''invalid''), c)),
      codecMarshal = (\<lambda>c. Inr ''''), codecDeep = simDeep\<rparr>"

definition simCodecs :: codecs where
  "simCodecs =
     (let z = zeroProviderConfig
      in \<lparr>kindOf = (\<lambda>raw. Inr ''AWSMachineProviderConfig''), cdAWS = simCodec (pcAWS z),
          cdAzure = simCodec (pcAzure z), cdGCP = simCodec (pcGCP z), cdNutanix = simCodec (npcConfig (pcNutanix z)),
          cdOpenStack = simCodec (pcOpenStack z), cdVSphere = simCodec (vpcConfig (pcVSphere z)),
          cdRawDeep = simDeep\<rparr>)"

lemma deepComparisons_sim: "deepComparisons simCodecs"
  by (simp add: deepComparisons_def deepComparison_def simCodecs_def simCodec_def simDeep_def Let_def)

theorem diff_ignores_images_witness:
  "pcDiff simCodecs (simAwsConfig ''us-east-1a'' ''subnet-a'')
     (Some ((simAwsConfig ''us-east-1a'' ''subnet-a'')\<lparr>pcAWS := (pcAWS (simAwsConfig ''us-east-1a'' ''subnet-a''))
        \<lparr>awsAMI := zeroBetaReference\<rparr>\<rparr>)) = Inr []"
proof -
  let ?p = "simAwsConfig ''us-east-1a'' ''subnet-a''"
  let ?q = "?p\<lparr>pcAWS := (pcAWS ?p)\<lparr>awsAMI := zeroBetaReference\<rparr>\<rparr>"
  have "pcType ?p = pcType ?q" "pcType ?p \<noteq> NonePlatformType" by code_simp+
  from diff_ignores_images [OF deepComparisons_sim this] obtain ds where
    "pcDiff simCodecs ?p (Some ?q) = Inr ds" "ds = [] \<longleftrightarrow> sameMachine ?p ?q" by blast
  moreover have "sameMachine ?p ?q" by code_simp
  ultimately show ?thesis by simp
qed

section \<open>Shared memory\<close>

definition simOpenStack :: providerConfig where
  "simOpenStack = zeroProviderConfig\<lparr>pcType := OpenStackPlatformType,
     pcOpenStack := \<lparr>ospServerGroupName = ''sg'', ospAdditionalBlockDevices = None, ospAvailabilityZone = ''az0'',
       ospRootVolume = Some \<lparr>orvZone = ''cinder0'', orvVolumeType = '''', orvOther = ''30''\<rparr>, ospOther = ''m1''\<rparr>\<rparr>"

definition simOpenStackDomain :: "string \<Rightarrow> string \<Rightarrow> failureDomain" where
  "simOpenStackDomain az vt = NewOpenStackFailureDomain \<lparr>osAvailabilityZone = az,
     osRootVolume = Some \<lparr>rvAvailabilityZone = az, rvVolumeType = vt\<rparr>\<rparr>"

text \<open>
  An OpenStack injection changes its receiver, although the result is documented as a copy: after
  injecting a domain with a volume type, a second injection of a domain without one into the same
  configuration yields a machine with the first domain's volume type, which it would not have had
  on its own.
\<close>

lemma openstack_injection_leaks:
  "let a = simOpenStackDomain ''az1'' ''fast''; b = simOpenStackDomain ''az2'' '''';
       alone = fst (InjectFailureDomain simOpenStack (Some b));
       second = fst (InjectFailureDomain (snd (InjectFailureDomain simOpenStack (Some a))) (Some b));
       volumeType = (\<lambda>r. case r of Inl e \<Rightarrow> None | Inr p \<Rightarrow> map_option orvVolumeType (ospRootVolume (pcOpenStack p)))
   in volumeType alone = Some '''' \<and> volumeType second = Some ''fast''"
  by code_simp

section \<open>Types of configurations and failure domains\<close>

lemma kind_platform_not_none: "getPlatformTypeFromProviderSpecKind kind \<noteq> NonePlatformType"
  by (simp add: getPlatformTypeFromProviderSpecKind_def platform_defs)

lemma newProviderConfig_type:
  "newProviderConfigFromProviderSpec cd spec platform infra = Inr p \<Longrightarrow>
     pcType p = platform \<and> platform \<noteq> NonePlatformType"
  by (auto simp: newProviderConfigFromProviderSpec_def newAWSProviderConfig_def newAzureProviderConfig_def
      newGCPProviderConfig_def newNutanixProviderConfig_def newOpenStackProviderConfig_def newVSphereProviderConfig_def
      newGenericProviderConfig_def platform_defs split: option.splits sum.splits if_splits)

lemma map_sum_Inr_iff: "map_sum id f x = Inr r \<longleftrightarrow> (\<exists>y. x = Inr y \<and> r = f y)"
  by (cases x) auto

lemma ExtractFailureDomain_type:
  "ExtractFailureDomain p = Inr r \<Longrightarrow> pcType p \<noteq> NonePlatformType \<Longrightarrow>
     \<exists>fd. r = Some fd \<and> platformType fd = (if pcType p \<in> set supportedPlatforms then pcType p else '''')"
  by (auto simp: ExtractFailureDomain_def supportedPlatforms_def genericExtractFailureDomain_def
      NewGenericFailureDomain_def map_sum_Inr_iff split: if_splits)

lemma InjectFailureDomain_type:
  "InjectFailureDomain p fd = (r, self) \<Longrightarrow> pcType self = pcType p \<and> (\<forall>q. r = Inr q \<longrightarrow> pcType q = pcType p)"
  by (auto simp: InjectFailureDomain_def split: option.splits if_splits sum.splits prod.splits)



end
