(* ===== verification/Machine_Provider_Properties.thy ===== *)
theory Machine_Provider_Properties
  imports Machine_Provider Provider_Config_Properties Provider_Contract
begin

text \<open>
  What the OpenShift machine provider promises to the reconciler: the machines it creates carry their
  index and failure domain, the information it gathers describes the machines as they are, reading
  changes nothing in the cluster, and what the shared template does to repeated readings.
\<close>

section \<open>Names and indexes\<close>

lemma parse_showInt:
  assumes "0 \<le> i" and "i < 2 ^ 31"
  shows "parseInt32 (afterLast (CHR ''-'') (s @ ''-'' @ showInt i)) = Some i"
proof -
  have "showInt i = showNat (nat i)" using assms(1) by (simp add: showInt_def)
  moreover have "CHR ''-'' \<notin> set (showNat (nat i))" by (rule digits_no_dash [OF showNat_digits])
  moreover have "parseInt32 (showNat (nat i)) = Some i"
    using assms parseInt32_showNat [of "nat i"] by simp
  ultimately show ?thesis by (simp add: afterLast_append)
qed

lemma getMachineName_index:
  assumes "getMachineName cl m i k = (Inr name, k')" and "0 \<le> i" and "i < 2 ^ 31"
  shows "parseInt32 (afterLast (CHR ''-'') name) = Some i"
proof -
  obtain s where "name = s @ ''-'' @ showInt i"
    using assms(1) by (auto simp: getMachineName_def split: if_splits option.splits prod.splits)
  with parse_showInt [OF assms(2,3)] show ?thesis by simp
qed

section \<open>Creation\<close>

lemma storeRaw_simps [simp]:
  "pwCluster (storeRaw raw w) = pwCluster w" "pwTemplateRaw (storeRaw raw w) = Some raw"
  "\<not> genericPlatform (pcType (pwConfig w)) \<Longrightarrow> pwConfig (storeRaw raw w) = pwConfig w"
  by (simp_all add: storeRaw_def Let_def)

lemma upsertOwnerRef_Nil: "omOwnerReferences (emptyMeta\<lparr>omName := n, omNamespace := ns, omAnnotations := a, omLabels := l\<rparr>) = []"
  by (simp add: emptyMeta_def)

lemma CreateMachine_success:
  assumes "CreateMachine cl cd m i w = (Inr (), w')"
  obtains name k config w1 raw gvk answer k' where
    "getMachineName cl m i (pwCluster w) = (Inr name, k)"
    and "getProviderConfigForIndex m i (w\<lparr>pwCluster := k\<rparr>) = (Inr config, w1)"
    and "RawConfig cd config = Inr raw" and "mcGVKForCpms cl = Inr gvk"
    and "mcCreate cl (opClient m)
      \<lparr>mMeta = emptyMeta\<lparr>omName := name, omNamespace := opNamespace m,
                omAnnotations := tmplAnnotations (opTemplate m), omLabels := tmplLabels (opTemplate m),
                omOwnerReferences := [controllerRefOf gvk (opOwnerMetadata m)]\<rparr>,
       mSpec = (tmplSpec (opTemplate m))\<lparr>msProviderSpec := Some raw\<rparr>,
       mNodeRef = None, mPhase = None, mErrorMessage = None\<rparr> k = (Inr answer, k')"
    and "pwCluster w' = k'"
proof -
  obtain rn k where n: "getMachineName cl m i (pwCluster w) = (rn, k)" by force
  with assms obtain name where rn: "rn = Inr name" by (cases rn) (auto simp: CreateMachine_def)
  obtain rc w1 where p: "getProviderConfigForIndex m i (w\<lparr>pwCluster := k\<rparr>) = (rc, w1)" by force
  with assms n rn obtain config where rc: "rc = Inr config" by (cases rc) (auto simp: CreateMachine_def)
  have k1: "pwCluster w1 = k"
    using p by (auto simp: getProviderConfigForIndex_def split: if_splits prod.splits sum.splits)
  from assms n rn p rc obtain raw where raw: "RawConfig cd config = Inr raw"
    by (cases "RawConfig cd config") (auto simp: CreateMachine_def)
  from assms n rn p rc raw obtain w2 where w2: "writeRaw raw w1 = Some w2"
    by (cases "writeRaw raw w1") (auto simp: CreateMachine_def)
  then have w2': "w2 = storeRaw raw w1" by (auto simp: writeRaw_def split: if_splits)
  let ?meta = "mMeta (newMachine m name w2)"
  from assms n rn p rc raw w2 obtain meta where
    set: "SetControllerReference (mcGVKForCpms cl) (opOwnerMetadata m) ?meta = Inr meta"
    by (cases "SetControllerReference (mcGVKForCpms cl) (opOwnerMetadata m) ?meta")
      (auto simp: CreateMachine_def Let_def)
  then obtain gvk where gvk: "mcGVKForCpms cl = Inr gvk"
      "meta = ?meta\<lparr>omOwnerReferences := [controllerRefOf gvk (opOwnerMetadata m)]\<rparr>"
    by (auto simp: SetControllerReference_def newMachine_def upsertOwnerRef_Nil getControllerOf_def Let_def
        split: option.splits sum.splits)
  obtain ra k' where cr: "mcCreate cl (opClient m) ((newMachine m name w2)\<lparr>mMeta := meta\<rparr>) k = (ra, k')" by force
  with assms n rn p rc raw w2 set k1 w2' obtain answer where ra: "ra = Inr answer"
    by (cases ra) (auto simp: CreateMachine_def Let_def)
  have "pwCluster w' = k'"
    using assms n rn p rc raw w2 set k1 w2' cr ra
    by (auto simp: CreateMachine_def Let_def decodeAnswer_def split: option.splits)
  moreover have "(newMachine m name w2)\<lparr>mMeta := meta\<rparr> =
      \<lparr>mMeta = emptyMeta\<lparr>omName := name, omNamespace := opNamespace m,
                omAnnotations := tmplAnnotations (opTemplate m), omLabels := tmplLabels (opTemplate m),
                omOwnerReferences := [controllerRefOf gvk (opOwnerMetadata m)]\<rparr>,
       mSpec = (tmplSpec (opTemplate m))\<lparr>msProviderSpec := Some raw\<rparr>,
       mNodeRef = None, mPhase = None, mErrorMessage = None\<rparr>"
    using gvk(2) w2' by (simp add: newMachine_def templateSpec_def)
  ultimately show ?thesis using n rn p rc raw gvk(1) cr ra by (intro that) auto
qed

text \<open>
  C14: a created machine belongs to its index. When CreateMachine succeeds for an index that the mapping
  assigns a failure domain which can be injected into the template's configuration, the machine sent to
  the API has a name from which the index is read back, lives in the provider's namespace, is controlled
  by the ControlPlaneMachineSet, and its provider spec places it in the mapped failure domain, completed
  with that of the template. The codec must read back the configuration it wrote. Which domains can be
  injected is said at \<open>injectable\<close>: all on Azure and GCP, on AWS those with a well formed
  subnet or none; an OpenStack root volume needs one in the template, a vSphere domain a resource pool in
  the Infrastructure object. The lemmas \<open>root_volume_dropped\<close> and \<open>pool_left_out\<close> have what happens
  to the others.
\<close>

theorem created_machine_in_its_domain:
  assumes "CreateMachine cl cd m i w = (Inr (), w')" and "0 \<le> i" and "i < 2 ^ 31"
    and "gm_get (opIndexToFailureDomain m) i = Some fd"
    and "injectable (pwConfig w) fd" and "platformType fd = pcType (pwConfig w)"
    and "ExtractFailureDomain (pwConfig w) = Inr (Some t)"
    and "\<And>config raw spec. fst (InjectFailureDomain (pwConfig w) (Some fd)) = Inr config \<Longrightarrow>
           RawConfig cd config = Inr raw \<Longrightarrow> msProviderSpec spec = Some raw \<Longrightarrow>
           NewProviderConfigFromMachineSpec cd spec (Some (opInfrastructure m)) = Inr config"
  shows "\<exists>machine answer k c gvk. mcCreate cl (opClient m) machine k = (Inr answer, pwCluster w') \<and>
     getMachineNameIndex machine = Some i \<and> omNamespace (mMeta machine) = opNamespace m \<and>
     getControllerOf (mMeta machine) = Some (controllerRefOf gvk (opOwnerMetadata m)) \<and>
     Complete fd (Some t) = Inr c \<and>
     ExtractFailureDomainFromMachine cd (Some (opInfrastructure m)) machine = Inr (Some c)"
proof -
  from CreateMachine_success [OF assms(1)] obtain name k config w1 raw gvk answer where
    n: "getMachineName cl m i (pwCluster w) = (Inr name, k)"
    and p: "getProviderConfigForIndex m i (w\<lparr>pwCluster := k\<rparr>) = (Inr config, w1)"
    and raw: "RawConfig cd config = Inr raw"
    and cr: "mcCreate cl (opClient m)
      \<lparr>mMeta = emptyMeta\<lparr>omName := name, omNamespace := opNamespace m,
                omAnnotations := tmplAnnotations (opTemplate m), omLabels := tmplLabels (opTemplate m),
                omOwnerReferences := [controllerRefOf gvk (opOwnerMetadata m)]\<rparr>,
       mSpec = (tmplSpec (opTemplate m))\<lparr>msProviderSpec := Some raw\<rparr>,
       mNodeRef = None, mPhase = None, mErrorMessage = None\<rparr> k = (Inr answer, pwCluster w')"
    (is "mcCreate _ _ ?machine _ = _") by metis
  have "opIndexToFailureDomain m \<noteq> []" using assms(4) by auto
  with p assms(4) have inj: "fst (InjectFailureDomain (pwConfig w) (Some fd)) = Inr config"
    by (auto simp: getProviderConfigForIndex_def split: prod.splits sum.splits)
  from inject_extract_completes_core [OF assms(5,6,7)] inj obtain c where
    c: "Complete fd (Some t) = Inr c" "ExtractFailureDomain config = Inr (Some c)" by auto
  have "NewProviderConfigFromMachineSpec cd (mSpec ?machine) (Some (opInfrastructure m)) = Inr config"
    using assms(8) [OF inj raw] by simp
  then have "ExtractFailureDomainFromMachine cd (Some (opInfrastructure m)) ?machine = Inr (Some c)"
    using c(2) by (simp add: ExtractFailureDomainFromMachine_def)
  moreover have "getMachineNameIndex ?machine = Some i"
    using getMachineName_index [OF n assms(2,3)] by (simp add: getMachineNameIndex_def)
  moreover have "getControllerOf (mMeta ?machine) = Some (controllerRefOf gvk (opOwnerMetadata m))"
    by (simp add: getControllerOf_def controllerRefOf_def)
  ultimately show ?thesis using cr c(1) by (intro exI [of _ ?machine] exI) auto
qed

section \<open>A concrete provider\<close>

text \<open>
  A codec that writes the zone and the subnet of an AWS configuration and reads them back, and a client
  over a list of machines.
\<close>

definition simAwsCodec :: "awsMachineProviderConfig platformCodec" where
  "simAwsCodec =
     (simCodec (pcAWS zeroProviderConfig))
       \<lparr>codecStrict := (\<lambda>raw. (None, \<lparr>awsAMI = zeroBetaReference,
            awsPlacementZone = takeWhile (\<lambda>c. c \<noteq> CHR ''|'') raw,
            awsConfigSubnet = zeroBetaReference\<lparr>betaID := Some (tl (dropWhile (\<lambda>c. c \<noteq> CHR ''|'') raw))\<rparr>,
            awsOther = ''''\<rparr>)),
        codecMarshal := (\<lambda>c. Inr (awsPlacementZone c @ ''|'' @
            (case betaID (awsConfigSubnet c) of None \<Rightarrow> '''' | Some s \<Rightarrow> s)))\<rparr>"

definition simAwsCodecs :: codecs where
  "simAwsCodecs = simCodecs\<lparr>cdAWS := simAwsCodec\<rparr>"

definition simInfrastructure :: infrastructure where
  "simInfrastructure = \<lparr>infInfrastructureName = ''c'', infPlatformStatus = Some AWSPlatformType, infSpecType = AWSPlatformType, infVSphere = None, infNutanix = None\<rparr>"

definition simMachineClient :: "machine list machineClient" where
  "simMachineClient =
     \<lparr>mcGetInfrastructure = (\<lambda>n k. Inr simInfrastructure), mcListMachines = (\<lambda>kind sel k. Inr k),
      mcGetNode = (\<lambda>kind n k. Inr \<lparr>nodeMeta = emptyMeta\<lparr>omName := n\<rparr>, nodeConditions = []\<rparr>),
      mcDryRunCreate = (\<lambda>kind x k. Inr x), mcCreate = (\<lambda>kind x k. (Inr x, k @ [x])),
      mcDelete = (\<lambda>kind x k. (Inr (), filter (\<lambda>y. omName (mMeta y) \<noteq> omName x) k)),
      mcNow = (\<lambda>k. 0), mcRandString = (\<lambda>k. (''abcde'', k)),
      mcLabelSelectorAsSelector = (\<lambda>s. Inr (\<lambda>l. True)),
      mcGVKForCpms = Inr \<lparr>gvkGroup = ''machine.openshift.io'', gvkVersion = ''v1'', gvkKind = ''ControlPlaneMachineSet''\<rparr>\<rparr>"

definition simAwsMachine :: "string \<Rightarrow> string \<Rightarrow> machine" where
  "simAwsMachine name raw =
     \<lparr>mMeta = emptyMeta\<lparr>omName := name\<rparr>, mSpec = \<lparr>msProviderSpec = Some raw, msAuthoritativeAPI = '''', msOther = ''''\<rparr>,
      mNodeRef = None, mPhase = None, mErrorMessage = None\<rparr>"

definition simAwsDomain :: "string \<Rightarrow> string option \<Rightarrow> awsFailureDomain" where
  "simAwsDomain zone subnet =
     \<lparr>awsSubnet = map_option (\<lambda>s. \<lparr>awsRefType = AWSIDReferenceType, awsRefID = Some s, awsRefARN = None,
        awsRefFilters = None\<rparr>) subnet, awsAvailabilityZone = zone\<rparr>"

text \<open>Two failure domains, of which only the first has a subnet of its own; the template has another one.\<close>

definition simProviderCpms :: cpms where
  "simProviderCpms = (simCpms RollingUpdate 2)\<lparr>cpmsSpecOf := (cpmsSpecOf (simCpms RollingUpdate 2))
     \<lparr>machineNamePrefix := ''cp'',
      cpmsTemplateOf := \<lparr>machineType = OpenShiftMachineV1Beta1MachineType,
        openShiftMachine = Some \<lparr>tmplFailureDomains = Some \<lparr>fdsPlatform = AWSPlatformType,
            fdsAWS = Some [simAwsDomain ''a'' (Some ''sA''), simAwsDomain ''b'' None], fdsAzure = None,
            fdsGCP = None, fdsVSphere = [], fdsOpenStack = [], fdsNutanix = []\<rparr>,
          tmplLabels = [], tmplAnnotations = [],
          tmplSpec = \<lparr>msProviderSpec = Some ''a|sT'', msAuthoritativeAPI = '''', msOther = ''''\<rparr>\<rparr>\<rparr>\<rparr>\<rparr>"

definition simProviderWorld :: "machine list providerWorld" where
  "simProviderWorld = \<lparr>pwCluster = [simAwsMachine ''cp-x-1'' ''b|sT'', simAwsMachine ''cp-y-0'' ''a|sA''],
     pwTemplateRaw = None, pwConfig = zeroProviderConfig\<rparr>"

text \<open>The provider of a reconcile of this set, and the world after its construction.\<close>

definition simOpenshift :: "openshiftMachineProvider \<times> machine list providerWorld" where
  "simOpenshift = (case newOpenshiftMachineProvider simMachineClient simAwsCodecs simProviderCpms simProviderWorld of
      (Inr m, w) \<Rightarrow> (m, w) | (Inl e, w) \<Rightarrow> undefined)"

lemma simOpenshift_eq:
  "newOpenshiftMachineProvider simMachineClient simAwsCodecs simProviderCpms simProviderWorld =
     (Inr (fst simOpenshift), snd simOpenshift)"
proof -
  have "\<not> isl (fst (newOpenshiftMachineProvider simMachineClient simAwsCodecs simProviderCpms simProviderWorld))"
    by code_simp
  then show ?thesis
    by (auto simp: simOpenshift_def split: prod.splits sum.splits)
qed

definition simCreated :: "unit result \<times> machine list providerWorld" where
  "simCreated = CreateMachine simMachineClient simAwsCodecs (fst simOpenshift) 1 (snd simOpenshift)"

definition simDomainB :: failureDomain where
  "simDomainB = NewAWSFailureDomain (simAwsDomain ''b'' (Some ''sT''))"

theorem created_machine_in_its_domain_witness:
  "\<exists>machine answer k. mcCreate simMachineClient CachedClient machine k = (Inr answer, pwCluster (snd simCreated)) \<and>
     getMachineNameIndex machine = Some 1 \<and>
     ExtractFailureDomainFromMachine simAwsCodecs (Some simInfrastructure) machine = Inr (Some simDomainB)"
proof -
  let ?m = "fst simOpenshift" and ?w = "snd simOpenshift"
  have c: "CreateMachine simMachineClient simAwsCodecs ?m 1 ?w = (Inr (), snd simCreated)"
  proof -
    have "fst simCreated = Inr ()" by code_simp
    then show ?thesis by (metis simCreated_def prod.collapse)
  qed
  have g: "gm_get (opIndexToFailureDomain ?m) 1 = Some simDomainB" by code_simp
  have i: "injectable (pwConfig ?w) simDomainB" by code_simp
  have p: "platformType simDomainB = pcType (pwConfig ?w)" by code_simp
  let ?t = "NewAWSFailureDomain (simAwsDomain ''a'' (Some ''sT''))"
  have t: "ExtractFailureDomain (pwConfig ?w) = Inr (Some ?t)" by code_simp
  have inf: "opInfrastructure ?m = simInfrastructure" "opClient ?m = CachedClient" by code_simp+
  let ?config = "(pwConfig ?w)\<lparr>pcAWS := (pcAWS (pwConfig ?w))\<lparr>awsPlacementZone := ''b''\<rparr>\<rparr>"
  have inj: "fst (InjectFailureDomain (pwConfig ?w) (Some simDomainB)) = Inr ?config"
    and raw: "RawConfig simAwsCodecs ?config = Inr ''b|sT''" by code_simp+
  have dec: "NewProviderConfigFromMachineSpec simAwsCodecs spec (Some simInfrastructure) = Inr ?config"
    if "msProviderSpec spec = Some ''b|sT''" for spec
  proof -
    have "NewProviderConfigFromMachineSpec simAwsCodecs
        \<lparr>msProviderSpec = Some ''b|sT'', msAuthoritativeAPI = '''', msOther = ''''\<rparr> (Some simInfrastructure) =
        Inr ?config" by code_simp
    with that show ?thesis by (simp add: NewProviderConfigFromMachineSpec_def cong: sum.case_cong)
  qed
  have comp: "Complete simDomainB (Some ?t) = Inr simDomainB" by code_simp
  have "\<exists>machine answer k c gvk. mcCreate simMachineClient (opClient ?m) machine k = (Inr answer, pwCluster (snd simCreated)) \<and>
     getMachineNameIndex machine = Some 1 \<and> omNamespace (mMeta machine) = opNamespace ?m \<and>
     getControllerOf (mMeta machine) = Some (controllerRefOf gvk (opOwnerMetadata ?m)) \<and>
     Complete simDomainB (Some ?t) = Inr c \<and>
     ExtractFailureDomainFromMachine simAwsCodecs (Some (opInfrastructure ?m)) machine = Inr (Some c)"
    by (rule created_machine_in_its_domain [OF c _ _ g i p t]) (use inj raw dec inf in auto)
  with comp inf show ?thesis by auto
qed

section \<open>The contract with the update strategies\<close>

text \<open>
  What a call does to the cluster: a creation draws at most one random suffix and sends at most one
  machine, whose name carries the index; a deletion asks for one machine and succeeds when that
  machine is gone already.
\<close>

definition openshiftCreates :: "'k machineClient \<Rightarrow> 'k \<Rightarrow> int \<Rightarrow> bool \<Rightarrow> 'k \<Rightarrow> bool" where
  "openshiftCreates cl k i ok k' \<longleftrightarrow>
     (\<exists>k1. (k1 = k \<or> k1 = snd (mcRandString cl k)) \<and>
        (\<not> ok \<and> k' = k1 \<or>
         (\<exists>kind machine ra. mcCreate cl kind machine k1 = (ra, k') \<and> ok = (\<not> isl ra) \<and>
            (0 \<le> i \<and> i < 2 ^ 31 \<longrightarrow> getMachineNameIndex machine = Some i))))"

definition openshiftDeletes :: "'k machineClient \<Rightarrow> 'k \<Rightarrow> objectRef \<Rightarrow> bool \<Rightarrow> 'k \<Rightarrow> bool" where
  "openshiftDeletes cl k ref ok k' \<longleftrightarrow>
     \<not> ok \<and> k' = k \<or>
     (\<exists>kind ra. refGVR ref = machinesGVR \<and> mcDelete cl kind (refMeta ref) k = (ra, k') \<and>
        (ok \<longleftrightarrow> (case ra of Inl e \<Rightarrow> isNotFound e | Inr _ \<Rightarrow> True)))"

lemma writeRaw_cluster: "writeRaw raw w = Some w' \<Longrightarrow> pwCluster w' = pwCluster w"
  by (auto simp: writeRaw_def split: if_splits)

lemma decodeAnswer_cluster [simp]: "pwCluster (decodeAnswer answer w) = pwCluster w"
  by (simp add: decodeAnswer_def split: option.split)

lemma templateConfigFor_cluster: "templateConfigFor m i w = (r, w') \<Longrightarrow> pwCluster w' = pwCluster w"
  by (auto simp: templateConfigFor_def split: if_splits option.splits prod.splits sum.splits)

lemma ensureValidProviderConfig_cluster:
  "ensureValidProviderConfig cl cd m c w = (r, w') \<Longrightarrow> pwCluster w' = pwCluster w"
  by (auto simp: ensureValidProviderConfig_def Let_def dest: writeRaw_cluster split: option.splits sum.splits)

lemma generateMachineInfo_cluster:
  "generateMachineInfo cl cd m x w = (r, w') \<Longrightarrow> pwCluster w' = pwCluster w"
  by (auto simp: generateMachineInfo_def dest!: templateConfigFor_cluster ensureValidProviderConfig_cluster
      split: sum.splits prod.splits)

lemma machineInfosLoop_cluster: "machineInfosLoop cl cd m xs w = (r, w') \<Longrightarrow> pwCluster w' = pwCluster w"
proof (induction xs arbitrary: w r w')
  case (Cons x xs)
  obtain r1 w1 where g: "generateMachineInfo cl cd m x w = (r1, w1)" by force
  obtain r2 w2 where l: "machineInfosLoop cl cd m xs w1 = (r2, w2)" by force
  show ?case
    using Cons.prems g l Cons.IH [OF l] generateMachineInfo_cluster [OF g] by (cases r1; cases r2) auto
qed simp

lemma getMachineName_cluster:
  "getMachineName cl m i k = (r, k') \<Longrightarrow> k' = k \<or> k' = snd (mcRandString cl k)"
  by (auto simp: getMachineName_def split: if_splits option.splits prod.splits)

lemma getProviderConfigForIndex_cluster:
  "getProviderConfigForIndex m i w = (r, w') \<Longrightarrow> pwCluster w' = pwCluster w"
  by (auto simp: getProviderConfigForIndex_def split: if_splits prod.splits sum.splits)

lemma CreateMachine_creates:
  assumes "CreateMachine cl cd m i w = (r, w')"
  shows "openshiftCreates cl (pwCluster w) i (\<not> isl r) (pwCluster w')"
proof -
  obtain rn k where n: "getMachineName cl m i (pwCluster w) = (rn, k)" by force
  note k = getMachineName_cluster [OF n]
  have refused: ?thesis if "isl r" "pwCluster w' = k"
    using that k by (auto simp: openshiftCreates_def)
  show ?thesis
  proof (cases rn)
    case (Inl e)
    with n assms refused show ?thesis by (auto simp: CreateMachine_def)
  next
    case (Inr name)
    obtain rc w1 where p: "getProviderConfigForIndex m i (w\<lparr>pwCluster := k\<rparr>) = (rc, w1)" by force
    from getProviderConfigForIndex_cluster [OF p] have w1: "pwCluster w1 = k" by simp
    consider (early) "isl r" "pwCluster w' = k"
      | (sent) w2 meta ra k' where "pwCluster w2 = k"
          "SetControllerReference (mcGVKForCpms cl) (opOwnerMetadata m) (mMeta (newMachine m name w2)) = Inr meta"
          "mcCreate cl (opClient m) ((newMachine m name w2)\<lparr>mMeta := meta\<rparr>) k = (ra, k')"
          "isl r \<longleftrightarrow> isl ra" "pwCluster w' = k'"
      using assms n Inr p w1 writeRaw_cluster
      by (fastforce simp: CreateMachine_def Let_def split: sum.splits option.splits prod.splits)
    then show ?thesis
    proof cases
      case early
      then show ?thesis by (rule refused)
    next
      case sent
      have "omName meta = name"
        using sent(2) by (auto simp: SetControllerReference_def newMachine_def Let_def
            split: option.splits sum.splits if_splits)
      then have "0 \<le> i \<and> i < 2 ^ 31 \<longrightarrow>
          getMachineNameIndex ((newMachine m name w2)\<lparr>mMeta := meta\<rparr>) = Some i"
        using getMachineName_index n Inr by (auto simp: getMachineNameIndex_def)
      with sent k show ?thesis unfolding openshiftCreates_def by blast
    qed
  qed
qed

lemma DeleteMachine_deletes:
  assumes "DeleteMachine cl m ref w = (r, w')"
  shows "openshiftDeletes cl (pwCluster w) ref (\<not> isl r) (pwCluster w')"
proof (cases "refGVR ref = machinesGVR")
  case True
  obtain ra k where d: "mcDelete cl (opClient m) (refMeta ref) (pwCluster w) = (ra, k)" by force
  have "pwCluster w' = k" "\<not> isl r \<longleftrightarrow> (case ra of Inl e \<Rightarrow> isNotFound e | Inr _ \<Rightarrow> True)"
    using assms True d by (auto simp: DeleteMachine_def split: sum.splits if_splits)
  with True d show ?thesis unfolding openshiftDeletes_def by blast
qed (use assms in \<open>auto simp: DeleteMachine_def openshiftDeletes_def\<close>)

interpretation openshift: machine_provider "openshiftProvider cl cd" pwCluster "openshiftCreates cl"
  "openshiftDeletes cl" for cl cd
  by unfold_locales
    (auto simp: openshiftProvider_def GetMachineInfos_def
      dest: machineInfosLoop_cluster CreateMachine_creates DeleteMachine_deletes)

text \<open>
  C13: the calls of a pass are all it does to the cluster. Run on the OpenShift provider, a pass of the
  update strategies takes the cluster through exactly the creations and deletions of its log, in that
  order: each creation sends at most one machine, named after its index, and each deletion one delete
  request; gathering the machines in between, dry runs included, leaves the cluster as it is.
\<close>

theorem openshift_pass_runs_its_log:
  assumes "reconcileMachineUpdates (openshiftProvider cl cd) p ns c mis (startEnv w) = (r, c', env')"
  shows "clusterRun (openshiftCreates cl) (openshiftDeletes cl) (pwCluster w) (envCalls env')
           (pwCluster (envWorld env'))"
  by (rule openshift.reconcileMachineUpdates_run [OF assms])

definition simTwoUpdated :: indexedMachines where
  "simTwoUpdated = [(0, [simMachine ''cp-y-0'' 0 True False 1 None]),
     (1, [simMachine ''cp-x-1'' 1 True False 2 None, simMachine ''cp-z-1'' 1 True False 3 None])]"

definition simDeletePass :: "ctrlResult result \<times> cpms \<times> machine list providerWorld env" where
  "simDeletePass = reconcileMachineUpdates (openshiftProvider simMachineClient simAwsCodecs) (fst simOpenshift) ''ns''
     simProviderCpms simTwoUpdated (startEnv (snd simOpenshift))"

theorem openshift_pass_runs_its_log_witness:
  "\<exists>env' :: machine list providerWorld env. map (\<lambda>y. omName (mMeta y)) (pwCluster (envWorld env')) = [''cp-y-0''] \<and> length (envCalls env') = 1 \<and>
     clusterRun (openshiftCreates simMachineClient) (openshiftDeletes simMachineClient) (pwCluster (snd simOpenshift))
       (envCalls env') (pwCluster (envWorld env'))"
proof -
  obtain r c' env' where e: "simDeletePass = (r, c', env')" by (rule prod_cases3)
  have "map (\<lambda>y. omName (mMeta y)) (pwCluster (envWorld (snd (snd simDeletePass)))) = [''cp-y-0'']"
    "length (envCalls (snd (snd simDeletePass))) = 1" by code_simp+
  from this [unfolded e snd_conv] openshift_pass_runs_its_log [OF e [unfolded simDeletePass_def]] show ?thesis
    by (intro exI [of _ env']) simp
qed

section \<open>Machine information\<close>

text \<open>
  What the information about a machine says: whose it is, its node, whether it is Ready, the index of
  its name when the name has one, and that it needs an update exactly when its configuration differs,
  boot images aside, from the one the server would store for its index.
\<close>

definition describes ::
  "'k machineClient \<Rightarrow> codecs \<Rightarrow> openshiftMachineProvider \<Rightarrow> 'k providerWorld \<Rightarrow> machine \<Rightarrow> machineInfo \<Rightarrow> bool" where
  "describes cl cd m w x info \<longleftrightarrow>
     MachineRef info = Some \<lparr>refGVR = machinesGVR, refMeta = mMeta x\<rparr> \<and>
     map_option (omName \<circ> refMeta) (NodeRef info) = mNodeRef x \<and>
     isMachineReady cl m x (pwCluster w) = Inr (Ready info) \<and>
     (\<forall>n. getMachineNameIndex x = Some n \<longrightarrow> Index info = n) \<and>
     (\<exists>config desired valid.
        NewProviderConfigFromMachineSpec cd (mSpec x) (Some (opInfrastructure m)) = Inr config \<and>
        fst (templateConfigFor m (Index info) w) = Inr desired \<and>
        fst (ensureValidProviderConfig cl cd m desired w) = Inr valid \<and>
        pcType valid = pcType config \<and> (NeedsUpdate info \<longleftrightarrow> \<not> sameMachine valid config))"

text \<open>
  What the server stores for a configuration does not depend on the template's configuration, which the
  injection of a failure domain may change.
\<close>

lemma ensureValid_same:
  assumes "pwCluster w' = pwCluster w" and "pwTemplateRaw w' = None \<longleftrightarrow> pwTemplateRaw w = None"
  shows "fst (ensureValidProviderConfig cl cd m c w') = fst (ensureValidProviderConfig cl cd m c w)"
proof -
  have run: "dryRunMachine m (storeRaw raw w') = dryRunMachine m (storeRaw raw w)" for raw
    by (simp add: dryRunMachine_def templateSpec_def)
  have read: "pwTemplateRaw (decodeAnswer a (storeRaw raw w')) = pwTemplateRaw (decodeAnswer a (storeRaw raw w))" for a raw
    by (simp add: decodeAnswer_def split: option.split)
  show ?thesis using assms
    by (auto simp: ensureValidProviderConfig_def writeRaw_def Let_def run read split: sum.split)
qed

lemma templateConfigFor_memory:
  "templateConfigFor m i w = (r, w') \<Longrightarrow> pwCluster w' = pwCluster w \<and> pwTemplateRaw w' = pwTemplateRaw w"
  by (auto simp: templateConfigFor_def split: if_splits option.splits prod.splits sum.splits)

lemma generateMachineInfo_describes:
  assumes "deepComparisons cd" and "generateMachineInfo cl cd m x w = (Inr info, w')"
  shows "describes cl cd m w x info"
proof -
  from assms(2) obtain i config where i: "getMachineIndex cd m x w = Inr i"
    and c: "NewProviderConfigFromMachineSpec cd (mSpec x) (Some (opInfrastructure m)) = Inr config"
    by (auto simp: generateMachineInfo_def split: sum.splits)
  obtain rt w1 where t: "templateConfigFor m i w = (rt, w1)" by force
  note w1 = templateConfigFor_memory [OF t]
  from assms(2) i c t obtain desired where rt: "rt = Inr desired"
    by (auto simp: generateMachineInfo_def split: sum.splits)
  obtain rv w2 where v: "ensureValidProviderConfig cl cd m desired w1 = (rv, w2)" by force
  from assms(2) i c t rt v obtain valid ds ready where rv: "rv = Inr valid"
    and d: "pcDiff cd valid (Some config) = Inr ds" and rd: "isMachineReady cl m x (pwCluster w2) = Inr ready"
    and info: "info = \<lparr>MachineRef = Some (getMachineRef x), NodeRef = getNodeRef x, Ready = ready,
      NeedsUpdate = (ds \<noteq> []), Diff = ds, Index = i, ErrorMessage = derefString (mErrorMessage x)\<rparr>"
    by (auto simp: generateMachineInfo_def split: sum.splits)
  have k: "pwCluster w2 = pwCluster w" using ensureValidProviderConfig_cluster [OF v] w1 by simp
  have stored: "fst (ensureValidProviderConfig cl cd m desired w) = Inr valid"
    using ensureValid_same [of w1 w cl cd m desired] w1 v rv by simp
  have ty: "pcType valid = pcType config" "pcType valid \<noteq> NonePlatformType"
    using d by (auto simp: pcDiff_def platform_defs split: if_splits)
  from diff_ignores_images_core [OF assms(1) ty] d have "ds = [] \<longleftrightarrow> sameMachine valid config" by auto
  moreover have "\<forall>n. getMachineNameIndex x = Some n \<longrightarrow> i = n"
    using i by (auto simp: getMachineIndex_def)
  ultimately show ?thesis
    using c t rt stored ty(1) rd k info
    by (auto simp: describes_def getMachineRef_def getNodeRef_def option.map_comp comp_def option.map_ident)
qed

text \<open>Each entry describes its machine in the memory the provider has when it comes to it.\<close>

fun describesInTurn ::
  "'k machineClient \<Rightarrow> codecs \<Rightarrow> openshiftMachineProvider \<Rightarrow> 'k providerWorld \<Rightarrow> machine list \<Rightarrow> machineInfo list \<Rightarrow> bool" where
  "describesInTurn cl cd m w [] infos \<longleftrightarrow> infos = []"
| "describesInTurn cl cd m w (x # xs) infos \<longleftrightarrow>
     (case infos of [] \<Rightarrow> False
      | info # rest \<Rightarrow> describes cl cd m w x info \<and>
          describesInTurn cl cd m (snd (generateMachineInfo cl cd m x w)) xs rest)"

lemma machineInfosLoop_in_turn:
  assumes "deepComparisons cd" and "machineInfosLoop cl cd m xs w = (Inr infos, w')"
  shows "describesInTurn cl cd m w xs infos"
  using assms(2)
proof (induction xs arbitrary: w infos)
  case (Cons x xs)
  from Cons.prems obtain info w1 rest where g: "generateMachineInfo cl cd m x w = (Inr info, w1)"
    and "machineInfosLoop cl cd m xs w1 = (Inr rest, w')" and "infos = info # rest"
    by (auto split: prod.splits sum.splits)
  with Cons.IH generateMachineInfo_describes [OF assms(1) g] show ?case by simp
qed simp

text \<open>
  The platforms whose configuration a reading leaves alone: no injection writes to memory it shares, and the
  raw spec of the template is not part of it. There every machine is compared with the same template.
\<close>

definition unsharedPlatforms :: "string list" where
  "unsharedPlatforms = [AWSPlatformType, AzurePlatformType, GCPPlatformType, NutanixPlatformType]"

definition sameDesired :: "'k providerWorld \<Rightarrow> 'k providerWorld \<Rightarrow> bool" where
  "sameDesired w w' \<longleftrightarrow> pwCluster w' = pwCluster w \<and> pwConfig w' = pwConfig w \<and>
     (pwTemplateRaw w' = None \<longleftrightarrow> pwTemplateRaw w = None)"

lemma sameDesired_refl [simp]: "sameDesired w w"
  by (simp add: sameDesired_def)

lemma sameDesired_trans: "sameDesired w1 w2 \<Longrightarrow> sameDesired w2 w3 \<Longrightarrow> sameDesired w1 w3"
  by (simp add: sameDesired_def)

lemma templateConfigFor_same:
  "sameDesired w w' \<Longrightarrow> fst (templateConfigFor m i w') = fst (templateConfigFor m i w)"
  by (auto simp: sameDesired_def templateConfigFor_def split: option.splits prod.splits sum.splits)

lemma InjectFailureDomain_receiver:
  "pcType p \<in> set unsharedPlatforms \<Longrightarrow> snd (InjectFailureDomain p fd) = p"
  by (auto simp: InjectFailureDomain_def unsharedPlatforms_def platform_defs split: option.splits sum.splits)

lemma templateConfigFor_unchanged:
  assumes "pcType (pwConfig w) \<in> set unsharedPlatforms" and "templateConfigFor m i w = (r, w')"
  shows "w' = w"
proof -
  have self: "b = pwConfig w" if "InjectFailureDomain (pwConfig w) fd = (a, b)" for fd a b
    using InjectFailureDomain_receiver [OF assms(1), of fd] that by simp
  from assms(2) show ?thesis
    by (auto simp: templateConfigFor_def dest!: self split: if_splits option.splits sum.splits prod.splits)
qed

lemma storeRaw_sameDesired:
  "pcType (pwConfig w) \<in> set unsharedPlatforms \<Longrightarrow> pwTemplateRaw w \<noteq> None \<Longrightarrow> sameDesired w (storeRaw raw w)"
  by (auto simp: sameDesired_def genericPlatform_def unsharedPlatforms_def)

lemma ensureValid_sameDesired:
  assumes "pcType (pwConfig w) \<in> set unsharedPlatforms" and "ensureValidProviderConfig cl cd m c w = (r, w')"
  shows "sameDesired w w'"
proof -
  have written: "sameDesired w w1 \<and> sameDesired w (decodeAnswer a w1)" if "writeRaw raw w = Some w1" for raw w1 a
  proof -
    from that have w1: "w1 = storeRaw raw w" "pwTemplateRaw w \<noteq> None" by (auto simp: writeRaw_def split: if_splits)
    note s = storeRaw_sameDesired [OF assms(1) w1(2)]
    have "sameDesired w (storeRaw raw' w1)" for raw'
      using sameDesired_trans [OF s [of raw] storeRaw_sameDesired [of "storeRaw raw w" raw']] s [of raw] w1 assms(1)
      by (simp add: sameDesired_def)
    with s w1(1) show ?thesis by (simp add: decodeAnswer_def split: option.split)
  qed
  from assms(2) show ?thesis
    by (auto simp: ensureValidProviderConfig_def Let_def dest: written split: sum.splits option.splits)
qed

lemma generateMachineInfo_sameDesired:
  assumes "pcType (pwConfig w) \<in> set unsharedPlatforms" and "generateMachineInfo cl cd m x w = (r, w')"
  shows "sameDesired w w'"
  using assms(2)
  by (auto simp: generateMachineInfo_def dest: templateConfigFor_unchanged [OF assms(1)] ensureValid_sameDesired [OF assms(1)]
      split: sum.splits prod.splits)

lemma describes_same: "sameDesired w w' \<Longrightarrow> describes cl cd m w' x info \<longleftrightarrow> describes cl cd m w x info"
  unfolding describes_def using templateConfigFor_same [of w w'] ensureValid_same [of w' w]
  by (simp add: sameDesired_def)

lemma in_turn_same:
  assumes "pcType (pwConfig w) \<in> set unsharedPlatforms" and "describesInTurn cl cd m w xs infos"
  shows "list_all2 (describes cl cd m w) xs infos"
  using assms
proof (induction xs arbitrary: w infos)
  case (Cons x xs)
  let ?w = "snd (generateMachineInfo cl cd m x w)"
  from Cons.prems(2) obtain info rest where infos: "infos = info # rest" "describes cl cd m w x info"
    and rest: "describesInTurn cl cd m ?w xs rest" by (cases infos) auto
  have s: "sameDesired w ?w" using generateMachineInfo_sameDesired [OF Cons.prems(1)] by (metis prod.collapse)
  then have "pcType (pwConfig ?w) \<in> set unsharedPlatforms" using Cons.prems(1) by (simp add: sameDesired_def)
  from Cons.IH [OF this rest] have "list_all2 (describes cl cd m w) xs rest"
    by (rule list_all2_mono) (simp add: describes_same [OF s])
  with infos show ?case by simp
qed simp

text \<open>
  C21: the gathered information is the state of the machines. On every platform GetMachineInfos returns one
  entry per listed machine, in order: its reference and node, its readiness, the index in its name, and
  NeedsUpdate exactly when its configuration differs, boot images aside, from what the server stores for
  the template of its index, read in the memory the provider has when it comes to that machine. On AWS,
  Azure, GCP and Nutanix this is the memory it started with for all of them; on the other platforms
  earlier readings may have changed the template. The cluster is left as it is.
\<close>

theorem machine_infos_describe_machines:
  assumes "deepComparisons cd" and "GetMachineInfos cl cd m w = (Inr infos, w')"
  shows "describesInTurn cl cd m w (opMachines m) infos \<and> pwCluster w' = pwCluster w \<and>
     (pcType (pwConfig w) \<in> set unsharedPlatforms \<longrightarrow> list_all2 (describes cl cd m w) (opMachines m) infos)"
  using machineInfosLoop_in_turn [OF assms(1)] machineInfosLoop_cluster in_turn_same assms(2)
  unfolding GetMachineInfos_def by metis

lemma deepComparisons_simAws: "deepComparisons simAwsCodecs"
  using deepComparisons_sim by (simp add: deepComparisons_def simAwsCodecs_def simAwsCodec_def simCodec_def
      deepComparison_def simDeep_def)

theorem machine_infos_describe_machines_witness:
  "\<exists>infos. describesInTurn simMachineClient simAwsCodecs (fst simOpenshift) (snd simOpenshift) (opMachines (fst simOpenshift)) infos \<and>
     list_all2 (describes simMachineClient simAwsCodecs (fst simOpenshift) (snd simOpenshift)) (opMachines (fst simOpenshift)) infos \<and>
     map Index infos = [1, 0] \<and> map NeedsUpdate infos = [False, False]"
proof -
  let ?G = "GetMachineInfos simMachineClient simAwsCodecs (fst simOpenshift) (snd simOpenshift)"
  have t: "pcType (pwConfig (snd simOpenshift)) \<in> set unsharedPlatforms" by code_simp
  have g: "case fst ?G of Inl e \<Rightarrow> False
      | Inr infos \<Rightarrow> map Index infos = [1, 0] \<and> map NeedsUpdate infos = [False, False]" by code_simp
  then obtain infos w' where "?G = (Inr infos, w')" by (cases ?G; cases "fst ?G") auto
  with machine_infos_describe_machines [OF deepComparisons_simAws this] g t show ?thesis by auto
qed

text \<open>
  A generic configuration is the template's raw spec. A server whose defaulting extends a spec each time
  it sees it makes the provider want a longer spec at every reading, in GetMachineInfos as in the code.
\<close>

definition simGenericCodecs :: codecs where
  "simGenericCodecs = simAwsCodecs\<lparr>kindOf := (\<lambda>raw. Inr ''OtherProviderSpec'')\<rparr>"

definition simExtendingClient :: "machine list machineClient" where
  "simExtendingClient = simMachineClient\<lparr>mcDryRunCreate := (\<lambda>kind x k.
     Inr (x\<lparr>mSpec := (mSpec x)\<lparr>msProviderSpec := map_option (\<lambda>raw. raw @ ''+'') (msProviderSpec (mSpec x))\<rparr>\<rparr>))\<rparr>"

lemma generic_template_drifts:
  "let w = \<lparr>pwCluster = [], pwTemplateRaw = Some ''s'',
         pwConfig = zeroProviderConfig\<lparr>pcType := ''UnknownPlatform'', pcGeneric := Some ''s''\<rparr>\<rparr>;
       m = (fst simOpenshift)\<lparr>opIndexToFailureDomain := [],
         opMachines := [simAwsMachine ''cp-x-1'' ''s+'', simAwsMachine ''cp-y-0'' ''s+'']\<rparr>;
       (r, w') = GetMachineInfos simExtendingClient simGenericCodecs m w
   in (case r of Inl e \<Rightarrow> False | Inr infos \<Rightarrow> map NeedsUpdate infos = [False, True]) \<and>
      pwTemplateRaw w' = Some ''s++'' \<and> pcGeneric (pwConfig w') = Some ''s++''"
  by code_simp

section \<open>Dry runs and the shared template\<close>

definition mappingOf :: "openshiftMachineProvider result \<Rightarrow> failureDomain fdmap" where
  "mappingOf r = (case r of Inl e \<Rightarrow> [] | Inr m \<Rightarrow> opIndexToFailureDomain m)"

text \<open>
  Gathering machine information changes what the template says. The provider is built for two
  failure domains of which the second has no subnet and takes that of the template, sT. After one
  GetMachineInfos, whose last dry run was for the first domain, WithClient on the same unchanged
  cluster completes the second domain with the first one's subnet sA: index 1 is mapped to another
  failure domain than before.
\<close>

lemma dry_run_changes_mapping:
  "let (m, w) = simOpenshift;
       before = mappingOf (WithClient simMachineClient simAwsCodecs m UncachedClient w);
       w' = snd (GetMachineInfos simMachineClient simAwsCodecs m w);
       after = mappingOf (WithClient simMachineClient simAwsCodecs m UncachedClient w')
   in pwCluster w' = pwCluster w \<and>
      gm_get before 1 = Some (NewAWSFailureDomain (simAwsDomain ''b'' (Some ''sT''))) \<and>
      gm_get after 1 = Some (NewAWSFailureDomain (simAwsDomain ''b'' (Some ''sA'')))"
  by code_simp

end
