(* ===== verification/Webhook_Properties.thy ===== *)
theory Webhook_Properties
  imports Webhook Machine_Provider_Properties
begin

text \<open>
  What an admitted request guarantees, which requests are never held up, and one way in which the dry
  run of the template changes the outcome of the checks that follow it.
\<close>

section \<open>Verdicts\<close>

lemma admitted_bothChecks [simp]: "admitted (bothChecks a b) \<longleftrightarrow> admitted a \<and> admitted b"
  by (auto simp: admitted_def bothChecks_def split: sum.splits prod.splits)

lemma admitted_Inr [simp]: "admitted (Inr (ws, es)) \<longleftrightarrow> es = []"
  by (simp add: admitted_def)

lemma not_admitted_Inl [simp]: "\<not> admitted (Inl e)"
  by (simp add: admitted_def)

lemma not_admitted_orPanic [simp]: "\<not> admitted (orPanic e err)"
  by (simp add: orPanic_def)

section \<open>Lists of failure domains\<close>

lemma missingFailureDomains_Nil:
  "missingFailureDomains xs ys = [] \<longleftrightarrow> (\<forall>x \<in> set xs. \<exists>y \<in> set ys. Equal x y)"
  by (auto simp: missingFailureDomains_def filter_empty_conv list_ex_iff)

lemma duplicatedLoop_keeps: "set dup \<subseteq> set (duplicatedLoop fds seen dup)"
  by (induction fds seen dup rule: duplicatedLoop.induct) auto

lemma duplicatedLoop_Nil:
  "duplicatedLoop fds seen [] = [] \<longleftrightarrow>
     (\<forall>fd \<in> set fds. \<not> whContains seen fd) \<and> sorted_wrt (\<lambda>x y. \<not> Equal x y) fds"
proof (induction fds arbitrary: seen)
  case (Cons fd fds)
  have "duplicatedLoop fds seen [fd] \<noteq> []"
    using duplicatedLoop_keeps [of "[fd]" fds seen] by auto
  moreover have "whContains (seen @ [fd]) x \<longleftrightarrow> whContains seen x \<or> Equal fd x" for x
    using fdEq.eq_sym by (auto simp: whContains_def)
  ultimately show ?case using Cons.IH [of "seen @ [fd]"] by (auto simp: whContains_def)
qed (simp add: whContains_def)

text \<open>The duplicates of a list are none exactly when its domains are pairwise different.\<close>

lemma duplicatedFailureDomains_Nil:
  "duplicatedFailureDomains fds = [] \<longleftrightarrow> sorted_wrt (\<lambda>x y. \<not> Equal x y) fds"
  by (simp add: duplicatedFailureDomains_def duplicatedLoop_Nil whContains_def)

section \<open>Admitted creations\<close>


lemma template_labels_match:
  "validateTemplateLabels cl path labels sel = [] \<Longrightarrow>
     \<exists>matches. mcLabelSelectorAsSelector cl sel = Inr matches \<and> matches labels"
  by (auto simp: validateTemplateLabels_def split: sum.splits if_splits)

text \<open>A template whose validation reports no error has passed a dry run, whose answer it now holds.\<close>

lemma dry_run_accepted:
  assumes "validateOpenShiftProviderMachineSpec cl cd ns path tmpl infra k = (v, raw)" and "admitted v"
  shows "\<exists>sent answer. mcDryRunCreate cl CachedClient (webhookDryRunMachine ns tmpl sent) k = Inr answer \<and>
     raw = Some (decodedRaw sent answer)"
proof -
  have "es \<noteq> []" if "firstDomainConfig path tmpl config = Inr (Inl es)" for config es
    using that by (auto simp: firstDomainConfig_def split: sum.splits option.splits if_splits list.splits)
  with assms show ?thesis
    by (auto simp: validateOpenShiftProviderMachineSpec_def Let_def split: sum.splits)
qed

lemma template_admitted:
  assumes "admitted (fst (validateSpec cl cd path c infra k))"
  obtains tmpl sent answer where
    "machineType (cpmsTemplateOf (cpmsSpecOf c)) = OpenShiftMachineV1Beta1MachineType"
    "openShiftMachine (cpmsTemplateOf (cpmsSpecOf c)) = Some tmpl"
    "\<exists>matches. mcLabelSelectorAsSelector cl (cpmsSelector (cpmsSpecOf c)) = Inr matches \<and> matches (tmplLabels tmpl)"
    "mcDryRunCreate cl CachedClient (webhookDryRunMachine (omNamespace (cpmsMeta c)) tmpl sent) k = Inr answer"
    "cpmsTemplateOf (cpmsSpecOf (snd (validateSpec cl cd path c infra k))) = (cpmsTemplateOf (cpmsSpecOf c))
       \<lparr>openShiftMachine := Some (withRaw (Some (decodedRaw sent answer)) tmpl)\<rparr>"
proof -
  let ?T = "cpmsTemplateOf (cpmsSpecOf c)"
  let ?p = "childPath (childPath path ''template'') OpenShiftMachineV1Beta1MachineType"
  from assms have ty: "machineType ?T = OpenShiftMachineV1Beta1MachineType"
    and "\<exists>tmpl. openShiftMachine ?T = Some tmpl"
    by (auto simp: validateSpec_def validateTemplate_def Let_def split: if_splits option.splits prod.splits)
  then obtain tmpl where t: "openShiftMachine ?T = Some tmpl" by blast
  obtain v raw where s: "validateOpenShiftProviderMachineSpec cl cd (omNamespace (cpmsMeta c))
      (childPath (childPath ?p ''spec'') ''providerSpec'') tmpl infra k = (v, raw)" by force
  from assms ty t s have l: "validateTemplateLabels cl (childPath (childPath ?p ''metadata'') ''labels'')
      (tmplLabels tmpl) (cpmsSelector (cpmsSpecOf c)) = []" and v: "admitted v"
    by (auto simp: validateSpec_def validateTemplate_def validateOpenShiftMachineV1BetaTemplate_def Let_def)
  obtain sent answer where d: "mcDryRunCreate cl CachedClient (webhookDryRunMachine (omNamespace (cpmsMeta c)) tmpl sent) k = Inr answer"
    "raw = Some (decodedRaw sent answer)"
    using dry_run_accepted [OF s v] by blast
  have "cpmsTemplateOf (cpmsSpecOf (snd (validateSpec cl cd path c infra k))) = ?T\<lparr>openShiftMachine := Some (withRaw raw tmpl)\<rparr>"
    using ty t s by (simp add: validateSpec_def validateTemplate_def validateOpenShiftMachineV1BetaTemplate_def Let_def)
  with that [OF ty t template_labels_match [OF l] d(1)] d(2) show thesis by blast
qed

lemma validateSpec_frame:
  "cpmsMeta (snd (validateSpec cl cd path c infra k)) = cpmsMeta c"
  "cpmsState (cpmsSpecOf (snd (validateSpec cl cd path c infra k))) = cpmsState (cpmsSpecOf c)"
  "specReplicas (cpmsSpecOf (snd (validateSpec cl cd path c infra k))) = specReplicas (cpmsSpecOf c)"
  by (simp_all add: validateSpec_def split: prod.splits)

lemma create_admitted_parts:
  assumes "admitted (ValidateCreate cl cd c k)"
  obtains infra machines where
    "GetInfrastructure cl k = Inr infra" "omName (cpmsMeta c) = clusterSingletonName"
    "admitted (fst (validateSpec cl cd ''spec'' c infra k))"
    "fetchControlPlaneMachines cl k = Inr machines" "\<not> replicasMismatch c machines"
    "admitted (validateTemplateOnCreate cd (childPath ''spec'' ''template'')
       (cpmsTemplateOf (cpmsSpecOf (snd (validateSpec cl cd ''spec'' c infra k)))) machines infra)"
proof -
  from assms obtain infra where i: "GetInfrastructure cl k = Inr infra"
    by (auto simp: ValidateCreate_def split: sum.splits)
  obtain v c' where s: "validateSpec cl cd ''spec'' c infra k = (v, c')" by force
  from assms i s have n: "omName (cpmsMeta c) = clusterSingletonName" and v: "admitted v"
    and o: "admitted (validateSpecOnCreate cl cd ''spec'' c' infra k)"
    by (auto simp: ValidateCreate_def validateMetadata_def split: if_splits)
  from o obtain machines where "fetchControlPlaneMachines cl k = Inr machines" "\<not> replicasMismatch c' machines"
    "admitted (validateTemplateOnCreate cd (childPath ''spec'' ''template'') (cpmsTemplateOf (cpmsSpecOf c')) machines infra)"
    by (auto simp: validateSpecOnCreate_def split: sum.splits if_splits)
  moreover have "replicasMismatch c' machines = replicasMismatch c machines" for machines
    using validateSpec_frame [of cl cd "''spec''" c infra k] s by (simp add: replicasMismatch_def)
  ultimately show thesis using that i n v s by simp
qed

text \<open>
  C18: what an admitted creation guarantees. The set is named cluster; if it is Active and has a replica
  count, that is the number of control plane machines in the cluster; its template is an OpenShift
  machine template whose labels its selector matches, and a machine made from the template was accepted
  by a dry run.
\<close>

theorem create_admitted:
  assumes "admitted (ValidateCreate cl cd c k)"
  shows "omName (cpmsMeta c) = ''cluster'' \<and>
    (\<exists>machines tmpl matches sent answer.
       fetchControlPlaneMachines cl k = Inr machines \<and>
       (cpmsState (cpmsSpecOf c) = StateActive \<longrightarrow>
          (\<forall>r. specReplicas (cpmsSpecOf c) = Some r \<longrightarrow> sint r = int (length machines))) \<and>
       openShiftMachine (cpmsTemplateOf (cpmsSpecOf c)) = Some tmpl \<and>
       mcLabelSelectorAsSelector cl (cpmsSelector (cpmsSpecOf c)) = Inr matches \<and> matches (tmplLabels tmpl) \<and>
       mcDryRunCreate cl CachedClient (webhookDryRunMachine (omNamespace (cpmsMeta c)) tmpl sent) k = Inr answer)"
proof -
  from assms obtain infra machines where p: "omName (cpmsMeta c) = clusterSingletonName"
    "admitted (fst (validateSpec cl cd ''spec'' c infra k))"
    "fetchControlPlaneMachines cl k = Inr machines" "\<not> replicasMismatch c machines"
    by (rule create_admitted_parts)
  from p(2) obtain tmpl sent answer where t: "openShiftMachine (cpmsTemplateOf (cpmsSpecOf c)) = Some tmpl"
    "\<exists>matches. mcLabelSelectorAsSelector cl (cpmsSelector (cpmsSpecOf c)) = Inr matches \<and> matches (tmplLabels tmpl)"
    "mcDryRunCreate cl CachedClient (webhookDryRunMachine (omNamespace (cpmsMeta c)) tmpl sent) k = Inr answer"
    by (rule template_admitted)
  have r: "cpmsState (cpmsSpecOf c) = StateActive \<longrightarrow>
      (\<forall>r. specReplicas (cpmsSpecOf c) = Some r \<longrightarrow> sint r = int (length machines))"
    using p(4) by (auto simp: replicasMismatch_def)
  show ?thesis using p(1,3) r t by (auto simp: clusterSingletonName_def)
qed

text \<open>A set of two replicas with the given failure domains, and a cluster of labelled machines.\<close>

definition simWebhookCpms :: "awsFailureDomain list \<Rightarrow> cpms" where
  "simWebhookCpms fds =
     simProviderCpms\<lparr>cpmsMeta := (cpmsMeta simProviderCpms)\<lparr>omName := ''cluster''\<rparr>,
       cpmsSpecOf := (cpmsSpecOf simProviderCpms)\<lparr>cpmsTemplateOf := \<lparr>machineType = OpenShiftMachineV1Beta1MachineType,
         openShiftMachine = Some \<lparr>tmplFailureDomains = Some \<lparr>fdsPlatform = AWSPlatformType, fdsAWS = Some fds,
             fdsAzure = None, fdsGCP = None, fdsVSphere = [], fdsOpenStack = [], fdsNutanix = []\<rparr>,
           tmplLabels = [], tmplAnnotations = [],
           tmplSpec = \<lparr>msProviderSpec = Some ''a|sT'', msAuthoritativeAPI = '''', msOther = ''''\<rparr>\<rparr>\<rparr>\<rparr>\<rparr>"

definition simMaster :: "string \<Rightarrow> string \<Rightarrow> machine" where
  "simMaster name raw = (simAwsMachine name raw)\<lparr>mMeta := emptyMeta\<lparr>omName := name,
     omLabels := [(openshiftMachineRoleLabel, masterMachineRole), (openshiftMachineTypeLabel, masterMachineRole)]\<rparr>\<rparr>"

definition simMasters :: "machine list" where
  "simMasters = [simMaster ''cp-x-1'' ''b|sT'', simAwsMachine ''worker'' ''c|sW'', simMaster ''cp-y-0'' ''a|sA'']"

definition simBothSubnets :: cpms where
  "simBothSubnets = simWebhookCpms [simAwsDomain ''a'' (Some ''sA''), simAwsDomain ''b'' (Some ''sT'')]"

lemma simBothSubnets_admitted: "admitted (ValidateCreate simMachineClient simAwsCodecs simBothSubnets simMasters)"
  by code_simp

theorem create_admitted_witness:
  "omName (cpmsMeta simBothSubnets) = ''cluster'' \<and>
    (\<exists>machines. fetchControlPlaneMachines simMachineClient simMasters = Inr machines \<and> int (length machines) = 2)"
proof -
  have "cpmsState (cpmsSpecOf simBothSubnets) = StateActive" "specReplicas (cpmsSpecOf simBothSubnets) = Some 2"
    "sint (2 :: 32 word) = 2" by code_simp+
  with create_admitted [OF simBothSubnets_admitted] show ?thesis by auto
qed

text \<open>
  C17: the failure domains of an admitted creation match the machines. When the template of an admitted
  creation lists failure domains, every control plane machine is in one of them (completed with the
  domain of the template the dry run left behind), and unless every listed domain is used no two control
  plane machines share one.
\<close>

theorem create_admitted_domains:
  assumes "admitted (ValidateCreate cl cd c k)"
    and "openShiftMachine (cpmsTemplateOf (cpmsSpecOf c)) = Some tmpl"
    and "tmplFailureDomains tmpl = Some fds" and "fdsPlatform fds \<noteq> ''''"
  shows "\<exists>infra machines used listed completed raw config t.
    GetInfrastructure cl k = Inr infra \<and> fetchControlPlaneMachines cl k = Inr machines \<and>
    getMachineFailureDomains cd infra machines = Inr used \<and> NewFailureDomains (Some fds) = Inr listed \<and>
    NewProviderConfigFromMachineSpec cd ((tmplSpec tmpl)\<lparr>msProviderSpec := Some raw\<rparr>) (Some infra) = Inr config \<and>
    ExtractFailureDomain config = Inr t \<and> CompleteFailureDomains listed t = Inr completed \<and>
    (\<forall>d \<in> set used. \<exists>s \<in> set completed. Equal d s) \<and>
    ((\<forall>s \<in> set completed. \<exists>d \<in> set used. Equal s d) \<or> sorted_wrt (\<lambda>x y. \<not> Equal x y) used)"
proof -
  from assms(1) obtain infra machines where p: "GetInfrastructure cl k = Inr infra"
    "admitted (fst (validateSpec cl cd ''spec'' c infra k))" "fetchControlPlaneMachines cl k = Inr machines"
    "admitted (validateTemplateOnCreate cd (childPath ''spec'' ''template'')
       (cpmsTemplateOf (cpmsSpecOf (snd (validateSpec cl cd ''spec'' c infra k)))) machines infra)"
    by (rule create_admitted_parts)
  from p(2) obtain tmpl' sent answer where
    ty: "machineType (cpmsTemplateOf (cpmsSpecOf c)) = OpenShiftMachineV1Beta1MachineType"
    and "openShiftMachine (cpmsTemplateOf (cpmsSpecOf c)) = Some tmpl'"
    and T: "cpmsTemplateOf (cpmsSpecOf (snd (validateSpec cl cd ''spec'' c infra k))) = (cpmsTemplateOf (cpmsSpecOf c))
       \<lparr>openShiftMachine := Some (withRaw (Some (decodedRaw sent answer)) tmpl')\<rparr>"
    by (rule template_admitted)
  then have "tmpl' = tmpl" using assms(2) by simp
  with p(4) T ty obtain path where
    "admitted (validateOpenShiftMachineV1BetaTemplateOnCreate cd path (withRaw (Some (decodedRaw sent answer)) tmpl) machines infra)"
    by (auto simp: validateTemplateOnCreate_def)
  with assms(3,4) obtain config t used listed completed where
    "NewProviderConfigFromMachineSpec cd ((tmplSpec tmpl)\<lparr>msProviderSpec := Some (decodedRaw sent answer)\<rparr>) (Some infra) = Inr config"
    "ExtractFailureDomain config = Inr t" "getMachineFailureDomains cd infra machines = Inr used"
    "NewFailureDomains (Some fds) = Inr listed" "CompleteFailureDomains listed t = Inr completed"
    "missingFailureDomains used completed = []"
    "missingFailureDomains completed used = [] \<or> duplicatedFailureDomains used = []"
    by (auto simp: validateOpenShiftMachineV1BetaTemplateOnCreate_def withRaw_def
        checkOpenShiftFailureDomainsMatchMachines_def Let_def split: sum.splits if_splits)
  with p(1,3) show ?thesis unfolding missingFailureDomains_Nil duplicatedFailureDomains_Nil by blast
qed

definition simBothDomains :: "failureDomain list" where
  "simBothDomains = map NewAWSFailureDomain [simAwsDomain ''a'' (Some ''sA''), simAwsDomain ''b'' (Some ''sT'')]"

theorem create_admitted_domains_witness:
  "\<exists>used completed t. getMachineFailureDomains simAwsCodecs simInfrastructure (filter isLabelledControlPlane simMasters) = Inr used \<and>
     CompleteFailureDomains simBothDomains t = Inr completed \<and>
     (\<forall>d \<in> set used. \<exists>s \<in> set completed. Equal d s)"
proof -
  let ?fds = "\<lparr>fdsPlatform = AWSPlatformType, fdsAWS = Some [simAwsDomain ''a'' (Some ''sA''), simAwsDomain ''b'' (Some ''sT'')],
    fdsAzure = None, fdsGCP = None, fdsVSphere = [], fdsOpenStack = [], fdsNutanix = []\<rparr>"
  let ?tmpl = "\<lparr>tmplFailureDomains = Some ?fds, tmplLabels = [], tmplAnnotations = [],
    tmplSpec = \<lparr>msProviderSpec = Some ''a|sT'', msAuthoritativeAPI = '''', msOther = ''''\<rparr>\<rparr>"
  have t: "openShiftMachine (cpmsTemplateOf (cpmsSpecOf simBothSubnets)) = Some ?tmpl" by code_simp
  have "fdsPlatform ?fds \<noteq> ''''" by code_simp
  from create_admitted_domains [OF simBothSubnets_admitted t _ this] obtain infra machines used listed completed t where
    "GetInfrastructure simMachineClient simMasters = Inr infra"
    "fetchControlPlaneMachines simMachineClient simMasters = Inr machines"
    "getMachineFailureDomains simAwsCodecs infra machines = Inr used" "NewFailureDomains (Some ?fds) = Inr listed"
    "CompleteFailureDomains listed t = Inr completed" "\<forall>d \<in> set used. \<exists>s \<in> set completed. Equal d s" by auto
  moreover have "GetInfrastructure simMachineClient simMasters = Inr simInfrastructure"
    "fetchControlPlaneMachines simMachineClient simMasters = Inr (filter isLabelledControlPlane simMasters)"
    "NewFailureDomains (Some ?fds) = Inr simBothDomains" by code_simp+
  ultimately show ?thesis by auto
qed

section \<open>Updates\<close>

text \<open>
  C32: requests that end the life of a set. The update that drops the last finalizer of a set being
  deleted is admitted whatever the spec says and whether or not the API server answers, unless it also
  activates the set; and no update activates a set that is being deleted.
\<close>

theorem finalizer_removal_admitted:
  assumes "omDeletionTimestamp (cpmsMeta c) \<noteq> None"
  shows "(omFinalizers (cpmsMeta old) \<noteq> [] \<and> omFinalizers (cpmsMeta c) = [] \<and>
      (cpmsState (cpmsSpecOf c) = StateActive \<longrightarrow> cpmsState (cpmsSpecOf old) = StateActive) \<longrightarrow>
      ValidateUpdate cl cd (Some old) c k = Inr ([], [])) \<and>
    (cpmsState (cpmsSpecOf old) \<noteq> StateActive \<and> cpmsState (cpmsSpecOf c) = StateActive \<longrightarrow>
      \<not> admitted (ValidateUpdate cl cd (Some old) c k))"
  using assms by (auto simp: ValidateUpdate_def shouldValidateSpecUpdate_def)

definition simDeleting :: "string list \<Rightarrow> cpms" where
  "simDeleting fs = simBothSubnets\<lparr>cpmsMeta := (cpmsMeta simBothSubnets)\<lparr>omDeletionTimestamp := Some 1, omFinalizers := fs\<rparr>\<rparr>"

definition simDownClient :: "machine list machineClient" where
  "simDownClient = simMachineClient\<lparr>mcGetInfrastructure := (\<lambda>n k. Inl (ApiErr ''InternalError'' ''down''))\<rparr>"

theorem finalizer_removal_admitted_witness:
  "ValidateUpdate simDownClient simAwsCodecs (Some (simDeleting [''f''])) (simDeleting []) simMasters = Inr ([], [])"
proof -
  have "omDeletionTimestamp (cpmsMeta (simDeleting [])) \<noteq> None" "omFinalizers (cpmsMeta (simDeleting [''f''])) \<noteq> []"
    "omFinalizers (cpmsMeta (simDeleting [])) = []"
    "cpmsState (cpmsSpecOf (simDeleting [''f''])) = cpmsState (cpmsSpecOf (simDeleting []))" by code_simp+
  then show ?thesis using finalizer_removal_admitted by metis
qed

section \<open>Dry runs and the create checks\<close>

definition simTemplateSubnet :: cpms where
  "simTemplateSubnet = simWebhookCpms [simAwsDomain ''a'' (Some ''sA''), simAwsDomain ''b'' None]"

text \<open>
  A creation that matches its machines can be refused. The second failure domain has no subnet and
  takes that of the template, sT, which is where the machine of that domain is: the create checks on
  the set as submitted pass. But the validation of the spec runs first, and its dry run for the first
  domain leaves that domain's subnet sA in the template, with which the second domain is completed: the
  request is refused because a machine is in an unspecified failure domain.
\<close>

lemma dry_run_refuses_creation:
  "admitted (validateSpecOnCreate simMachineClient simAwsCodecs ''spec'' simTemplateSubnet simInfrastructure simMasters) \<and>
   admitted (fst (validateSpec simMachineClient simAwsCodecs ''spec'' simTemplateSubnet simInfrastructure simMasters)) \<and>
   \<not> admitted (ValidateCreate simMachineClient simAwsCodecs simTemplateSubnet simMasters)"
  by code_simp

section \<open>A missing provider spec\<close>

text \<open>
  With failure domains listed, a template whose provider spec does not decode panics in the create
  check instead of being reported.
\<close>

lemma create_check_panics:
  assumes "tmplFailureDomains tmpl = Some fds" and "fdsPlatform fds \<noteq> ''''" and "msProviderSpec (tmplSpec tmpl) = None"
  shows "validateOpenShiftMachineV1BetaTemplateOnCreate cd path tmpl machines infra = Inl nilDereference"
  using assms by (simp add: validateOpenShiftMachineV1BetaTemplateOnCreate_def NewProviderConfigFromMachineSpec_def
      getPlatformTypeFromProviderSpec_def)

end
