(* ===== verification/Generator_Properties.thy ===== *)
theory Generator_Properties
  imports Generator Webhook_Properties
begin

text \<open>
  When the generator writes and what; the shape of a generated set; when an existing set is replaced;
  and that a generated set passes the webhook's checks against the machines it was generated from.
\<close>

section \<open>Writes\<close>

text \<open>The set a reconcile works on: the fetched one, or the zero value if there is none.\<close>

definition fetchedCpms :: "'k generatorClient \<Rightarrow> string \<Rightarrow> string \<Rightarrow> 'k \<Rightarrow> cpms \<Rightarrow> bool" where
  "fetchedCpms cl reqNamespace reqName k c \<longleftrightarrow>
     (case gcGetCpms cl reqNamespace reqName k of Inr c' \<Rightarrow> c' = c | Inl e \<Rightarrow> isNotFound e \<and> c = zeroCpms)"

text \<open>What the generator may do to the cluster for a set and the one generated in its place.\<close>

definition replaces :: "'k generatorClient \<Rightarrow> cpms \<Rightarrow> cpms \<Rightarrow> 'k \<Rightarrow> 'k \<Rightarrow> bool" where
  "replaces cl c generated k k' \<longleftrightarrow>
     (case gcDeleteCpms cl c (omResourceVersion (cpmsMeta c)) k of
        (Inl e, k1) \<Rightarrow> k' = k1 | (Inr _, k1) \<Rightarrow> k' = snd (gcCreateCpms cl generated k1))"

lemma recreate_replaces: "recreateControlPlaneMachineSet cl c generated k = (r, k') \<Longrightarrow> replaces cl c generated k k'"
  by (auto simp: recreateControlPlaneMachineSet_def replaces_def split: prod.splits sum.splits)

lemma reconcileGenerated_writes:
  assumes "reconcileGenerated cl cd j ns c k = (r, k')" and "k' \<noteq> k"
  obtains machines infra generated where "getControlPlaneMachines cl ns k = Inr machines" "2 \<le> length machines"
    "GetInfrastructure (gcBase cl) k = Inr infra" "generateControlPlaneMachineSet cd j ns infra machines = Inr generated"
    "omName (cpmsMeta c) = '''' \<and> k' = snd (gcCreateCpms cl generated k) \<or>
     omName (cpmsMeta c) \<noteq> '''' \<and> (\<exists>diff. compareControlPlaneMachineSets cd j c generated = Inr diff \<and> diff \<noteq> []) \<and>
       replaces cl c generated k k'"
proof -
  from assms obtain machines where m: "getControlPlaneMachines cl ns k = Inr machines" "2 \<le> length machines"
    by (auto simp: reconcileGenerated_def isSupportedControlPlaneMachinesNumber_def split: sum.splits if_splits)
  with assms obtain infra where i: "GetInfrastructure (gcBase cl) k = Inr infra"
    by (auto simp: reconcileGenerated_def isSupportedControlPlaneMachinesNumber_def split: sum.splits)
  with assms m obtain generated where g: "generateControlPlaneMachineSet cd j ns infra machines = Inr generated"
    by (auto simp: reconcileGenerated_def isSupportedControlPlaneMachinesNumber_def split: sum.splits if_splits)
  have n: "isSupportedControlPlaneMachinesNumber machines" using m(2) by (simp add: isSupportedControlPlaneMachinesNumber_def)
  show thesis
  proof (cases "omName (cpmsMeta c) = ''''")
    case True
    with assms m i g n have "k' = snd (gcCreateCpms cl generated k)"
      by (auto simp: reconcileGenerated_def ensureControlPlaneMachineSet_def split: prod.splits sum.splits)
    with True show thesis by (intro that [OF m i g]) simp
  next
    case False
    with assms m i g n obtain diff where "compareControlPlaneMachineSets cd j c generated = Inr diff" "diff \<noteq> []"
      "recreateControlPlaneMachineSet cl c generated k = (r, k')"
      by (auto simp: reconcileGenerated_def ensureControlPlaneMachineSet_def split: sum.splits if_splits)
    with False show thesis by (intro that [OF m i g]) (auto dest: recreate_replaces)
  qed
qed

text \<open>
  C19: what the generator writes. A reconcile of the generator changes the cluster only when the set it
  fetched is neither Active nor being deleted and there are at least two control plane machines; and
  then it either creates the generated set where there was none, or, where the specs differ, deletes
  the fetched set at the resource version it was seen with and, if that succeeds, creates the generated
  one.
\<close>

theorem generator_only_replaces_inactive:
  assumes "ReconcileGenerator cl cd j ns reqNamespace reqName k = (r, k')" and "k' \<noteq> k"
  shows "\<exists>c machines infra generated. fetchedCpms cl reqNamespace reqName k c \<and>
     omDeletionTimestamp (cpmsMeta c) = None \<and> cpmsState (cpmsSpecOf c) \<noteq> StateActive \<and>
     getControlPlaneMachines cl ns k = Inr machines \<and> 2 \<le> length machines \<and>
     GetInfrastructure (gcBase cl) k = Inr infra \<and>
     generateControlPlaneMachineSet cd j ns infra machines = Inr generated \<and>
     (omName (cpmsMeta c) = '''' \<and> k' = snd (gcCreateCpms cl generated k) \<or>
      omName (cpmsMeta c) \<noteq> '''' \<and> (\<exists>diff. compareControlPlaneMachineSets cd j c generated = Inr diff \<and> diff \<noteq> []) \<and>
        replaces cl c generated k k')"
proof -
  from assms obtain c r' where c: "fetchedCpms cl reqNamespace reqName k c" "omDeletionTimestamp (cpmsMeta c) = None"
    "cpmsState (cpmsSpecOf c) \<noteq> StateActive" and g: "reconcileGenerated cl cd j ns c k = (r', k')"
    by (fastforce simp: ReconcileGenerator_def fetchedCpms_def Let_def split: sum.splits if_splits prod.splits)
  from reconcileGenerated_writes [OF g assms(2)] c show ?thesis by metis
qed

section \<open>The generated set\<close>

definition faithfulConversion :: "generatorJson \<Rightarrow> bool" where
  "faithfulConversion j \<longleftrightarrow> (\<forall>d. gjConvertDomains j d = Inr d) \<and> (\<forall>c. gjConvertCpms j c = Inr c)"

lemma completeSpec_cases:
  assumes "completeSpec machines fds ms = Inr spec"
  obtains m rest where "machines = m # rest"
    "spec = fillTemplate fds ms (genericControlPlaneMachineSetSpec 3 (labelAt (omLabels (mMeta m)) clusterIDLabelKey))"
  using assms by (auto simp: completeSpec_def newestMachine_def generatedReplicas_def split: list.splits)

lemma withSpec_cases:
  assumes "withSpec machines text fds ms = Inr spec"
  obtains s where "ms = Inr s" "completeSpec machines fds s = Inr spec"
  using assms by (auto simp: withSpec_def split: sum.splits)

lemma marshalled_cases:
  assumes "marshalled text raw = Inr ms"
  obtains r where "raw = Inr r" "ms = rawMachineSpec r"
  using assms by (auto simp: marshalled_def split: sum.splits)

lemmas build_machine_spec_defs =
  buildControlPlaneMachineSetAWSMachineSpec_def buildControlPlaneMachineSetAzureMachineSpec_def
  buildControlPlaneMachineSetGCPMachineSpec_def buildControlPlaneMachineSetNutanixMachineSpec_def
  buildControlPlaneMachineSetOpenStackMachineSpec_def buildControlPlaneMachineSetVSphereMachineSpec_def

lemma built_spec_raw:
  "buildControlPlaneMachineSetAWSMachineSpec cd machines = Inr ms \<Longrightarrow> \<exists>raw. ms = rawMachineSpec raw"
  "buildControlPlaneMachineSetAzureMachineSpec cd machines = Inr ms \<Longrightarrow> \<exists>raw. ms = rawMachineSpec raw"
  "buildControlPlaneMachineSetGCPMachineSpec cd machines = Inr ms \<Longrightarrow> \<exists>raw. ms = rawMachineSpec raw"
  "buildControlPlaneMachineSetNutanixMachineSpec cd machines infra b = Inr ms \<Longrightarrow> \<exists>raw. ms = rawMachineSpec raw"
  "buildControlPlaneMachineSetOpenStackMachineSpec cd machines fds = Inr ms \<Longrightarrow> \<exists>raw. ms = rawMachineSpec raw"
  "buildControlPlaneMachineSetVSphereMachineSpec cd machines infra = Inr ms \<Longrightarrow> \<exists>raw. ms = rawMachineSpec raw"
  by (auto simp: build_machine_spec_defs marshalled_def Let_def split: sum.splits list.splits option.splits)

lemmas generate_spec_defs =
  generateControlPlaneMachineSetAWSSpec_def generateControlPlaneMachineSetAzureSpec_def
  generateControlPlaneMachineSetGCPSpec_def generateControlPlaneMachineSetNutanixSpec_def
  generateControlPlaneMachineSetOpenStackSpec_def generateControlPlaneMachineSetVSphereSpec_def

lemma generated_completeSpec:
  "generateControlPlaneMachineSetAWSSpec cd j machines = Inr spec \<Longrightarrow> \<exists>fds raw. completeSpec machines fds (rawMachineSpec raw) = Inr spec"
  "generateControlPlaneMachineSetAzureSpec cd j machines = Inr spec \<Longrightarrow> \<exists>fds raw. completeSpec machines fds (rawMachineSpec raw) = Inr spec"
  "generateControlPlaneMachineSetGCPSpec cd j machines = Inr spec \<Longrightarrow> \<exists>fds raw. completeSpec machines fds (rawMachineSpec raw) = Inr spec"
  "generateControlPlaneMachineSetNutanixSpec cd j machines infra = Inr spec \<Longrightarrow> \<exists>fds raw. completeSpec machines fds (rawMachineSpec raw) = Inr spec"
  "generateControlPlaneMachineSetOpenStackSpec cd j machines = Inr spec \<Longrightarrow> \<exists>fds raw. completeSpec machines fds (rawMachineSpec raw) = Inr spec"
  "generateControlPlaneMachineSetVSphereSpec cd j machines infra = Inr spec \<Longrightarrow> \<exists>fds raw. completeSpec machines fds (rawMachineSpec raw) = Inr spec"
  by (auto simp: generate_spec_defs Let_def elim!: withSpec_cases dest!: built_spec_raw split: sum.splits)

text \<open>On every platform the spec is the generic one of the newest machine with a template filled in.\<close>

lemma generated_spec:
  assumes "faithfulConversion j" and "generateControlPlaneMachineSet cd j ns infra machines = Inr c"
  obtains m rest fds raw where "machines = m # rest"
    "c = zeroCpms\<lparr>cpmsAPIVersion := ''machine.openshift.io/v1'', cpmsKind := ''ControlPlaneMachineSet'',
       cpmsMeta := emptyMeta\<lparr>omName := ''cluster'', omNamespace := ns\<rparr>,
       cpmsSpecOf := fillTemplate fds (rawMachineSpec raw)
         (genericControlPlaneMachineSetSpec 3 (labelAt (omLabels (mMeta m)) clusterIDLabelKey))\<rparr>"
proof -
  from assms obtain spec where c: "c = zeroCpms\<lparr>cpmsAPIVersion := ''machine.openshift.io/v1'',
      cpmsKind := ''ControlPlaneMachineSet'', cpmsMeta := emptyMeta\<lparr>omName := ''cluster'', omNamespace := ns\<rparr>,
      cpmsSpecOf := spec\<rparr>"
    and g: "generateControlPlaneMachineSetAWSSpec cd j machines = Inr spec \<or>
      generateControlPlaneMachineSetAzureSpec cd j machines = Inr spec \<or>
      generateControlPlaneMachineSetGCPSpec cd j machines = Inr spec \<or>
      generateControlPlaneMachineSetNutanixSpec cd j machines infra = Inr spec \<or>
      generateControlPlaneMachineSetOpenStackSpec cd j machines = Inr spec \<or>
      generateControlPlaneMachineSetVSphereSpec cd j machines infra = Inr spec"
    by (auto simp: generateControlPlaneMachineSet_def faithfulConversion_def clusterControlPlaneMachineSetName_def
        split: option.splits if_splits sum.splits)
  from g have "\<exists>fds raw. completeSpec machines fds (rawMachineSpec raw) = Inr spec"
    by (elim disjE) (erule generated_completeSpec)+
  then obtain fds raw where "completeSpec machines fds (rawMachineSpec raw) = Inr spec" by auto
  then show thesis
  proof (rule completeSpec_cases)
    fix m rest
    assume "machines = m # rest" and "spec = fillTemplate fds (rawMachineSpec raw)
      (genericControlPlaneMachineSetSpec 3 (labelAt (omLabels (mMeta m)) clusterIDLabelKey))"
    with c show thesis by (intro that) simp_all
  qed
qed

text \<open>
  The shape of a generated set. It is named cluster in the generator's namespace, Inactive, of three
  replicas, with the rolling update strategy; its selector requires exactly the labels of its template,
  which carry the cluster of the newest machine and the master role and type; and the template has a
  provider spec.
\<close>

lemma generated_shape:
  assumes "faithfulConversion j" and "generateControlPlaneMachineSet cd j ns infra machines = Inr c"
  shows "omName (cpmsMeta c) = ''cluster'' \<and> omNamespace (cpmsMeta c) = ns \<and>
    cpmsState (cpmsSpecOf c) = StateInactive \<and> specReplicas (cpmsSpecOf c) = Some 3 \<and>
    strategyType (cpmsSpecOf c) = RollingUpdate \<and> selMatchExpressions (cpmsSelector (cpmsSpecOf c)) = [] \<and>
    (\<exists>m rest tmpl. machines = m # rest \<and> openShiftMachine (cpmsTemplateOf (cpmsSpecOf c)) = Some tmpl \<and>
       machineType (cpmsTemplateOf (cpmsSpecOf c)) = OpenShiftMachineV1Beta1MachineType \<and>
       tmplLabels tmpl = selMatchLabels (cpmsSelector (cpmsSpecOf c)) \<and>
       gm_get (tmplLabels tmpl) MachineClusterIDLabel = Some (labelAt (omLabels (mMeta m)) MachineClusterIDLabel) \<and>
       gm_get (tmplLabels tmpl) openshiftMachineRoleLabel = Some masterMachineRole \<and>
       gm_get (tmplLabels tmpl) openshiftMachineTypeLabel = Some masterMachineRole \<and>
       msProviderSpec (tmplSpec tmpl) \<noteq> None)"
  using assms
proof (rule generated_spec)
  fix m rest fds raw
  assume m: "machines = m # rest" and c: "c = zeroCpms\<lparr>cpmsAPIVersion := ''machine.openshift.io/v1'',
    cpmsKind := ''ControlPlaneMachineSet'', cpmsMeta := emptyMeta\<lparr>omName := ''cluster'', omNamespace := ns\<rparr>,
    cpmsSpecOf := fillTemplate fds (rawMachineSpec raw)
      (genericControlPlaneMachineSetSpec 3 (labelAt (omLabels (mMeta m)) clusterIDLabelKey))\<rparr>"
  show ?thesis
    by (simp add: c m fillTemplate_def genericControlPlaneMachineSetSpec_def rawMachineSpec_def Let_def
        clusterIDLabelKey_def clusterMachineRoleLabelKey_def clusterMachineTypeLabelKey_def
        clusterMachineLabelValueMaster_def MachineClusterIDLabel_def openshiftMachineRoleLabel_def
        openshiftMachineTypeLabel_def masterMachineRole_def)
qed

section \<open>Replacing an existing set\<close>

text \<open>What makes two sets the same to the generator: the specs but for the provider spec and the
  authoritative API, and the machines the provider specs describe.\<close>

definition sameSets :: "codecs \<Rightarrow> cpms \<Rightarrow> cpms \<Rightarrow> bool" where
  "sameSets cd a b \<longleftrightarrow>
     (\<exists>ta tb pa pb. openShiftMachine (cpmsTemplateOf (cpmsSpecOf a)) = Some ta \<and>
        openShiftMachine (cpmsTemplateOf (cpmsSpecOf b)) = Some tb \<and>
        bareSpec ta (cpmsSpecOf a) = bareSpec tb (cpmsSpecOf b) \<and>
        NewProviderConfigFromMachineSpec cd (tmplSpec ta) None = Inr pa \<and>
        NewProviderConfigFromMachineSpec cd (tmplSpec tb) None = Inr pb \<and> sameMachine pa pb)"

lemma compare_sets:
  assumes "deepComparisons cd" and "deepComparison (gjSpecDeep j)"
    and "compareControlPlaneMachineSets cd j a b = Inr diff"
  shows "diff = [] \<longleftrightarrow> sameSets cd a b"
proof -
  from assms(3) obtain ta tb pa pb ds where t: "openShiftMachine (cpmsTemplateOf (cpmsSpecOf a)) = Some ta"
    "openShiftMachine (cpmsTemplateOf (cpmsSpecOf b)) = Some tb"
    "NewProviderConfigFromMachineSpec cd (tmplSpec ta) None = Inr pa"
    "NewProviderConfigFromMachineSpec cd (tmplSpec tb) None = Inr pb" and d: "pcDiff cd pa (Some pb) = Inr ds"
    and diff: "diff = gjSpecDeep j (bareSpec ta (cpmsSpecOf a)) (bareSpec tb (cpmsSpecOf b)) @ ds"
    by (auto simp: compareControlPlaneMachineSets_def split: option.splits sum.splits)
  from d have "pcType pa = pcType pb" "pcType pa \<noteq> NonePlatformType"
    by (auto simp: pcDiff_def platform_defs split: if_splits)
  from diff_ignores_images_core [OF assms(1) this] d have "ds = [] \<longleftrightarrow> sameMachine pa pb" by auto
  with assms(2) t diff show ?thesis by (auto simp: sameSets_def deepComparison_def)
qed

text \<open>
  C29: the generator settles. For a fetched set that is neither Active nor being deleted, of a cluster
  whose machines give a generated set, a comparison that succeeds decides: if the two are the same up to
  the authoritative API, boot images and the text of the provider spec, the reconcile succeeds and
  leaves the cluster alone; otherwise it deletes the fetched set, at the resource version seen, and
  creates the generated one.
\<close>

theorem generator_settles:
  assumes "deepComparisons cd" and "deepComparison (gjSpecDeep j)"
    and "gcGetCpms cl reqNamespace reqName k = Inr c" and "omName (cpmsMeta c) \<noteq> ''''"
    and "omDeletionTimestamp (cpmsMeta c) = None" and "cpmsState (cpmsSpecOf c) \<noteq> StateActive"
    and "getControlPlaneMachines cl ns k = Inr machines" and "2 \<le> length machines"
    and "GetInfrastructure (gcBase cl) k = Inr infra"
    and "generateControlPlaneMachineSet cd j ns infra machines = Inr generated"
    and "compareControlPlaneMachineSets cd j c generated = Inr diff"
  shows "if sameSets cd c generated then ReconcileGenerator cl cd j ns reqNamespace reqName k = (Inr emptyResult, k)
    else replaces cl c generated k (snd (ReconcileGenerator cl cd j ns reqNamespace reqName k))"
proof -
  obtain r k' where rec: "recreateControlPlaneMachineSet cl c generated k = (r, k')" by force
  have "isSupportedControlPlaneMachinesNumber machines"
    using assms(8) by (simp add: isSupportedControlPlaneMachinesNumber_def)
  then have g: "reconcileGenerated cl cd j ns c k = (if sameSets cd c generated then (Inr emptyResult, k) else (r, k'))"
    using assms(4-) compare_sets [OF assms(1,2,11)] rec
    by (simp add: reconcileGenerated_def ensureControlPlaneMachineSet_def)
  then show ?thesis using assms(3,5,6) recreate_replaces [OF rec]
    by (auto simp: ReconcileGenerator_def split: sum.splits)
qed

section \<open>Failure domains of the generated set\<close>

text \<open>The platforms whose failure domain is read off the provider spec alone, and that reading.\<close>

definition specPlatforms :: "string list" where
  "specPlatforms = [AWSPlatformType, AzurePlatformType, GCPPlatformType, OpenStackPlatformType]"

definition domainOf :: "providerConfig \<Rightarrow> failureDomain" where
  "domainOf p =
     (if pcType p = AWSPlatformType then NewAWSFailureDomain (awsExtractFailureDomain (pcAWS p))
      else if pcType p = AzurePlatformType then NewAzureFailureDomain (azureExtractFailureDomain (pcAzure p))
      else if pcType p = GCPPlatformType then NewGCPFailureDomain (gcpExtractFailureDomain (pcGCP p))
      else NewOpenStackFailureDomain (openstackExtractFailureDomain (pcOpenStack p)))"

lemma extract_domainOf: "pcType p \<in> set specPlatforms \<Longrightarrow> ExtractFailureDomain p = Inr (Some (domainOf p))"
  by (auto simp: specPlatforms_def ExtractFailureDomain_def domainOf_def platform_defs)

lemma platformType_domainOf: "pcType p \<in> set specPlatforms \<Longrightarrow> platformType (domainOf p) = pcType p"
  by (auto simp: specPlatforms_def domainOf_def)

lemma Equal_domainOf:
  "pcType p \<in> set specPlatforms \<Longrightarrow> pcType q = pcType p \<Longrightarrow> Equal (domainOf p) (domainOf q) \<longleftrightarrow> domainOf p = domainOf q"
  by (auto simp: specPlatforms_def domainOf_def Equal_def newFD_defs platform_defs)

text \<open>A machine of the platform and its configuration, which does not depend on the infrastructure.\<close>

definition configured :: "codecs \<Rightarrow> string \<Rightarrow> machine \<Rightarrow> providerConfig \<Rightarrow> bool" where
  "configured cd platform m p \<longleftrightarrow>
     pcType p = platform \<and> (\<forall>infra. NewProviderConfigFromMachineSpec cd (mSpec m) infra = Inr p)"

lemma configured_exists:
  assumes "platform \<in> set specPlatforms" and "getPlatformTypeFromProviderSpec cd (msProviderSpec (mSpec m)) = Inr platform"
    and "NewProviderConfigFromMachineSpec cd (mSpec m) infra = Inr p"
  shows "configured cd platform m p"
proof -
  have "newProviderConfigFromProviderSpec cd s platform i = newProviderConfigFromProviderSpec cd s platform infra" for s i
    using assms(1) by (auto simp: newProviderConfigFromProviderSpec_def specPlatforms_def platform_defs split: option.split)
  with assms(2,3) newProviderConfig_type [of cd "msProviderSpec (mSpec m)" platform infra p] show ?thesis
    by (simp add: configured_def NewProviderConfigFromMachineSpec_def) metis
qed

lemma configured_extract:
  "platform \<in> set specPlatforms \<Longrightarrow> configured cd platform m p \<Longrightarrow>
     ExtractFailureDomainFromMachine cd infra m = Inr (Some (domainOf p))"
  by (simp add: configured_def ExtractFailureDomainFromMachine_def extract_domainOf)

lemma extractLoop_configured:
  assumes "platform \<in> set specPlatforms" and "list_all2 (configured cd platform) ms ps"
  shows "extractLoop cd infra ms acc = Inr (foldl (setInsert Equal) acc (map domainOf ps))"
  using assms(2) by (induction arbitrary: acc rule: list_all2_induct) (simp_all add: configured_extract [OF assms(1)])

lemma getMachineFailureDomains_configured:
  assumes "platform \<in> set specPlatforms" and "list_all2 (configured cd platform) ms ps"
  shows "getMachineFailureDomains cd infra ms = Inr (map domainOf ps)"
  using assms(2) by (induction rule: list_all2_induct) (simp_all add: configured_extract [OF assms(1)] extractFrom_def)

lemma set_newSet:
  assumes "\<forall>x \<in> set xs. \<forall>y \<in> set xs. Equal x y \<longleftrightarrow> x = y"
  shows "set (newSet Equal xs) = set xs"
proof
  show "set xs \<subseteq> set (newSet Equal xs)"
  proof
    fix x assume x: "x \<in> set xs"
    then have "setHas Equal (newSet Equal xs) x" by (simp add: fdEq.newSet_has)
    then obtain y where "y \<in> set (newSet Equal xs)" "Equal y x" by (auto simp: setHas_def list_ex_iff)
    with assms x fdEq.newSet_subset [of xs] show "x \<in> set (newSet Equal xs)" by auto
  qed
qed (rule fdEq.newSet_subset)

text \<open>Configurations of the machines, all of one platform.\<close>

definition ofPlatform :: "string \<Rightarrow> providerConfig list \<Rightarrow> bool" where
  "ofPlatform platform ps \<longleftrightarrow> platform \<in> set specPlatforms \<and> ps \<noteq> [] \<and> (\<forall>p \<in> set ps. pcType p = platform)"

lemma ofPlatform_Equal:
  "ofPlatform platform ps \<Longrightarrow> xs \<subseteq> domainOf ` set ps \<Longrightarrow> \<forall>x \<in> xs. \<forall>y \<in> xs. Equal x y \<longleftrightarrow> x = y"
  by (auto simp: ofPlatform_def subset_iff Equal_domainOf) (metis Equal_domainOf imageE)+

text \<open>The failure domains handed to the platform are, as a set, those of the machines.\<close>

lemma buildFailureDomains_configured:
  assumes "faithfulConversion j" and "ofPlatform platform ps" and "list_all2 (configured cd platform) machines ps"
  obtains fds where "set fds = domainOf ` set ps"
    "ExtractFailureDomainsFromMachines cd infra machines = Inr (setList fdString fds)"
    "set (newSet Equal (setList fdString fds)) = domainOf ` set ps"
    "buildFailureDomains cd j machines infra =
       (case buildPlatformFailureDomains platform (newSet Equal (setList fdString fds)) infra of
          Inl e \<Rightarrow> Inl (wrap ''failed to build platform specific failure domains'' e) | Inr d \<Rightarrow> Inr d)"
proof -
  let ?fds = "newSet Equal (map domainOf ps)" and ?ds = "domainOf ` set ps"
  have sp: "platform \<in> set specPlatforms" using assms(2) by (simp add: ofPlatform_def)
  have s: "set ?fds = ?ds"
    using set_newSet [of "map domainOf ps"] ofPlatform_Equal [OF assms(2), of ?ds] by simp
  have e: "ExtractFailureDomainsFromMachines cd infra machines = Inr (setList fdString ?fds)"
    using extractLoop_configured [OF sp assms(3)] by (simp add: ExtractFailureDomainsFromMachines_def newSet_def)
  have s2: "set (setList fdString ?fds) = ?ds" using s by (simp add: setList_def)
  then obtain fd rest where l: "setList fdString ?fds = fd # rest"
    using assms(2) by (cases "setList fdString ?fds") (auto simp: ofPlatform_def)
  then have "fd \<in> ?ds" using s2 by auto
  then have "platformType fd = platform" using assms(2) platformType_domainOf by (auto simp: ofPlatform_def)
  then have b: "buildFailureDomains cd j machines infra =
      (case buildPlatformFailureDomains platform (newSet Equal (setList fdString ?fds)) infra of
         Inl e \<Rightarrow> Inl (wrap ''failed to build platform specific failure domains'' e) | Inr d \<Rightarrow> Inr d)"
    using e l assms(1) by (simp add: buildFailureDomains_def faithfulConversion_def split: sum.split)
  have "set (newSet Equal (setList fdString ?fds)) = ?ds"
    using set_newSet [of "setList fdString ?fds"] ofPlatform_Equal [OF assms(2), of ?ds] s2 by simp
  with s e b show thesis by (intro that)
qed

text \<open>
  What the checks of the webhook need of a template whose configuration has the failure domain \<open>t\<close>:
  without failure domains it is the domain of every machine; otherwise the listed domains, completed
  with it, are those of the machines, each listed once.
\<close>

definition matchesDomains :: "failureDomains option \<Rightarrow> failureDomain \<Rightarrow> failureDomain set \<Rightarrow> bool" where
  "matchesDomains fdso t ds \<longleftrightarrow>
     (case fdso of
        None \<Rightarrow> ds = {t}
      | Some fds \<Rightarrow>
          if fdsPlatform fds = '''' then ds = {t}
          else (\<exists>listed completed. NewFailureDomains (Some fds) = Inr listed \<and>
                  CompleteFailureDomains listed (Some t) = Inr completed \<and> set completed = ds \<and>
                  (\<forall>x \<in> set listed. \<forall>y \<in> set listed. Complete x (Some t) = Complete y (Some t) \<longrightarrow> x = y)))"

lemma missing_subset: "set xs \<subseteq> set ys \<Longrightarrow> missingFailureDomains xs ys = []"
  unfolding missingFailureDomains_Nil by (meson fdEq.eq_refl subsetD)

lemma matched_template_passes:
  assumes "ofPlatform platform ps" and "list_all2 (configured cd platform) ms ps"
    and "\<forall>infra. NewProviderConfigFromMachineSpec cd (tmplSpec tmpl) infra = Inr q" and "pcType q = platform"
    and "matchesDomains (tmplFailureDomains tmpl) (domainOf q) (domainOf ` set ps)"
  shows "validateOpenShiftMachineV1BetaTemplateOnCreate cd path tmpl ms infra = Inr ([], [])"
proof -
  have sp: "platform \<in> set specPlatforms" using assms(1) by (simp add: ofPlatform_def)
  then have ex: "ExtractFailureDomain q = Inr (Some (domainOf q))" using assms(4) by (simp add: extract_domainOf)
  have single: "checkOpenShiftProviderSpecFailureDomainMatchesMachines cd path' tmpl ms infra = Inr ([], [])"
    if "domainOf ` set ps = {domainOf q}"
      and "NewProviderConfigFromMachineTemplate cd tmpl (Some infra) = NewProviderConfigFromMachineSpec cd (tmplSpec tmpl) (Some infra)" for path'
  proof -
    have "set (newSet Equal (map domainOf ps)) = {domainOf q}"
      using set_newSet [of "map domainOf ps"] that(1) by simp
    then have "\<forall>fd \<in> set (setList fdString (newSet Equal (map domainOf ps))). Equal (domainOf q) fd"
      by (simp add: setList_def)
    then show ?thesis
      using that(2) assms(3) ex extractLoop_configured [OF sp assms(2), of "Some infra" "[]"]
      by (simp add: checkOpenShiftProviderSpecFailureDomainMatchesMachines_def ExtractFailureDomainsFromMachines_def
          newSet_def filter_empty_conv)
  qed
  have tmplSame: "NewProviderConfigFromMachineTemplate cd tmpl i = NewProviderConfigFromMachineSpec cd (tmplSpec tmpl) i"
    if "tmplFailureDomains tmpl = None \<or> (\<exists>fds. tmplFailureDomains tmpl = Some fds \<and> fdsPlatform fds = '''')" for i
    using that by (auto simp: NewProviderConfigFromMachineTemplate_def NewProviderConfigFromMachineSpec_def
        getPlatformTypeFromMachineTemplate_def)
  show ?thesis
  proof (cases "tmplFailureDomains tmpl")
    case None
    with assms(5) single tmplSame show ?thesis
      by (simp add: validateOpenShiftMachineV1BetaTemplateOnCreate_def matchesDomains_def)
  next
    case (Some fds)
    show ?thesis
    proof (cases "fdsPlatform fds = ''''")
      case True
      with Some assms(5) single tmplSame show ?thesis
        by (simp add: validateOpenShiftMachineV1BetaTemplateOnCreate_def matchesDomains_def)
    next
      case False
      with Some assms(5) obtain listed completed where l: "NewFailureDomains (Some fds) = Inr listed"
        "CompleteFailureDomains listed (Some (domainOf q)) = Inr completed" "set completed = domainOf ` set ps"
        by (auto simp: matchesDomains_def)
      have "missingFailureDomains (map domainOf ps) completed = []" "missingFailureDomains completed (map domainOf ps) = []"
        using l(3) missing_subset by simp_all
      with False Some assms(3) ex l getMachineFailureDomains_configured [OF sp assms(2)] show ?thesis
        by (simp add: validateOpenShiftMachineV1BetaTemplateOnCreate_def checkOpenShiftFailureDomainsMatchMachines_def)
    qed
  qed
qed

lemma CompleteFailureDomains_map:
  "\<forall>x \<in> set xs. Complete (g x) t = Inr (f x) \<Longrightarrow> CompleteFailureDomains (map g xs) t = Inr (map f xs)"
  by (induction xs) auto

text \<open>Listing the domains in a blanked form that the template completes to the original ones.\<close>

lemma matchesDomains_listed:
  assumes "fdsPlatform d \<noteq> ''''" and "NewFailureDomains (Some d) = Inr (map g xs)"
    and "\<forall>x \<in> set xs. Complete (g x) (Some t) = Inr x" and "set xs = ds"
  shows "matchesDomains (Some d) t ds"
proof -
  have "x = y" if "x \<in> g ` set xs" "y \<in> g ` set xs" "Complete x (Some t) = Complete y (Some t)" for x y
    using assms(3) that by fastforce
  then show ?thesis using assms(1,2,4) CompleteFailureDomains_map [of xs g "Some t" id] assms(3)
    by (simp add: matchesDomains_def)
qed

lemma platform_nonempty: "platform \<in> set specPlatforms \<Longrightarrow> platform \<noteq> ''''"
  by (auto simp: specPlatforms_def platform_defs)

lemma complete_with_blank:
  "Complete (NewAWSFailureDomain a) (Some (NewAWSFailureDomain \<lparr>awsSubnet = None, awsAvailabilityZone = ''''\<rparr>)) =
     Inr (NewAWSFailureDomain a)"
  "Complete (NewGCPFailureDomain g) (Some (NewGCPFailureDomain \<lparr>gcpZone = ''''\<rparr>)) = Inr (NewGCPFailureDomain g)"
  "Complete (NewOpenStackFailureDomain os) (Some (NewOpenStackFailureDomain emptyOpenStackFailureDomain)) =
     Inr (NewOpenStackFailureDomain os)"
proof -
  show "Complete (NewAWSFailureDomain a) (Some (NewAWSFailureDomain \<lparr>awsSubnet = None, awsAvailabilityZone = ''''\<rparr>)) =
      Inr (NewAWSFailureDomain a)"
    by (cases a) (auto simp: Complete_def completeAWS_def Let_def split: option.split)
  show "Complete (NewGCPFailureDomain g) (Some (NewGCPFailureDomain \<lparr>gcpZone = ''''\<rparr>)) = Inr (NewGCPFailureDomain g)"
    by (cases g) (auto simp: Complete_def completeGCP_def platform_defs)
  show "Complete (NewOpenStackFailureDomain os) (Some (NewOpenStackFailureDomain emptyOpenStackFailureDomain)) =
      Inr (NewOpenStackFailureDomain os)"
    by (cases os) (auto simp: Complete_def completeOpenStack_def emptyOpenStackFailureDomain_def Let_def platform_defs)
qed

lemma aws_matches:
  assumes "\<forall>p \<in> set ps. pcType p = AWSPlatformType" and "set fds = domainOf ` set ps"
    and "pcType q = AWSPlatformType" and "awsConfigSubnet (pcAWS q) = zeroBetaReference" and "awsPlacementZone (pcAWS q) = ''''"
  shows "matchesDomains (Some (buildAWSFailureDomains fds)) (domainOf q) (domainOf ` set ps)"
proof (rule matchesDomains_listed [where xs = "setList fdString fds" and g = "NewAWSFailureDomain \<circ> fdAws"])
  show "NewFailureDomains (Some (buildAWSFailureDomains fds)) = Inr (map (NewAWSFailureDomain \<circ> fdAws) (setList fdString fds))"
    by (simp add: NewFailureDomains_def buildAWSFailureDomains_def newAWSFailureDomains_def)
  have "domainOf q = NewAWSFailureDomain \<lparr>awsSubnet = None, awsAvailabilityZone = ''''\<rparr>"
    using assms(3-5) by (simp add: domainOf_def awsExtractFailureDomain_def convertAWSResourceReferenceV1Beta1ToV1_def
        zeroBetaReference_def Let_def)
  moreover have "\<exists>a. x = NewAWSFailureDomain a" if "x \<in> set fds" for x
    using that assms(1,2) by (auto simp: domainOf_def)
  ultimately show "\<forall>x \<in> set (setList fdString fds). Complete ((NewAWSFailureDomain \<circ> fdAws) x) (Some (domainOf q)) = Inr x"
    using complete_with_blank(1) by (fastforce simp: setList_def)
qed (use assms(2) in \<open>simp_all add: buildAWSFailureDomains_def platform_defs setList_def\<close>)

lemma gcp_matches:
  assumes "\<forall>p \<in> set ps. pcType p = GCPPlatformType" and "set fds = domainOf ` set ps"
    and "pcType q = GCPPlatformType" and "gcpConfigZone (pcGCP q) = ''''"
  shows "matchesDomains (Some (buildGCPFailureDomains fds)) (domainOf q) (domainOf ` set ps)"
proof (rule matchesDomains_listed [where xs = "setList fdString fds" and g = "NewGCPFailureDomain \<circ> fdGcp"])
  show "NewFailureDomains (Some (buildGCPFailureDomains fds)) = Inr (map (NewGCPFailureDomain \<circ> fdGcp) (setList fdString fds))"
    by (simp add: NewFailureDomains_def buildGCPFailureDomains_def newGCPFailureDomains_def platform_defs)
  have "domainOf q = NewGCPFailureDomain \<lparr>gcpZone = ''''\<rparr>"
    using assms(3,4) by (simp add: domainOf_def gcpExtractFailureDomain_def platform_defs)
  moreover have "\<exists>a. x = NewGCPFailureDomain a" if "x \<in> set fds" for x
    using that assms(1,2) by (auto simp: domainOf_def platform_defs)
  ultimately show "\<forall>x \<in> set (setList fdString fds). Complete ((NewGCPFailureDomain \<circ> fdGcp) x) (Some (domainOf q)) = Inr x"
    using complete_with_blank(2) by (fastforce simp: setList_def)
qed (use assms(2) in \<open>simp_all add: buildGCPFailureDomains_def platform_defs setList_def\<close>)

text \<open>OpenStack: either domains are listed and the template is blanked, or no machine has one.\<close>

lemma openstack_listed:
  assumes "\<forall>p \<in> set ps. pcType p = OpenStackPlatformType" and "set fds = domainOf ` set ps"
    and "buildOpenStackFailureDomains fds = Inr d" and "fdsOpenStack d \<noteq> []"
    and "pcType q = OpenStackPlatformType" and "openstackExtractFailureDomain (pcOpenStack q) = emptyOpenStackFailureDomain"
  shows "matchesDomains (Some d) (domainOf q) (domainOf ` set ps)"
proof (rule matchesDomains_listed [where xs = "setList fdString fds" and g = "NewOpenStackFailureDomain \<circ> fdOpenstack"])
  have d: "fdsOpenStack d = map fdOpenstack (setList fdString fds)" "fdsPlatform d = OpenStackPlatformType"
    using assms(3,4) by (auto simp: buildOpenStackFailureDomains_def Let_def split: if_splits)
  then show "NewFailureDomains (Some d) = Inr (map (NewOpenStackFailureDomain \<circ> fdOpenstack) (setList fdString fds))"
    using assms(4) by (simp add: NewFailureDomains_def newOpenStackFailureDomains_def platform_defs)
  have "domainOf q = NewOpenStackFailureDomain emptyOpenStackFailureDomain"
    using assms(5,6) by (simp add: domainOf_def platform_defs)
  moreover have "\<exists>a. x = NewOpenStackFailureDomain a" if "x \<in> set fds" for x
    using that assms(1,2) by (auto simp: domainOf_def platform_defs)
  ultimately show "\<forall>x \<in> set (setList fdString fds). Complete ((NewOpenStackFailureDomain \<circ> fdOpenstack) x) (Some (domainOf q)) = Inr x"
    using complete_with_blank(3) by (fastforce simp: setList_def)
  show "fdsPlatform d \<noteq> ''''" using d(2) by (simp add: platform_defs)
qed (use assms(2) in \<open>simp add: setList_def\<close>)

lemma openstack_unlisted:
  assumes "\<forall>p \<in> set ps. pcType p = OpenStackPlatformType" and "set fds = domainOf ` set ps"
    and "buildOpenStackFailureDomains fds = Inr d" and "fdsOpenStack d = []" and "q \<in> set ps"
  shows "matchesDomains None (domainOf q) (domainOf ` set ps)"
proof -
  have "map fdOpenstack (setList fdString fds) = [emptyOpenStackFailureDomain] \<or> setList fdString fds = []"
    using assms(3,4) by (auto simp: buildOpenStackFailureDomains_def Let_def split: if_splits)
  moreover have s: "set (setList fdString fds) = domainOf ` set ps" using assms(2) by (simp add: setList_def)
  then have "setList fdString fds \<noteq> []" using assms(5) by auto
  ultimately obtain x where "setList fdString fds = [x]" by auto
  with s have "domainOf ` set ps = {x}" by simp
  then show ?thesis using assms(5) by (auto simp: matchesDomains_def)
qed

text \<open>
  Azure: a zone or subnet that all machines share is kept in the template and left out of the domains,
  one in which they differ is listed and left out of the template.
\<close>

definition sharedZone :: "azureFailureDomain list \<Rightarrow> bool" where
  "sharedZone xs \<longleftrightarrow> (\<forall>x \<in> set xs. \<forall>y \<in> set xs. azureZone x = azureZone y)"

definition sharedSubnet :: "azureFailureDomain list \<Rightarrow> bool" where
  "sharedSubnet xs \<longleftrightarrow> (\<forall>x \<in> set xs. \<forall>y \<in> set xs. azureSubnet x = azureSubnet y)"

lemma allFailureDomains_shared:
  "allFailureDomainsZonesMatch xs \<longleftrightarrow> sharedZone xs" "allFailureDomainsSubnetsMatch xs \<longleftrightarrow> sharedSubnet xs"
  by (auto simp: allFailureDomainsZonesMatch_def sharedZone_def allFailureDomainsSubnetsMatch_def sharedSubnet_def
      list_all_iff split: list.splits)

definition unlistShared :: "bool \<Rightarrow> bool \<Rightarrow> azureFailureDomain \<Rightarrow> azureFailureDomain" where
  "unlistShared zones subnets x = \<lparr>azureZone = (if zones then '''' else azureZone x),
     azureSubnet = (if subnets then '''' else azureSubnet x)\<rparr>"

lemma buildAzureFailureDomains_eq:
  assumes "az = map fdAzure (setList fdString fds)" and "length az > 1"
  shows "buildAzureFailureDomains fds =
     zeroDomains\<lparr>fdsAzure := Some (map (unlistShared (sharedZone az) (sharedSubnet az)) az), fdsPlatform := AzurePlatformType\<rparr>"
proof -
  have "sharedZone (map (\<lambda>f. f\<lparr>azureSubnet := ''''\<rparr>) az) = sharedZone az" by (auto simp: sharedZone_def)
  moreover have "unlistShared True True x = x\<lparr>azureSubnet := '''', azureZone := ''''\<rparr>"
    "unlistShared True False x = x\<lparr>azureZone := ''''\<rparr>" "unlistShared False True x = x\<lparr>azureSubnet := ''''\<rparr>"
    "unlistShared False False x = x" for x by (cases x; simp add: unlistShared_def)+
  ultimately show ?thesis using assms
    by (auto simp: buildAzureFailureDomains_def allFailureDomains_shared Let_def comp_def)
qed

lemma azure_complete:
  assumes "z = (if zones then azureZone x else '''')" and "s = (if subnets then azureSubnet x else '''')"
  shows "Complete (NewAzureFailureDomain (unlistShared zones subnets x))
    (Some (NewAzureFailureDomain \<lparr>azureZone = z, azureSubnet = s\<rparr>)) = Inr (NewAzureFailureDomain x)"
  using assms by (cases x) (auto simp: unlistShared_def Complete_def completeAzure_def Let_def platform_defs)

text \<open>The Azure part of the template of the given configurations.\<close>

definition azureTemplate :: "providerConfig list \<Rightarrow> azureMachineProviderSpec" where
  "azureTemplate ps =
     (let a = pcAzure (hd ps);
          a1 = (if \<not> allProviderConfigZonesMatch ps then a\<lparr>azureConfigZone := ''''\<rparr> else a)
      in if \<not> allProviderConfigSubnetsMatch ps then a1\<lparr>azureConfigSubnet := ''''\<rparr> else a1)"

lemma all_eq_member: "h \<in> S \<Longrightarrow> (\<forall>p \<in> S. \<forall>q \<in> S. f p = f q) \<longleftrightarrow> (\<forall>p \<in> S. f p = f h)"
  by metis

lemma azureTemplate_domain:
  assumes "ps \<noteq> []" and "set az = (\<lambda>p. azureExtractFailureDomain (pcAzure p)) ` set ps" and "x \<in> set az"
  shows "azureExtractFailureDomain (azureTemplate ps) =
    \<lparr>azureZone = (if sharedZone az then azureZone x else ''''), azureSubnet = (if sharedSubnet az then azureSubnet x else '''')\<rparr>"
proof -
  have h: "hd ps \<in> set ps" using assms(1) by simp
  have z: "sharedZone az \<longleftrightarrow> allProviderConfigZonesMatch ps"
    using all_eq_member [OF h, of "\<lambda>p. azureConfigZone (pcAzure p)"]
    by (simp add: sharedZone_def assms(2) allProviderConfigZonesMatch_def list_all_iff azureExtractFailureDomain_def)
  have s: "sharedSubnet az \<longleftrightarrow> allProviderConfigSubnetsMatch ps"
    using all_eq_member [OF h, of "\<lambda>p. azureConfigSubnet (pcAzure p)"]
    by (simp add: sharedSubnet_def assms(2) allProviderConfigSubnetsMatch_def list_all_iff azureExtractFailureDomain_def)
  obtain p where p: "p \<in> set ps" "x = azureExtractFailureDomain (pcAzure p)" using assms(2,3) by auto
  have "sharedZone az \<longrightarrow> azureZone x = azureConfigZone (pcAzure (hd ps))"
    "sharedSubnet az \<longrightarrow> azureSubnet x = azureConfigSubnet (pcAzure (hd ps))"
    using p z s unfolding allProviderConfigZonesMatch_def allProviderConfigSubnetsMatch_def list_all_iff
    by (simp_all add: azureExtractFailureDomain_def)
  then show ?thesis using z s by (auto simp: azureTemplate_def azureExtractFailureDomain_def Let_def)
qed

lemma azure_matches:
  assumes "\<forall>p \<in> set ps. pcType p = AzurePlatformType" and "ps \<noteq> []" and "set fds = domainOf ` set ps"
    and "pcType q = AzurePlatformType" and "pcAzure q = azureTemplate ps"
  shows "matchesDomains (Some (buildAzureFailureDomains fds)) (domainOf q) (domainOf ` set ps)"
proof -
  define az where "az = map fdAzure (setList fdString fds)"
  have dom: "domainOf p = NewAzureFailureDomain (azureExtractFailureDomain (pcAzure p))" if "pcType p = AzurePlatformType" for p
    using that by (simp add: domainOf_def platform_defs)
  have saz: "set az = (\<lambda>p. azureExtractFailureDomain (pcAzure p)) ` set ps"
    using assms(1) dom by (simp add: az_def setList_def assms(3) image_image)
  have sl: "set (setList fdString fds) = domainOf ` set ps" using assms(3) by (simp add: setList_def)
  note t = azureTemplate_domain [OF assms(2) saz]
  have dq: "domainOf q = NewAzureFailureDomain (azureExtractFailureDomain (azureTemplate ps))" using dom [OF assms(4)] assms(5) by simp
  have el: "x = NewAzureFailureDomain (fdAzure x) \<and> fdAzure x \<in> set az" if "x \<in> set (setList fdString fds)" for x
    using that sl assms(1) dom by (auto simp: az_def)
  show ?thesis
  proof (cases "length az \<le> 1")
    case True
    moreover have "setList fdString fds \<noteq> []" using sl assms(2) by auto
    ultimately obtain x where x: "setList fdString fds = [x]" by (cases "setList fdString fds") (auto simp: az_def)
    then have "az = [fdAzure x]" by (simp add: az_def)
    with t [of "fdAzure x"] dq have "domainOf q = NewAzureFailureDomain (fdAzure x)"
      by (cases "fdAzure x") (simp add: sharedZone_def sharedSubnet_def)
    with el [of x] x have "domainOf q = x" by simp
    moreover have "buildAzureFailureDomains fds = zeroDomains" using True by (simp add: buildAzureFailureDomains_def az_def)
    ultimately show ?thesis using sl x by (simp add: matchesDomains_def zeroDomains_def)
  next
    case False
    then have b: "buildAzureFailureDomains fds =
        zeroDomains\<lparr>fdsAzure := Some (map (unlistShared (sharedZone az) (sharedSubnet az)) az), fdsPlatform := AzurePlatformType\<rparr>"
      by (intro buildAzureFailureDomains_eq [OF az_def]) simp
    let ?g = "\<lambda>x. NewAzureFailureDomain (unlistShared (sharedZone az) (sharedSubnet az) (fdAzure x))"
    show ?thesis
    proof (rule matchesDomains_listed [where xs = "setList fdString fds" and g = ?g])
      show "NewFailureDomains (Some (buildAzureFailureDomains fds)) = Inr (map ?g (setList fdString fds))"
        by (simp add: b NewFailureDomains_def newAzureFailureDomains_def platform_defs az_def comp_def)
      show "\<forall>x \<in> set (setList fdString fds). Complete (?g x) (Some (domainOf q)) = Inr x"
        using el t dq azure_complete [OF refl refl] by (metis (no_types, lifting))
    qed (use b sl in \<open>simp_all add: platform_defs\<close>)
  qed
qed

text \<open>What is documented of the codecs: strict decoding of what was encoded gives it back.\<close>

definition roundTrips :: "'c platformCodec \<Rightarrow> bool" where
  "roundTrips c \<longleftrightarrow> (\<forall>a raw. codecMarshal c a = Inr raw \<longrightarrow> codecStrict c raw = (None, a))"

definition codecsRoundTrip :: "codecs \<Rightarrow> bool" where
  "codecsRoundTrip cd \<longleftrightarrow> roundTrips (cdAWS cd) \<and> roundTrips (cdAzure cd) \<and> roundTrips (cdGCP cd) \<and> roundTrips (cdOpenStack cd)"

lemma roundTrips_decode: "roundTrips c \<Longrightarrow> codecMarshal c a = Inr raw \<Longrightarrow> checkForUnknownFieldsInProviderSpecAndUnmarshal c raw = Inr a"
  by (simp add: roundTrips_def checkForUnknownFieldsInProviderSpecAndUnmarshal_def)

lemma template_decodes:
  assumes "codecsRoundTrip cd" and "getPlatformTypeFromProviderSpec cd (Some raw) = Inr platform"
  shows "platform = AWSPlatformType \<Longrightarrow> codecMarshal (cdAWS cd) a = Inr raw \<Longrightarrow>
      NewProviderConfigFromMachineSpec cd (rawMachineSpec raw) infra = Inr (zeroProviderConfig\<lparr>pcType := AWSPlatformType, pcAWS := a\<rparr>)"
    "platform = AzurePlatformType \<Longrightarrow> codecMarshal (cdAzure cd) b = Inr raw \<Longrightarrow>
      NewProviderConfigFromMachineSpec cd (rawMachineSpec raw) infra = Inr (zeroProviderConfig\<lparr>pcType := AzurePlatformType, pcAzure := b\<rparr>)"
    "platform = GCPPlatformType \<Longrightarrow> codecMarshal (cdGCP cd) g = Inr raw \<Longrightarrow>
      NewProviderConfigFromMachineSpec cd (rawMachineSpec raw) infra = Inr (zeroProviderConfig\<lparr>pcType := GCPPlatformType, pcGCP := g\<rparr>)"
    "platform = OpenStackPlatformType \<Longrightarrow> codecMarshal (cdOpenStack cd) os = Inr raw \<Longrightarrow>
      NewProviderConfigFromMachineSpec cd (rawMachineSpec raw) infra = Inr (zeroProviderConfig\<lparr>pcType := OpenStackPlatformType, pcOpenStack := os\<rparr>)"
  using assms
  by (simp_all add: NewProviderConfigFromMachineSpec_def rawMachineSpec_def newProviderConfigFromProviderSpec_def
      newAWSProviderConfig_def newAzureProviderConfig_def newGCPProviderConfig_def newOpenStackProviderConfig_def
      roundTrips_decode codecsRoundTrip_def platform_defs)

lemma completeSpec_template:
  "completeSpec machines fds ms = Inr spec \<Longrightarrow> openShiftMachine (cpmsTemplateOf spec) = Some tmpl \<Longrightarrow>
     tmplFailureDomains tmpl = fds \<and> tmplSpec tmpl = ms"
  by (elim completeSpec_cases) (auto simp: fillTemplate_def genericControlPlaneMachineSetSpec_def Let_def)

lemma newestConfig_configured:
  "list_all2 (configured cd platform) machines ps \<Longrightarrow> ps \<noteq> [] \<Longrightarrow> newestConfig cd text machines None = Inr (hd ps)"
  by (cases machines; cases ps) (auto simp: newestConfig_def newestMachine_def configured_def)

lemma azureConfigs_configured: "list_all2 (configured cd platform) machines ps \<Longrightarrow> azureConfigs cd machines = Inr ps"
  by (induction rule: list_all2_induct) (auto simp: configured_def)

text \<open>On each platform the template of the generated spec matches the domains of the machines.\<close>

definition templateMatches :: "codecs \<Rightarrow> string \<Rightarrow> openShiftMachineTemplate \<Rightarrow> providerConfig list \<Rightarrow> bool" where
  "templateMatches cd platform tmpl ps \<longleftrightarrow>
     (\<exists>q. (\<forall>infra. NewProviderConfigFromMachineSpec cd (tmplSpec tmpl) infra = Inr q) \<and> pcType q = platform \<and>
        matchesDomains (tmplFailureDomains tmpl) (domainOf q) (domainOf ` set ps))"

lemma templateMatchesI:
  "(\<And>infra. NewProviderConfigFromMachineSpec cd (tmplSpec tmpl) infra = Inr q) \<Longrightarrow> pcType q = platform \<Longrightarrow>
     matchesDomains (tmplFailureDomains tmpl) (domainOf q) (domainOf ` set ps) \<Longrightarrow> templateMatches cd platform tmpl ps"
  unfolding templateMatches_def by blast

text \<open>The failure domains a platform builds for the machines, none where it has none to build.\<close>

definition builtFrom ::
  "codecs \<Rightarrow> generatorJson \<Rightarrow> string \<Rightarrow> machine list \<Rightarrow> providerConfig list \<Rightarrow> failureDomain list \<Rightarrow> bool" where
  "builtFrom cd j platform machines ps fds \<longleftrightarrow>
     ofPlatform platform ps \<and> list_all2 (configured cd platform) machines ps \<and> set fds = domainOf ` set ps \<and>
     (\<forall>tx. domainsOrNone tx (buildFailureDomains cd j machines None) =
       (case buildPlatformFailureDomains platform fds None of
          Inr d \<Rightarrow> Inr (Some d)
        | Inl e \<Rightarrow> if errorIs e errNoFailureDomainsGenerated then Inr None
                   else Inl (wrap tx (wrap ''failed to build platform specific failure domains'' e))))"

lemma builtFrom_exists:
  assumes "faithfulConversion j" and "ofPlatform platform ps" and "list_all2 (configured cd platform) machines ps"
  shows "\<exists>fds. builtFrom cd j platform machines ps fds"
proof (rule buildFailureDomains_configured [OF assms, of None])
  fix fds
  let ?F = "newSet Equal (setList fdString fds)"
  assume s: "set ?F = domainOf ` set ps"
    and b: "buildFailureDomains cd j machines None = (case buildPlatformFailureDomains platform ?F None of
      Inl e \<Rightarrow> Inl (wrap ''failed to build platform specific failure domains'' e) | Inr d \<Rightarrow> Inr d)"
  have "builtFrom cd j platform machines ps ?F"
    using assms s by (auto simp: builtFrom_def b domainsOrNone_def errNoFailureDomainsGenerated_def split: sum.splits)
  then show ?thesis by blast
qed

lemma builtFrom_facts:
  assumes "builtFrom cd j platform machines ps fds"
  shows "\<forall>p \<in> set ps. pcType p = platform" "ps \<noteq> []" "set fds = domainOf ` set ps"
    "newestConfig cd tx machines None = Inr (hd ps)" "azureConfigs cd machines = Inr ps"
  using assms newestConfig_configured [of cd platform machines ps tx] azureConfigs_configured [of cd platform machines ps]
  by (simp_all add: builtFrom_def ofPlatform_def)

text \<open>A generated template, the platform its kind names and the failure domains it was built from.\<close>

definition generatedFrom ::
  "codecs \<Rightarrow> generatorJson \<Rightarrow> string \<Rightarrow> machine list \<Rightarrow> providerConfig list \<Rightarrow> failureDomain list \<Rightarrow>
   openShiftMachineTemplate \<Rightarrow> cpmsSpec \<Rightarrow> bool" where
  "generatedFrom cd j platform machines ps fds tmpl spec \<longleftrightarrow>
     codecsRoundTrip cd \<and> builtFrom cd j platform machines ps fds \<and>
     openShiftMachine (cpmsTemplateOf spec) = Some tmpl \<and>
     getPlatformTypeFromProviderSpec cd (msProviderSpec (tmplSpec tmpl)) = Inr platform"

lemma generatedFrom_template:
  assumes "generatedFrom cd j platform machines ps fds tmpl spec" and "completeSpec machines d (rawMachineSpec raw) = Inr spec"
  shows "tmplFailureDomains tmpl = d" "tmplSpec tmpl = rawMachineSpec raw"
    "getPlatformTypeFromProviderSpec cd (Some raw) = Inr platform"
  using assms completeSpec_template [OF assms(2), of tmpl] by (auto simp: generatedFrom_def rawMachineSpec_def)

definition blankAws :: "awsMachineProviderConfig \<Rightarrow> awsMachineProviderConfig" where
  "blankAws a = a\<lparr>awsConfigSubnet := zeroBetaReference, awsPlacementZone := ''''\<rparr>"

lemma aws_template:
  assumes g: "generatedFrom cd j AWSPlatformType machines ps fds tmpl spec"
    and "generateControlPlaneMachineSetAWSSpec cd j machines = Inr spec"
  shows "tmplFailureDomains tmpl = Some (buildAWSFailureDomains fds)"
    "NewProviderConfigFromMachineSpec cd (tmplSpec tmpl) infra = Inr (zeroProviderConfig\<lparr>pcType := AWSPlatformType, pcAWS := blankAws (pcAWS (hd ps))\<rparr>)"
proof -
  let ?a = "(pcAWS (hd ps))\<lparr>awsConfigSubnet := zeroBetaReference, awsPlacementZone := ''''\<rparr>"
  from g have b: "builtFrom cd j AWSPlatformType machines ps fds" and rt: "codecsRoundTrip cd" by (simp_all add: generatedFrom_def)
  with assms(2) builtFrom_facts(4) [OF b] obtain raw where r: "codecMarshal (cdAWS cd) ?a = Inr raw"
    "completeSpec machines (Some (buildAWSFailureDomains fds)) (rawMachineSpec raw) = Inr spec"
    by (auto simp: generateControlPlaneMachineSetAWSSpec_def buildControlPlaneMachineSetAWSMachineSpec_def builtFrom_def
        buildPlatformFailureDomains_def elim!: withSpec_cases marshalled_cases)
  note tm = generatedFrom_template [OF g r(2)]
  show "tmplFailureDomains tmpl = Some (buildAWSFailureDomains fds)" using tm by simp
  show "NewProviderConfigFromMachineSpec cd (tmplSpec tmpl) infra = Inr (zeroProviderConfig\<lparr>pcType := AWSPlatformType, pcAWS := blankAws (pcAWS (hd ps))\<rparr>)"
    using template_decodes(1) [OF rt tm(3) refl r(1)] tm by (simp add: blankAws_def)
qed

lemma aws_template_matches:
  assumes g: "generatedFrom cd j AWSPlatformType machines ps fds tmpl spec"
    and "generateControlPlaneMachineSetAWSSpec cd j machines = Inr spec"
  shows "templateMatches cd AWSPlatformType tmpl ps"
proof -
  from g have b: "builtFrom cd j AWSPlatformType machines ps fds" by (simp add: generatedFrom_def)
  note t = aws_template [OF assms]
  show ?thesis
    by (rule templateMatchesI [OF t(2)]) (use t(1) aws_matches [of ps fds] builtFrom_facts [OF b] in \<open>simp_all add: blankAws_def\<close>)
qed

lemma gcp_template:
  assumes g: "generatedFrom cd j GCPPlatformType machines ps fds tmpl spec"
    and "generateControlPlaneMachineSetGCPSpec cd j machines = Inr spec"
  shows "tmplFailureDomains tmpl = Some (buildGCPFailureDomains fds)"
    "NewProviderConfigFromMachineSpec cd (tmplSpec tmpl) infra = Inr (zeroProviderConfig\<lparr>pcType := GCPPlatformType, pcGCP := (pcGCP (hd ps))\<lparr>gcpConfigZone := ''''\<rparr>\<rparr>)"
proof -
  let ?a = "(pcGCP (hd ps))\<lparr>gcpConfigZone := ''''\<rparr>"
  from g have b: "builtFrom cd j GCPPlatformType machines ps fds" and rt: "codecsRoundTrip cd" by (simp_all add: generatedFrom_def)
  with assms(2) builtFrom_facts(4) [OF b] obtain raw where r: "codecMarshal (cdGCP cd) ?a = Inr raw"
    "completeSpec machines (Some (buildGCPFailureDomains fds)) (rawMachineSpec raw) = Inr spec"
    by (auto simp: generateControlPlaneMachineSetGCPSpec_def buildControlPlaneMachineSetGCPMachineSpec_def builtFrom_def
        buildPlatformFailureDomains_def platform_defs elim!: withSpec_cases marshalled_cases)
  note tm = generatedFrom_template [OF g r(2)]
  show "tmplFailureDomains tmpl = Some (buildGCPFailureDomains fds)" using tm by simp
  show "NewProviderConfigFromMachineSpec cd (tmplSpec tmpl) infra = Inr (zeroProviderConfig\<lparr>pcType := GCPPlatformType, pcGCP := (pcGCP (hd ps))\<lparr>gcpConfigZone := ''''\<rparr>\<rparr>)"
    using template_decodes(3) [OF rt tm(3) refl r(1)] tm by simp
qed

lemma gcp_template_matches:
  assumes g: "generatedFrom cd j GCPPlatformType machines ps fds tmpl spec"
    and "generateControlPlaneMachineSetGCPSpec cd j machines = Inr spec"
  shows "templateMatches cd GCPPlatformType tmpl ps"
proof -
  from g have b: "builtFrom cd j GCPPlatformType machines ps fds" by (simp add: generatedFrom_def)
  note t = gcp_template [OF assms]
  show ?thesis
    by (rule templateMatchesI [OF t(2)]) (use t(1) gcp_matches [of ps fds] builtFrom_facts [OF b] in simp_all)
qed

lemma azure_template:
  assumes g: "generatedFrom cd j AzurePlatformType machines ps fds tmpl spec"
    and "generateControlPlaneMachineSetAzureSpec cd j machines = Inr spec"
  shows "tmplFailureDomains tmpl = Some (buildAzureFailureDomains fds)"
    "NewProviderConfigFromMachineSpec cd (tmplSpec tmpl) infra = Inr (zeroProviderConfig\<lparr>pcType := AzurePlatformType, pcAzure := azureTemplate ps\<rparr>)"
proof -
  from g have b: "builtFrom cd j AzurePlatformType machines ps fds" and rt: "codecsRoundTrip cd" by (simp_all add: generatedFrom_def)
  from builtFrom_facts [OF b] have m: "buildControlPlaneMachineSetAzureMachineSpec cd machines =
      marshalled ''error marshalling azure providerSpec'' (codecMarshal (cdAzure cd) (azureTemplate ps))"
    by (cases ps) (simp_all add: buildControlPlaneMachineSetAzureMachineSpec_def azureTemplate_def Let_def)
  from assms(2) b m obtain raw where r: "codecMarshal (cdAzure cd) (azureTemplate ps) = Inr raw"
    "completeSpec machines (Some (buildAzureFailureDomains fds)) (rawMachineSpec raw) = Inr spec"
    by (auto simp: generateControlPlaneMachineSetAzureSpec_def builtFrom_def
        buildPlatformFailureDomains_def platform_defs elim!: withSpec_cases marshalled_cases)
  note tm = generatedFrom_template [OF g r(2)]
  show "tmplFailureDomains tmpl = Some (buildAzureFailureDomains fds)" using tm by simp
  show "NewProviderConfigFromMachineSpec cd (tmplSpec tmpl) infra = Inr (zeroProviderConfig\<lparr>pcType := AzurePlatformType, pcAzure := azureTemplate ps\<rparr>)"
    using template_decodes(2) [OF rt tm(3) refl r(1)] tm by simp
qed

lemma azure_template_matches:
  assumes g: "generatedFrom cd j AzurePlatformType machines ps fds tmpl spec"
    and "generateControlPlaneMachineSetAzureSpec cd j machines = Inr spec"
  shows "templateMatches cd AzurePlatformType tmpl ps"
proof -
  from g have b: "builtFrom cd j AzurePlatformType machines ps fds" by (simp add: generatedFrom_def)
  note t = azure_template [OF assms]
  show ?thesis
    by (rule templateMatchesI [OF t(2)]) (use t(1) azure_matches [of ps fds] builtFrom_facts [OF b] in simp_all)
qed

definition blankOpenStack :: "openstackProviderSpec \<Rightarrow> openstackProviderSpec" where
  "blankOpenStack o0 = o0\<lparr>ospAvailabilityZone := '''',
     ospRootVolume := map_option (\<lambda>v. v\<lparr>orvZone := '''', orvVolumeType := ''''\<rparr>) (ospRootVolume o0)\<rparr>"

lemma blankOpenStack_domain: "openstackExtractFailureDomain (blankOpenStack o0) = emptyOpenStackFailureDomain"
  by (cases "ospRootVolume o0") (simp_all add: openstackExtractFailureDomain_def blankOpenStack_def emptyOpenStackFailureDomain_def)

lemma openstack_built:
  assumes "domainsOrNone tx (buildFailureDomains cd j machines None) = Inr fdso" and "builtFrom cd j OpenStackPlatformType machines ps fds"
  obtains d where "buildOpenStackFailureDomains fds = Inr d" "fdso = (if fdsOpenStack d = [] then None else Some d)"
proof -
  have "fdsPlatform d = OpenStackPlatformType" if "buildOpenStackFailureDomains fds = Inr d" for d
    using that by (auto simp: buildOpenStackFailureDomains_def Let_def split: if_splits)
  moreover have "\<not> errorIs e errNoFailureDomainsGenerated" if "buildOpenStackFailureDomains fds = Inl e" for e
    using that by (auto simp: buildOpenStackFailureDomains_def errMixedEmptyFailureDomains_def
        errNoFailureDomainsGenerated_def Let_def split: if_splits)
  ultimately show thesis using assms that
    by (cases "buildOpenStackFailureDomains fds")
      (auto simp: builtFrom_def buildPlatformFailureDomains_def platform_defs errNoFailureDomainsGenerated_def split: if_splits)
qed

lemma openstack_template_matches:
  assumes g: "generatedFrom cd j OpenStackPlatformType machines ps fds tmpl spec"
    and "generateControlPlaneMachineSetOpenStackSpec cd j machines = Inr spec"
  shows "templateMatches cd OpenStackPlatformType tmpl ps"
proof -
  from g have b: "builtFrom cd j OpenStackPlatformType machines ps fds" and rt: "codecsRoundTrip cd" by (simp_all add: generatedFrom_def)
  from assms(2) obtain tx ty fdso ms where f: "domainsOrNone tx (buildFailureDomains cd j machines None) = Inr fdso"
    and w: "withSpec machines ty fdso (buildControlPlaneMachineSetOpenStackMachineSpec cd machines fdso) = Inr spec"
    by (auto simp: generateControlPlaneMachineSetOpenStackSpec_def split: sum.splits)
  from f b obtain d where d: "buildOpenStackFailureDomains fds = Inr d" "fdso = (if fdsOpenStack d = [] then None else Some d)"
    by (rule openstack_built)
  let ?o = "if fdsOpenStack d = [] then pcOpenStack (hd ps) else blankOpenStack (pcOpenStack (hd ps))"
  let ?q = "zeroProviderConfig\<lparr>pcType := OpenStackPlatformType, pcOpenStack := ?o\<rparr>"
  from w builtFrom_facts(4) [OF b] d(2) obtain raw where r: "codecMarshal (cdOpenStack cd) ?o = Inr raw"
    "completeSpec machines fdso (rawMachineSpec raw) = Inr spec"
    by (cases "fdsOpenStack d = []")
      (auto simp: buildControlPlaneMachineSetOpenStackMachineSpec_def blankOpenStack_def Let_def
        elim!: withSpec_cases marshalled_cases)
  note tm = generatedFrom_template [OF g r(2)] and bf = builtFrom_facts [OF b]
  have "domainOf (hd ps) = domainOf ?q" if "fdsOpenStack d = []" using bf(1,2) that by (simp add: domainOf_def platform_defs)
  then have "matchesDomains (tmplFailureDomains tmpl) (domainOf ?q) (domainOf ` set ps)"
    using openstack_unlisted [OF bf(1,3) d(1), of "hd ps"] openstack_listed [OF bf(1,3) d(1), of ?q] d(2) tm(1) bf(2)
    by (cases "fdsOpenStack d = []") (simp_all add: blankOpenStack_domain)
  then show ?thesis
    by (rule templateMatchesI [rotated 2]) (use template_decodes(4) [OF rt tm(3) refl r(1)] tm in simp_all)
qed

text \<open>The configurations of machines that decode, in the order of the machines.\<close>

lemma configurations_exist:
  assumes "platform \<in> set specPlatforms"
    and "\<forall>m \<in> set ms. getPlatformTypeFromProviderSpec cd (msProviderSpec (mSpec m)) = Inr platform \<and>
      \<not> isl (NewProviderConfigFromMachineSpec cd (mSpec m) None)"
  shows "\<exists>f. \<forall>m \<in> set ms. configured cd platform m (f m)"
proof -
  have "\<exists>p. configured cd platform m p" if "m \<in> set ms" for m
    using assms(2) that configured_exists [OF assms(1), of cd m None]
    by (cases "NewProviderConfigFromMachineSpec cd (mSpec m) None") auto
  then show ?thesis by (intro bchoice) blast
qed

lemma platform_spec:
  assumes "faithfulConversion j" and "infPlatformStatus infra = Some platform" and "platform \<in> set specPlatforms"
    and "generateControlPlaneMachineSet cd j ns infra machines = Inr c"
  obtains (aws) "platform = AWSPlatformType" "generateControlPlaneMachineSetAWSSpec cd j machines = Inr (cpmsSpecOf c)"
    | (azure) "platform = AzurePlatformType" "generateControlPlaneMachineSetAzureSpec cd j machines = Inr (cpmsSpecOf c)"
    | (gcp) "platform = GCPPlatformType" "generateControlPlaneMachineSetGCPSpec cd j machines = Inr (cpmsSpecOf c)"
    | (openstack) "platform = OpenStackPlatformType" "generateControlPlaneMachineSetOpenStackSpec cd j machines = Inr (cpmsSpecOf c)"
proof -
  have "platform = AWSPlatformType \<or> platform = AzurePlatformType \<or> platform = GCPPlatformType \<or> platform = OpenStackPlatformType"
    using assms(3) by (simp add: specPlatforms_def)
  then show thesis
  proof (elim disjE)
    assume "platform = AWSPlatformType"
    then show thesis using assms(1,2,4) by (intro aws)
      (auto simp: generateControlPlaneMachineSet_def faithfulConversion_def platform_defs split: sum.splits)
  next
    assume "platform = AzurePlatformType"
    then show thesis using assms(1,2,4) by (intro azure)
      (auto simp: generateControlPlaneMachineSet_def faithfulConversion_def platform_defs split: sum.splits)
  next
    assume "platform = GCPPlatformType"
    then show thesis using assms(1,2,4) by (intro gcp)
      (auto simp: generateControlPlaneMachineSet_def faithfulConversion_def platform_defs split: sum.splits)
  next
    assume "platform = OpenStackPlatformType"
    then show thesis using assms(1,2,4) by (intro openstack)
      (auto simp: generateControlPlaneMachineSet_def faithfulConversion_def platform_defs split: sum.splits)
  qed
qed

text \<open>A generated set whose template has the kind of the platform was generated from machines that decode.\<close>

lemma generated_from_machines:
  assumes "faithfulConversion j" and "codecsRoundTrip cd" and "platform \<in> set specPlatforms"
    and "generateControlPlaneMachineSet cd j ns infra machines = Inr c"
    and "\<forall>m \<in> set machines. getPlatformTypeFromProviderSpec cd (msProviderSpec (mSpec m)) = Inr platform \<and>
      \<not> isl (NewProviderConfigFromMachineSpec cd (mSpec m) None)"
    and "openShiftMachine (cpmsTemplateOf (cpmsSpecOf c)) = Some tmpl"
    and "getPlatformTypeFromProviderSpec cd (msProviderSpec (tmplSpec tmpl)) = Inr platform"
    and "set ms = set machines"
  obtains ps ps' fds where "generatedFrom cd j platform machines ps fds tmpl (cpmsSpecOf c)" "set ps' = set ps"
    "ofPlatform platform ps'" "list_all2 (configured cd platform) ms ps'"
proof -
  from configurations_exist [OF assms(3,5)] obtain f where f: "\<forall>m \<in> set machines. configured cd platform m (f m)" by blast
  have l: "list_all2 (configured cd platform) machines (map f machines)" "list_all2 (configured cd platform) ms (map f ms)"
    using f assms(8) by (simp_all add: list.rel_map(2) list_all2_same)
  have ne: "machines \<noteq> []" using assms(1,4) by (rule generated_spec) simp
  have ty: "ofPlatform platform (map f machines)" "ofPlatform platform (map f ms)"
    using f ne assms(3,8) by (auto simp: ofPlatform_def configured_def)
  from builtFrom_exists [OF assms(1) ty(1) l(1)] obtain fds where "builtFrom cd j platform machines (map f machines) fds" by blast
  then have "generatedFrom cd j platform machines (map f machines) fds tmpl (cpmsSpecOf c)"
    using assms(2,6,7) by (simp add: generatedFrom_def)
  then show thesis by (rule that [OF _ _ ty(2) l(2)]) (use assms(8) in simp)
qed

lemma templateMatches_passes:
  assumes "templateMatches cd platform tmpl ps" and "set ps' = set ps" and "ofPlatform platform ps'"
    and "list_all2 (configured cd platform) ms ps'"
  shows "validateOpenShiftMachineV1BetaTemplateOnCreate cd path tmpl ms infra = Inr ([], [])"
proof -
  from assms(1,2) obtain q where "\<forall>infra. NewProviderConfigFromMachineSpec cd (tmplSpec tmpl) infra = Inr q" "pcType q = platform"
    "matchesDomains (tmplFailureDomains tmpl) (domainOf q) (domainOf ` set ps')" by (auto simp: templateMatches_def)
  with assms(3,4) matched_template_passes show ?thesis by blast
qed

text \<open>
  C9: the generator and the webhook agree. On AWS, Azure, GCP and OpenStack, for machines that all decode
  as the cluster's platform, the set generated from them passes the webhook's create-time comparison
  with these machines: listed domains completed with the template are exactly the domains of the
  machines, and where the template lists none its own domain is that of every machine.
\<close>

theorem generated_set_matches_machines:
  assumes "faithfulConversion j" and "codecsRoundTrip cd"
    and "infPlatformStatus infra = Some platform" and "platform \<in> set specPlatforms"
    and "generateControlPlaneMachineSet cd j ns infra machines = Inr c"
    and "\<forall>m \<in> set machines. getPlatformTypeFromProviderSpec cd (msProviderSpec (mSpec m)) = Inr platform \<and>
      \<not> isl (NewProviderConfigFromMachineSpec cd (mSpec m) None)"
    and "openShiftMachine (cpmsTemplateOf (cpmsSpecOf c)) = Some tmpl"
    and "getPlatformTypeFromProviderSpec cd (msProviderSpec (tmplSpec tmpl)) = Inr platform"
    and "set ms = set machines"
  shows "validateTemplateOnCreate cd path (cpmsTemplateOf (cpmsSpecOf c)) ms infra' = Inr ([], [])"
proof -
  from assms(1,2,4-9) obtain ps ps' fds where g: "generatedFrom cd j platform machines ps fds tmpl (cpmsSpecOf c)"
    and ps: "set ps' = set ps" "ofPlatform platform ps'" "list_all2 (configured cd platform) ms ps'"
    by (rule generated_from_machines)
  have "templateMatches cd platform tmpl ps"
    using assms(1,3,4,5)
    by (rule platform_spec) (use g aws_template_matches azure_template_matches gcp_template_matches openstack_template_matches in metis)+
  from templateMatches_passes [OF this ps] show ?thesis
    using assms(1,5,7) generated_spec [OF assms(1,5)]
    by (force simp: validateTemplateOnCreate_def fillTemplate_def genericControlPlaneMachineSetSpec_def Let_def)
qed

end
