(* ===== verification/Generator_Simulation.thy ===== *)
theory Generator_Simulation
  imports Generator_Properties
begin

text \<open>
  A cluster of two Azure machines in one subnet and two zones, and a client whose state is the
  ControlPlaneMachineSet, if there is one. The codecs encode only what they decode back.
\<close>

section \<open>Codecs and client\<close>

definition checkedCodec :: "'c platformCodec \<Rightarrow> 'c platformCodec" where
  "checkedCodec c = c\<lparr>codecMarshal := (\<lambda>a. case codecMarshal c a of
      Inl e \<Rightarrow> Inl e
    | Inr raw \<Rightarrow> if codecStrict c raw = (None, a) then Inr raw else Inl (ErrNew ''cannot encode''))\<rparr>"

lemma roundTrips_checked: "roundTrips (checkedCodec c)"
  by (auto simp: roundTrips_def checkedCodec_def split: sum.splits if_splits)

definition simAzureCodec :: "azureMachineProviderSpec platformCodec" where
  "simAzureCodec =
     (simCodec (pcAzure zeroProviderConfig))
       \<lparr>codecStrict := (\<lambda>raw. (None, (pcAzure zeroProviderConfig)
            \<lparr>azureConfigZone := takeWhile (\<lambda>c. c \<noteq> CHR ''|'') raw,
             azureConfigSubnet := tl (dropWhile (\<lambda>c. c \<noteq> CHR ''|'') raw)\<rparr>)),
        codecMarshal := (\<lambda>c. Inr (azureConfigZone c @ ''|'' @ azureConfigSubnet c))\<rparr>"

definition simGenCodecs :: codecs where
  "simGenCodecs = simCodecs\<lparr>kindOf := (\<lambda>raw. Inr ''AzureMachineProviderSpec''), cdAWS := checkedCodec (cdAWS simCodecs),
     cdAzure := checkedCodec simAzureCodec, cdGCP := checkedCodec (cdGCP simCodecs),
     cdOpenStack := checkedCodec (cdOpenStack simCodecs)\<rparr>"

lemma codecsRoundTrip_sim: "codecsRoundTrip simGenCodecs"
  by (simp add: codecsRoundTrip_def simGenCodecs_def roundTrips_checked)

lemma deepComparisons_simGen: "deepComparisons simGenCodecs"
  using deepComparisons_sim
  by (simp add: deepComparisons_def simGenCodecs_def simAzureCodec_def checkedCodec_def simCodec_def deepComparison_def simDeep_def)

definition simGenJson :: generatorJson where
  "simGenJson = \<lparr>gjConvertDomains = Inr, gjConvertCpms = Inr, gjSpecDeep = simDeep\<rparr>"

lemma simGenJson_faithful: "faithfulConversion simGenJson" "deepComparison (gjSpecDeep simGenJson)"
  by (simp_all add: faithfulConversion_def simGenJson_def deepComparison_def simDeep_def)

definition simAzureInfrastructure :: infrastructure where
  "simAzureInfrastructure = \<lparr>infInfrastructureName = ''c'', infPlatformStatus = Some AzurePlatformType,
     infSpecType = AzurePlatformType, infVSphere = None, infNutanix = None\<rparr>"

definition simAzureMachine :: "string \<Rightarrow> int \<Rightarrow> string \<Rightarrow> machine" where
  "simAzureMachine name created raw =
     \<lparr>mMeta = emptyMeta\<lparr>omName := name, omCreationTimestamp := created, omLabels := [(MachineClusterIDLabel, ''c1'')]\<rparr>,
      mSpec = \<lparr>msProviderSpec = Some raw, msAuthoritativeAPI = '''', msOther = ''''\<rparr>,
      mNodeRef = None, mPhase = None, mErrorMessage = None\<rparr>"

definition simAzureMachines :: "machine list" where
  "simAzureMachines = [simAzureMachine ''m-1'' 2 ''2|s'', simAzureMachine ''m-0'' 1 ''1|s'']"

definition simGenClient :: "cpms option generatorClient" where
  "simGenClient =
     \<lparr>gcBase = \<lparr>mcGetInfrastructure = (\<lambda>n k. Inr simAzureInfrastructure), mcListMachines = (\<lambda>kind sel k. Inr simAzureMachines),
        mcGetNode = (\<lambda>kind n k. Inl (ErrNew ''no node'')), mcDryRunCreate = (\<lambda>kind x k. Inr x),
        mcCreate = (\<lambda>kind x k. (Inr x, k)), mcDelete = (\<lambda>kind x k. (Inr (), k)), mcNow = (\<lambda>k. 0),
        mcRandString = (\<lambda>k. (''abcde'', k)), mcLabelSelectorAsSelector = (\<lambda>s. Inr (\<lambda>l. True)),
        mcGVKForCpms = Inl (ErrNew ''no kind'')\<rparr>,
      gcGetCpms = (\<lambda>ns n k. case k of None \<Rightarrow> Inl (ApiErr reasonNotFound ''not found'') | Some c \<Rightarrow> Inr c),
      gcListMachines = (\<lambda>ns (key, v) k. Inr (if v = clusterMachineLabelValueMaster then rev simAzureMachines else [])),
      gcCreateCpms = (\<lambda>c k. case k of None \<Rightarrow> (Inr (), Some c) | Some _ \<Rightarrow> (Inl (ErrNew ''exists''), k)),
      gcDeleteCpms = (\<lambda>c rv k. (Inr (), None))\<rparr>"

abbreviation simGenerate :: "cpms result" where
  "simGenerate \<equiv> generateControlPlaneMachineSet simGenCodecs simGenJson ''ns'' simAzureInfrastructure simAzureMachines"

definition simGenerated :: cpms where
  "simGenerated = (case simGenerate of Inr c \<Rightarrow> c | Inl e \<Rightarrow> zeroCpms)"

definition simGenTemplate :: openShiftMachineTemplate where
  "simGenTemplate =
     (let labels = [(clusterIDLabelKey, ''c1''), (clusterMachineRoleLabelKey, ''master''), (clusterMachineTypeLabelKey, ''master'')]
      in \<lparr>tmplFailureDomains = Some (zeroDomains\<lparr>fdsPlatform := AzurePlatformType, fdsAzure := Some
            [\<lparr>azureZone = ''1'', azureSubnet = ''''\<rparr>, \<lparr>azureZone = ''2'', azureSubnet = ''''\<rparr>]\<rparr>),
          tmplLabels = labels, tmplAnnotations = [], tmplSpec = rawMachineSpec ''|s''\<rparr>)"

lemma simGenerate_eq: "simGenerate = Inr simGenerated"
proof -
  have "\<not> isl simGenerate" by code_simp
  then show ?thesis by (cases simGenerate) (simp_all add: simGenerated_def)
qed

lemma simGenerated_template: "openShiftMachine (cpmsTemplateOf (cpmsSpecOf simGenerated)) = Some simGenTemplate"
  by code_simp

lemma simMachines_fetched: "getControlPlaneMachines simGenClient ''ns'' k = Inr simAzureMachines"
proof -
  have "sortMachinesByCreationTimeDescending (mergeMachineSlices (rev simAzureMachines) []) = simAzureMachines" by code_simp
  then show ?thesis by (simp add: getControlPlaneMachines_def simGenClient_def clusterMachineLabelValueMaster_def
        clusterMachineLabelValueControlPlane_def)
qed

section \<open>The properties at work\<close>

theorem generator_only_replaces_inactive_witness:
  "\<exists>generated. generateControlPlaneMachineSet simGenCodecs simGenJson ''ns'' simAzureInfrastructure simAzureMachines = Inr generated \<and>
     ReconcileGenerator simGenClient simGenCodecs simGenJson ''ns'' ''ns'' ''cluster'' None = (Inr emptyResult, Some generated)"
proof -
  let ?R = "ReconcileGenerator simGenClient simGenCodecs simGenJson ''ns'' ''ns'' ''cluster'' None"
  have r: "fst ?R = Inr emptyResult" "snd ?R \<noteq> None" by code_simp+
  then have e: "?R = (Inr emptyResult, snd ?R)" by (metis prod.collapse)
  have i: "GetInfrastructure (gcBase simGenClient) k = Inr simAzureInfrastructure" for k
    by (simp add: GetInfrastructure_def simGenClient_def)
  from generator_only_replaces_inactive [OF e r(2)] obtain c generated where
    c: "fetchedCpms simGenClient ''ns'' ''cluster'' None c" and g: "simGenerate = Inr generated"
    and k: "omName (cpmsMeta c) = '''' \<and> snd ?R = snd (gcCreateCpms simGenClient generated None) \<or> omName (cpmsMeta c) \<noteq> ''''"
    unfolding simMachines_fetched i by (auto simp del: prod.collapse)
  have "c = zeroCpms" using c by (simp add: fetchedCpms_def simGenClient_def)
  then have "omName (cpmsMeta c) = ''''" by (simp add: zeroCpms_def emptyMeta_def)
  moreover have "snd (gcCreateCpms simGenClient generated None) = Some generated" by (simp add: simGenClient_def)
  ultimately have "snd ?R = Some generated" using k by simp
  with e g show ?thesis by metis
qed

lemma generated_shape_witness:
  "omName (cpmsMeta simGenerated) = ''cluster'' \<and> cpmsState (cpmsSpecOf simGenerated) = StateInactive \<and>
   specReplicas (cpmsSpecOf simGenerated) = Some 3"
  using generated_shape [OF simGenJson_faithful(1) simGenerate_eq] by simp

text \<open>The server defaults the authoritative API and sets a resource version; the next reconcile rests.\<close>

definition simStored :: cpms where
  "simStored = simGenerated\<lparr>cpmsMeta := (cpmsMeta simGenerated)\<lparr>omResourceVersion := ''7''\<rparr>,
     cpmsSpecOf := (cpmsSpecOf simGenerated)\<lparr>cpmsTemplateOf := (cpmsTemplateOf (cpmsSpecOf simGenerated))
       \<lparr>openShiftMachine := Some (simGenTemplate\<lparr>tmplSpec := (rawMachineSpec ''|s'')\<lparr>msAuthoritativeAPI := ''MachineAPI''\<rparr>\<rparr>)\<rparr>\<rparr>\<rparr>"

theorem generator_settles_witness:
  "ReconcileGenerator simGenClient simGenCodecs simGenJson ''ns'' ''ns'' ''cluster'' (Some simStored) = (Inr emptyResult, Some simStored)"
proof -
  have d: "compareControlPlaneMachineSets simGenCodecs simGenJson simStored simGenerated = Inr []" by code_simp
  have s: "sameSets simGenCodecs simStored simGenerated"
    using compare_sets [OF deepComparisons_simGen simGenJson_faithful(2) d] by simp
  have g: "gcGetCpms simGenClient ''ns'' ''cluster'' (Some simStored) = Inr simStored"
    "GetInfrastructure (gcBase simGenClient) (Some simStored) = Inr simAzureInfrastructure"
    by (simp_all add: simGenClient_def GetInfrastructure_def)
  have c: "omName (cpmsMeta simStored) \<noteq> ''''" "omDeletionTimestamp (cpmsMeta simStored) = None"
    "cpmsState (cpmsSpecOf simStored) \<noteq> StateActive" "2 \<le> length simAzureMachines" by code_simp+
  from generator_settles [OF deepComparisons_simGen simGenJson_faithful(2) g(1) c(1-3) simMachines_fetched c(4) g(2)
      simGenerate_eq d] s show ?thesis by simp
qed

theorem generated_set_matches_machines_witness:
  "validateTemplateOnCreate simGenCodecs ''spec.template'' (cpmsTemplateOf (cpmsSpecOf simGenerated)) (rev simAzureMachines)
     simAzureInfrastructure = Inr ([], [])"
proof (rule generated_set_matches_machines [OF simGenJson_faithful(1) codecsRoundTrip_sim _ _ simGenerate_eq _ simGenerated_template])
  show "infPlatformStatus simAzureInfrastructure = Some AzurePlatformType" by (simp add: simAzureInfrastructure_def)
  show "AzurePlatformType \<in> set specPlatforms" by (simp add: specPlatforms_def)
  show "\<forall>m \<in> set simAzureMachines. getPlatformTypeFromProviderSpec simGenCodecs (msProviderSpec (mSpec m)) = Inr AzurePlatformType \<and>
      \<not> isl (NewProviderConfigFromMachineSpec simGenCodecs (mSpec m) None)" by code_simp
  show "getPlatformTypeFromProviderSpec simGenCodecs (msProviderSpec (tmplSpec simGenTemplate)) = Inr AzurePlatformType" by code_simp
qed simp

end
