(* ===== verification/Generator_Named.thy ===== *)
theory Generator_Named
  imports Generator_Simulation
begin

text \<open>
  The generator on the platforms whose failure domains are names of entries of the Infrastructure
  object, vSphere and Nutanix: a generated set passes the create-time comparison of the webhook with
  its machines, and what the vSphere generator does when no machine is in a named domain.
\<close>

section \<open>Named failure domains\<close>

definition namedPlatforms :: "string list" where
  "namedPlatforms = [VSpherePlatformType, NutanixPlatformType]"

definition namedDomain :: "string \<Rightarrow> string \<Rightarrow> failureDomain" where
  "namedDomain platform n =
     (if platform = VSpherePlatformType then NewVSphereFailureDomain \<lparr>vsName = n\<rparr>
      else NewNutanixFailureDomain \<lparr>nxName = n\<rparr>)"

lemma namedDomain_Equal:
  "platform \<in> set namedPlatforms \<Longrightarrow> Equal (namedDomain platform a) (namedDomain platform b) \<longleftrightarrow> a = b"
  by (auto simp: namedDomain_def namedPlatforms_def Equal_def newFD_defs platform_defs)

lemma namedDomain_sel [simp]:
  "platform \<in> set namedPlatforms \<Longrightarrow> platformType (namedDomain platform n) = platform"
  "fdVsphere (namedDomain VSpherePlatformType n) = \<lparr>vsName = n\<rparr>"
  "fdNutanix (namedDomain NutanixPlatformType n) = \<lparr>nxName = n\<rparr>"
  by (auto simp: namedDomain_def namedPlatforms_def newFD_defs platform_defs)

lemma namedDomain_complete:
  assumes "platform \<in> set namedPlatforms" and "n \<noteq> ''''" and "platformType t = platform"
  shows "Complete (namedDomain platform n) (Some t) = Inr (namedDomain platform n)"
proof -
  have "v\<lparr>vsName := n\<rparr> = \<lparr>vsName = n\<rparr>" "x\<lparr>nxName := n\<rparr> = \<lparr>nxName = n\<rparr>"
    for v :: vSphereFailureDomain and x :: nutanixFailureDomainReference by (cases v, simp, cases x, simp)
  with assms show ?thesis
    by (auto simp: namedPlatforms_def Complete_def completeVSphere_def completeNutanix_def namedDomain_def
        newFD_defs platform_defs)
qed

text \<open>Machines whose configurations have the given names of failure domains, none of them empty.\<close>

definition namedMachines :: "codecs \<Rightarrow> string \<Rightarrow> infrastructure \<Rightarrow> (machine \<Rightarrow> string) \<Rightarrow> machine list \<Rightarrow> bool" where
  "namedMachines cd platform infra name ms \<longleftrightarrow> platform \<in> set namedPlatforms \<and> ms \<noteq> [] \<and>
     (\<forall>m \<in> set ms. extractFrom cd infra m = Inr (namedDomain platform (name m)) \<and> name m \<noteq> '''')"

lemma extractFrom_Inr:
  "extractFrom cd infra m = Inr fd \<Longrightarrow> ExtractFailureDomainFromMachine cd (Some infra) m = Inr (Some fd)"
  by (simp add: extractFrom_def split: sum.splits option.splits)

lemma extractLoop_named:
  assumes "\<forall>m \<in> set ms. extractFrom cd infra m = Inr (f m)"
  shows "extractLoop cd (Some infra) ms acc = Inr (foldl (setInsert Equal) acc (map f ms))"
  using assms by (induction ms arbitrary: acc) (simp_all add: extractFrom_Inr)

lemma getMachineFailureDomains_named:
  assumes "\<forall>m \<in> set ms. extractFrom cd infra m = Inr (f m)"
  shows "getMachineFailureDomains cd infra ms = Inr (map f ms)"
  using assms by (induction ms) simp_all

lemma set_named:
  assumes "platform \<in> set namedPlatforms" and "set xs \<subseteq> range (namedDomain platform)"
  shows "set (newSet Equal xs) = set xs"
  by (rule set_newSet) (use assms namedDomain_Equal in \<open>auto simp: subset_iff image_iff; metis\<close>)

lemma buildFailureDomains_named:
  assumes "faithfulConversion j" and n: "namedMachines cd platform infra name machines"
  obtains fds where "set fds = (\<lambda>m. namedDomain platform (name m)) ` set machines"
    "buildFailureDomains cd j machines (Some infra) =
       (case buildPlatformFailureDomains platform fds (Some infra) of
          Inl e \<Rightarrow> Inl (wrap ''failed to build platform specific failure domains'' e) | Inr d \<Rightarrow> Inr d)"
proof -
  let ?f = "\<lambda>m. namedDomain platform (name m)"
  let ?xs = "setList fdString (newSet Equal (map ?f machines))"
  have p: "platform \<in> set namedPlatforms" and ne: "machines \<noteq> []"
    and ex: "\<forall>m \<in> set machines. extractFrom cd infra m = Inr (?f m)"
    using n by (auto simp: namedMachines_def)
  have s: "set ?xs = ?f ` set machines"
    using set_named [OF p, of "map ?f machines"] by (auto simp: setList_def)
  have e: "ExtractFailureDomainsFromMachines cd (Some infra) machines = Inr ?xs"
    using extractLoop_named [OF ex] by (simp add: ExtractFailureDomainsFromMachines_def newSet_def)
  from s ne obtain fd rest where l: "?xs = fd # rest" by (cases ?xs) auto
  with s have "fd \<in> ?f ` set machines" by (metis list.set_intros(1))
  then have "platformType fd = platform" using p by auto
  then have "buildFailureDomains cd j machines (Some infra) =
       (case buildPlatformFailureDomains platform (newSet Equal ?xs) (Some infra) of
          Inl e \<Rightarrow> Inl (wrap ''failed to build platform specific failure domains'' e) | Inr d \<Rightarrow> Inr d)"
    using e l assms(1) by (simp add: buildFailureDomains_def faithfulConversion_def split: sum.split)
  moreover have "set (newSet Equal ?xs) = ?f ` set machines"
    using set_named [OF p, of ?xs] s by auto
  ultimately show thesis by (intro that)
qed

lemma nutanixRefsLoop_filter: "nutanixRefsLoop names xs = Inr ys \<Longrightarrow> ys = filter (\<lambda>x. nxName x \<noteq> '''') xs"
proof (induction xs arbitrary: ys)
  case (Cons x xs)
  then show ?case by (cases "nutanixRefsLoop names xs") (auto split: if_splits)
qed simp

text \<open>What the platform lists: the names, on their platform.\<close>

lemma named_listed:
  assumes "platform \<in> set namedPlatforms" and "set fds = namedDomain platform ` names" and "names \<noteq> {}"
    and "'''' \<notin> names" and "buildPlatformFailureDomains platform fds (Some infra) = Inr d"
  shows "fdsPlatform d = platform"
    and "\<exists>listed. NewFailureDomains (Some d) = Inr listed \<and> set listed = namedDomain platform ` names"
    and "platform = NutanixPlatformType \<Longrightarrow> fdsNutanix d \<noteq> []"
proof -
  let ?xs = "setList fdString fds"
  have s: "set ?xs = namedDomain platform ` names" using assms(2) by (simp add: setList_def)
  consider (vsphere) "platform = VSpherePlatformType" | (nutanix) "platform = NutanixPlatformType"
    using assms(1) by (auto simp: namedPlatforms_def)
  then have "fdsPlatform d = platform \<and>
      (\<exists>listed. NewFailureDomains (Some d) = Inr listed \<and> set listed = namedDomain platform ` names) \<and>
      (platform = NutanixPlatformType \<longrightarrow> fdsNutanix d \<noteq> [])"
  proof cases
    case vsphere
    have "\<forall>x \<in> set ?xs. vsName (fdVsphere x) \<noteq> ''''" using s assms(4) vsphere by auto
    then have f: "filter (\<lambda>v. length (vsName v) \<noteq> 0) (map fdVsphere ?xs) = map fdVsphere ?xs"
      by (simp add: filter_id_conv)
    have "?xs \<noteq> []" using s assms(3) by auto
    then have d: "d = zeroDomains\<lparr>fdsVSphere := map fdVsphere ?xs, fdsPlatform := VSpherePlatformType\<rparr>"
      using assms(5) f vsphere
      by (auto simp: buildPlatformFailureDomains_def buildVSphereFailureDomains_def Let_def platform_defs split: if_splits)
    have "(\<lambda>x. NewVSphereFailureDomain (fdVsphere x)) ` set ?xs = namedDomain platform ` names"
      using vsphere unfolding s by (simp add: image_image namedDomain_def newFD_defs)
    with d vsphere \<open>?xs \<noteq> []\<close> show ?thesis
      by (simp add: NewFailureDomains_def newVSphereFailureDomains_def platform_defs)
  next
    case nutanix
    have "\<forall>x \<in> set ?xs. nxName (fdNutanix x) \<noteq> ''''" using s assms(4) nutanix by auto
    then have f: "filter (\<lambda>x. nxName x \<noteq> '''') (map fdNutanix ?xs) = map fdNutanix ?xs"
      by (simp add: filter_id_conv)
    have ne: "?xs \<noteq> []" using s assms(3) by auto
    from assms(5) nutanix obtain refs where "\<exists>names. nutanixRefsLoop names (map fdNutanix ?xs) = Inr refs"
      "d = (if length refs > 0 then zeroDomains\<lparr>fdsPlatform := NutanixPlatformType, fdsNutanix := refs\<rparr> else zeroDomains)"
      by (auto simp: buildPlatformFailureDomains_def buildNutanixFailureDomains_def platform_defs split: option.splits sum.splits)
    with f nutanixRefsLoop_filter have d: "d = zeroDomains\<lparr>fdsPlatform := NutanixPlatformType, fdsNutanix := map fdNutanix ?xs\<rparr>"
      using ne by fastforce
    have "(\<lambda>x. NewNutanixFailureDomain (fdNutanix x)) ` set ?xs = namedDomain platform ` names"
      using nutanix unfolding s by (simp add: image_image namedDomain_def newFD_defs platform_defs)
    with d nutanix ne show ?thesis
      by (simp add: NewFailureDomains_def newNutanixFailureDomains_def platform_defs)
  qed
  then show "fdsPlatform d = platform"
    "\<exists>listed. NewFailureDomains (Some d) = Inr listed \<and> set listed = namedDomain platform ` names"
    "platform = NutanixPlatformType \<Longrightarrow> fdsNutanix d \<noteq> []" by auto
qed


section \<open>The template\<close>

text \<open>A configuration whose failure domain is a named one is of the domain's platform.\<close>

lemma extracted_type:
  "ExtractFailureDomain p = Inr (Some fd) \<Longrightarrow> platformType fd \<in> set namedPlatforms \<Longrightarrow> pcType p = platformType fd"
  by (cases "vsphereExtractFailureDomain (pcVSphere p)"; cases "nutanixExtractFailureDomain (pcNutanix p)")
    (auto simp: ExtractFailureDomain_def genericExtractFailureDomain_def namedPlatforms_def newFD_defs platform_defs split: if_splits)

text \<open>The newest machine's configuration, of the platform, from which the template is built.\<close>

lemma newestConfig_named:
  assumes "namedMachines cd platform infra name machines" and "newestConfig cd tx machines (Some infra) = Inr p"
  shows "pcType p = platform" and "ExtractFailureDomain p = Inr (Some (namedDomain platform (name (hd machines))))"
proof -
  from assms(2) obtain m rest where m: "machines = m # rest" "NewProviderConfigFromMachineSpec cd (mSpec m) (Some infra) = Inr p"
    by (auto simp: newestConfig_def newestMachine_def split: list.splits sum.splits)
  have "extractFrom cd infra m = Inr (namedDomain platform (name m))" and pl: "platform \<in> set namedPlatforms"
    using assms(1) m(1) by (simp_all add: namedMachines_def)
  then have "ExtractFailureDomainFromMachine cd (Some infra) m = Inr (Some (namedDomain platform (name m)))"
    by (simp add: extractFrom_Inr)
  then have e: "ExtractFailureDomain p = Inr (Some (namedDomain platform (name m)))"
    using m(2) by (simp add: ExtractFailureDomainFromMachine_def)
  show "pcType p = platform" using extracted_type [OF e] pl by simp
  from e m(1) show "ExtractFailureDomain p = Inr (Some (namedDomain platform (name (hd machines))))" by simp
qed

text \<open>A template that decodes to a configuration of the platform with a failure domain.\<close>

definition templateNamed :: "codecs \<Rightarrow> infrastructure \<Rightarrow> string \<Rightarrow> machineSpec \<Rightarrow> bool" where
  "templateNamed cd infra platform ms \<longleftrightarrow>
     (\<exists>q t. NewProviderConfigFromMachineSpec cd ms (Some infra) = Inr q \<and> ExtractFailureDomain q = Inr (Some t) \<and>
        platformType t = platform)"

lemma vsphere_templateNamed:
  assumes "roundTrips (cdVSphere cd)" and "codecMarshal (cdVSphere cd) v = Inr raw"
    and "getPlatformTypeFromProviderSpec cd (Some raw) = Inr VSpherePlatformType"
  shows "templateNamed cd infra VSpherePlatformType (rawMachineSpec raw)"
proof -
  let ?v = "\<lparr>vpcConfig = v\<lparr>vspDevices := map_option (map normalDevice) (vspDevices v)\<rparr>, vpcInfrastructure = Some infra\<rparr>"
  have "newVSphereProviderConfig cd raw (Some infra) = Inr (zeroProviderConfig\<lparr>pcType := VSpherePlatformType, pcVSphere := ?v\<rparr>)"
    using roundTrips_decode [OF assms(1,2)] by (simp add: newVSphereProviderConfig_def)
  moreover obtain d where "vsphereExtractFailureDomain ?v = Inr d"
    by (cases "vsphereExtractFailureDomain ?v") (auto simp: vsphereExtractFailureDomain_def split: option.splits if_splits)
  ultimately show ?thesis using assms(3)
    by (simp add: templateNamed_def NewProviderConfigFromMachineSpec_def rawMachineSpec_def newProviderConfigFromProviderSpec_def
        ExtractFailureDomain_def platform_defs newFD_defs)
qed

lemma nutanix_templateNamed:
  assumes "roundTrips (cdNutanix cd)" and "codecMarshal (cdNutanix cd) x = Inr raw" and "nxFailureDomain x = None"
    and "getPlatformTypeFromProviderSpec cd (Some raw) = Inr NutanixPlatformType"
  shows "templateNamed cd infra NutanixPlatformType (rawMachineSpec raw)"
  using assms roundTrips_decode [OF assms(1,2)]
  by (simp add: templateNamed_def NewProviderConfigFromMachineSpec_def rawMachineSpec_def newProviderConfigFromProviderSpec_def
      newNutanixProviderConfig_def nutanixExtractFailureDomain_def ExtractFailureDomain_def platform_defs newFD_defs)

lemma vsphere_spec_named:
  assumes "namedMachines cd VSpherePlatformType infra name machines" and "roundTrips (cdVSphere cd)"
    and "buildControlPlaneMachineSetVSphereMachineSpec cd machines infra = Inr ms"
    and "getPlatformTypeFromProviderSpec cd (msProviderSpec ms) = Inr VSpherePlatformType"
  shows "templateNamed cd infra VSpherePlatformType ms"
proof -
  from assms(3) obtain p :: providerConfig and fds :: "vspherePlatformFailureDomain list"
    where p: "newestConfig cd ''failed to extract machine's providerSpec'' machines (Some infra) = Inr p"
    and m: "marshalled ''error marshalling providerSpec''
      (RawConfig cd (if length fds > 0 then ResetTopologyRelatedFields (pcVSphere p) else p)) = Inr ms"
    by (auto simp: buildControlPlaneMachineSetVSphereMachineSpec_def simp del: length_greater_0_conv split: sum.splits option.splits)
  from m obtain raw where r: "RawConfig cd (if length fds > 0 then ResetTopologyRelatedFields (pcVSphere p) else p) = Inr raw"
    and ms: "ms = rawMachineSpec raw" by (rule marshalled_cases)
  have "pcType p = VSpherePlatformType" using newestConfig_named(1) [OF assms(1) p] .
  then have "\<exists>v. codecMarshal (cdVSphere cd) v = Inr raw"
    using r by (auto simp: RawConfig_def ResetTopologyRelatedFields_def Let_def platform_defs split: if_splits sum.splits)
  with assms(2,4) ms show ?thesis using vsphere_templateNamed by (auto simp: rawMachineSpec_def)
qed

lemma nutanix_spec_named:
  assumes "roundTrips (cdNutanix cd)"
    and "buildControlPlaneMachineSetNutanixMachineSpec cd machines infra True = Inr ms"
    and "getPlatformTypeFromProviderSpec cd (msProviderSpec ms) = Inr NutanixPlatformType"
  shows "templateNamed cd infra NutanixPlatformType ms"
proof -
  from assms(2) obtain p :: providerConfig where "marshalled ''error marshalling providerSpec''
      (RawConfig cd (ResetFailureDomainRelatedFields (pcNutanix p))) = Inr ms"
    by (auto simp: buildControlPlaneMachineSetNutanixMachineSpec_def split: sum.splits)
  then obtain raw where "ms = rawMachineSpec raw" "RawConfig cd (ResetFailureDomainRelatedFields (pcNutanix p)) = Inr raw"
    by (auto elim: marshalled_cases)
  then have "ms = rawMachineSpec raw \<and> (\<exists>x. codecMarshal (cdNutanix cd) x = Inr raw \<and> nxFailureDomain x = None)"
    by (auto simp: RawConfig_def ResetFailureDomainRelatedFields_def platform_defs split: sum.splits)
  with assms(1,3) show ?thesis using nutanix_templateNamed by (auto simp: rawMachineSpec_def)
qed

section \<open>The generated set against its machines\<close>

lemma named_template_passes:
  assumes n: "namedMachines cd platform infra name ms" and d: "tmplFailureDomains tmpl = Some d" "fdsPlatform d = platform"
    and l: "NewFailureDomains (Some d) = Inr listed" "set listed = (\<lambda>m. namedDomain platform (name m)) ` set ms"
    and t: "templateNamed cd infra platform (tmplSpec tmpl)"
  shows "validateOpenShiftMachineV1BetaTemplateOnCreate cd path tmpl ms infra = Inr ([], [])"
proof -
  let ?f = "\<lambda>m. namedDomain platform (name m)"
  have p: "platform \<in> set namedPlatforms" and ex: "\<forall>m \<in> set ms. extractFrom cd infra m = Inr (?f m)"
    and ne: "\<forall>m \<in> set ms. name m \<noteq> ''''" using n by (simp_all add: namedMachines_def)
  have pe: "platform \<noteq> ''''" using p by (auto simp: namedPlatforms_def platform_defs)
  from t obtain q u where q: "NewProviderConfigFromMachineSpec cd (tmplSpec tmpl) (Some infra) = Inr q"
    "ExtractFailureDomain q = Inr (Some u)" "platformType u = platform" by (auto simp: templateNamed_def)
  have "\<forall>x \<in> set listed. Complete (id x) (Some u) = Inr (id x)"
    using l(2) ne namedDomain_complete [OF p _ q(3)] by auto
  then have c: "CompleteFailureDomains listed (Some u) = Inr listed"
    using CompleteFailureDomains_map [of listed id "Some u" id] by simp
  have "missingFailureDomains (map ?f ms) listed = []" "missingFailureDomains listed (map ?f ms) = []"
    using l(2) missing_subset by simp_all
  with pe d l(1) c q getMachineFailureDomains_named [OF ex] show ?thesis
    by (simp add: validateOpenShiftMachineV1BetaTemplateOnCreate_def checkOpenShiftFailureDomainsMatchMachines_def)
qed

text \<open>The parts of a set generated on one of the two platforms.\<close>

lemma vsphere_generated:
  assumes "generateControlPlaneMachineSetVSphereSpec cd j machines infra = Inr spec"
    and "openShiftMachine (cpmsTemplateOf spec) = Some tmpl"
  obtains d where "buildFailureDomains cd j machines (Some infra) = Inr d" "tmplFailureDomains tmpl = Some d"
    "buildControlPlaneMachineSetVSphereMachineSpec cd machines infra = Inr (tmplSpec tmpl)"
proof -
  from assms(1) obtain d where d: "buildFailureDomains cd j machines (Some infra) = Inr d"
    and w: "withSpec machines ''failed to build ControlPlaneMachineSet's VSphere spec'' (Some d)
      (buildControlPlaneMachineSetVSphereMachineSpec cd machines infra) = Inr spec"
    by (auto simp: generateControlPlaneMachineSetVSphereSpec_def split: sum.splits)
  from w obtain s where s: "buildControlPlaneMachineSetVSphereMachineSpec cd machines infra = Inr s"
    "completeSpec machines (Some d) s = Inr spec" by (rule withSpec_cases)
  from completeSpec_template [OF s(2) assms(2)] s(1) d that show thesis by simp
qed

lemma nutanix_generated:
  assumes "generateControlPlaneMachineSetNutanixSpec cd j machines infra = Inr spec"
    and "openShiftMachine (cpmsTemplateOf spec) = Some tmpl"
    and "\<And>e. buildFailureDomains cd j machines (Some infra) = Inl e \<Longrightarrow> \<not> errorIs e errNoFailureDomainsGenerated"
  obtains d where "buildFailureDomains cd j machines (Some infra) = Inr d" "tmplFailureDomains tmpl = Some d"
    "buildControlPlaneMachineSetNutanixMachineSpec cd machines infra (length (fdsNutanix d) > 0) = Inr (tmplSpec tmpl)"
proof -
  from assms(1,3) obtain d where d: "buildFailureDomains cd j machines (Some infra) = Inr d"
    and w: "withSpec machines ''failed to build ControlPlaneMachineSet's Nutanix spec'' (Some d)
      (buildControlPlaneMachineSetNutanixMachineSpec cd machines infra (length (fdsNutanix d) > 0)) = Inr spec"
    by (auto simp: generateControlPlaneMachineSetNutanixSpec_def domainsOrNone_def Let_def split: sum.splits if_splits)
  from w obtain s where s: "buildControlPlaneMachineSetNutanixMachineSpec cd machines infra (length (fdsNutanix d) > 0) = Inr s"
    "completeSpec machines (Some d) s = Inr spec" by (rule withSpec_cases)
  from completeSpec_template [OF s(2) assms(2)] s(1) d that show thesis by simp
qed

lemma nutanix_error_not_none:
  "buildPlatformFailureDomains NutanixPlatformType fds infra = Inl e \<Longrightarrow> \<not> errorIs e errNoFailureDomainsGenerated"
proof -
  have i: "map_sum id f x = Inl e' \<longleftrightarrow> x = Inl e'"
    for f :: "nutanixFailureDomainReference list \<Rightarrow> _" and x :: "nutanixFailureDomainReference list result" and e'
    by (cases x) simp_all
  have "\<not> errorIs e' errNoFailureDomainsGenerated" if "nutanixRefsLoop names xs = Inl e'" for names xs e'
    using that by (induction names xs rule: nutanixRefsLoop.induct)
      (auto simp: i errNoFailureDomainsGenerated_def errInvalidFailureDomainName_def split: if_splits sum.splits)
  then show "buildPlatformFailureDomains NutanixPlatformType fds infra = Inl e \<Longrightarrow> \<not> errorIs e errNoFailureDomainsGenerated"
    by (auto simp: buildPlatformFailureDomains_def buildNutanixFailureDomains_def platform_defs nilDereference_def
        errNoFailureDomainsGenerated_def split: option.splits sum.splits)
qed

lemma named_spec:
  assumes "faithfulConversion j" and "infPlatformStatus infra = Some platform" and "platform \<in> set namedPlatforms"
    and "generateControlPlaneMachineSet cd j ns infra machines = Inr c"
  obtains (vsphere) "platform = VSpherePlatformType" "generateControlPlaneMachineSetVSphereSpec cd j machines infra = Inr (cpmsSpecOf c)"
    | (nutanix) "platform = NutanixPlatformType" "generateControlPlaneMachineSetNutanixSpec cd j machines infra = Inr (cpmsSpecOf c)"
proof -
  have "platform = VSpherePlatformType \<or> platform = NutanixPlatformType" using assms(3) by (auto simp: namedPlatforms_def)
  then show thesis
  proof (elim disjE)
    assume "platform = VSpherePlatformType"
    then show thesis using assms(1,2,4) by (intro vsphere)
      (auto simp: generateControlPlaneMachineSet_def faithfulConversion_def platform_defs split: sum.splits)
  next
    assume "platform = NutanixPlatformType"
    then show thesis using assms(1,2,4) by (intro nutanix)
      (auto simp: generateControlPlaneMachineSet_def faithfulConversion_def platform_defs split: sum.splits)
  qed
qed

lemma built_template_passes:
  assumes "faithfulConversion j" and n: "namedMachines cd platform infra name machines" and s: "set ms = set machines"
    and d: "buildFailureDomains cd j machines (Some infra) = Inr d" "tmplFailureDomains tmpl = Some d"
    and t: "(platform = NutanixPlatformType \<longrightarrow> fdsNutanix d \<noteq> []) \<Longrightarrow> templateNamed cd infra platform (tmplSpec tmpl)"
  shows "validateOpenShiftMachineV1BetaTemplateOnCreate cd path tmpl ms infra = Inr ([], [])"
proof -
  obtain fds where f1: "set fds = (\<lambda>m. namedDomain platform (name m)) ` set machines"
    and b: "buildFailureDomains cd j machines (Some infra) = (case buildPlatformFailureDomains platform fds (Some infra) of
          Inl e \<Rightarrow> Inl (wrap ''failed to build platform specific failure domains'' e) | Inr d \<Rightarrow> Inr d)"
    using buildFailureDomains_named [OF assms(1) n] .
  have f2: "buildPlatformFailureDomains platform fds (Some infra) = Inr d" using b d(1) by (simp split: sum.splits)
  have p: "platform \<in> set namedPlatforms" and ne: "name ` set machines \<noteq> {}" "'''' \<notin> name ` set machines"
    and n': "namedMachines cd platform infra name ms"
    using n s by (auto simp: namedMachines_def)
  have i: "set fds = namedDomain platform ` name ` set machines" using f1 by (simp add: image_image)
  from named_listed [OF p i ne f2] obtain listed where l: "fdsPlatform d = platform" "NewFailureDomains (Some d) = Inr listed"
    "set listed = (\<lambda>m. namedDomain platform (name m)) ` set ms" "platform = NutanixPlatformType \<longrightarrow> fdsNutanix d \<noteq> []"
    by (auto simp: image_image s)
  from named_template_passes [OF n' d(2) l(1-3) t [OF l(4)]] show ?thesis .
qed

text \<open>
  C10: on vSphere and Nutanix too the generator and the webhook agree. For machines that are all in
  failure domains named by the Infrastructure object, the set generated from them lists exactly these
  domains and passes the webhook's create-time comparison with these machines.
\<close>

theorem generated_named_set_matches_machines:
  assumes "faithfulConversion j" and "roundTrips (cdVSphere cd)" and "roundTrips (cdNutanix cd)"
    and "infPlatformStatus infra = Some platform" and "namedMachines cd platform infra name machines"
    and "generateControlPlaneMachineSet cd j ns infra machines = Inr c"
    and "openShiftMachine (cpmsTemplateOf (cpmsSpecOf c)) = Some tmpl"
    and "getPlatformTypeFromProviderSpec cd (msProviderSpec (tmplSpec tmpl)) = Inr platform"
    and "set ms = set machines"
  shows "validateTemplateOnCreate cd path (cpmsTemplateOf (cpmsSpecOf c)) ms infra = Inr ([], [])"
proof -
  have p: "platform \<in> set namedPlatforms" using assms(5) by (simp add: namedMachines_def)
  have "validateOpenShiftMachineV1BetaTemplateOnCreate cd path' tmpl ms infra = Inr ([], [])" for path'
    using assms(1,4) p assms(6)
  proof (cases rule: named_spec)
    case vsphere
    from vsphere_generated [OF vsphere(2) assms(7)] obtain d where d: "buildFailureDomains cd j machines (Some infra) = Inr d"
      "tmplFailureDomains tmpl = Some d" "buildControlPlaneMachineSetVSphereMachineSpec cd machines infra = Inr (tmplSpec tmpl)" .
    from assms(5,8) vsphere(1) have v: "templateNamed cd infra platform (tmplSpec tmpl)"
      using vsphere_spec_named [OF _ assms(2) d(3)] by simp
    from built_template_passes [OF assms(1,5,9) d(1,2) v] show ?thesis .
  next
    case nutanix
    obtain fds where b: "buildFailureDomains cd j machines (Some infra) = (case buildPlatformFailureDomains platform fds (Some infra) of
          Inl e \<Rightarrow> Inl (wrap ''failed to build platform specific failure domains'' e) | Inr d \<Rightarrow> Inr d)"
      using buildFailureDomains_named [OF assms(1,5)] .
    have "\<not> errorIs e errNoFailureDomainsGenerated" if "buildFailureDomains cd j machines (Some infra) = Inl e" for e
      using b that nutanix_error_not_none [of fds "Some infra"] nutanix(1)
      by (auto simp: errNoFailureDomainsGenerated_def split: sum.splits)
    from nutanix_generated [OF nutanix(2) assms(7) this] obtain d where d: "buildFailureDomains cd j machines (Some infra) = Inr d"
      "tmplFailureDomains tmpl = Some d"
      "buildControlPlaneMachineSetNutanixMachineSpec cd machines infra (length (fdsNutanix d) > 0) = Inr (tmplSpec tmpl)" .
    have "templateNamed cd infra platform (tmplSpec tmpl)" if "platform = NutanixPlatformType \<longrightarrow> fdsNutanix d \<noteq> []"
      using nutanix_spec_named [OF assms(3), of machines infra "tmplSpec tmpl"] d(3) that nutanix(1) assms(8) by simp
    from built_template_passes [OF assms(1,5,9) d(1,2) this] show ?thesis .
  qed
  then show ?thesis
    using assms(1,6,7) generated_spec [OF assms(1,6)]
    by (force simp: validateTemplateOnCreate_def fillTemplate_def genericControlPlaneMachineSetSpec_def Let_def)
qed

section \<open>vSphere machines outside every failure domain\<close>

text \<open>
  No set is generated for vSphere machines of which none is in a failure domain: of the platforms that can
  have no failure domains to build, vSphere is the one that does not generate a set without them.
\<close>

lemma vsphere_without_domains_fails:
  assumes "machines \<noteq> []" and "\<forall>m \<in> set machines. extractFrom cd infra m = Inr (namedDomain VSpherePlatformType '''')"
  shows "\<exists>e. generateControlPlaneMachineSetVSphereSpec cd j machines infra = Inl e \<and> errorIs e errNoFailureDomainsGenerated"
proof -
  let ?n = "namedDomain VSpherePlatformType ''''"
  let ?xs = "setList fdString (newSet Equal (map (\<lambda>m. ?n) machines))"
  have vs: "VSpherePlatformType \<in> set namedPlatforms" by (simp add: namedPlatforms_def)
  have e: "ExtractFailureDomainsFromMachines cd (Some infra) machines = Inr ?xs"
    using extractLoop_named [OF assms(2)] by (simp add: ExtractFailureDomainsFromMachines_def newSet_def)
  have "set (map (\<lambda>m. ?n) machines) = {?n}" using assms(1) by (cases machines) auto
  then have s: "set ?xs = {?n}" using set_named [OF vs, of "map (\<lambda>m. ?n) machines"] by (auto simp: setList_def)
  then obtain rest where l: "?xs = ?n # rest" by (cases ?xs) auto
  have "set (setList fdString (newSet Equal ?xs)) = {?n}" using set_named [OF vs, of ?xs] s by (auto simp: setList_def)
  then have "filter (\<lambda>v. length (vsName v) \<noteq> 0) (map fdVsphere (setList fdString (newSet Equal ?xs))) = []"
    by (simp add: filter_empty_conv)
  then have "buildPlatformFailureDomains VSpherePlatformType (newSet Equal ?xs) (Some infra) = Inl errNoFailureDomainsGenerated"
    by (simp add: buildPlatformFailureDomains_def buildVSphereFailureDomains_def zeroDomains_def platform_defs)
  then have "buildFailureDomains cd j machines (Some infra) =
      Inl (wrap ''failed to build platform specific failure domains'' errNoFailureDomainsGenerated)"
    using e l vs by (simp add: buildFailureDomains_def)
  then show ?thesis by (simp add: generateControlPlaneMachineSetVSphereSpec_def errNoFailureDomainsGenerated_def)
qed

section \<open>A vSphere cluster\<close>

text \<open>Two machines on two servers, each the failure domain of its server.\<close>

definition simVSphereCodec :: "vsphereMachineProviderSpec platformCodec" where
  "simVSphereCodec =
     (simCodec (vpcConfig (pcVSphere zeroProviderConfig)))
       \<lparr>codecStrict := (\<lambda>raw. (None, (vpcConfig (pcVSphere zeroProviderConfig))\<lparr>vspWorkspace := Some (emptyWorkspace\<lparr>wsServer := raw\<rparr>)\<rparr>)),
        codecMarshal := (\<lambda>c. case vspWorkspace c of None \<Rightarrow> Inl (ErrNew ''no workspace'') | Some ws \<Rightarrow> Inr (wsServer ws))\<rparr>"

definition simVSphereCodecs :: codecs where
  "simVSphereCodecs = simCodecs\<lparr>kindOf := (\<lambda>raw. Inr ''VSphereMachineProviderSpec''),
     cdVSphere := checkedCodec simVSphereCodec, cdNutanix := checkedCodec (cdNutanix simCodecs)\<rparr>"

definition simServerDomain :: "string \<Rightarrow> string \<Rightarrow> vspherePlatformFailureDomain" where
  "simServerDomain name server =
     \<lparr>vfdName = name, vfdRegion = ''r'', vfdZone = ''z'', vfdServer = server,
      vfdTopology = \<lparr>topDatacenter = '''', topComputeCluster = '''', topNetworks = [], topDatastore = '''', topResourcePool = '''',
                     topFolder = '''', topTemplate = ''''\<rparr>, vfdZoneAffinity = None\<rparr>"

definition simVSphereInfrastructure :: infrastructure where
  "simVSphereInfrastructure = \<lparr>infInfrastructureName = ''c'', infPlatformStatus = Some VSpherePlatformType,
     infSpecType = VSpherePlatformType, infVSphere = Some [simServerDomain ''fd-1'' ''s1'', simServerDomain ''fd-2'' ''s2''],
     infNutanix = None\<rparr>"

definition simVSphereMachines :: "machine list" where
  "simVSphereMachines = [simAzureMachine ''m-1'' 2 ''s2'', simAzureMachine ''m-0'' 1 ''s1'']"

abbreviation simVSphereGenerate :: "cpms result" where
  "simVSphereGenerate \<equiv>
     generateControlPlaneMachineSet simVSphereCodecs simGenJson ''ns'' simVSphereInfrastructure simVSphereMachines"

definition simVSphereGenerated :: cpms where
  "simVSphereGenerated = (case simVSphereGenerate of Inr c \<Rightarrow> c | Inl e \<Rightarrow> zeroCpms)"

definition simVSphereTemplate :: openShiftMachineTemplate where
  "simVSphereTemplate = simGenTemplate\<lparr>tmplFailureDomains := Some (zeroDomains\<lparr>fdsPlatform := VSpherePlatformType,
     fdsVSphere := [\<lparr>vsName = ''fd-1''\<rparr>, \<lparr>vsName = ''fd-2''\<rparr>]\<rparr>), tmplSpec := rawMachineSpec ''''\<rparr>"

lemma simVSphereGenerate_eq: "simVSphereGenerate = Inr simVSphereGenerated"
proof -
  have "\<not> isl simVSphereGenerate" by code_simp
  then show ?thesis by (cases simVSphereGenerate) (simp_all add: simVSphereGenerated_def)
qed

lemma simVSphereGenerated_template:
  "openShiftMachine (cpmsTemplateOf (cpmsSpecOf simVSphereGenerated)) = Some simVSphereTemplate"
  by code_simp

lemma simVSphereMachines_named:
  "namedMachines simVSphereCodecs VSpherePlatformType simVSphereInfrastructure
     (\<lambda>m. if omName (mMeta m) = ''m-1'' then ''fd-2'' else ''fd-1'') simVSphereMachines"
  by code_simp

theorem generated_named_set_matches_machines_witness:
  "validateTemplateOnCreate simVSphereCodecs ''spec.template'' (cpmsTemplateOf (cpmsSpecOf simVSphereGenerated))
     (rev simVSphereMachines) simVSphereInfrastructure = Inr ([], [])"
proof (rule generated_named_set_matches_machines
    [OF simGenJson_faithful(1) _ _ _ simVSphereMachines_named simVSphereGenerate_eq simVSphereGenerated_template])
  show "roundTrips (cdVSphere simVSphereCodecs)" "roundTrips (cdNutanix simVSphereCodecs)"
    by (simp_all add: simVSphereCodecs_def roundTrips_checked)
  show "infPlatformStatus simVSphereInfrastructure = Some VSpherePlatformType" by (simp add: simVSphereInfrastructure_def)
  show "getPlatformTypeFromProviderSpec simVSphereCodecs (msProviderSpec (tmplSpec simVSphereTemplate)) = Inr VSpherePlatformType"
    by code_simp
qed simp

end
