(* ===== verification/Generated_Template.thy ===== *)
theory Generated_Template
  imports Generator_Simulation
begin

text \<open>
  The template of a generated set: which failure domains it lists, that they can be written into a
  configuration of the platform, that the comparison with the machines holds with the domain of any machine
  in the template's place, and, for machines that differ in their failure domains only, that the template
  moved to the domain of a machine is that machine.
\<close>

section \<open>Decoding\<close>

lemma spec_config_depends:
  assumes "NewProviderConfigFromMachineSpec cd s infra = Inr q" and "pcType q \<in> set specPlatforms"
    and "msProviderSpec s' = msProviderSpec s"
  shows "NewProviderConfigFromMachineSpec cd s' infra' = Inr q"
proof -
  from assms(1) obtain platform where g: "getPlatformTypeFromProviderSpec cd (msProviderSpec s) = Inr platform"
    and n: "newProviderConfigFromProviderSpec cd (msProviderSpec s) platform infra = Inr q"
    by (auto simp: NewProviderConfigFromMachineSpec_def split: sum.splits)
  have "platform = pcType q" using newProviderConfig_type [OF n] by simp
  then have "newProviderConfigFromProviderSpec cd (msProviderSpec s) platform infra' =
      newProviderConfigFromProviderSpec cd (msProviderSpec s) platform infra"
    using assms(2) by (auto simp: newProviderConfigFromProviderSpec_def specPlatforms_def platform_defs split: option.split)
  with g n assms(3) show ?thesis by (simp add: NewProviderConfigFromMachineSpec_def)
qed

text \<open>
  What is documented of the codecs: the kind of a provider spec is one of its fields, so a configuration that
  was decoded, with a failure domain written into it or not, is encoded with the kind it came with.
\<close>

definition encodingKeepsKind :: "codecs \<Rightarrow> bool" where
  "encodingKeepsKind cd \<longleftrightarrow>
     (\<forall>spec infra p p' raw. NewProviderConfigFromMachineSpec cd spec infra = Inr p \<longrightarrow>
        p' = p \<or> (\<exists>fd. fst (InjectFailureDomain p (Some fd)) = Inr p') \<longrightarrow>
        RawConfig cd p' = Inr raw \<longrightarrow> getPlatformTypeFromProviderSpec cd (Some raw) = Inr (pcType p))"

text \<open>The platforms with no part of a failure domain that injection could not write.\<close>

definition plainPlatforms :: "string list" where
  "plainPlatforms = [AWSPlatformType, AzurePlatformType, GCPPlatformType]"

lemma plain_spec: "platform \<in> set plainPlatforms \<Longrightarrow> platform \<in> set specPlatforms"
  by (auto simp: plainPlatforms_def specPlatforms_def)

lemma encoded_decodes:
  assumes "codecsRoundTrip cd" and "RawConfig cd p = Inr raw" and "pcType p \<in> set plainPlatforms"
    and "getPlatformTypeFromProviderSpec cd (Some raw) = Inr (pcType p)"
  obtains q where "NewProviderConfigFromMachineSpec cd (rawMachineSpec raw) None = Inr q" "pcType q = pcType p" "domainOf q = domainOf p"
    "\<And>r. sameMachine q r \<longleftrightarrow> sameMachine p r"
proof -
  note d = template_decodes [OF assms(1,4), where infra = None]
  from assms(3) consider (aws) "pcType p = AWSPlatformType" | (azure) "pcType p = AzurePlatformType" | (gcp) "pcType p = GCPPlatformType"
    by (auto simp: plainPlatforms_def)
  then show thesis
  proof cases
    case aws
    with assms(2) have "codecMarshal (cdAWS cd) (pcAWS p) = Inr raw" by (auto simp: RawConfig_def platform_defs split: sum.splits)
    from that [OF d(1) [OF aws this]] show thesis using aws by (simp add: domainOf_def sameMachine_def)
  next
    case azure
    with assms(2) have "codecMarshal (cdAzure cd) (pcAzure p) = Inr raw" by (auto simp: RawConfig_def platform_defs split: sum.splits)
    from that [OF d(2) [OF azure this]] show thesis using azure by (simp add: domainOf_def sameMachine_def platform_defs)
  next
    case gcp
    with assms(2) have "codecMarshal (cdGCP cd) (pcGCP p) = Inr raw" by (auto simp: RawConfig_def platform_defs split: sum.splits)
    from that [OF d(3) [OF gcp this]] show thesis using gcp by (simp add: domainOf_def sameMachine_def platform_defs)
  qed
qed

section \<open>Domains that complete each other to themselves\<close>

text \<open>No domain leaves open what another one sets.\<close>

definition closedDomains :: "failureDomain list \<Rightarrow> bool" where
  "closedDomains ds \<longleftrightarrow> list_all (\<lambda>x. list_all (\<lambda>t. Complete x (Some t) = Inr x) ds) ds"

lemma aws_relisted:
  assumes "\<forall>p \<in> set ps. pcType p = AWSPlatformType" and "set fds = domainOf ` set ps"
    and "\<forall>x \<in> domainOf ` set ps. Complete x (Some t) = Inr x"
  shows "matchesDomains (Some (buildAWSFailureDomains fds)) t (domainOf ` set ps)"
proof (rule matchesDomains_listed [where xs = "setList fdString fds" and g = "NewAWSFailureDomain \<circ> fdAws"])
  show "NewFailureDomains (Some (buildAWSFailureDomains fds)) = Inr (map (NewAWSFailureDomain \<circ> fdAws) (setList fdString fds))"
    by (simp add: NewFailureDomains_def buildAWSFailureDomains_def newAWSFailureDomains_def)
  have "(NewAWSFailureDomain \<circ> fdAws) x = x" if "x \<in> domainOf ` set ps" for x
    using that assms(1) by (auto simp: domainOf_def)
  then show "\<forall>x \<in> set (setList fdString fds). Complete ((NewAWSFailureDomain \<circ> fdAws) x) (Some t) = Inr x"
    using assms(2,3) by (simp add: setList_def)
qed (use assms(2) in \<open>simp_all add: buildAWSFailureDomains_def platform_defs setList_def\<close>)

lemma gcp_relisted:
  assumes "\<forall>p \<in> set ps. pcType p = GCPPlatformType" and "set fds = domainOf ` set ps"
    and "\<forall>x \<in> domainOf ` set ps. Complete x (Some t) = Inr x"
  shows "matchesDomains (Some (buildGCPFailureDomains fds)) t (domainOf ` set ps)"
proof (rule matchesDomains_listed [where xs = "setList fdString fds" and g = "NewGCPFailureDomain \<circ> fdGcp"])
  show "NewFailureDomains (Some (buildGCPFailureDomains fds)) = Inr (map (NewGCPFailureDomain \<circ> fdGcp) (setList fdString fds))"
    by (simp add: NewFailureDomains_def buildGCPFailureDomains_def newGCPFailureDomains_def platform_defs)
  have "(NewGCPFailureDomain \<circ> fdGcp) x = x" if "x \<in> domainOf ` set ps" for x
    using that assms(1) by (auto simp: domainOf_def platform_defs)
  then show "\<forall>x \<in> set (setList fdString fds). Complete ((NewGCPFailureDomain \<circ> fdGcp) x) (Some t) = Inr x"
    using assms(2,3) by (simp add: setList_def)
qed (use assms(2) in \<open>simp_all add: buildGCPFailureDomains_def platform_defs setList_def\<close>)

lemma azure_recomplete:
  assumes "Complete (NewAzureFailureDomain x) (Some (NewAzureFailureDomain t)) = Inr (NewAzureFailureDomain x)"
    and "zones \<longrightarrow> azureZone t = azureZone x" and "subnets \<longrightarrow> azureSubnet t = azureSubnet x"
  shows "Complete (NewAzureFailureDomain (unlistShared zones subnets x)) (Some (NewAzureFailureDomain t)) = Inr (NewAzureFailureDomain x)"
  using assms by (cases x; cases t) (auto simp: unlistShared_def Complete_def completeAzure_def Let_def platform_defs newFD_defs split: if_splits)

lemma azure_relisted:
  assumes "\<forall>p \<in> set ps. pcType p = AzurePlatformType" and "set fds = domainOf ` set ps" and "t \<in> domainOf ` set ps"
    and "\<forall>x \<in> domainOf ` set ps. Complete x (Some t) = Inr x" and "fdsPlatform (buildAzureFailureDomains fds) \<noteq> ''''"
  shows "matchesDomains (Some (buildAzureFailureDomains fds)) t (domainOf ` set ps)"
proof -
  define az where "az = map fdAzure (setList fdString fds)"
  have "length az > 1"
    using assms(5) by (cases "length az > 1") (simp_all add: buildAzureFailureDomains_def az_def zeroDomains_def Let_def)
  then have b: "buildAzureFailureDomains fds =
      zeroDomains\<lparr>fdsAzure := Some (map (unlistShared (sharedZone az) (sharedSubnet az)) az), fdsPlatform := AzurePlatformType\<rparr>"
    by (intro buildAzureFailureDomains_eq [OF az_def])
  have sl: "set (setList fdString fds) = domainOf ` set ps" using assms(2) by (simp add: setList_def)
  have el: "x = NewAzureFailureDomain (fdAzure x) \<and> fdAzure x \<in> set az" if "x \<in> domainOf ` set ps" for x
    using that sl assms(1) by (auto simp: az_def domainOf_def platform_defs)
  let ?g = "\<lambda>x. NewAzureFailureDomain (unlistShared (sharedZone az) (sharedSubnet az) (fdAzure x))"
  have c: "Complete (?g x) (Some t) = Inr x" if x: "x \<in> domainOf ` set ps" for x
  proof -
    have "Complete (NewAzureFailureDomain (fdAzure x)) (Some (NewAzureFailureDomain (fdAzure t))) = Inr (NewAzureFailureDomain (fdAzure x))"
      using assms(3,4) x el by metis
    moreover have "sharedZone az \<longrightarrow> azureZone (fdAzure t) = azureZone (fdAzure x)"
      "sharedSubnet az \<longrightarrow> azureSubnet (fdAzure t) = azureSubnet (fdAzure x)"
      using el [OF x] el [OF assms(3)] unfolding sharedZone_def sharedSubnet_def by blast+
    ultimately show ?thesis using azure_recomplete el [OF x] el [OF assms(3)] by metis
  qed
  show ?thesis
  proof (rule matchesDomains_listed [where xs = "setList fdString fds" and g = ?g])
    show "NewFailureDomains (Some (buildAzureFailureDomains fds)) = Inr (map ?g (setList fdString fds))"
      by (simp add: b NewFailureDomains_def newAzureFailureDomains_def platform_defs az_def comp_def)
  qed (use b sl c in \<open>simp_all add: platform_defs\<close>)
qed

section \<open>What a generated template lists\<close>

text \<open>A subnet read off an AWS machine is a reference that can be written back.\<close>

lemma aws_subnet_wellFormed:
  "convertAWSResourceReferenceV1Beta1ToV1 b = Some s \<Longrightarrow> wellFormedReference s"
  by (auto simp: aws_reference_defs wellFormedReference_def Let_def split: if_splits option.splits)

definition writable :: "string \<Rightarrow> failureDomains \<Rightarrow> bool" where
  "writable platform d \<longleftrightarrow> fdsPlatform d = platform \<and>
     (\<forall>listed. NewFailureDomains (Some d) = Inr listed \<longrightarrow>
        (\<forall>fd \<in> set listed. platformType fd = platform \<and> (\<forall>q. pcType q = platform \<longrightarrow> injectable q fd)))"

lemma generated_writable:
  assumes "\<forall>p \<in> set ps. pcType p = platform" and "set fds = domainOf ` set ps"
  shows "platform = AWSPlatformType \<Longrightarrow> writable platform (buildAWSFailureDomains fds)"
    "platform = GCPPlatformType \<Longrightarrow> writable platform (buildGCPFailureDomains fds)"
    "platform = AzurePlatformType \<Longrightarrow> fdsPlatform (buildAzureFailureDomains fds) \<noteq> '''' \<Longrightarrow>
       writable platform (buildAzureFailureDomains fds)"
proof -
  assume aws: "platform = AWSPlatformType"
  have "wellFormedReference s" if "x \<in> set fds" "awsSubnet (fdAws x) = Some s" for x s
    using that assms aws aws_subnet_wellFormed by (auto simp: domainOf_def awsExtractFailureDomain_def Let_def split: if_splits)
  then show "writable platform (buildAWSFailureDomains fds)" using aws
    by (auto simp: writable_def buildAWSFailureDomains_def NewFailureDomains_def newAWSFailureDomains_def injectable_def
        setList_def split: option.split)
next
  assume "platform = GCPPlatformType"
  then show "writable platform (buildGCPFailureDomains fds)"
    by (auto simp: writable_def buildGCPFailureDomains_def NewFailureDomains_def newGCPFailureDomains_def injectable_def platform_defs)
next
  assume "platform = AzurePlatformType" and ne: "fdsPlatform (buildAzureFailureDomains fds) \<noteq> ''''"
  then show "writable platform (buildAzureFailureDomains fds)"
    by (cases "length (map fdAzure (setList fdString fds)) > 1")
      (auto simp: writable_def buildAzureFailureDomains_def Let_def zeroDomains_def NewFailureDomains_def newAzureFailureDomains_def
        injectable_def platform_defs)
qed

text \<open>
  The template of a generated set: the webhook's comparison passes with the configuration the generator left
  there; and where domains are listed it passes with the domain of any machine in its place, and each
  listed domain can be written into a configuration of the platform.
\<close>

definition restartable :: "string \<Rightarrow> openShiftMachineTemplate \<Rightarrow> failureDomain set \<Rightarrow> bool" where
  "restartable platform tmpl ds \<longleftrightarrow>
     (\<exists>d. tmplFailureDomains tmpl = Some d \<and>
        (fdsPlatform d \<noteq> '''' \<longrightarrow> writable platform d \<and> (\<forall>t \<in> ds. matchesDomains (Some d) t ds)))"

lemma generated_restartable:
  assumes "faithfulConversion j" and "infPlatformStatus infra = Some platform" and "platform \<in> set plainPlatforms"
    and "generateControlPlaneMachineSet cd j ns infra machines = Inr c"
    and g: "generatedFrom cd j platform machines ps fds tmpl (cpmsSpecOf c)"
    and closed: "\<forall>x \<in> domainOf ` set ps. \<forall>t \<in> domainOf ` set ps. Complete x (Some t) = Inr x"
  shows "templateMatches cd platform tmpl ps \<and> restartable platform tmpl (domainOf ` set ps)"
proof -
  let ?ds = "domainOf ` set ps"
  from g have b: "builtFrom cd j platform machines ps fds" by (simp add: generatedFrom_def)
  note f = builtFrom_facts(1,3) [OF b]
  have restart: "restartable platform tmpl ?ds" if "tmplFailureDomains tmpl = Some d"
    and "fdsPlatform d \<noteq> '''' \<Longrightarrow> writable platform d"
    and "\<And>t. fdsPlatform d \<noteq> '''' \<Longrightarrow> t \<in> ?ds \<Longrightarrow> matchesDomains (Some d) t ?ds" for d
    using that by (auto simp: restartable_def)
  from assms(1,2) plain_spec [OF assms(3)] assms(4) show ?thesis
  proof (cases rule: platform_spec)
    case aws
    have "restartable platform tmpl ?ds"
      by (rule restart [OF aws_template(1) [OF g [unfolded aws(1)] aws(2)]]) (use f aws(1) closed in \<open>auto intro!: generated_writable(1) aws_relisted\<close>)
    with aws g aws_template_matches show ?thesis by simp
  next
    case azure
    have "restartable platform tmpl ?ds"
      by (rule restart [OF azure_template(1) [OF g [unfolded azure(1)] azure(2)]]) (use f azure(1) closed in \<open>auto intro!: generated_writable(3) azure_relisted\<close>)
    with azure g azure_template_matches show ?thesis by simp
  next
    case gcp
    have "restartable platform tmpl ?ds"
      by (rule restart [OF gcp_template(1) [OF g [unfolded gcp(1)] gcp(2)]]) (use f gcp(1) closed in \<open>auto intro!: generated_writable(2) gcp_relisted\<close>)
    with gcp g gcp_template_matches show ?thesis by simp
  next
    case openstack
    with assms(3) show ?thesis by (simp add: plainPlatforms_def platform_defs)
  qed
qed

section \<open>Machines that differ in their failure domains only\<close>

text \<open>A configuration, moved to the failure domain of another one, is the other, boot images aside.\<close>

definition alike :: "providerConfig \<Rightarrow> providerConfig \<Rightarrow> bool" where
  "alike p q \<longleftrightarrow>
     (case fst (InjectFailureDomain p (Some (domainOf q))) of Inl e \<Rightarrow> False | Inr p' \<Rightarrow> sameMachine p' q)"

lemma convert_None: "convertAWSResourceReferenceV1Beta1ToV1 b = None \<longleftrightarrow> b = zeroBetaReference"
  by (cases b) (auto simp: convertAWSResourceReferenceV1Beta1ToV1_def zeroBetaReference_def Let_def)

lemma alike_aws:
  assumes "pcType p = AWSPlatformType" and "pcType x = AWSPlatformType"
  shows "alike p x \<longleftrightarrow>
    (\<exists>a. awsInjectFailureDomain (pcAWS p) (awsExtractFailureDomain (pcAWS x)) = Inr a \<and>
       awsPlacementZone a = awsPlacementZone (pcAWS x) \<and> awsConfigSubnet a = awsConfigSubnet (pcAWS x) \<and>
       awsOther a = awsOther (pcAWS x))"
  using assms by (auto simp: alike_def InjectFailureDomain_def domainOf_def sameMachine_def split: sum.splits)

lemma inject_blank_aws:
  assumes "awsInjectFailureDomain a d = Inr b" and "awsAvailabilityZone d = '''' \<Longrightarrow> awsPlacementZone a = ''''"
    and "awsSubnet d = None \<Longrightarrow> awsConfigSubnet a = zeroBetaReference"
  shows "awsInjectFailureDomain (blankAws a) d = Inr b"
  using assms by (cases a; cases "awsSubnet d") (auto simp: awsInjectFailureDomain_def blankAws_def Let_def split: sum.splits)

lemma alike_template_aws:
  assumes "pcType p = AWSPlatformType" and "pcType x = AWSPlatformType" and "alike p x"
    and "Complete (domainOf x) (Some (domainOf p)) = Inr (domainOf x)"
  shows "alike (zeroProviderConfig\<lparr>pcType := AWSPlatformType, pcAWS := blankAws (pcAWS p)\<rparr>) x"
proof -
  let ?d = "awsExtractFailureDomain (pcAWS x)"
  have "awsAvailabilityZone ?d = '''' \<Longrightarrow> awsPlacementZone (pcAWS p) = ''''"
    "awsSubnet ?d = None \<Longrightarrow> convertAWSResourceReferenceV1Beta1ToV1 (awsConfigSubnet (pcAWS p)) = None"
    using assms(1,2,4)
    by (auto simp: domainOf_def Complete_def completeAWS_def awsExtractFailureDomain_def newFD_defs Let_def split: if_splits option.splits)
  then have "awsInjectFailureDomain (blankAws (pcAWS p)) ?d = Inr b" if "awsInjectFailureDomain (pcAWS p) ?d = Inr b" for b
    using inject_blank_aws [OF that] by (simp only: convert_None)
  then show ?thesis using assms(1-3) by (auto simp: alike_aws)
qed

lemma alike_template_gcp:
  assumes "pcType p = GCPPlatformType" and "pcType x = GCPPlatformType" and "alike p x"
    and "Complete (domainOf x) (Some (domainOf p)) = Inr (domainOf x)"
  shows "alike (zeroProviderConfig\<lparr>pcType := GCPPlatformType, pcGCP := (pcGCP p)\<lparr>gcpConfigZone := ''''\<rparr>\<rparr>) x"
proof -
  have "gcpConfigZone (pcGCP x) = '''' \<Longrightarrow> gcpConfigZone (pcGCP p) = ''''"
    using assms(1,2,4) by (auto simp: domainOf_def Complete_def completeGCP_def gcpExtractFailureDomain_def newFD_defs platform_defs)
  then show ?thesis using assms(1-3)
    by (cases "pcGCP p")
      (auto simp: alike_def InjectFailureDomain_def domainOf_def gcpInjectFailureDomain_def gcpExtractFailureDomain_def
        sameMachine_def platform_defs split: if_splits)
qed

lemma alike_template_azure:
  assumes "pcType (hd ps) = AzurePlatformType" and "pcType x = AzurePlatformType" and "alike (hd ps) x"
    and "Complete (domainOf x) (Some (domainOf (hd ps))) = Inr (domainOf x)"
  shows "alike (zeroProviderConfig\<lparr>pcType := AzurePlatformType, pcAzure := azureTemplate ps\<rparr>) x"
proof -
  have "azureConfigZone (pcAzure x) = '''' \<Longrightarrow> azureConfigZone (pcAzure (hd ps)) = ''''"
    "azureConfigSubnet (pcAzure x) = '''' \<Longrightarrow> azureConfigSubnet (pcAzure (hd ps)) = ''''"
    using assms(1,2,4)
    by (auto simp: domainOf_def Complete_def completeAzure_def azureExtractFailureDomain_def newFD_defs platform_defs Let_def split: if_splits)
  then show ?thesis using assms(1-3)
    by (cases "pcAzure (hd ps)")
      (auto simp: alike_def InjectFailureDomain_def domainOf_def azureInjectFailureDomain_def azureExtractFailureDomain_def
        sameMachine_def azureTemplate_def platform_defs Let_def split: if_splits)
qed

lemma alike_own_azure:
  assumes "alike q x" and "pcType q = AzurePlatformType" and "domainOf x = domainOf q"
  shows "sameMachine q x"
  using assms by (auto simp: alike_def InjectFailureDomain_def domainOf_def azureInjectFailureDomain_def
      azureExtractFailureDomain_def sameMachine_def platform_defs newFD_defs Let_def split: if_splits)

text \<open>
  A domain written into the template's configuration makes it the machine that is in this domain: reading
  the domain of an AWS configuration loses nothing of a subnet that an injection has written.
\<close>

lemma written_subnet_read:
  assumes "convertAWSResourceReferenceV1ToV1Beta1 (Some s) = Inr b" and "wellFormedReference s"
    and "convertAWSResourceReferenceV1ToV1Beta1 (convertAWSResourceReferenceV1Beta1ToV1 b) = Inr b'"
  shows "b' = b"
  using aws_reference_roundtrip [OF assms(2)] assms by (metis sum.inject(2))

lemma same_after_injection_aws:
  assumes "alike q y" and "pcType q = AWSPlatformType" and "pcType y = AWSPlatformType"
    and "fst (InjectFailureDomain q (Some fd)) = Inr p" and "injectable q fd" and "domainOf p = domainOf y"
    and "awsConfigSubnet (pcAWS q) = zeroBetaReference"
  shows "sameMachine p y"
proof -
  let ?get = convertAWSResourceReferenceV1Beta1ToV1 and ?put = convertAWSResourceReferenceV1ToV1Beta1
  from assms(2,4) obtain b where b: "awsInjectFailureDomain (pcAWS q) (fdAws fd) = Inr b" "p = q\<lparr>pcAWS := b\<rparr>"
    by (auto simp: InjectFailureDomain_def split: sum.splits)
  have ext: "awsExtractFailureDomain b = awsExtractFailureDomain (pcAWS y)"
    using assms(2,3,6) b(2) by (simp add: domainOf_def newFD_defs)
  then have read: "?get (awsConfigSubnet b) = ?get (awsConfigSubnet (pcAWS y))" "awsPlacementZone b = awsPlacementZone (pcAWS y)"
    by (simp_all add: awsExtractFailureDomain_def)
  from assms(1-3) obtain a where a: "awsInjectFailureDomain (pcAWS q) (awsExtractFailureDomain (pcAWS y)) = Inr a"
    "awsConfigSubnet a = awsConfigSubnet (pcAWS y)" "awsOther a = awsOther (pcAWS y)" by (auto simp: alike_aws)
  have other: "awsOther b = awsOther (pcAWS y)"
    using a(1,3) b(1) by (auto simp: awsInjectFailureDomain_def Let_def split: sum.splits if_splits)
  have "awsConfigSubnet b = awsConfigSubnet (pcAWS y)"
  proof (cases "?get (awsConfigSubnet b)")
    case None
    then have "awsConfigSubnet b = zeroBetaReference" by (simp only: convert_None)
    moreover from None read(1) have "awsConfigSubnet (pcAWS y) = zeroBetaReference" by (metis convert_None)
    ultimately show ?thesis by simp
  next
    case (Some s')
    then have "awsConfigSubnet b \<noteq> zeroBetaReference" by (metis convert_None option.distinct(1))
    with b(1) assms(7) obtain s where s: "awsSubnet (fdAws fd) = Some s" "?put (Some s) = Inr (awsConfigSubnet b)"
      by (cases "awsSubnet (fdAws fd)") (auto simp: awsInjectFailureDomain_def Let_def split: sum.splits if_splits)
    have "wellFormedReference s" using assms(2,5) s(1) by (simp add: injectable_def)
    moreover have "?put (?get (awsConfigSubnet b)) = Inr (awsConfigSubnet (pcAWS y))"
      using a(1,2) Some read(1) by (auto simp: awsInjectFailureDomain_def awsExtractFailureDomain_def Let_def split: sum.splits)
    ultimately show ?thesis using written_subnet_read [OF s(2)] by metis
  qed
  with read(2) other b(2) assms(2) show ?thesis by (simp add: sameMachine_def)
qed

lemma same_after_injection:
  assumes "alike q y" and "pcType q \<in> set plainPlatforms" and "pcType y = pcType q"
    and "fst (InjectFailureDomain q (Some fd)) = Inr p" and "injectable q fd" and "domainOf p = domainOf y"
    and "pcType q = AWSPlatformType \<Longrightarrow> awsConfigSubnet (pcAWS q) = zeroBetaReference"
  shows "sameMachine p y"
proof -
  from assms(2) consider (aws) "pcType q = AWSPlatformType" | (azure) "pcType q = AzurePlatformType" | (gcp) "pcType q = GCPPlatformType"
    by (auto simp: plainPlatforms_def)
  then show ?thesis
  proof cases
    case aws
    then show ?thesis using assms same_after_injection_aws [of q y fd p] by simp
  next
    case azure
    then have p: "p = q\<lparr>pcAzure := azureInjectFailureDomain (pcAzure q) (fdAzure fd)\<rparr>"
      using assms(4) by (simp add: InjectFailureDomain_def platform_defs)
    have "azureInternalLoadBalancer (azureInjectFailureDomain a d) = azureInternalLoadBalancer a"
      "azureOther (azureInjectFailureDomain a d) = azureOther a" for a d
      by (simp_all add: azureInjectFailureDomain_def Let_def)
    with azure p assms(1,3,6) show ?thesis
      by (simp add: alike_def InjectFailureDomain_def domainOf_def sameMachine_def platform_defs newFD_defs)
  next
    case gcp
    then have p: "p = q\<lparr>pcGCP := gcpInjectFailureDomain (pcGCP q) (fdGcp fd)\<rparr>"
      using assms(4) by (simp add: InjectFailureDomain_def platform_defs)
    have "gcpTargetPools (gcpInjectFailureDomain a d) = gcpTargetPools a" "gcpOther (gcpInjectFailureDomain a d) = gcpOther a"
      "gcpDisks (gcpInjectFailureDomain a d) = gcpDisks a" for a d
      by (simp_all add: gcpInjectFailureDomain_def)
    with gcp p assms(1,3,6) show ?thesis
      by (simp add: alike_def InjectFailureDomain_def domainOf_def sameMachine_def platform_defs newFD_defs gcpExtractFailureDomain_def)
  qed
qed

lemma same_domain:
  assumes "sameMachine p q" and "pcType q = pcType p" and "pcType p \<in> set plainPlatforms"
  shows "domainOf p = domainOf q"
  using assms
  by (auto simp: plainPlatforms_def sameMachine_def domainOf_def platform_defs awsExtractFailureDomain_def gcpExtractFailureDomain_def)

text \<open>The configuration of a generated template is like every machine's, and where no domain is listed the same.\<close>

lemma generated_alike:
  assumes "faithfulConversion j" and "infPlatformStatus infra = Some platform" and "platform \<in> set plainPlatforms"
    and "generateControlPlaneMachineSet cd j ns infra machines = Inr c"
    and g: "generatedFrom cd j platform machines ps fds tmpl (cpmsSpecOf c)"
    and closed: "\<forall>x \<in> domainOf ` set ps. \<forall>t \<in> domainOf ` set ps. Complete x (Some t) = Inr x"
    and alike: "\<forall>x \<in> set ps. alike (hd ps) x"
  obtains q where "\<And>i. NewProviderConfigFromMachineSpec cd (tmplSpec tmpl) i = Inr q" "pcType q = platform"
    "matchesDomains (tmplFailureDomains tmpl) (domainOf q) (domainOf ` set ps)" "\<forall>x \<in> set ps. alike q x"
    "platform \<noteq> AzurePlatformType \<longrightarrow> (\<exists>d. tmplFailureDomains tmpl = Some d \<and> fdsPlatform d \<noteq> '''')"
    "platform = AWSPlatformType \<longrightarrow> awsConfigSubnet (pcAWS q) = zeroBetaReference"
proof -
  from g have b: "builtFrom cd j platform machines ps fds" by (simp add: generatedFrom_def)
  note f = builtFrom_facts(1,2) [OF b]
  have ne: "hd ps \<in> set ps" using f(2) by simp
  from generated_restartable [OF assms(1-4) g closed] obtain q where
    q: "\<And>i. NewProviderConfigFromMachineSpec cd (tmplSpec tmpl) i = Inr q" "pcType q = platform"
      "matchesDomains (tmplFailureDomains tmpl) (domainOf q) (domainOf ` set ps)"
    by (auto simp: templateMatches_def)
  have c: "Complete (domainOf x) (Some (domainOf (hd ps))) = Inr (domainOf x)" if "x \<in> set ps" for x
    using closed that ne by simp
  have "(\<forall>x \<in> set ps. alike q x) \<and>
    (platform \<noteq> AzurePlatformType \<longrightarrow> (\<exists>d. tmplFailureDomains tmpl = Some d \<and> fdsPlatform d \<noteq> '''')) \<and>
    (platform = AWSPlatformType \<longrightarrow> awsConfigSubnet (pcAWS q) = zeroBetaReference)"
    using assms(1,2) plain_spec [OF assms(3)] assms(4)
  proof (cases rule: platform_spec)
    case aws
    note t = aws_template [OF g [unfolded aws(1)] aws(2)]
    have q': "q = zeroProviderConfig\<lparr>pcType := AWSPlatformType, pcAWS := blankAws (pcAWS (hd ps))\<rparr>" using t(2) q(1) by simp
    then have "\<forall>x \<in> set ps. alike q x" using alike_template_aws c f(1) ne alike aws(1) by simp
    with t(1) q' show ?thesis by (simp add: buildAWSFailureDomains_def platform_defs blankAws_def)
  next
    case azure
    note t = azure_template [OF g [unfolded azure(1)] azure(2)]
    have "q = zeroProviderConfig\<lparr>pcType := AzurePlatformType, pcAzure := azureTemplate ps\<rparr>" using t(2) q(1) by simp
    then show ?thesis using alike_template_azure c f(1) ne alike azure(1) by (simp add: platform_defs)
  next
    case gcp
    note t = gcp_template [OF g [unfolded gcp(1)] gcp(2)]
    have "q = zeroProviderConfig\<lparr>pcType := GCPPlatformType, pcGCP := (pcGCP (hd ps))\<lparr>gcpConfigZone := ''''\<rparr>\<rparr>" using t(2) q(1) by simp
    then have "\<forall>x \<in> set ps. alike q x" using alike_template_gcp c f(1) ne alike gcp(1) by simp
    with t(1) gcp(1) show ?thesis by (simp add: buildGCPFailureDomains_def platform_defs)
  next
    case openstack
    with assms(3) show ?thesis by (simp add: plainPlatforms_def platform_defs)
  qed
  with q that show thesis by blast
qed

text \<open>The domain of a machine.\<close>

definition machineDomain :: "codecs \<Rightarrow> machine \<Rightarrow> failureDomain" where
  "machineDomain cd x = domainOf (projr (NewProviderConfigFromMachineSpec cd (mSpec x) None))"

lemma configured_domain: "configured cd platform x y \<Longrightarrow> machineDomain cd x = domainOf y"
  by (simp add: configured_def machineDomain_def)

text \<open>A template of configuration \<open>q\<close> made for machines: what the generator achieves and the provider needs.\<close>

definition fitsMachines :: "codecs \<Rightarrow> string \<Rightarrow> openShiftMachineTemplate \<Rightarrow> providerConfig \<Rightarrow> machine list \<Rightarrow> bool" where
  "fitsMachines cd platform tmpl q ms \<longleftrightarrow>
     platform \<in> set plainPlatforms \<and> pcType q = platform \<and> ms \<noteq> [] \<and>
     (\<forall>i. NewProviderConfigFromMachineSpec cd (tmplSpec tmpl) i = Inr q \<and> NewProviderConfigFromMachineTemplate cd tmpl i = Inr q) \<and>
     restartable platform tmpl (set (map (machineDomain cd) ms)) \<and>
     matchesDomains (tmplFailureDomains tmpl) (domainOf q) (set (map (machineDomain cd) ms)) \<and>
     (\<forall>x \<in> set ms. \<exists>y. configured cd platform x y \<and> alike q y) \<and>
     (platform \<noteq> AzurePlatformType \<longrightarrow> (\<exists>d. tmplFailureDomains tmpl = Some d \<and> fdsPlatform d \<noteq> '''')) \<and>
     (platform = AWSPlatformType \<longrightarrow> awsConfigSubnet (pcAWS q) = zeroBetaReference)"

lemma fitsMachines_facts:
  assumes "fitsMachines cd platform tmpl q ms"
  shows "restartable platform tmpl (set (map (machineDomain cd) ms))" "platform \<in> set plainPlatforms" "pcType q = platform"
    "matchesDomains (tmplFailureDomains tmpl) (domainOf q) (set (map (machineDomain cd) ms))"
    "\<forall>x \<in> set ms. \<exists>y. configured cd platform x y \<and> alike q y"
    "platform \<noteq> AzurePlatformType \<Longrightarrow> \<exists>d. tmplFailureDomains tmpl = Some d \<and> fdsPlatform d \<noteq> ''''" "ms \<noteq> []"
    "NewProviderConfigFromMachineSpec cd (tmplSpec tmpl) i = Inr q" "NewProviderConfigFromMachineTemplate cd tmpl i = Inr q"
    "platform = AWSPlatformType \<Longrightarrow> awsConfigSubnet (pcAWS q) = zeroBetaReference"
  using assms by (simp_all add: fitsMachines_def)

lemma template_config:
  assumes "restartable platform tmpl ds" and "getPlatformTypeFromProviderSpec cd (msProviderSpec (tmplSpec tmpl)) = Inr platform"
  shows "NewProviderConfigFromMachineTemplate cd tmpl infra = NewProviderConfigFromMachineSpec cd (tmplSpec tmpl) infra"
  using assms by (auto simp: restartable_def writable_def NewProviderConfigFromMachineTemplate_def
      NewProviderConfigFromMachineSpec_def getPlatformTypeFromMachineTemplate_def)

text \<open>The machines differ in their failure domains only: each is the newest one moved to its domain.\<close>

definition alikeMachines :: "codecs \<Rightarrow> machine list \<Rightarrow> bool" where
  "alikeMachines cd machines \<longleftrightarrow>
     list_all (\<lambda>x. case (NewProviderConfigFromMachineSpec cd (mSpec (hd machines)) None,
                         NewProviderConfigFromMachineSpec cd (mSpec x) None) of
                     (Inr p, Inr q) \<Rightarrow> alike p q | _ \<Rightarrow> False) machines"

lemma alikeMachines_configured:
  assumes "alikeMachines cd machines" and "list_all2 (configured cd platform) machines ps" and "ps \<noteq> []"
  shows "\<forall>y \<in> set ps. alike (hd ps) y"
proof
  fix y assume "y \<in> set ps"
  then obtain n where n: "n < length ps" "y = ps ! n" by (metis in_set_conv_nth)
  have "configured cd platform (machines ! n) y" "configured cd platform (hd machines) (hd ps)" "n < length machines"
    using assms(2,3) n by (auto simp: list_all2_conv_all_nth hd_conv_nth simp flip: length_greater_0_conv)
  then show "alike (hd ps) y"
    using assms(1) by (auto simp: alikeMachines_def list_all_length configured_def)
qed

lemma generated_fits:
  assumes "faithfulConversion j" and "codecsRoundTrip cd" and "infPlatformStatus infra = Some platform" and "platform \<in> set plainPlatforms"
    and "generateControlPlaneMachineSet cd j ns infra machines = Inr c"
    and "\<forall>m \<in> set machines. getPlatformTypeFromProviderSpec cd (msProviderSpec (mSpec m)) = Inr platform \<and>
      \<not> isl (NewProviderConfigFromMachineSpec cd (mSpec m) None)"
    and "openShiftMachine (cpmsTemplateOf (cpmsSpecOf c)) = Some tmpl"
    and "getPlatformTypeFromProviderSpec cd (msProviderSpec (tmplSpec tmpl)) = Inr platform"
    and "alikeMachines cd machines" and "set ms = set machines"
    and "getMachineFailureDomains cd infra ms = Inr ds" and "closedDomains ds"
  obtains q where "fitsMachines cd platform tmpl q ms" "ds = map (machineDomain cd) ms"
proof -
  have sp: "platform \<in> set specPlatforms" using assms(4) by (rule plain_spec)
  from assms(1,2) sp assms(5-8,10) obtain ps ps' fds where
    g: "generatedFrom cd j platform machines ps fds tmpl (cpmsSpecOf c)"
    and ps: "set ps' = set ps" "ofPlatform platform ps'" "list_all2 (configured cd platform) ms ps'"
    by (rule generated_from_machines)
  have "list_all2 (configured cd platform) machines ps" "ps \<noteq> []" using g by (auto simp: generatedFrom_def builtFrom_def ofPlatform_def)
  with assms(9) have al: "\<forall>y \<in> set ps. alike (hd ps) y" by (rule alikeMachines_configured)
  have ds: "ds = map (machineDomain cd) ms" "map (machineDomain cd) ms = map domainOf ps'"
    using getMachineFailureDomains_configured [OF sp ps(3), of infra] assms(11) ps(3) configured_domain
    by (auto simp: list_all2_conv_all_nth intro!: nth_equalityI)
  have cl: "\<forall>x \<in> domainOf ` set ps. \<forall>t \<in> domainOf ` set ps. Complete x (Some t) = Inr x"
    using ps(1) ds assms(12) by (auto simp: closedDomains_def list_all_iff)
  have sd: "set (map (machineDomain cd) ms) = domainOf ` set ps" using ds(2) ps(1) by simp
  note G = generated_restartable [OF assms(1,3,4,5) g cl]
  obtain q where
    q: "\<And>i. NewProviderConfigFromMachineSpec cd (tmplSpec tmpl) i = Inr q" "pcType q = platform"
      "matchesDomains (tmplFailureDomains tmpl) (domainOf q) (domainOf ` set ps)" "\<forall>y \<in> set ps. alike q y"
      "platform \<noteq> AzurePlatformType \<longrightarrow> (\<exists>d. tmplFailureDomains tmpl = Some d \<and> fdsPlatform d \<noteq> '''')"
      "platform = AWSPlatformType \<longrightarrow> awsConfigSubnet (pcAWS q) = zeroBetaReference"
    using generated_alike [OF assms(1,3,4,5) g cl al] by blast
  have "\<forall>x \<in> set ms. \<exists>y. configured cd platform x y \<and> alike q y"
    using ps(1,3) q(4) by (metis in_set_conv_nth list_all2_conv_all_nth)
  moreover have "ms \<noteq> []" using ps(2,3) by (auto simp: ofPlatform_def)
  ultimately have "fitsMachines cd platform tmpl q ms"
    using assms(4) q(1,2,3,5,6) template_config [OF conjunct2 [OF G] assms(8)] G sd by (simp add: fitsMachines_def)
  with ds(1) that show thesis by blast
qed

end
