(* ===== verification/Generator_Admitted.thy ===== *)
theory Generator_Admitted
  imports Generated_Template
begin

text \<open>
  A generated set before the webhook as a whole. Before the set is compared with the machines, the webhook
  sends a machine made from the template and the first listed failure domain as a dry run and keeps the
  answer as the template, so the comparison completes the listed domains with the domain of a machine
  instead of the one the generator left in the template.
\<close>

section \<open>The dry run\<close>

text \<open>
  What is documented of a dry run, for specs that are in the cluster already: defaulting leaves a spec alone
  that it has been applied to, so a machine like one of the cluster's is stored like it.
\<close>

definition dryRunKeepsMachines :: "'k machineClient \<Rightarrow> codecs \<Rightarrow> machine list \<Rightarrow> 'k \<Rightarrow> bool" where
  "dryRunKeepsMachines cl cd ms k \<longleftrightarrow>
     (\<forall>x a p. mcDryRunCreate cl CachedClient x k = Inr a \<longrightarrow> NewProviderConfigFromMachineSpec cd (mSpec x) None = Inr p \<longrightarrow>
        (\<forall>y \<in> set ms. \<forall>q. NewProviderConfigFromMachineSpec cd (mSpec y) None = Inr q \<longrightarrow> pcType p = pcType q \<longrightarrow> sameMachine p q \<longrightarrow>
           (\<exists>v. NewProviderConfigFromMachineSpec cd (mSpec a) None = Inr v \<and> pcType v = pcType q \<and> sameMachine v q)))"

lemma dry_run_parts:
  assumes "validateOpenShiftProviderMachineSpec cl cd ns path tmpl infra k = (v, raw)" and "admitted v"
  obtains config tmplConfig sent answer where "NewProviderConfigFromMachineTemplate cd tmpl (Some infra) = Inr config"
    "firstDomainConfig path tmpl config = Inr (Inr tmplConfig)" "RawConfig cd tmplConfig = Inr sent"
    "mcDryRunCreate cl CachedClient (webhookDryRunMachine ns tmpl sent) k = Inr answer" "raw = Some (decodedRaw sent answer)"
proof -
  have "es \<noteq> []" if "firstDomainConfig path tmpl config = Inr (Inl es)" for config es
    using that by (auto simp: firstDomainConfig_def split: sum.splits option.splits if_splits list.splits)
  with assms that show thesis
    by (auto simp: validateOpenShiftProviderMachineSpec_def Let_def split: sum.splits)
qed

lemma Complete_first: "CompleteFailureDomains (fd # fds) t = Inr completed \<Longrightarrow> \<exists>c. Complete fd t = Inr c \<and> c \<in> set completed"
  by (auto split: sum.splits)

text \<open>The configuration sent is the template's, with the first listed domain written into it: that of a machine.\<close>

lemma first_domain_machine:
  assumes fits: "fitsMachines cd platform tmpl q ms" and "firstDomainConfig path tmpl q = Inr (Inr p)"
  obtains x y where "x \<in> set ms" "configured cd platform x y" "sameMachine p y" "pcType p = platform"
    "p = q \<or> (\<exists>fd. fst (InjectFailureDomain q (Some fd)) = Inr p)"
proof -
  note f = fitsMachines_facts [OF fits]
  let ?ds = "set (map (machineDomain cd) ms)"
  have plain: "pcType q \<in> set plainPlatforms" using f(2,3) by simp
  from f(1) obtain d where d: "tmplFailureDomains tmpl = Some d" and w: "fdsPlatform d \<noteq> '''' \<Longrightarrow> writable platform d"
    by (auto simp: restartable_def)
  show thesis
  proof (cases "fdsPlatform d = ''''")
    case True
    then have p: "p = q" using assms(2) d by (simp add: firstDomainConfig_def)
    have az: "pcType q = AzurePlatformType" using f(3,6) d True by auto
    obtain x where x: "x \<in> set ms" using f(7) by (cases ms) auto
    then obtain y where y: "configured cd platform x y" "alike q y" using f(5) by blast
    have "?ds = {domainOf q}" using f(4) True d by (simp add: matchesDomains_def)
    then have "machineDomain cd x = domainOf q" using x by (metis image_eqI list.set_map singletonD)
    then have "domainOf y = domainOf q" using configured_domain [OF y(1)] by simp
    then have "sameMachine p y" using p alike_own_azure [OF y(2) az] by simp
    with that x y(1) p f(3) show thesis by blast
  next
    case False
    with d f(4) obtain listed completed where l: "NewFailureDomains (Some d) = Inr listed"
      "CompleteFailureDomains listed (Some (domainOf q)) = Inr completed" "set completed = ?ds"
      by (auto simp: matchesDomains_def)
    obtain fd rest where fd: "listed = fd # rest" using l(2,3) f(7) by (cases listed) auto
    have i: "fst (InjectFailureDomain q (Some fd)) = Inr p"
      using assms(2) d False l(1) fd by (auto simp: firstDomainConfig_def split: sum.splits if_splits)
    have inj: "injectable q fd" "platformType fd = pcType q" using w [OF False] l(1) fd f(3) by (auto simp: writable_def)
    from inject_extract_completes_core [OF inj extract_domainOf [OF plain_spec [OF plain]]] i
    obtain c where c: "Complete fd (Some (domainOf q)) = Inr c" "ExtractFailureDomain p = Inr (Some c)" by auto
    obtain self where "InjectFailureDomain q (Some fd) = (Inr p, self)" using i by (metis prod.collapse)
    then have ty: "pcType p = platform" using InjectFailureDomain_type f(3) by metis
    have "c \<in> ?ds" using Complete_first [OF l(2) [unfolded fd]] c(1) l(3) by (metis sum.inject(2))
    then obtain x where x: "x \<in> set ms" "machineDomain cd x = c" by auto
    then obtain y where y: "configured cd platform x y" "alike q y" using f(5) by blast
    have "domainOf p = domainOf y"
      using c(2) extract_domainOf [of p] ty plain_spec [OF f(2)] x(2) configured_domain [OF y(1)] by simp
    then have "sameMachine p y"
      using same_after_injection [OF y(2) plain _ i inj(1)] f(3,10) y(1) by (simp add: configured_def)
    with that x(1) y(1) ty i show thesis by blast
  qed
qed

text \<open>The template the dry run leaves behind has the configuration of a machine, so it matches the machines.\<close>

lemma dry_run_template_matches:
  assumes fits: "fitsMachines cd platform tmpl q ms"
    and "codecsRoundTrip cd" and "encodingKeepsKind cd" and "dryRunKeepsMachines cl cd ms k"
    and "validateOpenShiftProviderMachineSpec cl cd ns path tmpl infra k = (v, raw)" and "admitted v"
  obtains a where "\<forall>i. NewProviderConfigFromMachineSpec cd (tmplSpec (withRaw raw tmpl)) i = Inr a" "pcType a = platform"
    "matchesDomains (tmplFailureDomains (withRaw raw tmpl)) (domainOf a) (set (map (machineDomain cd) ms))"
proof -
  note f = fitsMachines_facts [OF fits]
  have sp: "platform \<in> set specPlatforms" using f(2) by (rule plain_spec)
  from assms(5,6) obtain config p sent answer where c: "NewProviderConfigFromMachineTemplate cd tmpl (Some infra) = Inr config"
    "firstDomainConfig path tmpl config = Inr (Inr p)" "RawConfig cd p = Inr sent"
    "mcDryRunCreate cl CachedClient (webhookDryRunMachine ns tmpl sent) k = Inr answer" "raw = Some (decodedRaw sent answer)"
    by (rule dry_run_parts)
  have "config = q" using c(1) f(9) by simp
  with c(2) first_domain_machine [OF fits] obtain x y where x: "x \<in> set ms" "configured cd platform x y"
    and p: "sameMachine p y" "pcType p = platform" "p = q \<or> (\<exists>fd. fst (InjectFailureDomain q (Some fd)) = Inr p)" by metis
  have "getPlatformTypeFromProviderSpec cd (Some sent) = Inr (pcType p)"
    using assms(3) f(3,8) p(2,3) c(3) unfolding encodingKeepsKind_def by metis
  with encoded_decodes [OF assms(2) c(3)] p(1,2) f(2) obtain r where
    r: "NewProviderConfigFromMachineSpec cd (rawMachineSpec sent) None = Inr r" "pcType r = platform" "sameMachine r y" by metis
  have "NewProviderConfigFromMachineSpec cd (mSpec (webhookDryRunMachine ns tmpl sent)) None = Inr r"
    using spec_config_depends [OF r(1)] r(2) sp by (simp add: webhookDryRunMachine_def rawMachineSpec_def)
  moreover have y: "NewProviderConfigFromMachineSpec cd (mSpec x) None = Inr y" "pcType y = platform"
    using x(2) by (simp_all add: configured_def)
  ultimately obtain a where a: "NewProviderConfigFromMachineSpec cd (mSpec answer) None = Inr a" "pcType a = platform" "sameMachine a y"
    using assms(4) c(4) x(1) r(2,3) unfolding dryRunKeepsMachines_def by metis
  have dom: "domainOf a = machineDomain cd x"
    using same_domain [OF a(3)] a(2) y(2) f(2) configured_domain [OF x(2)] by simp
  have "matchesDomains (tmplFailureDomains tmpl) (domainOf a) (set (map (machineDomain cd) ms))"
  proof -
    from f(1) obtain d where d: "tmplFailureDomains tmpl = Some d"
      and w: "fdsPlatform d \<noteq> '''' \<Longrightarrow> \<forall>t \<in> set (map (machineDomain cd) ms). matchesDomains (Some d) t (set (map (machineDomain cd) ms))"
      by (auto simp: restartable_def)
    show ?thesis
    proof (cases "fdsPlatform d = ''''")
      case True
      then have "set (map (machineDomain cd) ms) = {domainOf q}" using f(4) d by (simp add: matchesDomains_def)
      with x(1) dom have "domainOf a = domainOf q" by (metis image_eqI list.set_map singletonD)
      with f(4) show ?thesis by simp
    next
      case False
      with w x(1) d dom show ?thesis by simp
    qed
  qed
  moreover have "msProviderSpec (mSpec answer) \<noteq> None"
    using a(1) by (cases "msProviderSpec (mSpec answer)") (simp_all add: NewProviderConfigFromMachineSpec_def getPlatformTypeFromProviderSpec_def)
  then have "msProviderSpec (tmplSpec (withRaw raw tmpl)) = msProviderSpec (mSpec answer)"
    by (auto simp: withRaw_def c(5) decodedRaw_def)
  from spec_config_depends [OF a(1) _ this] have "NewProviderConfigFromMachineSpec cd (tmplSpec (withRaw raw tmpl)) i = Inr a" for i
    using a(2) sp by simp
  moreover have "tmplFailureDomains (withRaw raw tmpl) = tmplFailureDomains tmpl" by (simp add: withRaw_def)
  ultimately show thesis using that a(2) by simp
qed

text \<open>The machines pass the comparison with such a template.\<close>

lemma fitted_template_passes:
  assumes fits: "fitsMachines cd platform tmpl q ms"
    and "\<forall>i. NewProviderConfigFromMachineSpec cd (tmplSpec tmpl') i = Inr a" and "pcType a = platform"
    and "matchesDomains (tmplFailureDomains tmpl') (domainOf a) (set (map (machineDomain cd) ms))"
  shows "validateOpenShiftMachineV1BetaTemplateOnCreate cd path tmpl' ms infra = Inr ([], [])"
proof -
  note f = fitsMachines_facts [OF fits]
  let ?config = "\<lambda>x. projr (NewProviderConfigFromMachineSpec cd (mSpec x) None)"
  have c: "configured cd platform x (?config x)" if "x \<in> set ms" for x
    using f(5) that by (auto simp: configured_def)
  then have "list_all2 (configured cd platform) ms (map ?config ms)" by (simp add: list.rel_map(2) list_all2_same)
  moreover have "\<forall>x \<in> set ms. pcType (?config x) = platform" using c unfolding configured_def by blast
  then have "ofPlatform platform (map ?config ms)" using f(7) plain_spec [OF f(2)] by (simp add: ofPlatform_def)
  moreover have "map (machineDomain cd) ms = map domainOf (map ?config ms)" by (simp add: machineDomain_def)
  then have "set (map (machineDomain cd) ms) = domainOf ` set (map ?config ms)" by (metis list.set_map)
  ultimately show ?thesis
    using matched_template_passes [of platform "map ?config ms" cd ms tmpl' a path infra] assms(2-4) by metis
qed

section \<open>The creation of a generated set\<close>

text \<open>The dry run inside an admitted validation of the spec, and the template it leaves behind.\<close>

lemma spec_dry_run:
  assumes "admitted (fst (validateSpec cl cd path c infra k))" and "openShiftMachine (cpmsTemplateOf (cpmsSpecOf c)) = Some tmpl"
  obtains path' v raw where "validateOpenShiftProviderMachineSpec cl cd (omNamespace (cpmsMeta c)) path' tmpl infra k = (v, raw)"
    "admitted v" "machineType (cpmsTemplateOf (cpmsSpecOf c)) = OpenShiftMachineV1Beta1MachineType"
    "cpmsTemplateOf (cpmsSpecOf (snd (validateSpec cl cd path c infra k))) =
       (cpmsTemplateOf (cpmsSpecOf c))\<lparr>openShiftMachine := Some (withRaw raw tmpl)\<rparr>"
proof -
  let ?p = "childPath (childPath (childPath (childPath path ''template'') OpenShiftMachineV1Beta1MachineType) ''spec'') ''providerSpec''"
  obtain v raw where s: "validateOpenShiftProviderMachineSpec cl cd (omNamespace (cpmsMeta c)) ?p tmpl infra k = (v, raw)" by force
  from assms have ty: "machineType (cpmsTemplateOf (cpmsSpecOf c)) = OpenShiftMachineV1Beta1MachineType"
    by (simp add: validateSpec_def validateTemplate_def split: if_splits)
  with assms s have "admitted v"
    by (simp add: validateSpec_def validateTemplate_def validateOpenShiftMachineV1BetaTemplate_def Let_def)
  moreover have "cpmsTemplateOf (cpmsSpecOf (snd (validateSpec cl cd path c infra k))) =
       (cpmsTemplateOf (cpmsSpecOf c))\<lparr>openShiftMachine := Some (withRaw raw tmpl)\<rparr>"
    using assms s ty by (simp add: validateSpec_def validateTemplate_def validateOpenShiftMachineV1BetaTemplate_def Let_def)
  ultimately show thesis using that [OF s] ty by blast
qed

text \<open>The checks of the create request apart from those of the spec.\<close>

lemma create_checks:
  assumes "GetInfrastructure cl k = Inr infra" and "fetchControlPlaneMachines cl k = Inr ms"
    and "omName (cpmsMeta c) = ''cluster''" and "cpmsState (cpmsSpecOf c) \<noteq> StateActive"
    and "admitted (fst (validateSpec cl cd ''spec'' c infra k))"
    and "\<And>path. admitted (validateTemplateOnCreate cd path
      (cpmsTemplateOf (cpmsSpecOf (snd (validateSpec cl cd ''spec'' c infra k)))) ms infra)"
  shows "admitted (ValidateCreate cl cd c k)"
proof -
  obtain v c' where s: "validateSpec cl cd ''spec'' c infra k = (v, c')" by force
  moreover have "\<not> replicasMismatch c' ms"
    using validateSpec_frame(2) [of cl cd "''spec''" c infra k] s assms(4) by (simp add: replicasMismatch_def)
  ultimately show ?thesis using assms
    by (simp add: ValidateCreate_def validateMetadata_def clusterSingletonName_def validateSpecOnCreate_def)
qed

text \<open>
  C11: the webhook takes what the generator proposes. On AWS, Azure and GCP, let the control plane machines
  of the cluster decode as its platform, differ in their failure domains only, boot images aside, and
  none leave open what another one sets; and let the dry run of a spec like that of one of them be answered
  with a spec like it, since defaulting has been applied to it before. Then the creation of the set
  generated from these machines is admitted exactly when its spec is valid by itself (labels, provider
  configuration, dry run): neither name nor replicas nor the comparison with the machines, made with the
  template the dry run leaves behind, refuses it.
\<close>

theorem generated_set_admitted:
  assumes "faithfulConversion j" and "codecsRoundTrip cd" and "encodingKeepsKind cd"
    and "GetInfrastructure cl k = Inr infra" and "infPlatformStatus infra = Some platform" and "platform \<in> set plainPlatforms"
    and "generateControlPlaneMachineSet cd j ns infra machines = Inr c"
    and "\<forall>m \<in> set machines. getPlatformTypeFromProviderSpec cd (msProviderSpec (mSpec m)) = Inr platform \<and>
      \<not> isl (NewProviderConfigFromMachineSpec cd (mSpec m) None)"
    and "openShiftMachine (cpmsTemplateOf (cpmsSpecOf c)) = Some tmpl"
    and "getPlatformTypeFromProviderSpec cd (msProviderSpec (tmplSpec tmpl)) = Inr platform"
    and "alikeMachines cd machines" and "dryRunKeepsMachines cl cd machines k"
    and "fetchControlPlaneMachines cl k = Inr ms" and "set ms = set machines"
    and "getMachineFailureDomains cd infra ms = Inr ds" and "closedDomains ds"
  shows "admitted (ValidateCreate cl cd c k) \<longleftrightarrow> admitted (fst (validateSpec cl cd ''spec'' c infra k))"
proof
  assume "admitted (ValidateCreate cl cd c k)"
  then show "admitted (fst (validateSpec cl cd ''spec'' c infra k))"
    using assms(4) by (auto elim: create_admitted_parts)
next
  assume v: "admitted (fst (validateSpec cl cd ''spec'' c infra k))"
  from assms(1,2,5-11,14-16) obtain q where fits: "fitsMachines cd platform tmpl q ms" by (rule generated_fits)
  have keep: "dryRunKeepsMachines cl cd ms k" using assms(12,14) by (simp add: dryRunKeepsMachines_def)
  from v assms(9) obtain path' w raw where
    d: "validateOpenShiftProviderMachineSpec cl cd (omNamespace (cpmsMeta c)) path' tmpl infra k = (w, raw)" "admitted w"
      "machineType (cpmsTemplateOf (cpmsSpecOf c)) = OpenShiftMachineV1Beta1MachineType"
    and after: "cpmsTemplateOf (cpmsSpecOf (snd (validateSpec cl cd ''spec'' c infra k))) =
      (cpmsTemplateOf (cpmsSpecOf c))\<lparr>openShiftMachine := Some (withRaw raw tmpl)\<rparr>" by (rule spec_dry_run)
  from dry_run_template_matches [OF fits assms(2,3) keep d(1,2)]
  have pass: "validateOpenShiftMachineV1BetaTemplateOnCreate cd path (withRaw raw tmpl) ms infra = Inr ([], [])" for path
    by (metis fitted_template_passes [OF fits])
  have "admitted (validateTemplateOnCreate cd path
      (cpmsTemplateOf (cpmsSpecOf (snd (validateSpec cl cd ''spec'' c infra k)))) ms infra)" for path
    using pass d(3) by (simp add: after validateTemplateOnCreate_def Let_def)
  then show "admitted (ValidateCreate cl cd c k)"
    by (intro create_checks [OF assms(4,13)]) (use v generated_shape [OF assms(1,7)] in \<open>simp_all add: StateActive_def StateInactive_def\<close>)
qed

text \<open>A cluster of three running GCP machines in two zones, whose API server answers a dry run with what was sent.\<close>

definition simGcpCodec :: "gcpMachineProviderSpec platformCodec" where
  "simGcpCodec =
     (simCodec (pcGCP zeroProviderConfig))
       \<lparr>codecStrict := (\<lambda>raw. (None, (pcGCP zeroProviderConfig)\<lparr>gcpConfigZone := raw\<rparr>)),
        codecMarshal := (\<lambda>c. Inr (gcpConfigZone c))\<rparr>"

definition simGcpCodecs :: codecs where
  "simGcpCodecs = simGenCodecs\<lparr>kindOf := (\<lambda>raw. Inr ''GCPMachineProviderSpec''), cdAWS := checkedCodec (cdAWS simGenCodecs),
     cdGCP := checkedCodec simGcpCodec\<rparr>"

lemma simGcp_codecs: "codecsRoundTrip simGcpCodecs" "encodingKeepsKind simGcpCodecs"
proof -
  show "codecsRoundTrip simGcpCodecs"
    using codecsRoundTrip_sim by (simp add: codecsRoundTrip_def simGcpCodecs_def roundTrips_checked)
  have g: "getPlatformTypeFromProviderSpec simGcpCodecs (Some raw) = Inr GCPPlatformType" for raw
    by (simp add: getPlatformTypeFromProviderSpec_def simGcpCodecs_def getPlatformTypeFromProviderSpecKind_def)
  have n: "getPlatformTypeFromProviderSpec simGcpCodecs None = Inl errNilProviderSpec"
    by (simp add: getPlatformTypeFromProviderSpec_def)
  have "pcType p = GCPPlatformType" if "NewProviderConfigFromMachineSpec simGcpCodecs spec infra = Inr p" for spec infra p
    using that g by (cases "msProviderSpec spec") (auto simp: NewProviderConfigFromMachineSpec_def n dest: newProviderConfig_type)
  with g show "encodingKeepsKind simGcpCodecs" by (auto simp: encodingKeepsKind_def)
qed

definition simGcpInfrastructure :: infrastructure where
  "simGcpInfrastructure = simInfrastructure\<lparr>infPlatformStatus := Some GCPPlatformType, infSpecType := GCPPlatformType\<rparr>"

definition simGcpClient :: "machine list machineClient" where
  "simGcpClient = simMachineClient\<lparr>mcGetInfrastructure := (\<lambda>n k. Inr simGcpInfrastructure),
     mcGetNode := (\<lambda>kind n k. Inr \<lparr>nodeMeta = emptyMeta\<lparr>omName := n\<rparr>,
       nodeConditions = [\<lparr>ncType = NodeReady, ncStatus = ConditionTrue, ncLastTransitionTime = 0\<rparr>]\<rparr>)\<rparr>"

definition simGcpMachines :: "machine list" where
  "simGcpMachines = map (\<lambda>m. m\<lparr>mNodeRef := Some (omName (mMeta m)), mPhase := Some runningPhase\<rparr>)
     [simMaster ''m-2'' ''a'', simMaster ''m-1'' ''b'', simMaster ''m-0'' ''a'']"

abbreviation simGcpGenerate :: "cpms result" where
  "simGcpGenerate \<equiv> generateControlPlaneMachineSet simGcpCodecs simGenJson ''ns'' simGcpInfrastructure simGcpMachines"

definition simGcpGenerated :: cpms where
  "simGcpGenerated = (case simGcpGenerate of Inr c \<Rightarrow> c | Inl e \<Rightarrow> zeroCpms)"

lemma simGcpGenerate_eq: "simGcpGenerate = Inr simGcpGenerated"
proof -
  have "\<not> isl simGcpGenerate" by code_simp
  then show ?thesis by (cases simGcpGenerate) (simp_all add: simGcpGenerated_def)
qed

theorem generated_set_admitted_witness:
  "admitted (ValidateCreate simGcpClient simGcpCodecs simGcpGenerated simGcpMachines)"
proof -
  let ?tmpl = "the (openShiftMachine (cpmsTemplateOf (cpmsSpecOf simGcpGenerated)))"
  let ?ds = "projr (getMachineFailureDomains simGcpCodecs simGcpInfrastructure simGcpMachines)"
  have i: "GetInfrastructure simGcpClient simGcpMachines = Inr simGcpInfrastructure"
    by (simp add: GetInfrastructure_def simGcpClient_def simMachineClient_def)
  have p: "infPlatformStatus simGcpInfrastructure = Some GCPPlatformType" by (simp add: simGcpInfrastructure_def)
  have d: "dryRunKeepsMachines simGcpClient simGcpCodecs simGcpMachines simGcpMachines"
    by (auto simp: dryRunKeepsMachines_def simGcpClient_def simMachineClient_def)
  have m: "\<forall>m \<in> set simGcpMachines. getPlatformTypeFromProviderSpec simGcpCodecs (msProviderSpec (mSpec m)) = Inr GCPPlatformType \<and>
      \<not> isl (NewProviderConfigFromMachineSpec simGcpCodecs (mSpec m) None)" by code_simp
  have t: "openShiftMachine (cpmsTemplateOf (cpmsSpecOf simGcpGenerated)) = Some ?tmpl"
    "getPlatformTypeFromProviderSpec simGcpCodecs (msProviderSpec (tmplSpec ?tmpl)) = Inr GCPPlatformType"
    "alikeMachines simGcpCodecs simGcpMachines" by code_simp+
  have f: "fetchControlPlaneMachines simGcpClient simGcpMachines = Inr simGcpMachines" by code_simp
  have "\<not> isl (getMachineFailureDomains simGcpCodecs simGcpInfrastructure simGcpMachines)" and c: "closedDomains ?ds" by code_simp+
  then have ds: "getMachineFailureDomains simGcpCodecs simGcpInfrastructure simGcpMachines = Inr ?ds" by simp
  have "admitted (fst (validateSpec simGcpClient simGcpCodecs ''spec'' simGcpGenerated simGcpInfrastructure simGcpMachines))"
    by code_simp
  then show ?thesis
    using generated_set_admitted [OF simGenJson_faithful(1) simGcp_codecs i p _ simGcpGenerate_eq m t d f refl ds c]
    by (simp add: plainPlatforms_def)
qed

end
