(* ===== verification/Generator_Activated.thy ===== *)
theory Generator_Activated
  imports Generator_Admitted Mapping_Properties Rollout
begin

text \<open>
  What a generated set does once it is activated: the provider built for it finds every machine it was
  generated from up to date, so activating it starts no rollout.
\<close>

section \<open>The mapping of the provider\<close>

lemma Complete_Equal:
  assumes "Equal y z" and "platformType y \<in> set plainPlatforms"
  shows "Complete y s = Complete z s"
proof -
  from assms(2) consider (aws) "platformType y = AWSPlatformType" | (azure) "platformType y = AzurePlatformType"
    | (gcp) "platformType y = GCPPlatformType" by (auto simp: plainPlatforms_def)
  then show ?thesis
  proof cases
    case aws
    with assms(1) have "platformType z = AWSPlatformType" "fdAws z = fdAws y" by (auto simp: Equal_def split: if_splits)
    with aws show ?thesis by (simp add: Complete_def completeAWS_def Let_def split: option.split)
  next
    case azure
    with assms(1) have "platformType z = AzurePlatformType" "fdAzure z = fdAzure y" by (auto simp: Equal_def platform_defs split: if_splits)
    with azure show ?thesis by (simp add: Complete_def completeAzure_def Let_def platform_defs split: option.split)
  next
    case gcp
    with assms(1) have "platformType z = GCPPlatformType" "fdGcp z = fdGcp y" by (auto simp: Equal_def platform_defs split: if_splits)
    with gcp show ?thesis by (simp add: Complete_def completeGCP_def platform_defs split: option.split)
  qed
qed

text \<open>The listed domains as the mapping compares them: those of the machines, each once.\<close>

lemma listed_comparable:
  assumes "matchesDomains (Some d) t ds" and "fdsPlatform d \<noteq> ''''" and "writable platform d" and "platform \<in> set plainPlatforms"
    and "NewFailureDomains (Some d) = Inr listed" and "\<forall>x \<in> ds. \<forall>y \<in> ds. Equal x y \<longleftrightarrow> x = y"
  obtains comparable where "CompleteFailureDomains (setList fdString (newSet Equal listed)) (Some t) = Inr comparable"
    "set comparable = ds" "sorted_wrt (\<lambda>x y. \<not> Equal x y) comparable"
proof -
  let ?L = "setList fdString (newSet Equal listed)" and ?f = "\<lambda>x. projr (Complete x (Some t))"
  from assms(1,2,5) obtain completed where c: "CompleteFailureDomains listed (Some t) = Inr completed" "set completed = ds"
    and inj: "\<forall>x \<in> set listed. \<forall>y \<in> set listed. Complete x (Some t) = Complete y (Some t) \<longrightarrow> x = y"
    by (auto simp: matchesDomains_def)
  have all: "(\<forall>x \<in> set xs. Complete x s = Inr (projr (Complete x s))) \<and> set ys = (\<lambda>x. projr (Complete x s)) ` set xs"
    if "CompleteFailureDomains xs s = Inr ys" for xs s ys
    using that by (induction xs arbitrary: ys) (auto split: sum.splits)
  note f = all [OF c(1)]
  have sub: "set ?L \<subseteq> set listed" using fdEq.newSet_subset by (simp add: setList_def)
  have "?f x \<in> ?f ` set ?L" if "x \<in> set listed" for x
  proof -
    have "setHas Equal (newSet Equal listed) x" using that by (simp add: fdEq.newSet_has)
    then obtain y where y: "y \<in> set ?L" "Equal y x" by (auto simp: setHas_def list_ex_iff setList_def)
    have "platformType y \<in> set plainPlatforms" using y(1) sub assms(3,4,5) by (auto simp: writable_def)
    then show ?thesis using Complete_Equal [OF y(2)] y(1) by (metis imageI)
  qed
  then have s: "set (map ?f ?L) = ds" using f c(2) sub by auto
  have "sorted_wrt (\<lambda>x y. \<not> Equal x y) ?L"
    by (rule unique_mset [OF _ fdEq.newSet_unique [of listed]]) (simp add: setList_def)
  then have "sorted_wrt (\<lambda>x y. \<not> Equal (?f x) (?f y)) ?L"
  proof (rule sorted_wrt_mono_rel [rotated])
    fix x y assume xy: "x \<in> set ?L" "y \<in> set ?L" "\<not> Equal x y"
    show "\<not> Equal (?f x) (?f y)"
    proof
      assume "Equal (?f x) (?f y)"
      then have "?f x = ?f y" using xy(1,2) s assms(6) by (metis imageI list.set_map)
      then have "x = y" using xy(1,2) sub f inj by (metis subsetD)
      with xy(3) show False by simp
    qed
  qed
  then have "sorted_wrt (\<lambda>x y. \<not> Equal x y) (map ?f ?L)" by (simp add: sorted_wrt_map)
  moreover have "CompleteFailureDomains ?L (Some t) = Inr (map ?f ?L)"
    using CompleteFailureDomains_map [of ?L id "Some t" ?f] sub f by auto
  ultimately show thesis using that s by blast
qed

text \<open>
  No failure domain has more machines than its share of the replicas, rounded up. The share counts
  machines beyond the replicas, too.
\<close>

definition evenlySpread :: "nat \<Rightarrow> failureDomain list \<Rightarrow> bool" where
  "evenlySpread n ds \<longleftrightarrow>
     (let total = max n (length ds); used = min total (length (remdups ds))
      in list_all (\<lambda>d. length (filter (\<lambda>x. Equal x d) ds) \<le> (total + used - 1) div used) ds)"

lemma mapping_finds_domains:
  assumes "matchesDomains (Some d) t (set (map fdOf ms))" and "fdsPlatform d \<noteq> ''''" and "writable platform d"
    and "platform \<in> set plainPlatforms" and "NewFailureDomains (Some d) = Inr listed"
    and "\<forall>x \<in> set (map fdOf ms). \<forall>y \<in> set (map fdOf ms). Equal x y \<longleftrightarrow> x = y"
    and "\<forall>m \<in> set ms. extract m = Inr (fdOf m) \<and> parseMachineNameIndex (omName (mMeta m)) = Some (idx m)"
    and "distinct (map idx ms)" and "\<forall>m \<in> set ms. omDeletionTimestamp (mMeta m) = None" and "ms \<noteq> []" and "length ms < 2 ^ 31"
    and "1 \<le> sint replicas" and "evenlySpread (nat (sint replicas)) (map fdOf ms)"
  obtains out where "mapMachineIndexesToFailureDomains extract ms replicas listed (Some t) = Some (Inr out)"
    "\<forall>m \<in> set ms. gm_get out (idx m) = Some (fdOf m)"
proof -
  let ?m = "map (\<lambda>m. (idx m, fdOf m)) ms"
  from assms(1-6) obtain comparable where k: "CompleteFailureDomains (setList fdString (newSet Equal listed)) (Some t) = Inr comparable"
    "set comparable = set (map fdOf ms)" "sorted_wrt (\<lambda>x y. \<not> Equal x y) comparable" by (rule listed_comparable)
  have mm: "createMachineMapping extract ms = Inr (?m, [])" using assms(7-9) by (rule createMachineMapping_distinct)
  have "listed \<noteq> []" using k(1,2) assms(10) by (auto simp: setList_def newSet_def)
  from mapping_found [OF assms(11) this mm assms(12) k(1)] obtain out where
    o: "mapMachineIndexesToFailureDomains extract ms replicas listed (Some t) = Some (Inr out)" .
  have "distinct comparable" using k(3) by (induction comparable) auto
  then have lc: "length comparable = length (remdups (map fdOf ms))"
    using k(2) by (metis distinct_card length_remdups_card_conv)
  have lo: "length out = max (nat (sint replicas)) (length ms)"
    using mapping_length [OF o assms(11) mm] by (cases "sint replicas \<le> int (length ms)") (auto simp: max_def nat_le_iff)
  have "gm_get out (idx m) = Some (fdOf m)" if m: "m \<in> set ms" for m
  proof (rule mapping_keeps [OF o assms(11) mm k(1,3)])
    show "gm_get ?m (idx m) = Some (fdOf m)"
      using m assms(8) by (intro map_of_is_SomeI) (auto simp: comp_def)
    have "countForFailureDomain Equal ?m (fdOf m) = length (filter (\<lambda>x. Equal x (fdOf m)) (map fdOf ms))"
      by (simp add: countForFailureDomain_def filter_map comp_def)
    then show "countForFailureDomain Equal ?m (fdOf m) \<le>
        (length out + min (length out) (length comparable) - 1) div min (length out) (length comparable)"
      using assms(13) m by (simp add: evenlySpread_def lo lc list_all_iff Let_def)
  qed (use m k(2) in auto)
  with o that show thesis by blast
qed

section \<open>The provider of an activated set\<close>

lemma provider_built:
  assumes "newOpenshiftMachineProvider cl cd c w = (Inr m, w1)" and "openShiftMachine (cpmsTemplateOf (cpmsSpecOf c)) = Some tmpl"
    and "GetInfrastructure cl (pwCluster w) = Inr infra" and "NewProviderConfigFromMachineTemplate cd tmpl (Some infra) = Inr q"
    and "\<And>i. NewProviderConfigFromMachineSpec cd (tmplSpec tmpl) i = Inr q" and "pcType q \<in> set specPlatforms"
    and "NewFailureDomains (tmplFailureDomains tmpl) = Inr listed"
  shows "opClient m = CachedClient \<and> opInfrastructure m = infra \<and> pwConfig w1 = q \<and> pwCluster w1 = pwCluster w \<and>
    (case mapMachineIndexesToFailureDomains (extractFrom cd infra) (opMachines m)
            (case specReplicas (cpmsSpecOf c) of None \<Rightarrow> 0 | Some r \<Rightarrow> r) listed (Some (domainOf q)) of
       None \<Rightarrow> False
     | Some (Inr mapping) \<Rightarrow> opIndexToFailureDomain m = mapping
     | Some (Inl e) \<Rightarrow> errorIs e errNoFailureDomains \<and> opIndexToFailureDomain m = [])"
proof -
  have same: "(tmplSpec tmpl)\<lparr>msProviderSpec := msProviderSpec (tmplSpec tmpl)\<rparr> = tmplSpec tmpl" by simp
  have ex: "ExtractFailureDomain q = Inr (Some (domainOf q))" using assms(6) by (rule extract_domainOf)
  from assms(1-4,7) obtain m0 sel where
    m0: "m0 = \<lparr>opClient = CachedClient, opIndexToFailureDomain = [], opFailureDomains = listed, opMachines = [], opSelector = sel,
        opTemplate = tmpl, opOwnerMetadata = cpmsMeta c,
        opReplicas = (case specReplicas (cpmsSpecOf c) of None \<Rightarrow> 0 | Some r \<Rightarrow> r),
        opMachineNamePrefix = machineNamePrefix (cpmsSpecOf c), opNamespace = omNamespace (cpmsMeta c), opInfrastructure = infra\<rparr>"
    and w1: "w1 = w\<lparr>pwTemplateRaw := msProviderSpec (tmplSpec tmpl), pwConfig := q\<rparr>"
    and u: "updateMachineCache cl cd m0 w1 = Inr m"
    by (auto simp: newOpenshiftMachineProvider_def Let_def split: if_splits sum.splits)
  from u show ?thesis
    by (auto simp: updateMachineCache_def m0 w1 templateSpec_def same assms(5) ex split: sum.splits option.splits if_splits)
qed

lemma ensureValid_parts:
  assumes "fst (ensureValidProviderConfig cl cd m config w) = Inr valid"
  shows "\<exists>raw a r. RawConfig cd config = Inr raw \<and>
    mcDryRunCreate cl (opClient m) (dryRunMachine m (storeRaw raw w)) (pwCluster w) = Inr a \<and>
    NewProviderConfigFromMachineSpec cd ((mSpec a)\<lparr>msProviderSpec := Some r\<rparr>) None = Inr valid \<and>
    (msProviderSpec (mSpec a) = None \<or> msProviderSpec (mSpec a) = Some r)"
  using assms
  by (auto simp: ensureValidProviderConfig_def writeRaw_def decodeAnswer_def Let_def split: sum.splits option.splits if_splits)

text \<open>A machine like the desired one of its index needs no update.\<close>

lemma like_desired_up_to_date:
  assumes "describes cl cd m w x info" and "codecsRoundTrip cd" and "encodingKeepsKind cd"
    and "dryRunKeepsMachines cl cd ms (pwCluster w)" and "opClient m = CachedClient"
    and "NewProviderConfigFromMachineSpec cd spec i = Inr q" and "pcType q \<in> set plainPlatforms"
    and "x \<in> set ms" and "NewProviderConfigFromMachineSpec cd (mSpec x) None = Inr y" and "pcType y = pcType q"
    and "fst (templateConfigFor m (Index info) w) = Inr p" and "p = q \<or> (\<exists>fd. fst (InjectFailureDomain q (Some fd)) = Inr p)"
    and "pcType p = pcType q" and "sameMachine p y"
  shows "\<not> NeedsUpdate info"
proof -
  have sp: "pcType q \<in> set specPlatforms" using assms(7) by (rule plain_spec)
  have y: "NewProviderConfigFromMachineSpec cd (mSpec x) i = Inr y" for i
    using spec_config_depends [OF assms(9) _ refl] assms(10) sp by simp
  from assms(1,11) y obtain valid where v: "fst (ensureValidProviderConfig cl cd m p w) = Inr valid"
    "NeedsUpdate info \<longleftrightarrow> \<not> sameMachine valid y" by (auto simp: describes_def)
  from v(1) obtain raw a r where e: "RawConfig cd p = Inr raw"
    "mcDryRunCreate cl CachedClient (dryRunMachine m (storeRaw raw w)) (pwCluster w) = Inr a"
    "NewProviderConfigFromMachineSpec cd ((mSpec a)\<lparr>msProviderSpec := Some r\<rparr>) None = Inr valid"
    "msProviderSpec (mSpec a) = None \<or> msProviderSpec (mSpec a) = Some r"
    using ensureValid_parts [OF v(1)] assms(5) by auto
  have "getPlatformTypeFromProviderSpec cd (Some raw) = Inr (pcType p)"
    using assms(3,6,12,13) e(1) unfolding encodingKeepsKind_def by metis
  with encoded_decodes [OF assms(2) e(1)] assms(7,13) obtain s where
    s: "NewProviderConfigFromMachineSpec cd (rawMachineSpec raw) None = Inr s" "pcType s = pcType p" "sameMachine s y"
    using assms(14) by metis
  have "NewProviderConfigFromMachineSpec cd (mSpec (dryRunMachine m (storeRaw raw w))) None = Inr s"
    using spec_config_depends [OF s(1)] s(2) assms(13) sp by (simp add: dryRunMachine_def templateSpec_def rawMachineSpec_def)
  with assms(4,8,9,10,13) e(2) s(2,3) obtain v' where
    v': "NewProviderConfigFromMachineSpec cd (mSpec a) None = Inr v'" "pcType v' = pcType y" "sameMachine v' y"
    unfolding dryRunKeepsMachines_def by metis
  have "msProviderSpec (mSpec a) \<noteq> None"
    using v'(1) by (cases "msProviderSpec (mSpec a)") (simp_all add: NewProviderConfigFromMachineSpec_def getPlatformTypeFromProviderSpec_def)
  with e(4) have "msProviderSpec ((mSpec a)\<lparr>msProviderSpec := Some r\<rparr>) = msProviderSpec (mSpec a)" by simp
  then have "valid = v'" using spec_config_depends [OF v'(1)] e(3) v'(2) assms(10) sp by simp
  with v(2) v'(3) show ?thesis by simp
qed

text \<open>Every machine has an index of its own in its name, and none is being deleted.\<close>

definition indexedOnce :: "machine list \<Rightarrow> bool" where
  "indexedOnce ms \<longleftrightarrow>
     list_all (\<lambda>m. getMachineNameIndex m \<noteq> None \<and> omDeletionTimestamp (mMeta m) = None) ms \<and> distinct (map getMachineNameIndex ms)"

lemma machines_mapped:
  assumes "platform \<in> set plainPlatforms" and "\<forall>x \<in> set ms. \<exists>y. configured cd platform x y" and "indexedOnce ms"
  shows "\<forall>z \<in> set (map (machineDomain cd) ms). \<forall>z' \<in> set (map (machineDomain cd) ms). Equal z z' \<longleftrightarrow> z = z'"
    "\<forall>z \<in> set ms. extractFrom cd infra z = Inr (machineDomain cd z) \<and>
       parseMachineNameIndex (omName (mMeta z)) = Some (the (getMachineNameIndex z))"
    "distinct (map (\<lambda>z. the (getMachineNameIndex z)) ms)" "\<forall>z \<in> set ms. omDeletionTimestamp (mMeta z) = None"
proof -
  have sp: "platform \<in> set specPlatforms" using assms(1) by (rule plain_spec)
  have "\<exists>p. z = domainOf p \<and> pcType p = platform" if "z \<in> set (map (machineDomain cd) ms)" for z
    using that assms(2) configured_domain by (fastforce simp: configured_def)
  then show "\<forall>z \<in> set (map (machineDomain cd) ms). \<forall>z' \<in> set (map (machineDomain cd) ms). Equal z z' \<longleftrightarrow> z = z'"
    using Equal_domainOf sp by metis
  show "\<forall>z \<in> set ms. extractFrom cd infra z = Inr (machineDomain cd z) \<and>
      parseMachineNameIndex (omName (mMeta z)) = Some (the (getMachineNameIndex z))"
  proof
    fix z assume z: "z \<in> set ms"
    then obtain p where "configured cd platform z p" using assms(2) by blast
    then have "extractFrom cd infra z = Inr (machineDomain cd z)"
      using configured_extract [OF sp] configured_domain by (simp add: extractFrom_def)
    moreover have "getMachineNameIndex z \<noteq> None" using assms(3) z by (simp add: indexedOnce_def list_all_iff)
    ultimately show "extractFrom cd infra z = Inr (machineDomain cd z) \<and>
      parseMachineNameIndex (omName (mMeta z)) = Some (the (getMachineNameIndex z))"
      by (simp add: getMachineNameIndex_def parseMachineNameIndex_def)
  qed
  show "distinct (map (\<lambda>z. the (getMachineNameIndex z)) ms)"
    using assms(3) unfolding indexedOnce_def list_all_iff distinct_map inj_on_def by (metis option.expand)
  show "\<forall>z \<in> set ms. omDeletionTimestamp (mMeta z) = None"
    using assms(3) by (simp add: indexedOnce_def list_all_iff)
qed

lemma fitsMachines_listed:
  assumes "fitsMachines cd platform tmpl q ms"
  obtains listed where "NewFailureDomains (tmplFailureDomains tmpl) = Inr listed"
proof -
  note f = fitsMachines_facts [OF assms]
  from f(1) obtain d where d: "tmplFailureDomains tmpl = Some d" by (auto simp: restartable_def)
  with f(4) that show thesis
    by (cases "fdsPlatform d = ''''") (auto simp: matchesDomains_def NewFailureDomains_def platform_defs)
qed

text \<open>The configuration the provider wants for an index is like that of the machine there.\<close>

lemma provider_desires_machines:
  assumes fits: "fitsMachines cd platform tmpl q ms" and "indexedOnce ms" and "length ms < 2 ^ 31"
    and "1 \<le> sint replicas" and "evenlySpread (nat (sint replicas)) (map (machineDomain cd) ms)"
    and "NewFailureDomains (tmplFailureDomains tmpl) = Inr listed"
    and "case mapMachineIndexesToFailureDomains (extractFrom cd infra) ms replicas listed (Some (domainOf q)) of
         None \<Rightarrow> False
       | Some (Inr mapping) \<Rightarrow> opIndexToFailureDomain m = mapping
       | Some (Inl e) \<Rightarrow> errorIs e errNoFailureDomains \<and> opIndexToFailureDomain m = []"
    and "pwConfig w = q" and "x \<in> set ms" and "getMachineNameIndex x = Some i" and "configured cd platform x y"
  shows "\<exists>p. fst (templateConfigFor m i w) = Inr p \<and> (p = q \<or> (\<exists>fd. fst (InjectFailureDomain q (Some fd)) = Inr p)) \<and>
    pcType p = platform \<and> sameMachine p y"
proof -
  note f = fitsMachines_facts [OF fits]
  have alike: "alike q y" using f(5) assms(9,11) by (metis configured_def sum.inject(2))
  have dom: "machineDomain cd x = domainOf y" using assms(11) by (rule configured_domain)
  from f(1) obtain d where d: "tmplFailureDomains tmpl = Some d" and w: "fdsPlatform d \<noteq> '''' \<Longrightarrow> writable platform d"
    by (auto simp: restartable_def)
  show ?thesis
  proof (cases "fdsPlatform d = ''''")
    case True
    then have az: "platform = AzurePlatformType" using f(6) d by auto
    have "NewFailureDomains (Some d) = Inr []" using True by (simp add: NewFailureDomains_def platform_defs)
    then have "opIndexToFailureDomain m = []"
      using assms(6,7) d by (simp add: mapMachineIndexesToFailureDomains_def)
    then have "fst (templateConfigFor m i w) = Inr q" using assms(8) by (simp add: templateConfigFor_def)
    moreover have "machineDomain cd ` set ms = {domainOf q}" using f(4) True d by (simp add: matchesDomains_def)
    then have "domainOf y = domainOf q" using assms(9) dom by (metis imageI singletonD)
    then have "sameMachine q y" using alike_own_azure [OF alike] f(3) az by simp
    ultimately show ?thesis using f(3) by auto
  next
    case False
    from False d f(4) obtain listed where l: "NewFailureDomains (Some d) = Inr listed" by (auto simp: matchesDomains_def)
    have "\<forall>x \<in> set ms. \<exists>y. configured cd platform x y" using f(5) by blast
    note c = machines_mapped [OF f(2) this assms(2)]
    from f(4) d have md: "matchesDomains (Some d) (domainOf q) (set (map (machineDomain cd) ms))" by simp
    from mapping_finds_domains [OF md False w [OF False] f(2) l c f(7) assms(3-5)] obtain out where
      o: "mapMachineIndexesToFailureDomains (extractFrom cd infra) ms replicas listed (Some (domainOf q)) = Some (Inr out)"
      "\<forall>z \<in> set ms. gm_get out (the (getMachineNameIndex z)) = Some (machineDomain cd z)" .
    have "opIndexToFailureDomain m = out" using assms(6,7) d l o(1) by simp
    moreover have g: "gm_get out i = Some (domainOf y)" using o(2) assms(9,10) dom by auto
    ultimately have t: "fst (templateConfigFor m i w) = fst (InjectFailureDomain q (Some (domainOf y)))"
      if "fst (InjectFailureDomain q (Some (domainOf y))) = Inr p" for p
      using assms(8) that by (cases out) (auto simp: templateConfigFor_def split: prod.splits sum.splits)
    from alike obtain p where p: "fst (InjectFailureDomain q (Some (domainOf y))) = Inr p" "sameMachine p y"
      by (auto simp: alike_def split: sum.splits)
    then obtain self where "InjectFailureDomain q (Some (domainOf y)) = (Inr p, self)" by (metis prod.collapse)
    then have "pcType p = platform" using InjectFailureDomain_type f(3) by metis
    with p t [OF p(1)] show ?thesis by auto
  qed
qed

lemma provider_reports_machines:
  assumes fits: "fitsMachines cd platform tmpl q (opMachines m)" and idx: "indexedOnce (opMachines m)" and "length (opMachines m) < 2 ^ 31"
    and "1 \<le> sint replicas" and "evenlySpread (nat (sint replicas)) (map (machineDomain cd) (opMachines m))"
    and "NewFailureDomains (tmplFailureDomains tmpl) = Inr listed"
    and "case mapMachineIndexesToFailureDomains (extractFrom cd infra) (opMachines m) replicas listed (Some (domainOf q)) of
         None \<Rightarrow> False
       | Some (Inr mapping) \<Rightarrow> opIndexToFailureDomain m = mapping
       | Some (Inl e) \<Rightarrow> errorIs e errNoFailureDomains \<and> opIndexToFailureDomain m = []"
    and "pwConfig w = q" and "opClient m = CachedClient"
    and "codecsRoundTrip cd" and "encodingKeepsKind cd" and "deepComparisons cd"
    and "dryRunKeepsMachines cl cd (opMachines m) (pwCluster w)" and "GetMachineInfos cl cd m w = (Inr infos, w')"
  shows "list_all2 (\<lambda>x info. MachineRef info = Some (getMachineRef x) \<and> getMachineNameIndex x = Some (Index info) \<and>
     \<not> NeedsUpdate info) (opMachines m) infos"
proof -
  note f = fitsMachines_facts [OF fits]
  have "pcType (pwConfig w) \<in> set unsharedPlatforms"
    using assms(8) f(2,3) by (auto simp: plainPlatforms_def unsharedPlatforms_def)
  from in_turn_same [OF this machineInfosLoop_in_turn [OF assms(12)]] assms(14)
  have "list_all2 (describes cl cd m w) (opMachines m) infos" by (simp add: GetMachineInfos_def)
  then show ?thesis
  proof (rule list.rel_mono_strong)
    fix x info
    assume x: "x \<in> set (opMachines m)" and info: "describes cl cd m w x info"
    from f(5) x obtain y where y: "configured cd platform x y" by blast
    have "getMachineNameIndex x \<noteq> None" using idx x by (simp add: indexedOnce_def list_all_iff)
    then have i: "getMachineNameIndex x = Some (Index info)" using info by (auto simp: describes_def)
    from provider_desires_machines [OF fits idx assms(3-8) x i y] obtain p where
      p: "fst (templateConfigFor m (Index info) w) = Inr p" "p = q \<or> (\<exists>fd. fst (InjectFailureDomain q (Some fd)) = Inr p)"
        "pcType p = platform" "sameMachine p y" by blast
    have "\<not> NeedsUpdate info"
      using like_desired_up_to_date [OF info assms(10,11,13,9) f(8) _ x _ _ p(1,2) _ p(4)] f(2,3) y p(3)
      by (simp add: configured_def)
    with info i show "MachineRef info = Some (getMachineRef x) \<and> getMachineNameIndex x = Some (Index info) \<and> \<not> NeedsUpdate info"
      by (simp add: describes_def getMachineRef_def)
  qed
qed

section \<open>Activating a generated set\<close>

text \<open>Machines so reported and Ready make a steady cluster.\<close>

lemma reported_steady:
  assumes "list_all2 (\<lambda>x info. MachineRef info = Some (getMachineRef x) \<and> getMachineNameIndex x = Some (Index info) \<and>
     \<not> NeedsUpdate info) ms infos" and "indexedOnce ms" and "list_all Ready infos"
  shows "length infos = length ms" "distinct (map Index infos)" "list_all (\<lambda>m. Ready m \<and> \<not> isDeletedMachine m) infos"
    "list_all (\<lambda>m. \<not> NeedsUpdate m) infos"
proof -
  show len: "length infos = length ms" using assms(1) by (simp add: list_all2_lengthD)
  have "map getMachineNameIndex ms = map Some (map Index infos)"
    using assms(1) len by (auto simp: list_all2_conv_all_nth intro!: nth_equalityI)
  then show "distinct (map Index infos)" using assms(2) by (metis distinct_map indexedOnce_def)
  have "omDeletionTimestamp (mMeta (ms ! n)) = None" if "n < length ms" for n
    using assms(2) that by (simp add: indexedOnce_def list_all_length)
  then show "list_all (\<lambda>m. Ready m \<and> \<not> isDeletedMachine m) infos"
    using assms(1,3) len by (auto simp: list_all2_conv_all_nth list_all_length isDeletedMachine_def machineMeta_def getMachineRef_def)
  show "list_all (\<lambda>m. \<not> NeedsUpdate m) infos"
    using assms(1) by (auto simp: list_all2_conv_all_nth list_all_length)
qed

text \<open>
  C12: activating a generated set starts no rollout. On AWS, Azure and GCP, let a set have the template and
  the replicas generated from machines that differ in their failure domains only, boot images aside, none
  of which leaves open what another one sets. The provider built for it, on a cluster of these machines,
  each with an index of its own and spread evenly over the domains, reports every machine at the index of
  its name and none in need of an update; and if these are at least three and all Ready, the update pass
  of either strategy makes no provider call.
\<close>

theorem activated_set_needs_no_update:
  assumes "faithfulConversion j" and "codecsRoundTrip cd" and "encodingKeepsKind cd" and "deepComparisons cd"
    and "infPlatformStatus infra = Some platform" and "platform \<in> set plainPlatforms"
    and "generateControlPlaneMachineSet cd j ns infra machines = Inr c"
    and "\<forall>m \<in> set machines. getPlatformTypeFromProviderSpec cd (msProviderSpec (mSpec m)) = Inr platform \<and>
      \<not> isl (NewProviderConfigFromMachineSpec cd (mSpec m) None)"
    and "openShiftMachine (cpmsTemplateOf (cpmsSpecOf c)) = Some tmpl"
    and "getPlatformTypeFromProviderSpec cd (msProviderSpec (tmplSpec tmpl)) = Inr platform"
    and "alikeMachines cd machines"
    and "cpmsTemplateOf (cpmsSpecOf c') = cpmsTemplateOf (cpmsSpecOf c)" and "specReplicas (cpmsSpecOf c') = specReplicas (cpmsSpecOf c)"
    and "GetInfrastructure cl (pwCluster w) = Inr infra" and "newOpenshiftMachineProvider cl cd c' w = (Inr m, w1)"
    and "set (opMachines m) = set machines" and "length (opMachines m) < 2 ^ 31" and "indexedOnce (opMachines m)"
    and "getMachineFailureDomains cd infra (opMachines m) = Inr ds" and "closedDomains ds" and "evenlySpread 3 ds"
    and "dryRunKeepsMachines cl cd machines (pwCluster w)"
    and "GetMachineInfos cl cd m w1 = (Inr infos, w2)"
  shows "list_all2 (\<lambda>x info. MachineRef info = Some (getMachineRef x) \<and> getMachineNameIndex x = Some (Index info) \<and>
     \<not> NeedsUpdate info) (opMachines m) infos \<and>
    (3 \<le> length (opMachines m) \<and> list_all Ready infos \<and> strategyType (cpmsSpecOf c') \<in> {RollingUpdate, OnDelete} \<longrightarrow>
       (\<exists>mis. machineInfosByIndex c' infos = Inr mis \<and>
          reconcileMachineUpdates ops p ns c' mis env = (Inr emptyResult, c', env)))"
proof -
  from assms(1,2,5-11,16,19,20) obtain q where fits: "fitsMachines cd platform tmpl q (opMachines m)"
    and ds: "ds = map (machineDomain cd) (opMachines m)" by (rule generated_fits)
  from fits obtain listed where l: "NewFailureDomains (tmplFailureDomains tmpl) = Inr listed" by (rule fitsMachines_listed)
  note f = fitsMachines_facts [OF fits]
  have r: "specReplicas (cpmsSpecOf c') = Some 3" using generated_shape [OF assms(1,7)] assms(13) by simp
  have s: "sint (3 :: 32 word) = 3" by simp
  have "openShiftMachine (cpmsTemplateOf (cpmsSpecOf c')) = Some tmpl" using assms(9,12) by simp
  note pb = provider_built [OF assms(15) this assms(14) f(9,8) _ l, unfolded r option.case f(3), OF plain_spec [OF f(2)]]
  have keep: "dryRunKeepsMachines cl cd (opMachines m) (pwCluster w1)" using assms(16,22) pb by (simp add: dryRunKeepsMachines_def)
  have rep: "list_all2 (\<lambda>x info. MachineRef info = Some (getMachineRef x) \<and> getMachineNameIndex x = Some (Index info) \<and>
      \<not> NeedsUpdate info) (opMachines m) infos"
    by (rule provider_reports_machines [OF fits assms(18,17) _ _ l _ _ _ assms(2,3,4) keep assms(23)])
      (use pb s ds assms(21) in auto)
  show ?thesis
  proof (cases "3 \<le> length (opMachines m) \<and> list_all Ready infos \<and> strategyType (cpmsSpecOf c') \<in> {RollingUpdate, OnDelete}")
    case True
    then have h: "3 \<le> length (opMachines m)" "list_all Ready infos" "strategyType (cpmsSpecOf c') \<in> {RollingUpdate, OnDelete}" by auto
    note st = reported_steady [OF rep assms(18) h(2)]
    from steady_by_index [OF r _ _ st(2,3)] st(1) s h(1) assms(17) obtain mis where
      mis: "machineInfosByIndex c' infos = Inr mis" "steadyCluster infos mis" by auto
    show ?thesis by (intro conjI impI exI) (rule rep mis(1) updates_rest [OF mis st(4) h(3)])+
  qed (use rep in blast)
qed

text \<open>The GCP cluster, its generated set activated, and the provider built for it.\<close>

lemma simGcp_deep: "deepComparisons simGcpCodecs"
  using deepComparisons_simGen
  by (simp add: deepComparisons_def simGcpCodecs_def simGcpCodec_def checkedCodec_def simCodec_def deepComparison_def simDeep_def)

definition simActivated :: cpms where
  "simActivated = simGcpGenerated\<lparr>cpmsSpecOf := (cpmsSpecOf simGcpGenerated)\<lparr>cpmsState := StateActive\<rparr>\<rparr>"

definition simGcpWorld :: "machine list providerWorld" where
  "simGcpWorld = \<lparr>pwCluster = simGcpMachines, pwTemplateRaw = None, pwConfig = zeroProviderConfig\<rparr>"

definition simGcpProvider :: "openshiftMachineProvider \<times> machine list providerWorld" where
  "simGcpProvider = (case newOpenshiftMachineProvider simGcpClient simGcpCodecs simActivated simGcpWorld of
     (Inr m, w) \<Rightarrow> (m, w) | (Inl e, w) \<Rightarrow> undefined)"

abbreviation simGcpInfos :: "machineInfo list result \<times> machine list providerWorld" where
  "simGcpInfos \<equiv> GetMachineInfos simGcpClient simGcpCodecs (fst simGcpProvider) (snd simGcpProvider)"

lemma simGcpProvider_eq:
  "newOpenshiftMachineProvider simGcpClient simGcpCodecs simActivated simGcpWorld = (Inr (fst simGcpProvider), snd simGcpProvider)"
proof -
  have "\<not> isl (fst (newOpenshiftMachineProvider simGcpClient simGcpCodecs simActivated simGcpWorld))" by code_simp
  then show ?thesis by (auto simp: simGcpProvider_def split: prod.splits sum.splits)
qed

theorem activated_set_needs_no_update_witness:
  "\<exists>infos w mis. simGcpInfos = (Inr infos, w) \<and> length infos = 3 \<and> list_all (\<lambda>info. \<not> NeedsUpdate info) infos \<and>
     machineInfosByIndex simActivated infos = Inr mis \<and>
     reconcileMachineUpdates simProvider () ''ns'' simActivated mis (startEnv []) = (Inr emptyResult, simActivated, startEnv [])"
proof -
  let ?m = "fst simGcpProvider" and ?T = "cpmsTemplateOf (cpmsSpecOf simGcpGenerated)"
  let ?tmpl = "the (openShiftMachine ?T)"
  let ?ds = "projr (getMachineFailureDomains simGcpCodecs simGcpInfrastructure simGcpMachines)"
  have i: "GetInfrastructure simGcpClient k = Inr simGcpInfrastructure" for k
    by (simp add: GetInfrastructure_def simGcpClient_def simMachineClient_def)
  have p: "infPlatformStatus simGcpInfrastructure = Some GCPPlatformType" by (simp add: simGcpInfrastructure_def)
  have m: "\<forall>m \<in> set simGcpMachines. getPlatformTypeFromProviderSpec simGcpCodecs (msProviderSpec (mSpec m)) = Inr GCPPlatformType \<and>
      \<not> isl (NewProviderConfigFromMachineSpec simGcpCodecs (mSpec m) None)" by code_simp
  have t: "openShiftMachine ?T = Some ?tmpl"
    "getPlatformTypeFromProviderSpec simGcpCodecs (msProviderSpec (tmplSpec ?tmpl)) = Inr GCPPlatformType"
    "alikeMachines simGcpCodecs simGcpMachines" by code_simp+
  have c: "cpmsTemplateOf (cpmsSpecOf simActivated) = ?T"
    "specReplicas (cpmsSpecOf simActivated) = specReplicas (cpmsSpecOf simGcpGenerated)" by (simp_all add: simActivated_def)
  have o: "opMachines ?m = simGcpMachines" by code_simp
  then have x: "set (opMachines ?m) = set simGcpMachines" "length (opMachines ?m) < 2 ^ 31"
    by (simp_all add: simGcpMachines_def)
  have "indexedOnce simGcpMachines" "closedDomains ?ds" "evenlySpread 3 ?ds"
    "\<not> isl (getMachineFailureDomains simGcpCodecs simGcpInfrastructure simGcpMachines)" by code_simp+
  then have d: "indexedOnce (opMachines ?m)" "getMachineFailureDomains simGcpCodecs simGcpInfrastructure (opMachines ?m) = Inr ?ds"
    "closedDomains ?ds" "evenlySpread 3 ?ds" using o by simp_all
  have k: "dryRunKeepsMachines simGcpClient simGcpCodecs simGcpMachines s" for s
    by (auto simp: dryRunKeepsMachines_def simGcpClient_def simMachineClient_def)
  have st: "strategyType (cpmsSpecOf simActivated) \<in> {RollingUpdate, OnDelete}"
    and ok: "case fst simGcpInfos of Inl e \<Rightarrow> False | Inr infos \<Rightarrow> list_all Ready infos" by code_simp+
  from ok obtain infos w where g: "simGcpInfos = (Inr infos, w)" and rd: "list_all Ready infos"
    by (cases simGcpInfos; cases "fst simGcpInfos") auto
  have n: "3 \<le> length (opMachines ?m)" using o by (simp add: simGcpMachines_def)
  from activated_set_needs_no_update [OF simGenJson_faithful(1) simGcp_codecs simGcp_deep p _ simGcpGenerate_eq m t c i
      simGcpProvider_eq x d k g, where ops = simProvider and p = "()" and env = "startEnv []"] n rd st
  have r: "list_all2 (\<lambda>x info. MachineRef info = Some (getMachineRef x) \<and> getMachineNameIndex x = Some (Index info) \<and>
      \<not> NeedsUpdate info) simGcpMachines infos"
    and q: "\<exists>mis. machineInfosByIndex simActivated infos = Inr mis \<and>
      reconcileMachineUpdates simProvider () ''ns'' simActivated mis (startEnv []) = (Inr emptyResult, simActivated, startEnv [])"
    unfolding o by (auto simp: plainPlatforms_def)
  have "length infos = 3 \<and> list_all (\<lambda>info. \<not> NeedsUpdate info) infos"
    using r by (auto simp: list_all2_conv_all_nth list_all_length simGcpMachines_def)
  with g q show ?thesis by blast
qed

end
