(* ===== verification/Created_Machine.thy ===== *)
theory Created_Machine
  imports Machine_Provider_Properties
begin

text \<open>
  A machine the OpenShift provider has created, seen by the provider again: it is reported at the index it
  was created for, up to date and not Ready yet, so the update strategies neither replace it nor create
  another machine in its place.
\<close>

section \<open>Decoding does not depend on the infrastructure object\<close>

lemma decode_other_infra:
  assumes "NewProviderConfigFromMachineSpec cd spec infra = Inr p"
  obtains q where "NewProviderConfigFromMachineSpec cd spec infra' = Inr q" and "pcType q = pcType p"
    and "pcType p \<noteq> NonePlatformType" and "sameMachine q p"
proof -
  from assms obtain platform where g: "getPlatformTypeFromProviderSpec cd (msProviderSpec spec) = Inr platform"
    and n: "newProviderConfigFromProviderSpec cd (msProviderSpec spec) platform infra = Inr p"
    by (auto simp: NewProviderConfigFromMachineSpec_def split: sum.splits)
  have ty: "pcType p = platform" and supported: "platform \<noteq> NonePlatformType"
    using newProviderConfig_type [OF n] by simp_all
  have refl: "sameMachine p p" by (simp add: sameMachine_def Let_def)
  have "\<exists>q. newProviderConfigFromProviderSpec cd (msProviderSpec spec) platform infra' = Inr q \<and> pcType q = platform \<and> sameMachine q p"
  proof (cases "msProviderSpec spec")
    case None
    with n show ?thesis by (simp add: newProviderConfigFromProviderSpec_def)
  next
    case (Some raw)
    consider (nutanix) "platform = NutanixPlatformType" | (vsphere) "platform = VSpherePlatformType"
      | (other) "platform \<noteq> NutanixPlatformType" "platform \<noteq> VSpherePlatformType" by blast
    then show ?thesis
    proof cases
      case nutanix
      with n Some show ?thesis
        by (auto simp: newProviderConfigFromProviderSpec_def newNutanixProviderConfig_def sameMachine_def platform_defs split: sum.splits)
    next
      case vsphere
      with n Some show ?thesis
        by (auto simp: newProviderConfigFromProviderSpec_def newVSphereProviderConfig_def sameMachine_def platform_defs Let_def split: sum.splits)
    next
      case other
      then have "newProviderConfigFromProviderSpec cd (msProviderSpec spec) platform infra' = Inr p"
        using n Some by (simp add: newProviderConfigFromProviderSpec_def cong: if_cong)
      with ty refl show ?thesis by blast
    qed
  qed
  with g ty supported that show thesis by (auto simp: NewProviderConfigFromMachineSpec_def)
qed

section \<open>The server\<close>

text \<open>
  What is documented of the API server: a dry run answers with the object as a creation would store it, and
  a creation keeps the name and leaves the status to other controllers. \<open>stores\<close> is the spec it stores.
\<close>

definition serverStores :: "'k machineClient \<Rightarrow> (machineSpec \<Rightarrow> machineSpec) \<Rightarrow> bool" where
  "serverStores cl stores \<longleftrightarrow>
     (\<forall>kind x k a k'. mcCreate cl kind x k = (Inr a, k') \<longrightarrow>
        omName (mMeta a) = omName (mMeta x) \<and> mSpec a = stores (mSpec x) \<and> mNodeRef a = mNodeRef x) \<and>
     (\<forall>kind x k a. mcDryRunCreate cl kind x k = Inr a \<longrightarrow> mSpec a = stores (mSpec x))"

text \<open>The spec of a machine with the given raw provider spec.\<close>

definition specOf :: "openshiftMachineProvider \<Rightarrow> string \<Rightarrow> machineSpec" where
  "specOf m raw = (tmplSpec (opTemplate m))\<lparr>msProviderSpec := Some raw\<rparr>"

lemma ensureValid_stored:
  assumes "serverStores cl stores" and "RawConfig cd config = Inr raw" and "pwTemplateRaw w \<noteq> None"
    and "\<And>x. \<not> isl (mcDryRunCreate cl (opClient m) x (pwCluster w))"
    and "NewProviderConfigFromMachineSpec cd (stores (specOf m raw)) None = Inr valid"
  shows "\<exists>w'. ensureValidProviderConfig cl cd m config w = (Inr valid, w') \<and> pwCluster w' = pwCluster w"
proof -
  let ?w = "storeRaw raw w"
  obtain a where a: "mcDryRunCreate cl (opClient m) (dryRunMachine m ?w) (pwCluster w) = Inr a"
    using assms(4) [of "dryRunMachine m ?w"] by (cases "mcDryRunCreate cl (opClient m) (dryRunMachine m ?w) (pwCluster w)") auto
  then have s: "mSpec a = stores (specOf m raw)"
    using assms(1) by (auto simp: serverStores_def dryRunMachine_def templateSpec_def specOf_def)
  have "msProviderSpec (mSpec a) \<noteq> None"
    using assms(5) s
    by (cases "msProviderSpec (mSpec a)") (simp_all add: NewProviderConfigFromMachineSpec_def getPlatformTypeFromProviderSpec_def)
  then obtain r where r: "msProviderSpec (mSpec a) = Some r" by blast
  then have same: "(mSpec a)\<lparr>msProviderSpec := Some r\<rparr> = mSpec a" by (cases "mSpec a") simp
  have "NewProviderConfigFromMachineSpec cd ((mSpec a)\<lparr>msProviderSpec := Some r\<rparr>) None = Inr valid"
    using same s assms(5) by simp
  with assms(2,3) a r show ?thesis
    by (auto simp: ensureValidProviderConfig_def writeRaw_def decodeAnswer_def Let_def)
qed

text \<open>The configuration a machine is created with is the one it is compared with.\<close>

lemma config_compared:
  assumes "getProviderConfigForIndex m i w = (Inr config, w1)"
    and "opIndexToFailureDomain m2 = opIndexToFailureDomain m" and "pwConfig w2 = pwConfig w"
  shows "\<exists>w3. templateConfigFor m2 i w2 = (Inr config, w3) \<and> pwCluster w3 = pwCluster w2 \<and> pwTemplateRaw w3 = pwTemplateRaw w2"
proof (cases "opIndexToFailureDomain m")
  case Nil
  with assms show ?thesis by (auto simp: getProviderConfigForIndex_def templateConfigFor_def)
next
  case Cons
  let ?fd = "gm_get (opIndexToFailureDomain m) i"
  obtain ri self where inj: "InjectFailureDomain (pwConfig w) ?fd = (ri, self)" by force
  with assms(1) Cons have ri: "ri = Inr config" by (cases ri) (auto simp: getProviderConfigForIndex_def)
  with inj obtain fd where "?fd = Some fd" by (cases ?fd) (auto simp: InjectFailureDomain_def)
  with Cons assms(2,3) inj ri show ?thesis by (simp add: templateConfigFor_def)
qed

section \<open>Properties\<close>

text \<open>
  C15: a created machine is what was asked for. When CreateMachine succeeds for an index, the machine the
  server stores is reported by the provider, as long as template, mapping and configuration are those of
  the creation, the spec stored decodes and dry runs are answered: at the index it was created for, needing
  no update and not Ready.
\<close>

theorem created_machine_reported:
  assumes "deepComparisons cd" and "serverStores cl stores"
    and "CreateMachine cl cd m i w = (Inr (), w')" and "0 \<le> i" and "i < 2 ^ 31"
    and "opTemplate m2 = opTemplate m" and "opIndexToFailureDomain m2 = opIndexToFailureDomain m"
    and "pwConfig w2 = pwConfig w" and "pwTemplateRaw w2 \<noteq> None"
    and "\<And>x. \<not> isl (mcDryRunCreate cl (opClient m2) x (pwCluster w2))"
    and "\<And>config raw. RawConfig cd config = Inr raw \<Longrightarrow>
      \<not> isl (NewProviderConfigFromMachineSpec cd (stores (specOf m raw)) None)"
  shows "\<exists>x a k info w3. mcCreate cl (opClient m) x k = (Inr a, pwCluster w') \<and>
     generateMachineInfo cl cd m2 a w2 = (Inr info, w3) \<and> MachineRef info = Some (getMachineRef a) \<and>
     Index info = i \<and> \<not> NeedsUpdate info \<and> \<not> Ready info \<and> pwCluster w3 = pwCluster w2"
proof -
  from CreateMachine_success [OF assms(3)] obtain name k config w1 raw gvk a where
    n: "getMachineName cl m i (pwCluster w) = (Inr name, k)"
    and p: "getProviderConfigForIndex m i (w\<lparr>pwCluster := k\<rparr>) = (Inr config, w1)"
    and raw: "RawConfig cd config = Inr raw"
    and cr: "mcCreate cl (opClient m)
      \<lparr>mMeta = emptyMeta\<lparr>omName := name, omNamespace := opNamespace m,
                omAnnotations := tmplAnnotations (opTemplate m), omLabels := tmplLabels (opTemplate m),
                omOwnerReferences := [controllerRefOf gvk (opOwnerMetadata m)]\<rparr>,
       mSpec = (tmplSpec (opTemplate m))\<lparr>msProviderSpec := Some raw\<rparr>,
       mNodeRef = None, mPhase = None, mErrorMessage = None\<rparr> k = (Inr a, pwCluster w')"
    (is "mcCreate _ _ ?x _ = _") by metis
  have a: "omName (mMeta a) = name" "mSpec a = stores (specOf m raw)" "mNodeRef a = None"
    using assms(2) cr unfolding serverStores_def specOf_def by fastforce+
  have "getMachineNameIndex a = Some i"
    using getMachineName_index [OF n assms(4,5)] a(1) by (simp add: getMachineNameIndex_def)
  then have i: "getMachineIndex cd m2 a w2 = Inr i" by (simp add: getMachineIndex_def)
  obtain valid where v: "NewProviderConfigFromMachineSpec cd (stores (specOf m raw)) None = Inr valid"
    using assms(11) [OF raw] by (cases "NewProviderConfigFromMachineSpec cd (stores (specOf m raw)) None") auto
  obtain q where q: "NewProviderConfigFromMachineSpec cd (mSpec a) (Some (opInfrastructure m2)) = Inr q"
    "pcType q = pcType valid" "pcType valid \<noteq> NonePlatformType" "sameMachine q valid"
    using decode_other_infra [OF v] a(2) by metis
  have sym: "sameMachine valid q" using q(2,4) by (auto simp: sameMachine_def Let_def split: if_splits)
  obtain w4 where t: "templateConfigFor m2 i w2 = (Inr config, w4)" "pwCluster w4 = pwCluster w2" "pwTemplateRaw w4 = pwTemplateRaw w2"
    using config_compared [OF p assms(7), of w2] assms(8) by auto
  have s: "specOf m2 raw = specOf m raw" using assms(6) by (simp add: specOf_def)
  obtain w5 where e: "ensureValidProviderConfig cl cd m2 config w4 = (Inr valid, w5)" "pwCluster w5 = pwCluster w4"
    using ensureValid_stored [OF assms(2) raw, of w4 m2 valid] assms(9,10) t(2,3) v s by auto
  have d: "pcDiff cd valid (Some q) = Inr []"
    using diff_ignores_images_core [OF assms(1), of valid q] q(2,3) sym by auto
  have r: "isMachineReady cl m2 a (pwCluster w5) = Inr False" using a(3) by (simp add: isMachineReady_def)
  let ?info = "\<lparr>MachineRef = Some (getMachineRef a), NodeRef = getNodeRef a, Ready = False, NeedsUpdate = False,
    Diff = [], Index = i, ErrorMessage = derefString (mErrorMessage a)\<rparr>"
  have "generateMachineInfo cl cd m2 a w2 = (Inr ?info, w5)"
    by (simp add: generateMachineInfo_def i q(1) t(1) e(1) d r)
  moreover have "pwCluster w5 = pwCluster w2" using e(2) t(2) by simp
  ultimately show ?thesis using cr
    by (intro exI [of _ ?x] exI [of _ a] exI [of _ k] exI [of _ ?info] exI [of _ w5]) simp
qed

lemma simMachineClient_stores: "serverStores simMachineClient (\<lambda>s. s)"
  by (simp add: serverStores_def simMachineClient_def)

lemma simAws_decodes: "\<not> isl (NewProviderConfigFromMachineSpec simAwsCodecs (specOf m raw) None)"
  by (simp add: NewProviderConfigFromMachineSpec_def getPlatformTypeFromProviderSpec_def specOf_def simAwsCodecs_def simCodecs_def
      Let_def getPlatformTypeFromProviderSpecKind_def newProviderConfigFromProviderSpec_def newAWSProviderConfig_def simAwsCodec_def
      checkForUnknownFieldsInProviderSpecAndUnmarshal_def)

theorem created_machine_reported_witness:
  "\<exists>a info w3. generateMachineInfo simMachineClient simAwsCodecs (fst simOpenshift) a (snd simCreated) = (Inr info, w3) \<and>
     Index info = 1 \<and> \<not> NeedsUpdate info \<and> \<not> Ready info"
proof -
  let ?m = "fst simOpenshift" and ?w = "snd simOpenshift"
  have "fst simCreated = Inr ()" by code_simp
  then have c: "CreateMachine simMachineClient simAwsCodecs ?m 1 ?w = (Inr (), snd simCreated)"
    by (metis simCreated_def prod.collapse)
  have w: "pwConfig (snd simCreated) = pwConfig ?w" "pwTemplateRaw (snd simCreated) \<noteq> None" by code_simp+
  have d: "\<not> isl (mcDryRunCreate simMachineClient k x s)" for k x s by (simp add: simMachineClient_def)
  from created_machine_reported [OF deepComparisons_simAws simMachineClient_stores c _ _ refl refl w d simAws_decodes]
  show ?thesis by auto
qed

end
