(* ===== verification/Watch_Filters.thy ===== *)
theory Watch_Filters
  imports Machine_Provider
begin

text \<open>
  Which events wake the controllers: \<^verbatim>\<open>pkg/util/watch_filters.go\<close>, with the other helpers of
  \<^verbatim>\<open>pkg/util\<close>. A watched object is tagged with its Go type, so that a failed type assertion is a branch;
  a panic is an error. Log messages are left out.
\<close>

section \<open>Events\<close>

text \<open>Of a cluster operator and an infrastructure object only the metadata is read.\<close>

datatype watchedObject =
    CpmsObject cpms
  | MachineObject machine
  | NodeObject node
  | ClusterOperatorObject objectMeta
  | InfrastructureObject objectMeta

datatype watchEvent =
    CreateEvent watchedObject
  | UpdateEvent "watchedObject option" watchedObject
  | DeleteEvent watchedObject
  | GenericEvent watchedObject

text \<open>\<^verbatim>\<open>predicate.NewPredicateFuncs\<close>: one function for every event, on the new object of an update.\<close>

fun newPredicateFuncs :: "(watchedObject \<Rightarrow> bool result) \<Rightarrow> watchEvent \<Rightarrow> bool result" where
  "newPredicateFuncs f (CreateEvent ob) = f ob"
| "newPredicateFuncs f (UpdateEvent old ob) = f ob"
| "newPredicateFuncs f (DeleteEvent ob) = f ob"
| "newPredicateFuncs f (GenericEvent ob) = f ob"

definition unexpectedType :: "string \<Rightarrow> goerror" where
  "unexpectedType t = PanicErr (''expected to get an of object of type '' @ t)"

section \<open>Requests and filters\<close>

text \<open>The namespace and the name of the request.\<close>

definition ObjToControlPlaneMachineSet :: "string \<Rightarrow> string \<Rightarrow> watchedObject \<Rightarrow> (string \<times> string) list" where
  "ObjToControlPlaneMachineSet cpmsName namespace ob = [(namespace, cpmsName)]"

definition FilterClusterOperator :: "string \<Rightarrow> watchEvent \<Rightarrow> bool result" where
  "FilterClusterOperator name = newPredicateFuncs (\<lambda>ob. case ob of
     ClusterOperatorObject m \<Rightarrow> Inr (omName m = name) | _ \<Rightarrow> Inl (unexpectedType ''configv1.ClusterOperator''))"

definition FilterControlPlaneMachineSet :: "string \<Rightarrow> string \<Rightarrow> watchEvent \<Rightarrow> bool result" where
  "FilterControlPlaneMachineSet cpmsName namespace = newPredicateFuncs (\<lambda>ob. case ob of
     CpmsObject c \<Rightarrow> Inr (omNamespace (cpmsMeta c) = namespace \<and> omName (cpmsMeta c) = cpmsName)
   | _ \<Rightarrow> Inl (unexpectedType ''machinev1.ControlPlaneMachineSet''))"

definition machineRoleLabelName :: string where "machineRoleLabelName = ''machine.openshift.io/cluster-api-machine-role''"
definition machineTypeLabelName :: string where "machineTypeLabelName = ''machine.openshift.io/cluster-api-machine-type''"
definition nodeRoleMasterLabelName :: string where "nodeRoleMasterLabelName = ''node-role.kubernetes.io/master''"
definition nodeRoleControlPlaneLabelName :: string where
  "nodeRoleControlPlaneLabelName = ''node-role.kubernetes.io/control-plane''"
definition machineMasterRoleLabelName :: string where "machineMasterRoleLabelName = ''master''"
definition machineMasterTypeLabelName :: string where "machineMasterTypeLabelName = ''master''"
definition machineControlPlaneTypeLabelName :: string where "machineControlPlaneTypeLabelName = ''control-plane''"

definition isControlPlaneMachine :: "string \<Rightarrow> machine \<Rightarrow> bool" where
  "isControlPlaneMachine namespace m \<longleftrightarrow>
     omNamespace (mMeta m) = namespace \<and>
     labelAt (omLabels (mMeta m)) machineRoleLabelName = machineMasterRoleLabelName \<and>
     (labelAt (omLabels (mMeta m)) machineTypeLabelName = machineMasterTypeLabelName \<or>
      labelAt (omLabels (mMeta m)) machineTypeLabelName = machineControlPlaneTypeLabelName)"

definition FilterControlPlaneMachines :: "string \<Rightarrow> watchEvent \<Rightarrow> bool result" where
  "FilterControlPlaneMachines namespace = newPredicateFuncs (\<lambda>ob. case ob of
     MachineObject m \<Rightarrow> Inr (isControlPlaneMachine namespace m)
   | _ \<Rightarrow> Inl (unexpectedType ''machinev1beta1.Machine''))"

definition FilterInfrastructure :: "string \<Rightarrow> watchEvent \<Rightarrow> bool result" where
  "FilterInfrastructure infraName = newPredicateFuncs (\<lambda>ob. case ob of
     InfrastructureObject m \<Rightarrow> Inr (omName m = infraName) | _ \<Rightarrow> Inl (unexpectedType ''configv1.infrastructure''))"

section \<open>Control plane nodes\<close>

definition isControlPlaneNode :: "node \<Rightarrow> bool" where
  "isControlPlaneNode n \<longleftrightarrow>
     gm_get (omLabels (nodeMeta n)) nodeRoleMasterLabelName \<noteq> None \<or>
     gm_get (omLabels (nodeMeta n)) nodeRoleControlPlaneLabelName \<noteq> None"

text \<open>The status of the first Ready condition, empty without one.\<close>

definition readyStatus :: "node \<Rightarrow> string" where
  "readyStatus n = (case find (\<lambda>c. ncType c = NodeReady) (nodeConditions n) of None \<Rightarrow> '''' | Some c \<Rightarrow> ncStatus c)"

text \<open>
  After a failed assertion on the old object its pointer is nil, so the check that follows never fires
  and the nil pointer is dereferenced.
\<close>

definition updateFuncFilterControlPlaneNodes :: "watchedObject option \<Rightarrow> watchedObject \<Rightarrow> bool result" where
  "updateFuncFilterControlPlaneNodes old ob =
     (case ob of
        NodeObject n \<Rightarrow>
          if \<not> isControlPlaneNode n then Inr False
          else (case old of
                  Some (NodeObject oldNode) \<Rightarrow> Inr (readyStatus oldNode \<noteq> readyStatus n)
                | _ \<Rightarrow> Inl nilDereference)
      | _ \<Rightarrow> Inl (unexpectedType ''corev1.Node''))"

fun FilterControlPlaneNodes :: "watchEvent \<Rightarrow> bool result" where
  "FilterControlPlaneNodes (CreateEvent ob) =
     (case ob of NodeObject n \<Rightarrow> Inr (isControlPlaneNode n) | _ \<Rightarrow> Inl (unexpectedType ''corev1.Node''))"
| "FilterControlPlaneNodes (UpdateEvent old ob) = updateFuncFilterControlPlaneNodes old ob"
| "FilterControlPlaneNodes (DeleteEvent ob) =
     (case ob of NodeObject n \<Rightarrow> Inr (isControlPlaneNode n) | _ \<Rightarrow> Inl (unexpectedType ''corev1.Node''))"
| "FilterControlPlaneNodes (GenericEvent ob) =
     (case ob of NodeObject n \<Rightarrow> Inr False | _ \<Rightarrow> Inl (unexpectedType ''corev1.Node''))"

section \<open>Watches of the controllers\<close>

text \<open>
  The registrations of the two \<^verbatim>\<open>SetupWithManager\<close>: an event passes the predicate of the watch of its
  object's type and its handler enqueues requests. The request for a ControlPlaneMachineSet is its own
  key; the other handlers map every object to the singleton.
\<close>

fun eventObject :: "watchEvent \<Rightarrow> watchedObject" where
  "eventObject (CreateEvent ob) = ob"
| "eventObject (UpdateEvent old ob) = ob"
| "eventObject (DeleteEvent ob) = ob"
| "eventObject (GenericEvent ob) = ob"

definition cpmsSingletonName :: string where "cpmsSingletonName = ''cluster''"

definition enqueueIf :: "bool result \<Rightarrow> (string \<times> string) list \<Rightarrow> (string \<times> string) list result" where
  "enqueueIf passes reqs = (case passes of Inl e \<Rightarrow> Inl e | Inr b \<Rightarrow> Inr (if b then reqs else []))"

definition controllerRequests :: "string \<Rightarrow> string \<Rightarrow> watchEvent \<Rightarrow> (string \<times> string) list result" where
  "controllerRequests namespace operatorName e =
     (let toCpms = ObjToControlPlaneMachineSet cpmsSingletonName namespace (eventObject e)
      in case eventObject e of
           CpmsObject c \<Rightarrow> enqueueIf (FilterControlPlaneMachineSet cpmsSingletonName namespace e)
             [(omNamespace (cpmsMeta c), omName (cpmsMeta c))]
         | MachineObject m \<Rightarrow> enqueueIf (FilterControlPlaneMachines namespace e) toCpms
         | NodeObject n \<Rightarrow> enqueueIf (FilterControlPlaneNodes e) toCpms
         | ClusterOperatorObject m \<Rightarrow> enqueueIf (FilterClusterOperator operatorName e) toCpms
         | InfrastructureObject m \<Rightarrow> enqueueIf (FilterInfrastructure InfrastructureName e) toCpms)"

text \<open>The generator watches ControlPlaneMachineSets and, with no predicate, machines.\<close>

definition generatorRequests :: "string \<Rightarrow> watchEvent \<Rightarrow> (string \<times> string) list result" where
  "generatorRequests namespace e =
     (case eventObject e of
        CpmsObject c \<Rightarrow> enqueueIf (FilterControlPlaneMachineSet cpmsSingletonName namespace e)
          [(omNamespace (cpmsMeta c), omName (cpmsMeta c))]
      | MachineObject m \<Rightarrow> Inr (ObjToControlPlaneMachineSet cpmsSingletonName namespace (MachineObject m))
      | _ \<Rightarrow> Inr [])"

section \<open>Release version and leader election\<close>

definition releaseVersionEnvVariableName :: string where "releaseVersionEnvVariableName = ''RELEASE_VERSION''"
definition unknownVersionValue :: string where "unknownVersionValue = ''unknown''"

definition GetReleaseVersion :: "(string \<Rightarrow> string) \<Rightarrow> string" where
  "GetReleaseVersion getenv =
     (let releaseVersion = getenv releaseVersionEnvVariableName
      in if length releaseVersion = 0 then unknownVersionValue else releaseVersion)"

text \<open>Durations in nanoseconds; the rest of the configuration is carried along.\<close>

record leaderElection =
  leDisable :: bool
  leLeaseDuration :: int
  leRenewDeadline :: int
  leRetryPeriod :: int
  leOther :: string

definition SingleReplicaTopologyMode :: string where "SingleReplicaTopologyMode = ''SingleReplica''"

text \<open>
  The defaulting, the single-node configuration and the status of the cluster are arguments: code of
  the OpenShift library. The status is the control plane topology, if it is not nil.
\<close>

definition GetLeaderElectionDefaults ::
  "(leaderElection \<Rightarrow> string \<Rightarrow> string \<Rightarrow> leaderElection) \<Rightarrow> (leaderElection \<Rightarrow> leaderElection) \<Rightarrow>
   string option result \<Rightarrow> leaderElection \<Rightarrow> leaderElection" where
  "GetLeaderElectionDefaults defaulting snoConfig infraStatus le =
     (let userSet = (leLeaseDuration le \<noteq> 0 \<or> leRenewDeadline le \<noteq> 0 \<or> leRetryPeriod le \<noteq> 0);
          defaults = defaulting le '''' ''''
      in if \<not> userSet \<and> \<not> leDisable le
         then (case infraStatus of
                 Inr (Some topology) \<Rightarrow> if topology = SingleReplicaTopologyMode then snoConfig defaults else defaults
               | _ \<Rightarrow> defaults)
         else defaults)"

section \<open>Properties\<close>

lemma isNodeReady_readyStatus: "isNodeReady n \<longleftrightarrow> readyStatus n = ConditionTrue"
  by (simp add: isNodeReady_def readyStatus_def ConditionTrue_def split: option.split)

lemma enqueueIf_subset: "enqueueIf b reqs = Inr rs \<Longrightarrow> set rs \<subseteq> set reqs"
  by (auto simp: enqueueIf_def split: sum.splits if_splits)

lemma newPredicateFuncs_eq: "newPredicateFuncs f e = f (eventObject e)"
  by (cases e) simp_all

lemma controllerRequests_singleton:
  "controllerRequests namespace operatorName e = Inr reqs \<Longrightarrow> set reqs \<subseteq> {(namespace, ''cluster'')}"
  by (auto simp: controllerRequests_def ObjToControlPlaneMachineSet_def cpmsSingletonName_def Let_def
      FilterControlPlaneMachineSet_def newPredicateFuncs_eq enqueueIf_def
      dest: enqueueIf_subset split: watchedObject.splits sum.splits if_splits)

text \<open>
  C34: what wakes the controller. Events enqueue no request but the one for the singleton of the
  controller's namespace. That one is enqueued when a control plane node is updated and the readiness
  that the machine information reports for the node changed, when a control plane node comes or goes,
  and on every event of a machine that is labelled as a master of the namespace.
\<close>

theorem controller_wakes:
  shows "(controllerRequests namespace operatorName e = Inr reqs \<longrightarrow> set reqs \<subseteq> {(namespace, ''cluster'')}) \<and>
    (isControlPlaneNode n \<and> isNodeReady old \<noteq> isNodeReady n \<longrightarrow>
       controllerRequests namespace operatorName (UpdateEvent (Some (NodeObject old)) (NodeObject n)) = Inr [(namespace, ''cluster'')]) \<and>
    (isControlPlaneNode n \<longrightarrow>
       controllerRequests namespace operatorName (CreateEvent (NodeObject n)) = Inr [(namespace, ''cluster'')] \<and>
       controllerRequests namespace operatorName (DeleteEvent (NodeObject n)) = Inr [(namespace, ''cluster'')]) \<and>
    (eventObject e = MachineObject m \<and> omNamespace (mMeta m) = namespace \<and>
       labelAt (omLabels (mMeta m)) openshiftMachineRoleLabel = ''master'' \<and>
       labelAt (omLabels (mMeta m)) ''machine.openshift.io/cluster-api-machine-type'' = ''master'' \<longrightarrow>
       controllerRequests namespace operatorName e = Inr [(namespace, ''cluster'')])"
proof (intro conjI impI)
  show "set reqs \<subseteq> {(namespace, ''cluster'')}" if "controllerRequests namespace operatorName e = Inr reqs"
    using that by (rule controllerRequests_singleton)
  show "controllerRequests namespace operatorName (UpdateEvent (Some (NodeObject old)) (NodeObject n)) = Inr [(namespace, ''cluster'')]"
    if "isControlPlaneNode n \<and> isNodeReady old \<noteq> isNodeReady n"
    using that by (auto simp: controllerRequests_def updateFuncFilterControlPlaneNodes_def isNodeReady_readyStatus enqueueIf_def
        ObjToControlPlaneMachineSet_def cpmsSingletonName_def)
qed (auto simp: controllerRequests_def enqueueIf_def FilterControlPlaneMachines_def newPredicateFuncs_eq isControlPlaneMachine_def
    ObjToControlPlaneMachineSet_def cpmsSingletonName_def openshiftMachineRoleLabel_def machineRoleLabelName_def
    machineTypeLabelName_def machineMasterRoleLabelName_def machineMasterTypeLabelName_def)

definition simNode :: "string \<Rightarrow> node" where
  "simNode status = \<lparr>nodeMeta = emptyMeta\<lparr>omName := ''n'', omLabels := [(nodeRoleMasterLabelName, '''')]\<rparr>,
     nodeConditions = [\<lparr>ncType = ''DiskPressure'', ncStatus = ''False'', ncLastTransitionTime = 0\<rparr>,
       \<lparr>ncType = NodeReady, ncStatus = status, ncLastTransitionTime = 0\<rparr>]\<rparr>"

theorem controller_wakes_witness:
  "controllerRequests ''ns'' ''op'' (UpdateEvent (Some (NodeObject (simNode ''Unknown''))) (NodeObject (simNode ''True''))) =
     Inr [(''ns'', ''cluster'')]"
proof -
  have "isControlPlaneNode (simNode ''True'')" "isNodeReady (simNode ''Unknown'') \<noteq> isNodeReady (simNode ''True'')" by code_simp+
  with controller_wakes show ?thesis by blast
qed

end
