(* ===== verification/Tls_Config.thy ===== *)
theory Tls_Config
  imports Go_Prelude
begin

text \<open>
  The TLS configuration of the serving endpoints, \<^verbatim>\<open>pkg/tls/tls.go\<close>, and the check of the flags in
  \<^verbatim>\<open>cmd/control-plane-machine-set-operator/main.go\<close>. The parsers of the flags, the client and the profiles
  of the OpenShift libraries are arguments. A TLS configuration function is a function on the fields it
  writes; log messages are left out.
\<close>

section \<open>Data\<close>

record tlsConfig =
  cfgMinVersion :: nat
  cfgCurvePreferences :: "nat list"
  cfgCipherSuites :: "nat list option"

text \<open>\<open>'s\<close> is the type of profile specs.\<close>

record 's tlsConfigResult =
  TLSConfig :: "tlsConfig \<Rightarrow> tlsConfig"
  TLSAdherencePolicy :: string
  TLSProfileSpec :: 's

text \<open>The parsers of \<^verbatim>\<open>cliflag\<close>.\<close>

record tlsFlags =
  cliTLSVersion :: "string \<Rightarrow> nat result"
  cliTLSCipherSuites :: "string list \<Rightarrow> nat list option result"
  cliTLSCurvePreferences :: "int list \<Rightarrow> nat list result"

text \<open>
  The API server as the resolver sees it, the decision whether to honour a policy and the profile
  configurations, each with the values it ignores.
\<close>

record 's tlsCluster =
  clAddToScheme :: "unit result"
  clNewClient :: "unit result"
  clFetchAdherencePolicy :: "string result"
  clFetchProfile :: "'s result"
  clShouldHonor :: "string \<Rightarrow> bool"
  clConfigFromProfile :: "'s \<Rightarrow> (tlsConfig \<Rightarrow> tlsConfig) \<times> string list"
  clDefaultProfile :: 's
  clEmptyProfile :: 's

definition VersionTLS13 :: nat where "VersionTLS13 = 0x0304"

section \<open>Resolution\<close>

definition HasTLSOverrides :: "string \<Rightarrow> string list \<Rightarrow> int list \<Rightarrow> bool" where
  "HasTLSOverrides tlsMinVersion tlsCipherSuites tlsCurvePreferences \<longleftrightarrow>
     tlsMinVersion \<noteq> '''' \<or> length tlsCipherSuites > 0 \<or> length tlsCurvePreferences > 0"

definition resolveTLSConfigFromFlags ::
  "tlsFlags \<Rightarrow> 's \<Rightarrow> string \<Rightarrow> string list \<Rightarrow> int list \<Rightarrow> 's tlsConfigResult result" where
  "resolveTLSConfigFromFlags fl emptyProfile tlsMinVersion tlsCipherSuites tlsCurvePreferences =
     (case cliTLSVersion fl tlsMinVersion of
        Inl e \<Rightarrow> Inl (wrap ''invalid --tls-min-version value'' e)
      | Inr minVersion \<Rightarrow>
          (case cliTLSCipherSuites fl tlsCipherSuites of
             Inl e \<Rightarrow> Inl (wrap ''invalid --tls-cipher-suites value'' e)
           | Inr cipherSuites \<Rightarrow>
               (case cliTLSCurvePreferences fl tlsCurvePreferences of
                  Inl e \<Rightarrow> Inl (wrap ''invalid --tls-curve-preferences value'' e)
                | Inr curvePreferences \<Rightarrow>
                    Inr \<lparr>TLSConfig = (\<lambda>cfg.
                            let cfg1 = cfg\<lparr>cfgMinVersion := minVersion\<rparr>;
                                cfg2 = (if length curvePreferences > 0 then cfg1\<lparr>cfgCurvePreferences := curvePreferences\<rparr> else cfg1)
                            in if minVersion \<noteq> VersionTLS13 then cfg2\<lparr>cfgCipherSuites := cipherSuites\<rparr> else cfg2),
                         TLSAdherencePolicy = '''', TLSProfileSpec = emptyProfile\<rparr>)))"

definition resolveClusterTLSConfig :: "'s tlsCluster \<Rightarrow> 's tlsConfigResult result" where
  "resolveClusterTLSConfig c =
     (case clAddToScheme c of
        Inl e \<Rightarrow> Inl (wrap ''unable to add configv1 to scheme'' e)
      | Inr _ \<Rightarrow>
          (case clNewClient c of
             Inl e \<Rightarrow> Inl (wrap ''unable to create Kubernetes client'' e)
           | Inr _ \<Rightarrow>
               (let policy = (case clFetchAdherencePolicy c of Inl e \<Rightarrow> '''' | Inr p \<Rightarrow> p);
                    profile = (case clFetchProfile c of Inl e \<Rightarrow> clEmptyProfile c | Inr s \<Rightarrow> s)
                in Inr \<lparr>TLSConfig = fst (clConfigFromProfile c (if clShouldHonor c policy then profile else clDefaultProfile c)),
                        TLSAdherencePolicy = policy, TLSProfileSpec = profile\<rparr>)))"

definition ResolveTLSConfig ::
  "tlsFlags \<Rightarrow> 's tlsCluster \<Rightarrow> string \<Rightarrow> string list \<Rightarrow> int list \<Rightarrow> 's tlsConfigResult result" where
  "ResolveTLSConfig fl c tlsMinVersion tlsCipherSuites tlsCurvePreferences =
     (if HasTLSOverrides tlsMinVersion tlsCipherSuites tlsCurvePreferences
      then resolveTLSConfigFromFlags fl (clEmptyProfile c) tlsMinVersion tlsCipherSuites tlsCurvePreferences
      else resolveClusterTLSConfig c)"

text \<open>The check of the flags at start-up, which ends the process: the version and the suites go together.\<close>

definition tlsFlagsRefused :: "string \<Rightarrow> string list \<Rightarrow> bool" where
  "tlsFlagsRefused tlsMinVersion tlsCipherSuites \<longleftrightarrow>
     (tlsMinVersion \<noteq> '''' \<or> length tlsCipherSuites > 0) \<and> (tlsMinVersion = '''' \<or> length tlsCipherSuites = 0)"

section \<open>Properties\<close>

text \<open>
  Flags override the whole cluster profile: with any TLS flag set the result does not depend on the
  cluster, and cipher suites are written only below TLS 1.3.
\<close>

lemma flags_ignore_cluster:
  assumes "HasTLSOverrides v s p" and "clEmptyProfile c = clEmptyProfile c'"
  shows "ResolveTLSConfig fl c v s p = ResolveTLSConfig fl c' v s p"
  using assms by (simp add: ResolveTLSConfig_def)

lemma flags_cipher_suites:
  assumes "resolveTLSConfigFromFlags fl z v s p = Inr r"
  shows "cfgMinVersion (TLSConfig r cfg) = VersionTLS13 \<Longrightarrow> cfgCipherSuites (TLSConfig r cfg) = cfgCipherSuites cfg"
    and "\<exists>suites. cliTLSCipherSuites fl s = Inr suites \<and>
      (cfgMinVersion (TLSConfig r cfg) \<noteq> VersionTLS13 \<longrightarrow> cfgCipherSuites (TLSConfig r cfg) = suites)"
  using assms by (auto simp: resolveTLSConfigFromFlags_def Let_def split: sum.splits if_splits)

text \<open>
  Without flags a reachable API server is not needed: with a client, resolution succeeds, and a server
  that answers neither request gives the default profile unless the empty policy is to be honoured.
\<close>

lemma cluster_tls_falls_back:
  assumes "clAddToScheme c = Inr ()" and "clNewClient c = Inr ()"
    and "clFetchAdherencePolicy c = Inl e" and "\<not> clShouldHonor c ''''"
  shows "\<exists>r. resolveClusterTLSConfig c = Inr r \<and> TLSConfig r = fst (clConfigFromProfile c (clDefaultProfile c))"
  using assms by (simp add: resolveClusterTLSConfig_def)

end
