(* ===== verification/Operator.thy ===== *)
theory Operator
  imports Watch_Filters Tls_Config
begin

text \<open>
  The start of the operator process, \<^verbatim>\<open>cmd/control-plane-machine-set-operator/main.go\<close>, with the
  registration of the controllers, the webhook and the feature gates. The flags are parsed already;
  what the libraries answer (schemes, clients, manager, informers, the completion of a builder) is a
  record of arguments. The result says how the process ends or with what the manager ran.
\<close>

section \<open>Flags and options\<close>

record operatorFlags =
  metricsAddr :: string
  probeAddr :: string
  webhookPort :: int
  managedNamespace :: string
  tlsMinVersionFlag :: string
  tlsCipherSuitesFlag :: "string list"
  tlsCurvePreferencesFlag :: "int list"
  leaderElect :: bool
  leResourceNamespace :: string
  leResourceName :: string
  leTimes :: "int \<times> int \<times> int"

definition defaultLeaderElectionID :: string where
  "defaultLeaderElectionID = ''control-plane-machine-set-leader''"

text \<open>The flags without a command line; the times are lease duration, renew deadline and retry period.\<close>

definition defaultFlags :: operatorFlags where
  "defaultFlags = \<lparr>metricsAddr = '':8080'', probeAddr = '':8081'', webhookPort = 9443,
     managedNamespace = ''openshift-machine-api'', tlsMinVersionFlag = '''', tlsCipherSuitesFlag = [],
     tlsCurvePreferencesFlag = [], leaderElect = True, leResourceNamespace = '''',
     leResourceName = defaultLeaderElectionID, leTimes = (0, 0, 0)\<rparr>"

definition nanoseconds :: "int \<Rightarrow> int" where "nanoseconds seconds = seconds * 1000000000"

record managerOptions =
  moMetricsBindAddress :: string
  moMetricsTLS :: "tlsConfig \<Rightarrow> tlsConfig"
  moSecureServing :: bool
  moWebhookPort :: int
  moWebhookTLS :: "tlsConfig \<Rightarrow> tlsConfig"
  moHealthProbeBindAddress :: string
  moLeaderElectionNamespace :: string
  moLeaderElection :: bool
  moLeaderElectionID :: string
  moLeaderElectionReleaseOnCancel :: bool
  moLeaseDuration :: int
  moRetryPeriod :: int
  moRenewDeadline :: int
  moSyncPeriod :: int
  moDefaultNamespaces :: "string list"

text \<open>
  What runs in the manager: a controller with the namespace it manages, the operator name and release
  version, and whether its uncached client exists; the generator; the webhook; the watcher of the
  TLS profile with the policy and profile it compares with.
\<close>

datatype 's component =
    MachineSetController string string string bool
  | GeneratorController string
  | AdmissionWebhook
  | SecurityProfileWatcher string 's

record 's libraries =
  libGetenv :: "string \<Rightarrow> string"
  libAddClientGo :: "unit result"
  libInstallMachineV1 :: "unit result"
  libInstallMachineV1Beta1 :: "unit result"
  libInstallConfigV1 :: "unit result"
  libLeaderElectionDefaulting :: "leaderElection \<Rightarrow> string \<Rightarrow> string \<Rightarrow> leaderElection"
  libLeaderElectionSNOConfig :: "leaderElection \<Rightarrow> leaderElection"
  libClusterInfraStatus :: "string option result"
  libTlsFlags :: tlsFlags
  libTlsCluster :: "'s tlsCluster"
  libNewManager :: "managerOptions \<Rightarrow> unit result"
  libNewConfigClient :: "unit result"
  libFeatureGatesObserved :: bool
  libNewUncachedClient :: "unit result"
  libCompleteController :: "string \<Rightarrow> unit result"
  libCompleteWebhook :: "unit result"
  libSetupProfileWatcher :: "string \<Rightarrow> 's \<Rightarrow> unit result"
  libStartManager :: "unit result"

section \<open>Set-up functions\<close>

fun inOrder :: "(string \<times> unit result) list \<Rightarrow> unit result" where
  "inOrder [] = Inr ()"
| "inOrder ((text, r) # rest) = (case r of Inl e \<Rightarrow> Inl (wrap text e) | Inr _ \<Rightarrow> inOrder rest)"

definition setupScheme :: "'s libraries \<Rightarrow> unit result" where
  "setupScheme lib = inOrder
     [(''unable to add client-go scheme'', libAddClientGo lib),
      (''unable to add machine.openshift.io/v1 scheme'', libInstallMachineV1 lib),
      (''unable to add machine.openshift.io/v1beta1 scheme'', libInstallMachineV1Beta1 lib),
      (''unable to add config.openshift.io/v1 scheme'', libInstallConfigV1 lib)]"

definition SetupWithManager :: "'s libraries \<Rightarrow> unit result" where
  "SetupWithManager lib = inOrder
     [(''could not set up controller for control plane machine set'', libCompleteController lib ''controlplanemachineset'')]"

definition SetupGeneratorWithManager :: "'s libraries \<Rightarrow> unit result" where
  "SetupGeneratorWithManager lib = inOrder
     [(''could not set up controller for control plane machine set generator'',
       libCompleteController lib ''controlplanemachinesetgenerator'')]"

definition SetupWebhookWithManager :: "'s libraries \<Rightarrow> unit result" where
  "SetupWebhookWithManager lib = inOrder
     [(''error constructing ControlPlaneMachineSet webhook'', libCompleteWebhook lib)]"

definition errFeatureGateDetectionTimeout :: goerror where
  "errFeatureGateDetectionTimeout = ErrNew ''timed out waiting for FeatureGate detection''"

definition SetupFeatureGateAccessor :: "'s libraries \<Rightarrow> unit result" where
  "SetupFeatureGateAccessor lib =
     (case libNewConfigClient lib of
        Inl e \<Rightarrow> Inl (wrap ''unable to create config client'' e)
      | Inr _ \<Rightarrow> if libFeatureGatesObserved lib then Inr () else Inl errFeatureGateDetectionTimeout)"

section \<open>main\<close>

definition leaderElectionOf :: "'s libraries \<Rightarrow> operatorFlags \<Rightarrow> leaderElection" where
  "leaderElectionOf lib fl =
     (case leTimes fl of (lease, renew, retry) \<Rightarrow>
        GetLeaderElectionDefaults (libLeaderElectionDefaulting lib) (libLeaderElectionSNOConfig lib)
          (libClusterInfraStatus lib)
          \<lparr>leDisable = \<not> leaderElect fl, leLeaseDuration = lease, leRenewDeadline = renew,
           leRetryPeriod = retry, leOther = ''''\<rparr>)"

definition optionsOf :: "'s libraries \<Rightarrow> operatorFlags \<Rightarrow> 's tlsConfigResult \<Rightarrow> managerOptions" where
  "optionsOf lib fl tls =
     (let le = leaderElectionOf lib fl
      in \<lparr>moMetricsBindAddress = metricsAddr fl, moMetricsTLS = TLSConfig tls, moSecureServing = True,
          moWebhookPort = webhookPort fl, moWebhookTLS = TLSConfig tls,
          moHealthProbeBindAddress = probeAddr fl, moLeaderElectionNamespace = leResourceNamespace fl,
          moLeaderElection = leaderElect fl, moLeaderElectionID = leResourceName fl,
          moLeaderElectionReleaseOnCancel = True, moLeaseDuration = leLeaseDuration le,
          moRetryPeriod = leRetryPeriod le, moRenewDeadline = leRenewDeadline le,
          moSyncPeriod = nanoseconds (30 * 60), moDefaultNamespaces = [managedNamespace fl]\<rparr>)"

text \<open>
  How the process ends: with a logged error and exit code 1, with a fatal log entry, or with a manager
  that ran and its result.
\<close>

datatype 's outcome =
    ExitOne string goerror
  | FatalExit string
  | Served managerOptions "'s component list" "unit result"

definition hasTLSOverride :: "operatorFlags \<Rightarrow> bool" where
  "hasTLSOverride fl = HasTLSOverrides (tlsMinVersionFlag fl) (tlsCipherSuitesFlag fl) (tlsCurvePreferencesFlag fl)"

text \<open>A step of the registration: its error ends the process, otherwise the component is added.\<close>

definition registerThen ::
  "string \<Rightarrow> unit result \<Rightarrow> 's component \<Rightarrow> ('s component list \<Rightarrow> 's outcome) \<Rightarrow> 's component list \<Rightarrow> 's outcome" where
  "registerThen text r part k comps = (case r of Inl e \<Rightarrow> ExitOne text e | Inr _ \<Rightarrow> k (comps @ [part]))"

text \<open>
  From the uncached client on. An error creating that client is logged, but the process goes on with
  a nil client.
\<close>

definition registerComponents :: "'s libraries \<Rightarrow> operatorFlags \<Rightarrow> 's tlsConfigResult \<Rightarrow> 's outcome" where
  "registerComponents lib fl tls =
     registerThen ''unable to create controller'' (SetupWithManager lib)
       (MachineSetController (managedNamespace fl) ''control-plane-machine-set'' (GetReleaseVersion (libGetenv lib))
          (\<not> isl (libNewUncachedClient lib)))
       (registerThen ''unable to create controller'' (SetupGeneratorWithManager lib)
          (GeneratorController (managedNamespace fl))
          (let serve = (\<lambda>comps. Served (optionsOf lib fl tls) comps (libStartManager lib));
               watch = (if hasTLSOverride fl then serve
                        else registerThen ''unable to create controller''
                               (libSetupProfileWatcher lib (TLSAdherencePolicy tls) (TLSProfileSpec tls))
                               (SecurityProfileWatcher (TLSAdherencePolicy tls) (TLSProfileSpec tls)) serve)
           in if webhookPort fl \<noteq> 0
              then registerThen ''unable to create webhook'' (SetupWebhookWithManager lib) AdmissionWebhook watch
              else watch)) []"

definition operatorMain :: "'s libraries \<Rightarrow> operatorFlags \<Rightarrow> 's outcome" where
  "operatorMain lib fl =
     (case setupScheme lib of
        Inl e \<Rightarrow> ExitOne ''unable to set up scheme'' e
      | Inr _ \<Rightarrow>
          if tlsFlagsRefused (tlsMinVersionFlag fl) (tlsCipherSuitesFlag fl)
          then FatalExit ''Both --tls-min-version and --tls-cipher-suites must be provided when either is set.''
          else (case ResolveTLSConfig (libTlsFlags lib) (libTlsCluster lib) (tlsMinVersionFlag fl)
                       (tlsCipherSuitesFlag fl) (tlsCurvePreferencesFlag fl) of
                  Inl e \<Rightarrow> ExitOne ''unable to configure TLS'' e
                | Inr tls \<Rightarrow>
                    (case libNewManager lib (optionsOf lib fl tls) of
                       Inl e \<Rightarrow> ExitOne ''unable to start manager'' e
                     | Inr _ \<Rightarrow>
                         (case libNewConfigClient lib of
                            Inl e \<Rightarrow> FatalExit (errorText e @ ''unable to create config client'')
                          | Inr _ \<Rightarrow>
                              if \<not> libFeatureGatesObserved lib
                              then FatalExit ''timed out waiting for FeatureGate detection''
                              else registerComponents lib fl tls))))"

text \<open>The exit code: a manager that stopped with an error is one more failure.\<close>

definition exitCode :: "'s outcome \<Rightarrow> int" where
  "exitCode out =
     (case out of ExitOne _ _ \<Rightarrow> 1 | FatalExit _ \<Rightarrow> 255
      | Served _ _ r \<Rightarrow> (case r of Inl e \<Rightarrow> 1 | Inr _ \<Rightarrow> 0))"

section \<open>Properties\<close>

lemma inOrder_Inr: "inOrder rs = Inr () \<longleftrightarrow> (\<forall>(text, r) \<in> set rs. r = Inr ())"
  by (induction rs rule: inOrder.induct) (auto split: sum.splits)

lemma registerThen_Served:
  "registerThen text r part k comps = Served opts cs res \<longleftrightarrow> r = Inr () \<and> k (comps @ [part]) = Served opts cs res"
  by (cases r) (auto simp: registerThen_def)

lemma registered_components:
  assumes "registerComponents lib fl tls = Served opts comps res"
  shows "opts = optionsOf lib fl tls \<and> res = libStartManager lib \<and>
    SetupWithManager lib = Inr () \<and> SetupGeneratorWithManager lib = Inr () \<and>
    comps = [MachineSetController (managedNamespace fl) ''control-plane-machine-set''
               (GetReleaseVersion (libGetenv lib)) (\<not> isl (libNewUncachedClient lib)),
             GeneratorController (managedNamespace fl)] @
            (if webhookPort fl \<noteq> 0 then [AdmissionWebhook] else []) @
            (if hasTLSOverride fl then [] else [SecurityProfileWatcher (TLSAdherencePolicy tls) (TLSProfileSpec tls)])"
  using assms by (auto simp: registerComponents_def registerThen_Served Let_def split: if_splits)

text \<open>
  C35: what a serving operator runs. If the process gets as far as running the manager, the TLS version
  and cipher suites were given together or not at all, both servers use the resolved TLS configuration,
  the manager sees the managed namespace only, and it runs both controllers on that namespace, the
  webhook exactly when its port is not 0, and the watcher of the TLS profile exactly when no TLS flag
  overrides the profile.
\<close>

theorem operator_serves:
  assumes "operatorMain lib fl = Served opts comps res"
  shows "\<not> tlsFlagsRefused (tlsMinVersionFlag fl) (tlsCipherSuitesFlag fl) \<and> libFeatureGatesObserved lib \<and>
    (\<exists>tls. ResolveTLSConfig (libTlsFlags lib) (libTlsCluster lib) (tlsMinVersionFlag fl) (tlsCipherSuitesFlag fl)
             (tlsCurvePreferencesFlag fl) = Inr tls \<and>
       moMetricsTLS opts = TLSConfig tls \<and> moWebhookTLS opts = TLSConfig tls \<and>
       moDefaultNamespaces opts = [managedNamespace fl] \<and>
       {MachineSetController (managedNamespace fl) ''control-plane-machine-set'' (GetReleaseVersion (libGetenv lib))
          (\<not> isl (libNewUncachedClient lib)), GeneratorController (managedNamespace fl)} \<subseteq> set comps \<and>
       (AdmissionWebhook \<in> set comps \<longleftrightarrow> webhookPort fl \<noteq> 0) \<and>
       (\<forall>policy profile. SecurityProfileWatcher policy profile \<in> set comps \<longleftrightarrow>
          \<not> hasTLSOverride fl \<and> policy = TLSAdherencePolicy tls \<and> profile = TLSProfileSpec tls))"
proof -
  from assms obtain tls where t: "\<not> tlsFlagsRefused (tlsMinVersionFlag fl) (tlsCipherSuitesFlag fl)"
    "libFeatureGatesObserved lib"
    "ResolveTLSConfig (libTlsFlags lib) (libTlsCluster lib) (tlsMinVersionFlag fl) (tlsCipherSuitesFlag fl)
       (tlsCurvePreferencesFlag fl) = Inr tls" "registerComponents lib fl tls = Served opts comps res"
    by (auto simp: operatorMain_def split: sum.splits if_splits)
  from registered_components [OF t(4)] t(1-3) show ?thesis
    by (auto simp: optionsOf_def Let_def)
qed

definition simLibraries :: "string libraries" where
  "simLibraries = \<lparr>libGetenv = (\<lambda>name. ''4.20''), libAddClientGo = Inr (), libInstallMachineV1 = Inr (),
     libInstallMachineV1Beta1 = Inr (), libInstallConfigV1 = Inr (),
     libLeaderElectionDefaulting = (\<lambda>le ns name. le), libLeaderElectionSNOConfig = (\<lambda>le. le),
     libClusterInfraStatus = Inr (Some SingleReplicaTopologyMode),
     libTlsFlags = \<lparr>cliTLSVersion = (\<lambda>s. Inr 771), cliTLSCipherSuites = (\<lambda>ss. Inr (Some [1])),
       cliTLSCurvePreferences = (\<lambda>is. Inr (map nat is))\<rparr>,
     libTlsCluster = \<lparr>clAddToScheme = Inr (), clNewClient = Inr (), clFetchAdherencePolicy = Inr ''Strict'',
       clFetchProfile = Inr ''Modern'', clShouldHonor = (\<lambda>p. True),
       clConfigFromProfile = (\<lambda>s. (\<lambda>cfg. cfg\<lparr>cfgMinVersion := VersionTLS13\<rparr>, [])),
       clDefaultProfile = ''Intermediate'', clEmptyProfile = ''''\<rparr>,
     libNewManager = (\<lambda>opts. Inr ()), libNewConfigClient = Inr (), libFeatureGatesObserved = True,
     libNewUncachedClient = Inr (), libCompleteController = (\<lambda>name. Inr ()), libCompleteWebhook = Inr (),
     libSetupProfileWatcher = (\<lambda>p s. Inr ()), libStartManager = Inr ()\<rparr>"

lemma simLibraries_serve:
  "\<exists>opts. operatorMain simLibraries defaultFlags =
     Served opts [MachineSetController ''openshift-machine-api'' ''control-plane-machine-set'' ''4.20'' True,
       GeneratorController ''openshift-machine-api'', AdmissionWebhook, SecurityProfileWatcher ''Strict'' ''Modern''] (Inr ())"
proof -
  have "case operatorMain simLibraries defaultFlags of Served opts comps res \<Rightarrow>
      comps = [MachineSetController ''openshift-machine-api'' ''control-plane-machine-set'' ''4.20'' True,
       GeneratorController ''openshift-machine-api'', AdmissionWebhook, SecurityProfileWatcher ''Strict'' ''Modern''] \<and>
      res = Inr () | _ \<Rightarrow> False" by code_simp
  then show ?thesis by (cases "operatorMain simLibraries defaultFlags") simp_all
qed

theorem operator_serves_witness:
  "\<exists>opts comps. operatorMain simLibraries defaultFlags = Served opts comps (Inr ()) \<and>
     moDefaultNamespaces opts = [''openshift-machine-api''] \<and> AdmissionWebhook \<in> set comps"
proof -
  from simLibraries_serve obtain opts comps where s: "operatorMain simLibraries defaultFlags = Served opts comps (Inr ())"
    by blast
  have "webhookPort defaultFlags \<noteq> 0" "managedNamespace defaultFlags = ''openshift-machine-api''"
    by (simp_all add: defaultFlags_def)
  with operator_serves [OF s] s show ?thesis by auto
qed

text \<open>
  An uncached client that cannot be created does not stop the process: the controller runs without
  one, although it asks that client before every creation of a machine.
\<close>

lemma uncached_client_failure_ignored:
  assumes "registerComponents lib fl tls = Served opts comps res"
  shows "\<exists>comps'. registerComponents (lib\<lparr>libNewUncachedClient := Inl e\<rparr>) fl tls = Served opts comps' res \<and>
    MachineSetController (managedNamespace fl) ''control-plane-machine-set'' (GetReleaseVersion (libGetenv lib)) False
      \<in> set comps'"
proof -
  let ?lib = "lib\<lparr>libNewUncachedClient := Inl e\<rparr>"
  have "SetupWithManager ?lib = SetupWithManager lib" "SetupGeneratorWithManager ?lib = SetupGeneratorWithManager lib"
    "SetupWebhookWithManager ?lib = SetupWebhookWithManager lib" "optionsOf ?lib fl tls = optionsOf lib fl tls"
    by (simp_all add: SetupWithManager_def SetupGeneratorWithManager_def SetupWebhookWithManager_def
        optionsOf_def leaderElectionOf_def)
  with assms show ?thesis
    by (auto simp: registerComponents_def registerThen_Served Let_def split: if_splits)
qed

end
