(* ===== verification/Spec2Isabelle.thy ===== *)
theory Spec2Isabelle
  imports Reconcile_Course Mapping_Properties Generator_Named Generator_Activated Created_Machine Operator
begin

text \<open>
  A verification of the OpenShift control plane machine set operator.

  \<^bold>\<open>The program.\<close> The operator keeps the control plane machines of a cluster as the singleton
  ControlPlaneMachineSet describes them. Its parts, all under \<^verbatim>\<open>src/pkg\<close>:

  \<^item> The reconciler (\<^verbatim>\<open>controllers/controlplanemachineset\<close>) fetches the set, adds its finalizer, asks a
    machine provider what machines exist, validates the cluster, sets owner references, runs the
    update strategy of the set (rolling update or on-delete) through the provider, computes the
    status of the set and reports it to the ClusterOperator.
  \<^item> The machine provider (\<^verbatim>\<open>machineproviders\<close>, with the OpenShift Machine v1beta1 provider below it)
    tells for each machine its index, readiness and whether it differs from the template, and
    creates and deletes machines. It maps indexes to failure domains (\<^verbatim>\<open>mapping.go\<close>), compares and
    writes the configuration of each platform (\<^verbatim>\<open>providerconfig\<close>) and completes failure domains with
    the template (\<^verbatim>\<open>failuredomain\<close>).
  \<^item> The admission webhook (\<^verbatim>\<open>webhooks/controlplanemachineset\<close>) refuses sets that do not fit the machines
    of the cluster.
  \<^item> The generator (\<^verbatim>\<open>controllers/controlplanemachinesetgenerator\<close>) proposes an Inactive set for a cluster
    without one, and replaces it while it is Inactive and out of date.
  \<^item> Watch filters (\<^verbatim>\<open>util\<close>) decide which events wake the two controllers; \<^verbatim>\<open>tls\<close> resolves the TLS
    settings of the serving endpoints.

  \<^bold>\<open>Theories and what they model.\<close>

  \<^item> \<open>Go_Prelude\<close>: Go errors as values, results, Go maps with \<^verbatim>\<open>int32\<close> keys, decimal text, the generic lemmas.
  \<^item> \<open>Api_Types\<close>, \<open>Consts\<close>, \<open>Api_Client\<close>: the API objects as records, the constants of \<^verbatim>\<open>consts.go\<close>, and
    the calls of the API client as a record of functions over an abstract world.
  \<^item> \<open>Machine_Info\<close>: \<^verbatim>\<open>MachineInfo\<close> of \<^verbatim>\<open>machineproviders/types.go\<close>, the selectors and sorters of \<^verbatim>\<open>updates.go\<close>
    and \<^verbatim>\<open>machineInfosByIndex\<close>. \<open>Provider_Interface\<close>: the \<^verbatim>\<open>MachineProvider\<close> interface as a record of methods,
    with the log of writing calls (\<open>envCalls\<close>).
  \<^item> \<open>Updates\<close> with \<open>Update_Properties\<close> and \<open>Rollout\<close>: \<^verbatim>\<open>updates.go\<close>. Shown of one pass: the surge bound, which
    deletions are safe, that a Ready machine remains, that nothing follows a failed call, which index
    is replaced first and when the old machine goes, what on-delete may do, and quiescence.
  \<^item> \<open>Rollout_Course\<close>: the rolling update over many passes, as a step relation on the machines of the
    cluster whose steps are passes (through any provider, failing at any call), new machines becoming
    Ready and deleted machines going. An invariant keeps every index available; a measure that each
    changing step decreases, and progress from every state that is not done, give completion.
  \<^item> \<open>Status\<close>: \<^verbatim>\<open>status.go\<close> and the tracker of repeated errors; counters and conditions are characterised,
    and shown not to depend on the iteration order of the Go map.
  \<^item> \<open>Cluster_Operator\<close>: \<^verbatim>\<open>cluster_operator.go\<close>; what is written to the ClusterOperator mirrors the conditions of
    the set, and nothing is written where it does already.
  \<^item> \<open>Ownership\<close>, \<open>Controller\<close>, \<open>Controller_Properties\<close>: \<^verbatim>\<open>controller.go\<close>; when machines may be touched, the
    finalizer protocol, deletion of the set, and what a reconcile without error means.
  \<^item> \<open>Failure_Domain\<close>: \<^verbatim>\<open>failuredomain.go\<close> and \<^verbatim>\<open>set.go\<close>. \<open>Index_Mapping\<close>, \<open>Mapping_Properties\<close>: \<^verbatim>\<open>mapping.go\<close>; the
    mapping never panics unless an extraction does, covers the machines, is balanced and stable.
  \<^item> \<open>Provider_Config\<close>, \<open>Provider_Config_Properties\<close>: the package \<^verbatim>\<open>providerconfig\<close> on its seven platform
    kinds; typing, inject/extract for the domains that can be injected and what becomes of others, and
    what a difference of configurations means.
  \<^item> \<open>Machine_Provider\<close>, \<open>Machine_Provider_Properties\<close>, \<open>Provider_Contract\<close>: \<^verbatim>\<open>provider.go\<close>; what is reported of
    a machine and where a created machine lands, and the contract the strategies need of a provider.
    \<open>Created_Machine\<close>: a created machine is reported back at its index, up to date and not Ready.
  \<^item> \<open>Webhook\<close>, \<open>Webhook_Properties\<close>: \<^verbatim>\<open>webhooks.go\<close>; what an admitted request guarantees.
  \<^item> \<open>Generator\<close>, \<open>Generator_Properties\<close>, \<open>Generator_Simulation\<close>: the generator; what it may write, when it
    rests, and that a generated set passes the comparison the webhook makes with the machines;
    \<open>Generator_Named\<close> shows the last for vSphere and Nutanix. \<open>Generated_Template\<close> relates the template of a generated
    set to machines that differ in their failure domains only; \<open>Generator_Admitted\<close> shows that the webhook as a whole
    takes the set, the dry run that rewrites its template included; \<open>Generator_Activated\<close> shows that the
    set, activated on the machines it was generated from, finds each of them up to date and starts no rollout.
  \<^item> \<open>Watch_Filters\<close>, \<open>Tls_Config\<close>: \<^verbatim>\<open>util/*.go\<close>, the watches of both controllers, \<^verbatim>\<open>tls.go\<close>.
  \<^item> \<open>Operator\<close>: \<^verbatim>\<open>main.go\<close> under \<^verbatim>\<open>src/cmd\<close> from the parsed flags on, with every early exit; what a serving
    process runs.
  \<^item> \<open>OnDelete_Course\<close>: the on-delete update over many passes, with a user who deletes machines. The operator
    takes away no machine the user leaves alone, and the course comes to rest with one Ready machine
    per replica.
  \<^item> \<open>Reconcile_Course\<close>: the reconciler refines these courses: the provider calls of a \<^verbatim>\<open>Reconcile\<close> are one
    step of the course of its strategy.
  \<^item> \<open>Simulation\<close>: concrete machines and a provider over a list of machines, for evaluations.

  \<^bold>\<open>State and effects.\<close> Each handler takes and returns the state it touches: the world behind the API
  client, the copy of the ControlPlaneMachineSet in hand, the environment of the provider with its
  call log, the tracker of the last errors. An \<^verbatim>\<open>Update\<close> gives back the stored object, as in the code.
  Where Go shares memory and it matters, the shared cell is part of the state: the raw template spec
  and template configuration of the provider (\<open>pwTemplateRaw\<close>, \<open>pwConfig\<close>), written by its dry run and
  seen by every copy of the provider (on generic platforms the configuration is that raw spec, and
  \<open>storeRaw\<close> changes both), and the template of the object under validation in the webhook. The comparison
  of GCP configurations blanks images in values decoded for it and then dropped; only its result is
  modelled. Errors are values of a sum type; a nil dereference or an index out of range is the
  error \<open>PanicErr\<close>. A Go map that is ranged over is an association list, whose order is the order of
  iteration, and properties quantify over it.

  \<^bold>\<open>Interfaces.\<close> The locale \<open>fd_equality\<close> states what sets and mapping need of \<^verbatim>\<open>Equal\<close> and is interpreted on
  the failure domains of the model (\<open>fdEq\<close>). The locale \<open>machine_provider\<close> states what the update
  strategies need of a provider: a view of the cluster that reading leaves alone and that creations
  and deletions change as given. It is interpreted on the OpenShift provider for every API client
  (\<open>openshift\<close>), so that a pass of the strategies on it runs the cluster through the calls of its log.

  \<^bold>\<open>Parameters.\<close> Code outside the repository is an argument: the API client, the clock and the random
  name suffix, the JSON and YAML codecs, \<^verbatim>\<open>deep.Equal\<close>, the conversions between apply
  configurations and objects, the TLS parsers and profiles. What a property needs of them is a
  hypothesis of that property, and its witness instantiates them.

  \<^bold>\<open>Bounds.\<close> No definition uses fuel. Recursion is structural, except for the loop that fills missing
  indexes in \<^verbatim>\<open>machineInfosByIndex\<close>, whose termination is proved. \<^verbatim>\<open>int32\<close> values are 32 bit words where they
  are counted or compared; properties that read a count as a number carry the bound of 2 to the 31
  as a hypothesis. \<^verbatim>\<open>sort.Slice\<close> is modelled as a stable sort, which is what Go's insertion sort
  does up to twelve elements, and is the only possible result for distinct keys.

  \<^bold>\<open>Not modelled.\<close> The parsing of the command line and the running manager, informers and signal handler:
  library code. The generated mock of the provider and the builders of test objects: used by tests
  only. Logs, events and the transition times of conditions: nothing in the operator reads them.

  \<^bold>\<open>Open.\<close> On vSphere and Nutanix the comparison of a generated set with its machines is proved for
  machines in failure domains that the Infrastructure object names. The courses run under a
  fixed template and without machines failing on their own, and in that of the rolling update no user
  deletes machines; the properties of one pass hold without these restrictions.
\<close>

end
